(* ===== verification/Prelude.thy ===== *)
theory Prelude
  imports Main "HOL-Library.Word"
begin

unbundle bit_operations_syntax

text \<open>
  Shared vocabulary of the development: the fixed-width integers of the Rust sources, Rust
  panics and \<^verbatim>\<open>Result\<close> values as sums, iterators whose closures may panic, the
  \<^verbatim>\<open>U256\<close> operators, big-endian byte strings, \<^verbatim>\<open>chunks_exact\<close> and slicing.

  Conventions. A Rust function that may panic returns \<open>panic + 'a\<close> (\<open>Inl\<close> is the panic, which
  ends the process). A Rust function of type \<^verbatim>\<open>Result<T>\<close> returns a value of
  \<open>string + 'a\<close> (\<open>Inl\<close> carries the \<^verbatim>\<open>bail!\<close> message); one that may do both
  returns \<open>panic + (string + 'a)\<close>.
\<close>

section \<open>Types\<close>

type_synonym u8 = "8 word"
type_synonym u32 = "32 word"
type_synonym u64 = "64 word"
type_synonym u256 = "256 word"
type_synonym address = "160 word"
type_synonym bytes32 = "256 word"

text \<open>The reasons for which the modelled programs panic.\<close>

datatype panic =
    Strategy_not_found string
  | Contract_call_failed
  | Division_by_zero
  | Assertion_failed
  | Unwrap_failed
  | Expect_failed string
  | Out_of_range
  | Explicit_panic string

type_synonym 'a exec = "panic + 'a"
type_synonym 'a Result = "string + 'a"

named_theorems outcome_iff \<open>when a computation returns normally\<close>
named_theorems outcome_simps \<open>computation rules of the outcome combinators\<close>

section \<open>Outcomes\<close>

fun rbind :: "'e + 'a \<Rightarrow> ('a \<Rightarrow> 'e + 'b) \<Rightarrow> 'e + 'b" where
  "rbind (Inl e) f = Inl e"
| "rbind (Inr x) f = f x"

text \<open>\<^verbatim>\<open>assert!(b)\<close>.\<close>

definition rassert :: "bool \<Rightarrow> unit exec" where
  "rassert b = (if b then Inr () else Inl Assertion_failed)"

text \<open>\<^verbatim>\<open>Option::unwrap\<close>, \<^verbatim>\<open>Option::expect\<close> and \<^verbatim>\<open>Result::unwrap\<close>.\<close>

definition unwrap :: "'a option \<Rightarrow> 'a exec" where
  "unwrap x = (case x of None \<Rightarrow> Inl Unwrap_failed | Some v \<Rightarrow> Inr v)"

definition expect :: "'a option \<Rightarrow> string \<Rightarrow> 'a exec" where
  "expect x msg = (case x of None \<Rightarrow> Inl (Expect_failed msg) | Some v \<Rightarrow> Inr v)"

definition unwrap_result :: "'a Result \<Rightarrow> 'a exec" where
  "unwrap_result x = (case x of Inl _ \<Rightarrow> Inl Unwrap_failed | Inr v \<Rightarrow> Inr v)"

text \<open>A contract call whose execution fails panics on both sides of the system.\<close>

definition call_or_panic :: "'a option \<Rightarrow> 'a exec" where
  "call_or_panic x = (case x of None \<Rightarrow> Inl Contract_call_failed | Some v \<Rightarrow> Inr v)"

text \<open>
  The operator \<^verbatim>\<open>?\<close> of \<^verbatim>\<open>anyhow\<close> in code that may also panic, and \<^verbatim>\<open>context\<close>, which
  puts its message in front of an error (the message is all that is displayed).
\<close>

definition try_bind :: "'a Result exec \<Rightarrow> ('a \<Rightarrow> 'b Result exec) \<Rightarrow> 'b Result exec" where
  "try_bind m f = rbind m (\<lambda>r. case r of Inl e \<Rightarrow> Inr (Inl e) | Inr x \<Rightarrow> f x)"

definition with_context :: "string \<Rightarrow> 'a Result \<Rightarrow> 'a Result" where
  "with_context msg r = (case r of Inl _ \<Rightarrow> Inl msg | Inr x \<Rightarrow> Inr x)"

lemma rbind_Inr_iff [outcome_iff]:
  "rbind m f = Inr y \<longleftrightarrow> (\<exists>x. m = Inr x \<and> f x = Inr y)"
  by (cases m) auto

lemma rbind_Inl_iff:
  "rbind m f = Inl e \<longleftrightarrow> m = Inl e \<or> (\<exists>x. m = Inr x \<and> f x = Inl e)"
  by (cases m) auto

lemma case_sum_Inr_iff [outcome_iff]:
  "(case m of Inl e \<Rightarrow> Inl (g e) | Inr x \<Rightarrow> f x) = Inr y \<longleftrightarrow> (\<exists>x. m = Inr x \<and> f x = Inr y)"
  by (cases m) auto

lemma case_sum_Result_iff [outcome_iff]:
  "(case r of Inl e \<Rightarrow> Inr (Inl e) | Inr x \<Rightarrow> f x) = Inr (Inr y) \<longleftrightarrow> (\<exists>x. r = Inr x \<and> f x = Inr (Inr y))"
  by (cases r) auto

lemma try_bind_simps [outcome_simps, simp]:
  "try_bind (Inl p) f = Inl p" "try_bind (Inr (Inl e)) f = Inr (Inl e)" "try_bind (Inr (Inr x)) f = f x"
  by (simp_all add: try_bind_def)

lemma try_bind_Inr_Inr_iff [outcome_iff]:
  "try_bind m f = Inr (Inr y) \<longleftrightarrow> (\<exists>x. m = Inr (Inr x) \<and> f x = Inr (Inr y))"
  by (auto simp: try_bind_def rbind_Inr_iff case_sum_Result_iff)

lemma with_context_Inr_iff [outcome_iff, simp]: "with_context msg r = Inr x \<longleftrightarrow> r = Inr x"
  by (simp add: with_context_def split: sum.splits)

lemma with_context_simps [outcome_simps, simp]:
  "with_context msg (Inl e) = Inl msg" "with_context msg (Inr x) = Inr x"
  by (simp_all add: with_context_def)

lemma rbind_assoc: "rbind (rbind m f) g = rbind m (\<lambda>x. rbind (f x) g)"
  by (cases m) auto

lemma rbind_Inr_right [simp]: "rbind m Inr = m"
  by (cases m) auto

lemma rbind_cong [fundef_cong]:
  "m = m' \<Longrightarrow> (\<And>x. m' = Inr x \<Longrightarrow> f x = f' x) \<Longrightarrow> rbind m f = rbind m' f'"
  by (cases m') auto

lemma rassert_Inr_iff [outcome_iff, simp]: "rassert b = Inr u \<longleftrightarrow> b"
  by (simp add: rassert_def)

lemma rassert_simps [outcome_simps, simp]:
  "rassert True = Inr ()" "rassert False = Inl Assertion_failed"
  by (simp_all add: rassert_def)

lemma unwrap_Inr_iff [outcome_iff, simp]: "unwrap x = Inr v \<longleftrightarrow> x = Some v"
  by (auto simp: unwrap_def split: option.splits)

lemma unwrap_simps [outcome_simps, simp]:
  "unwrap None = Inl Unwrap_failed" "unwrap (Some v) = Inr v"
  by (simp_all add: unwrap_def)

lemma expect_Inr_iff [outcome_iff, simp]: "expect x msg = Inr v \<longleftrightarrow> x = Some v"
  by (auto simp: expect_def split: option.splits)

lemma expect_simps [outcome_simps, simp]:
  "expect None msg = Inl (Expect_failed msg)" "expect (Some v) msg = Inr v"
  by (simp_all add: expect_def)

lemma unwrap_result_Inr_iff [outcome_iff, simp]: "unwrap_result x = Inr v \<longleftrightarrow> x = Inr v"
  by (auto simp: unwrap_result_def split: sum.splits)

lemma unwrap_result_simps [outcome_simps, simp]:
  "unwrap_result (Inl e) = Inl Unwrap_failed" "unwrap_result (Inr v) = Inr v"
  by (simp_all add: unwrap_result_def)

lemma call_or_panic_Inr_iff [outcome_iff, simp]: "call_or_panic x = Inr v \<longleftrightarrow> x = Some v"
  by (auto simp: call_or_panic_def split: option.splits)

lemma call_or_panic_simps [outcome_simps, simp]:
  "call_or_panic None = Inl Contract_call_failed" "call_or_panic (Some v) = Inr v"
  by (simp_all add: call_or_panic_def)

section \<open>Iterators whose closures may panic\<close>

text \<open>
  \<^verbatim>\<open>iter().map(f).collect()\<close> runs the closure on the elements in order and the first
  panic ends it; \<^verbatim>\<open>iter().fold(init, f)\<close> likewise.
\<close>

fun mapM :: "('a \<Rightarrow> 'e + 'b) \<Rightarrow> 'a list \<Rightarrow> 'e + 'b list" where
  "mapM f [] = Inr []"
| "mapM f (x # xs) = rbind (f x) (\<lambda>y. rbind (mapM f xs) (\<lambda>ys. Inr (y # ys)))"

fun foldM :: "('b \<Rightarrow> 'a \<Rightarrow> 'e + 'b) \<Rightarrow> 'b \<Rightarrow> 'a list \<Rightarrow> 'e + 'b" where
  "foldM f acc [] = Inr acc"
| "foldM f acc (x # xs) = rbind (f acc x) (\<lambda>acc'. foldM f acc' xs)"

lemma mapM_Inr_iff: "mapM f xs = Inr ys \<longleftrightarrow> list_all2 (\<lambda>x y. f x = Inr y) xs ys"
  by (induction xs arbitrary: ys) (auto simp: outcome_iff list_all2_Cons1)

lemma mapM_length: "mapM f xs = Inr ys \<Longrightarrow> length ys = length xs"
  by (auto simp: mapM_Inr_iff dest: list_all2_lengthD)

lemma mapM_total: "(\<And>x. x \<in> set xs \<Longrightarrow> f x = Inr (g x)) \<Longrightarrow> mapM f xs = Inr (map g xs)"
  by (induction xs) auto

lemma mapM_map: "mapM f (map g xs) = mapM (\<lambda>x. f (g x)) xs"
  by (induction xs) simp_all

lemma mapM_Inl: "mapM f xs = Inl e \<Longrightarrow> \<exists>x\<in>set xs. f x = Inl e"
  by (induction xs) (auto simp: rbind_Inl_iff)

lemma mapM_append:
  "mapM f (xs @ ys) = rbind (mapM f xs) (\<lambda>as. rbind (mapM f ys) (\<lambda>bs. Inr (as @ bs)))"
  by (induction xs) (simp_all add: rbind_assoc cong: rbind_cong)

lemma mapM_cong [fundef_cong]:
  "xs = ys \<Longrightarrow> (\<And>x. x \<in> set ys \<Longrightarrow> f x = g x) \<Longrightarrow> mapM f xs = mapM g ys"
  by (induction ys arbitrary: xs) auto

lemma foldM_append: "foldM f acc (xs @ ys) = rbind (foldM f acc xs) (\<lambda>acc'. foldM f acc' ys)"
  by (induction xs arbitrary: acc) (simp_all add: rbind_assoc)

lemma foldM_cong [fundef_cong]:
  "xs = ys \<Longrightarrow> acc = acc' \<Longrightarrow> (\<And>a x. x \<in> set ys \<Longrightarrow> f a x = g a x) \<Longrightarrow> foldM f acc xs = foldM g acc' ys"
  by (induction ys arbitrary: xs acc acc') (auto intro: rbind_cong)

text \<open>
  A fold that adds the outcome of a panicking step is the mapped list summed up: the panics
  happen in the same order, and addition on words commutes.
\<close>

lemma foldM_plus_mapM:
  fixes g :: "'a \<Rightarrow> 'e + 'b::comm_monoid_add"
  shows "foldM (\<lambda>acc x. rbind (g x) (\<lambda>v. Inr (v + acc))) acc xs
       = rbind (mapM g xs) (\<lambda>vs. Inr (acc + sum_list vs))"
proof (induction xs arbitrary: acc)
  case Nil
  show ?case by simp
next
  case (Cons x xs)
  show ?case
    by (cases "g x"; cases "mapM g xs") (simp_all add: Cons.IH add.assoc add.left_commute)
qed

lemma foldM_plus_mapM':
  fixes g :: "'a \<Rightarrow> 'e + 'b::comm_monoid_add"
  shows "foldM (\<lambda>acc x. rbind (g x) (\<lambda>v. Inr (acc + v))) acc xs
       = rbind (mapM g xs) (\<lambda>vs. Inr (acc + sum_list vs))"
  using foldM_plus_mapM [of g acc xs] by (simp add: add.commute)

section \<open>The U256 operators\<close>

text \<open>
  \<^verbatim>\<open>U256\<close> is a 256-bit unsigned machine integer: \<^verbatim>\<open>+\<close>, \<^verbatim>\<open>+=\<close> and
  \<^verbatim>\<open>sum\<close> wrap around, as \<open>+\<close> on \<open>256 word\<close> does; \<^verbatim>\<open>/\<close> rounds down
  and panics on a zero divisor.
\<close>

definition u256_div :: "u256 \<Rightarrow> u256 \<Rightarrow> u256 exec" where
  "u256_div a b = (if b = 0 then Inl Division_by_zero else Inr (a div b))"

lemma u256_div_Inr_iff [outcome_iff, simp]:
  "u256_div a b = Inr q \<longleftrightarrow> b \<noteq> 0 \<and> q = a div b"
  by (auto simp: u256_div_def)

lemma u256_div_zero [simp]: "u256_div a 0 = Inl Division_by_zero"
  by (simp add: u256_div_def)

lemma u256_div_nonzero [simp]: "b \<noteq> 0 \<Longrightarrow> u256_div a b = Inr (a div b)"
  by simp

text \<open>When the exact sum fits, the wrapping sum is the exact one.\<close>

lemma unat_sum_list_exact:
  fixes ws :: "'a::len word list"
  assumes "sum_list (map unat ws) < 2 ^ LENGTH('a)"
  shows "unat (sum_list ws) = sum_list (map unat ws)"
  using assms
proof (induction ws)
  case Nil
  show ?case by simp
next
  case (Cons w ws)
  then have "unat (sum_list ws) = sum_list (map unat ws)" by simp
  with Cons.prems show ?case
    by (simp add: unat_word_ariths)
qed

lemma unat_sum_list_mod:
  fixes ws :: "'a::len word list"
  shows "unat (sum_list ws) = sum_list (map unat ws) mod 2 ^ LENGTH('a)"
  by (induction ws) (simp_all add: unat_word_ariths mod_simps)

lemma of_nat_sum_list: "of_nat (sum_list ns) = sum_list (map of_nat ns)"
  by (induction ns) simp_all

section \<open>Slices\<close>

text \<open>\<^verbatim>\<open>xs[i]\<close> and \<^verbatim>\<open>xs[a..b]\<close>, which panic out of range.\<close>

definition index :: "'a list \<Rightarrow> nat \<Rightarrow> 'a exec" where
  "index xs i = (if i < length xs then Inr (xs ! i) else Inl Out_of_range)"

definition slice :: "'a list \<Rightarrow> nat \<Rightarrow> nat \<Rightarrow> 'a list exec" where
  "slice xs a b = (if a \<le> b \<and> b \<le> length xs then Inr (take (b - a) (drop a xs)) else Inl Out_of_range)"

lemma index_Inr_iff [outcome_iff, simp]: "index xs i = Inr v \<longleftrightarrow> i < length xs \<and> v = xs ! i"
  by (auto simp: index_def)

lemma slice_Inr_iff [outcome_iff, simp]:
  "slice xs a b = Inr v \<longleftrightarrow> a \<le> b \<and> b \<le> length xs \<and> v = take (b - a) (drop a xs)"
  by (auto simp: slice_def)

text \<open>\<^verbatim>\<open>xs.chunks_exact(n)\<close>: the chunks of exactly \<open>n\<close> elements, a shorter rest left out.\<close>

function chunks_exact :: "nat \<Rightarrow> 'a list \<Rightarrow> 'a list list" where
  "chunks_exact n xs = (if n = 0 \<or> length xs < n then [] else take n xs # chunks_exact n (drop n xs))"
  by pat_completeness auto
termination
  by (relation "measure (\<lambda>(n, xs). length xs)") auto

declare chunks_exact.simps [simp del]

lemma chunks_exact_lengths: "c \<in> set (chunks_exact n xs) \<Longrightarrow> length c = n"
proof (induction n xs rule: chunks_exact.induct)
  case (1 n xs)
  then show ?case
    by (subst (asm) (2) chunks_exact.simps) (auto split: if_splits)
qed

lemma chunks_exact_Nil [simp]: "chunks_exact n [] = []"
  by (subst chunks_exact.simps) auto

lemma concat_chunks_exact: "n dvd length xs \<Longrightarrow> n \<noteq> 0 \<Longrightarrow> concat (chunks_exact n xs) = xs"
proof (induction n xs rule: chunks_exact.induct)
  case (1 n xs)
  show ?case
  proof (cases "length xs < n")
    case True
    with "1.prems" have "length xs = 0" by (metis dvd_imp_le gr0I not_less)
    with True show ?thesis by (simp add: chunks_exact.simps [of n xs])
  next
    case False
    with "1.prems" have "n dvd length (drop n xs)" by (simp add: dvd_diff_nat)
    with False "1.prems" "1.IH" show ?thesis by (simp add: chunks_exact.simps [of n xs])
  qed
qed

lemma chunks_exact_append:
  "length c = n \<Longrightarrow> n \<noteq> 0 \<Longrightarrow> chunks_exact n (c @ xs) = c # chunks_exact n xs"
  by (subst chunks_exact.simps) simp

lemma chunks_exact_concat:
  "(\<And>c. c \<in> set cs \<Longrightarrow> length c = n) \<Longrightarrow> n \<noteq> 0 \<Longrightarrow> chunks_exact n (concat cs) = cs"
  by (induction cs) (simp_all add: chunks_exact_append)

lemma length_chunks_exact: "n \<noteq> 0 \<Longrightarrow> length (chunks_exact n xs) = length xs div n"
proof (induction n xs rule: chunks_exact.induct)
  case (1 n xs)
  show ?case
  proof (cases "length xs < n")
    case True
    then show ?thesis by (simp add: chunks_exact.simps [of n xs])
  next
    case False
    with "1.prems" "1.IH" have "length (chunks_exact n (drop n xs)) = (length xs - n) div n" by simp
    with False "1.prems" show ?thesis
      by (simp add: chunks_exact.simps [of n xs] le_div_geq)
  qed
qed

section \<open>Big-endian bytes\<close>

text \<open>
  \<^verbatim>\<open>to_be_bytes\<close>, \<^verbatim>\<open>to_be_bytes_vec\<close>, \<^verbatim>\<open>to_vec\<close> and \<^verbatim>\<open>as_slice\<close> of the
  fixed-width values (integers, addresses, \<^verbatim>\<open>FixedBytes\<close>), and the value of a byte string.
\<close>

definition to_be_bytes :: "'a::len word \<Rightarrow> u8 list" where
  "to_be_bytes w = map (\<lambda>i. ucast (drop_bit (8 * i) w)) (rev [0..<LENGTH('a) div 8])"

definition from_be_bytes :: "u8 list \<Rightarrow> 'a::len word" where
  "from_be_bytes bs = foldl (\<lambda>acc b. push_bit 8 acc OR ucast b) 0 bs"

lemma length_to_be_bytes [simp]: "length (to_be_bytes (w :: 'a::len word)) = LENGTH('a) div 8"
  by (simp add: to_be_bytes_def)

lemma from_be_bytes_snoc:
  "from_be_bytes (bs @ [b]) = push_bit 8 (from_be_bytes bs) OR ucast b"
  by (simp add: from_be_bytes_def)

lemma rev_upt_Suc_shift: "rev [0..<Suc n] = map Suc (rev [0..<n]) @ [0]"
  by (metis map_Suc_upt rev.simps(2) rev_map upt_conv_Cons zero_less_Suc)

lemma from_be_bytes_digits:
  "from_be_bytes (map (\<lambda>i. ucast (drop_bit (8 * i) w)) (rev [0..<n])) = take_bit (8 * n) (w :: 'a::len word)"
proof (induction n arbitrary: w)
  case 0
  show ?case by (simp add: from_be_bytes_def)
next
  case (Suc n)
  have "map (\<lambda>i. ucast (drop_bit (8 * i) w) :: u8) (rev [0..<Suc n])
      = map (\<lambda>i. ucast (drop_bit (8 * i) (drop_bit 8 w))) (rev [0..<n]) @ [ucast w]"
    unfolding rev_upt_Suc_shift by (simp add: add.commute)
  then have "from_be_bytes (map (\<lambda>i. ucast (drop_bit (8 * i) w) :: u8) (rev [0..<Suc n]))
      = push_bit 8 (take_bit (8 * n) (drop_bit 8 w)) OR ucast (ucast w :: u8)"
    by (simp only: from_be_bytes_snoc Suc.IH)
  also have "\<dots> = take_bit (8 * Suc n) w"
    by (rule bit_word_eqI) (auto simp: bit_simps)
  finally show ?case .
qed

text \<open>Decoding the encoding gives the value back.\<close>

lemma from_to_be_bytes:
  "8 dvd LENGTH('a) \<Longrightarrow> from_be_bytes (to_be_bytes w) = (w :: 'a::len word)"
  by (simp add: to_be_bytes_def from_be_bytes_digits)

lemma to_be_bytes_inject:
  "8 dvd LENGTH('a) \<Longrightarrow> to_be_bytes v = to_be_bytes w \<longleftrightarrow> v = (w :: 'a::len word)"
  by (metis from_to_be_bytes)

lemma bit_from_be_bytes_beyond:
  "bit (from_be_bytes bs :: 'a::len word) k \<Longrightarrow> k < 8 * length bs"
proof (induction bs arbitrary: k rule: rev_induct)
  case Nil
  then show ?case by (simp add: from_be_bytes_def)
next
  case (snoc b bs)
  from snoc.prems consider "8 \<le> k" "bit (from_be_bytes bs :: 'a word) (k - 8)" | "bit b k"
    by (auto simp: from_be_bytes_snoc bit_simps)
  then show ?case
  proof cases
    case 1
    from snoc.IH [OF 1(2)] 1(1) show ?thesis by simp
  next
    case 2
    then have "k < 8" by (auto dest: bit_imp_le_length)
    then show ?thesis by simp
  qed
qed

lemma digits_from_be_bytes:
  "8 * length bs \<le> LENGTH('a::len) \<Longrightarrow>
   map (\<lambda>i. ucast (drop_bit (8 * i) (from_be_bytes bs :: 'a word))) (rev [0..<length bs]) = bs"
proof (induction bs rule: rev_induct)
  case Nil
  show ?case by simp
next
  case (snoc b bs)
  let ?F = "from_be_bytes bs :: 'a word"
  let ?W = "from_be_bytes (bs @ [b]) :: 'a word"
  have W: "?W = push_bit 8 ?F OR ucast b" by (rule from_be_bytes_snoc)
  have low: "ucast ?W = b"
    using snoc.prems by (intro bit_word_eqI) (auto simp: W bit_simps)
  have high: "drop_bit 8 ?W = ?F"
  proof (rule bit_word_eqI)
    fix k
    assume "k < LENGTH('a)"
    show "bit (drop_bit 8 ?W) k = bit ?F k"
      using snoc.prems bit_from_be_bytes_beyond [of bs k, where 'a = 'a]
      by (auto simp: W bit_simps dest: bit_imp_le_length)
  qed
  have "map (\<lambda>i. ucast (drop_bit (8 * i) ?W) :: u8) (rev [0..<length (bs @ [b])])
      = map (\<lambda>i. ucast (drop_bit (8 * i) (drop_bit 8 ?W))) (rev [0..<length bs]) @ [ucast ?W]"
    unfolding length_append_singleton rev_upt_Suc_shift by (simp add: add.commute)
  with snoc show ?case by (simp add: high low)
qed

lemma to_from_be_bytes:
  assumes "8 * length bs = LENGTH('a::len)"
  shows "to_be_bytes (from_be_bytes bs :: 'a word) = bs"
proof -
  have "LENGTH('a) div 8 = length bs" using assms by linarith
  then show ?thesis
    unfolding to_be_bytes_def using digits_from_be_bytes [of bs, where 'a = 'a] assms by simp
qed

text \<open>The bytes of a string.\<close>

definition string_bytes :: "string \<Rightarrow> u8 list" where
  "string_bytes s = map (\<lambda>ch. of_nat (of_char ch)) s"

section \<open>Fixed-width encodings\<close>

text \<open>
  What the users of a fixed-width encoding rely on: every value takes the same number of elements
  and no two values share an encoding. Then a concatenation of fields determines the fields.
\<close>

locale fixed_width =
  fixes enc :: "'v \<Rightarrow> 'b list" and width :: nat
  assumes enc_width: "length (enc x) = width"
    and enc_inject: "enc x = enc y \<Longrightarrow> x = y"
begin

lemma enc_eq_iff: "enc x = enc y \<longleftrightarrow> x = y"
  using enc_inject by blast

lemma field_eq_iff: "enc x @ rest = enc y @ rest' \<longleftrightarrow> x = y \<and> rest = rest'"
  by (auto simp: enc_width append_eq_append_conv dest: enc_inject)

lemma length_concat_enc: "length (concat (map enc xs)) = width * length xs"
  by (induction xs) (simp_all add: enc_width)

lemma concat_enc_eq_iff:
  assumes "width \<noteq> 0"
  shows "concat (map enc xs) = concat (map enc ys) \<longleftrightarrow> xs = ys"
proof (induction xs arbitrary: ys)
  case Nil
  have "enc y \<noteq> []" for y using assms enc_width [of y] by auto
  then show ?case by (cases ys) auto
next
  case (Cons x xs)
  have "enc x \<noteq> []" using assms enc_width [of x] by auto
  with Cons.IH show ?case by (cases ys) (auto simp: field_eq_iff)
qed

end

interpretation u64_be: fixed_width "to_be_bytes :: u64 \<Rightarrow> u8 list" 8
  by unfold_locales (simp_all add: to_be_bytes_inject)

interpretation address_be: fixed_width "to_be_bytes :: address \<Rightarrow> u8 list" 20
  by unfold_locales (simp_all add: to_be_bytes_inject)

interpretation u256_be: fixed_width "to_be_bytes :: u256 \<Rightarrow> u8 list" 32
  by unfold_locales (simp_all add: to_be_bytes_inject)

interpretation byte_be: fixed_width "\<lambda>b :: u8. [b]" 1
  by unfold_locales simp_all

end
