(* ===== verification/Steel_Env.thy ===== *)
theory Steel_Env
  imports Prelude
begin

text \<open>
  What both halves of the program see of the chain. Steel lets the guest evaluate view calls on
  contracts at the block its input commits to; the contracts themselves and the EVM are not part of
  the repository, so an environment carries their answers: for each Solidity interface that the
  sources declare with \<^verbatim>\<open>sol!\<close> there is a record of its view functions, and an environment maps
  a contract address to such a record. \<open>None\<close> is a call that fails (a revert, missing code, missing
  state, an answer that does not decode).

  The configuration types of \<^verbatim>\<open>strategies/src/lib.rs\<close> (repeated in \<^verbatim>\<open>apps/src/lib.rs\<close>)
  are here too, because both halves read the same configuration.
\<close>

section \<open>Configuration\<close>

record DelegationObject =
  delegation_contract :: address
  delegation_strategy :: string

record Asset =
  asset_contract :: address
  chain_id :: u64
  voting_power_strategy :: string
  delegation :: DelegationObject

record RiscVotingProtocolConfig =
  voting_protocol_version :: string
  assets :: "Asset list"
  execution_strategy :: string

section \<open>Contract interfaces\<close>

record IERC20 =
  balanceOf :: "address \<Rightarrow> u256 option"
  getTotalSupply :: "u256 option"

record IERC20Votes =
  getPastVotes :: "address \<Rightarrow> u256 \<Rightarrow> u256 option"
  getPastTotalSupply :: "u256 \<Rightarrow> u256 option"

text \<open>The \<^verbatim>\<open>Delegation\<close> struct of the registry interface (not the crate's own \<^verbatim>\<open>Delegation\<close>).\<close>

record RegistryDelegation =
  reg_delegate :: bytes32
  reg_ratio :: u256

record DelegateRegistry =
  getDelegation :: "string \<Rightarrow> address \<Rightarrow> (RegistryDelegation list \<times> u256) option"

record ConfigContract =
  votingProtocolConfig :: "u256 \<Rightarrow> string option"

section \<open>Environments\<close>

record Commitment =
  commitment_id :: u256
  commitment_digest :: bytes32
  commitment_configID :: bytes32

text \<open>The answers of every contract at one block.\<close>

record chain_state =
  erc20_at :: "address \<Rightarrow> IERC20"
  erc20votes_at :: "address \<Rightarrow> IERC20Votes"
  registry_at :: "address \<Rightarrow> DelegateRegistry"
  config_at :: "address \<Rightarrow> ConfigContract"

record GuestEvmEnv =
  env_chain :: chain_state
  env_header_number :: u64
  env_commitment :: Commitment

section \<open>Addresses and delegations\<close>

text \<open>
  \<^verbatim>\<open>Address::from_slice\<close> panics unless it is given 20 bytes.
\<close>

definition Address_from_slice :: "u8 list \<Rightarrow> address exec" where
  "Address_from_slice bs = (if length bs = 20 then Inr (from_be_bytes bs) else Inl Out_of_range)"

lemma Address_from_slice_to_be_bytes [simp]: "Address_from_slice (to_be_bytes a) = Inr a"
  by (simp add: Address_from_slice_def from_to_be_bytes)

lemma Address_from_slice_Inr_iff [outcome_iff]:
  "Address_from_slice bs = Inr a \<longleftrightarrow> bs = to_be_bytes a"
  by (auto simp: Address_from_slice_def from_to_be_bytes to_from_be_bytes)

text \<open>The crate's own \<^verbatim>\<open>Delegation\<close>: whose power is used, and the divisor applied to it.\<close>

record Delegation =
  delegate :: address
  ratio :: u256

text \<open>\<^verbatim>\<open>impl FromIterator<(Address, U256)> for Delegation\<close>: the first pair of the iterator.\<close>

definition Delegation_from_iter :: "(address \<times> u256) list \<Rightarrow> Delegation exec" where
  "Delegation_from_iter iter =
     (case iter of
        (d, r) # _ \<Rightarrow> Inr \<lparr>delegate = d, ratio = r\<rparr>
      | [] \<Rightarrow> Inl (Explicit_panic ''Iterator is empty, cannot create MyStruct''))"

text \<open>
  \<^verbatim>\<open>compare_bytes32_to_address\<close>: the last 20 of the 32 bytes against the address bytes.
\<close>

definition compare_bytes32_to_address :: "bytes32 \<Rightarrow> address \<Rightarrow> bool" where
  "compare_bytes32_to_address b a =
     (let bytes = to_be_bytes b; last_20_bytes = drop 12 bytes in last_20_bytes = to_be_bytes a)"

lemma drop_12_to_be_bytes: "drop 12 (to_be_bytes (b :: bytes32)) = to_be_bytes (ucast b :: address)"
proof (rule nth_equalityI)
  show "length (drop 12 (to_be_bytes b)) = length (to_be_bytes (ucast b :: address))" by simp
next
  fix i
  assume "i < length (drop 12 (to_be_bytes b))"
  then have i: "i < 20" by simp
  have "drop 12 (to_be_bytes b) ! i = (ucast (drop_bit (8 * (19 - i)) b) :: u8)"
    using i by (simp add: to_be_bytes_def rev_nth)
  moreover have "to_be_bytes (ucast b :: address) ! i = (ucast (drop_bit (8 * (19 - i)) (ucast b :: address)) :: u8)"
    using i by (simp add: to_be_bytes_def rev_nth)
  moreover have "(ucast (drop_bit (8 * (19 - i)) b) :: u8) = ucast (drop_bit (8 * (19 - i)) (ucast b :: address))"
    using i by (intro bit_word_eqI) (auto simp: bit_simps)
  ultimately show "drop 12 (to_be_bytes b) ! i = to_be_bytes (ucast b :: address) ! i" by simp
qed

lemma compare_bytes32_to_address_ucast:
  "compare_bytes32_to_address b a \<longleftrightarrow> ucast b = a"
  by (simp add: compare_bytes32_to_address_def drop_12_to_be_bytes to_be_bytes_inject)

section \<open>A concrete environment\<close>

text \<open>
  A small chain on which the witnesses of the development are evaluated: a token at address 16, a
  registry at 32 and a configuration contract at 48. Account 2 delegates to 1 and 3 in equal parts,
  account 5 delegates to 1 and 3 in the ratio two to one, every other account has no delegation.
\<close>

definition ex_asset :: Asset where
  "ex_asset = \<lparr>asset_contract = 16, chain_id = 11155111, voting_power_strategy = ''BalanceOf'',
     delegation = \<lparr>delegation_contract = 32, delegation_strategy = ''SplitDelegation''\<rparr>\<rparr>"

definition ex_config :: RiscVotingProtocolConfig where
  "ex_config = \<lparr>voting_protocol_version = ''1'', assets = [ex_asset], execution_strategy = ''MajorityVoting''\<rparr>"

definition ex_delegations :: "address \<Rightarrow> RegistryDelegation list" where
  "ex_delegations a =
     (if a = 2 then [\<lparr>reg_delegate = 1, reg_ratio = 1\<rparr>, \<lparr>reg_delegate = 3, reg_ratio = 1\<rparr>]
      else if a = 5 then [\<lparr>reg_delegate = 1, reg_ratio = 2\<rparr>, \<lparr>reg_delegate = 3, reg_ratio = 1\<rparr>]
      else [])"

definition ex_balance :: "address \<Rightarrow> u256" where
  "ex_balance a = (if a = 2 then 300 else if a = 4 then 50 else if a = 5 then 90 else 0)"

definition ex_chain :: chain_state where
  "ex_chain =
     \<lparr>erc20_at = (\<lambda>c. \<lparr>balanceOf = (\<lambda>a. Some (ex_balance a)), getTotalSupply = Some 1000\<rparr>),
      erc20votes_at = (\<lambda>c. \<lparr>getPastVotes = (\<lambda>a n. if n < 100 then Some (ex_balance a) else None),
                           getPastTotalSupply = (\<lambda>n. if n < 100 then Some 1000 else None)\<rparr>),
      registry_at = (\<lambda>c. \<lparr>getDelegation = (\<lambda>ctx a. Some (ex_delegations a, 0))\<rparr>),
      config_at = (\<lambda>c. \<lparr>votingProtocolConfig = (\<lambda>pid. if pid = 0 then Some ''config'' else None)\<rparr>)\<rparr>"

definition ex_env :: GuestEvmEnv where
  "ex_env = \<lparr>env_chain = ex_chain, env_header_number = 100,
     env_commitment = \<lparr>commitment_id = 100, commitment_digest = 7, commitment_configID = 9\<rparr>\<rparr>"

lemmas ex_defs = ex_asset_def ex_config_def ex_delegations_def ex_balance_def ex_chain_def ex_env_def

end
