(* ===== verification/Split_Delegation.thy ===== *)
theory Split_Delegation
  imports Steel_Env
begin

text \<open>
  The guest's delegation strategy, \<^verbatim>\<open>strategies/src/delegation_strategies/split_delegation.rs\<close>:
  which accounts' voting power the voter may use, and by which divisor each is reduced. The operation
  is modelled whole, then characterised against an exact specification over natural numbers.
  \<^verbatim>\<open>Address::to_string\<close> (the context key of the registry) is the parameter \<open>to_str\<close>.
\<close>

section \<open>The operation\<close>

text \<open>The closure applied to each potential delegate.\<close>

definition split_delegation_of ::
    "(address \<Rightarrow> string) \<Rightarrow> GuestEvmEnv \<Rightarrow> address \<Rightarrow> Asset \<Rightarrow> address \<Rightarrow> Delegation option exec" where
  "split_delegation_of to_str env account asset potential_delegate =
     (let context = asset_contract asset;
          delegations_contract = registry_at (env_chain env) (delegation_contract (delegation asset))
      in rbind (call_or_panic (getDelegation delegations_contract (to_str context) potential_delegate))
           (\<lambda>(delegations, expirationTimestamp).
              if delegations = []
              then Inr (Some \<lparr>delegate = potential_delegate, ratio = 1\<rparr>)
              else
                let total_ratios = foldl (\<lambda>acc d. acc + reg_ratio d) 0 delegations
                in case find (\<lambda>d. compare_bytes32_to_address (reg_delegate d) account) delegations of
                     None \<Rightarrow> Inr None
                   | Some d \<Rightarrow>
                       rbind (u256_div total_ratios (reg_ratio d))
                         (\<lambda>r. Inr (Some \<lparr>delegate = potential_delegate, ratio = r\<rparr>))))"

definition SplitDelegation_process ::
    "(address \<Rightarrow> string) \<Rightarrow> GuestEvmEnv \<Rightarrow> address \<Rightarrow> Asset \<Rightarrow> u8 list \<Rightarrow> Delegation list Result exec" where
  "SplitDelegation_process to_str env account asset additional_data =
     (if length additional_data mod 20 \<noteq> 0
      then Inr (Inl ''Input byte vector is not a valid length for Address conversion'')
      else
        rbind (mapM Address_from_slice (chunks_exact 20 additional_data)) (\<lambda>delegations.
        rbind (mapM (split_delegation_of to_str env account asset) delegations) (\<lambda>account_delegates.
          if list_ex Option.is_none account_delegates
          then Inr (Inl ''One or more delegations are invalid'')
          else Inr (Inr (map the account_delegates)))))"

section \<open>Reading the delegate list\<close>

lemma mapM_Address_from_slice:
  "mapM Address_from_slice cs = Inr as \<longleftrightarrow> cs = map to_be_bytes as"
  by (auto simp: mapM_Inr_iff list_all2_conv_all_nth Address_from_slice_Inr_iff intro: nth_equalityI)

lemma chunks_exact_addresses:
  "length bs mod 20 = 0 \<Longrightarrow> \<exists>as. bs = concat (map to_be_bytes as) \<and>
     mapM Address_from_slice (chunks_exact 20 bs) = Inr (as :: address list)"
proof -
  assume mod: "length bs mod 20 = 0"
  let ?cs = "chunks_exact 20 bs"
  let ?as = "map from_be_bytes ?cs :: address list"
  have "map to_be_bytes ?as = ?cs"
    by (auto simp: to_from_be_bytes chunks_exact_lengths intro!: map_idI)
  moreover have "concat ?cs = bs"
    using mod by (intro concat_chunks_exact) auto
  ultimately have "bs = concat (map to_be_bytes ?as) \<and> mapM Address_from_slice ?cs = Inr ?as"
    by (simp add: mapM_Address_from_slice)
  then show ?thesis by blast
qed

lemma chunks_exact_concat_addresses:
  "mapM Address_from_slice (chunks_exact 20 (concat (map to_be_bytes as))) = Inr (as :: address list)"
proof -
  have "chunks_exact 20 (concat (map to_be_bytes as)) = map to_be_bytes as"
    by (rule chunks_exact_concat) auto
  then show ?thesis by (simp add: mapM_Address_from_slice)
qed

lemma length_concat_addresses:
  "length (concat (map to_be_bytes (as :: address list))) = 20 * length as"
  by (induction as) auto

section \<open>Exact specification\<close>

text \<open>
  The registry's answer for one potential delegate, read over the natural numbers: \<open>Some k\<close> is
  the divisor for the voter, \<open>None\<close> that the voter is not among the registered delegates.
\<close>

definition total_ratio :: "RegistryDelegation list \<Rightarrow> nat" where
  "total_ratio ds = sum_list (map (\<lambda>d. unat (reg_ratio d)) ds)"

definition share_of :: "RegistryDelegation list \<Rightarrow> address \<Rightarrow> nat option" where
  "share_of ds account =
     (if ds = [] then Some 1
      else map_option (\<lambda>d. total_ratio ds div unat (reg_ratio d))
             (find (\<lambda>d. ucast (reg_delegate d) = account) ds))"

text \<open>The registry answers sensibly: ratios are positive and their sum fits a \<^verbatim>\<open>uint256\<close>.\<close>

definition ratios_ok :: "RegistryDelegation list \<Rightarrow> bool" where
  "ratios_ok ds \<longleftrightarrow> list_all (\<lambda>d. reg_ratio d \<noteq> 0) ds \<and> total_ratio ds < 2 ^ 256"

lemma foldl_ratio_sum_list:
  "foldl (\<lambda>acc d. acc + reg_ratio d) a ds = a + sum_list (map reg_ratio ds)"
  by (induction ds arbitrary: a) (simp_all add: ac_simps)

lemma unat_total_ratios:
  assumes "total_ratio ds < 2 ^ 256"
  shows "unat (foldl (\<lambda>acc d. acc + reg_ratio d) 0 ds) = total_ratio ds"
  using unat_sum_list_exact [of "map reg_ratio ds"] assms
  by (simp add: foldl_ratio_sum_list total_ratio_def comp_def)

lemma total_ratio_ge: "d \<in> set ds \<Longrightarrow> unat (reg_ratio d) \<le> total_ratio ds"
  unfolding total_ratio_def by (simp add: member_le_sum_list)

lemma find_delegate:
  "find (\<lambda>d. compare_bytes32_to_address (reg_delegate d) account) ds
     = find (\<lambda>d. ucast (reg_delegate d) = account) ds"
  by (simp add: compare_bytes32_to_address_ucast)

lemma find_SomeD: "find P xs = Some x \<Longrightarrow> x \<in> set xs \<and> P x"
  by (auto simp: find_Some_iff)

definition registry_answer ::
    "(address \<Rightarrow> string) \<Rightarrow> GuestEvmEnv \<Rightarrow> Asset \<Rightarrow> address \<Rightarrow> (RegistryDelegation list \<times> u256) option" where
  "registry_answer to_str env asset pd =
     getDelegation (registry_at (env_chain env) (delegation_contract (delegation asset)))
       (to_str (asset_contract asset)) pd"

lemma split_delegation_of_call_fails:
  "registry_answer to_str env asset pd = None \<Longrightarrow>
   split_delegation_of to_str env account asset pd = Inl Contract_call_failed"
  by (simp add: split_delegation_of_def registry_answer_def)

lemma split_delegation_of_empty:
  "registry_answer to_str env asset pd = Some ([], e) \<Longrightarrow>
   split_delegation_of to_str env account asset pd = Inr (Some \<lparr>delegate = pd, ratio = 1\<rparr>)"
  by (simp add: split_delegation_of_def registry_answer_def)

lemma split_delegation_of_spec:
  assumes call: "registry_answer to_str env asset pd = Some (ds, e)" and ok: "ratios_ok ds"
  shows "split_delegation_of to_str env account asset pd =
     Inr (map_option (\<lambda>k. \<lparr>delegate = pd, ratio = of_nat k\<rparr>) (share_of ds account))"
proof (cases "find (\<lambda>d. ucast (reg_delegate d) = account) ds")
  case None
  with call show ?thesis
    by (simp add: split_delegation_of_def registry_answer_def share_of_def find_delegate)
next
  case (Some d)
  let ?T = "foldl (\<lambda>acc d. acc + reg_ratio d) 0 ds"
  from Some have d: "d \<in> set ds" by (simp add: find_SomeD)
  with ok have nz: "reg_ratio d \<noteq> 0" by (auto simp: ratios_ok_def list_all_iff)
  have "unat (?T div reg_ratio d) = total_ratio ds div unat (reg_ratio d)"
    using ok by (simp add: unat_div unat_total_ratios ratios_ok_def)
  then have "?T div reg_ratio d = of_nat (total_ratio ds div unat (reg_ratio d))"
    by (metis of_nat_unat ucast_id)
  with call Some nz d show ?thesis
    by (auto simp: split_delegation_of_def registry_answer_def share_of_def find_delegate u256_div_def)
qed

lemma share_of_bounds:
  assumes "ratios_ok ds" and "share_of ds account = Some k"
  shows "0 < k \<and> k < 2 ^ 256"
proof (cases "ds = []")
  case True
  with assms show ?thesis by (simp add: share_of_def)
next
  case False
  with assms(2) obtain d where d: "find (\<lambda>d. ucast (reg_delegate d) = account) ds = Some d"
      and k: "k = total_ratio ds div unat (reg_ratio d)"
    by (auto simp: share_of_def)
  from d have mem: "d \<in> set ds" by (simp add: find_SomeD)
  with assms(1) have "reg_ratio d \<noteq> 0" and "total_ratio ds < 2 ^ 256"
    by (auto simp: ratios_ok_def list_all_iff)
  then have "0 < unat (reg_ratio d)" by (simp add: unat_gt_0)
  with total_ratio_ge [OF mem] have "0 < k" by (simp add: k div_greater_zero_iff)
  moreover have "k \<le> total_ratio ds" by (simp add: k)
  ultimately show ?thesis using \<open>total_ratio ds < 2 ^ 256\<close> by simp
qed

section \<open>The whole operation\<close>

text \<open>A voter may use an account's power when the registry's answer for it gives them a share.\<close>

definition may_use :: "(address \<Rightarrow> string) \<Rightarrow> GuestEvmEnv \<Rightarrow> Asset \<Rightarrow> address \<Rightarrow> address \<Rightarrow> nat option" where
  "may_use to_str env asset account pd =
     Option.bind (registry_answer to_str env asset pd) (\<lambda>(ds, e). share_of ds account)"

definition registry_answers_ok :: "(address \<Rightarrow> string) \<Rightarrow> GuestEvmEnv \<Rightarrow> Asset \<Rightarrow> address \<Rightarrow> bool" where
  "registry_answers_ok to_str env asset pd =
     (case registry_answer to_str env asset pd of None \<Rightarrow> False | Some (ds, e) \<Rightarrow> ratios_ok ds)"

lemma split_delegation_of_may_use:
  "registry_answers_ok to_str env asset pd \<Longrightarrow>
   split_delegation_of to_str env account asset pd =
     Inr (map_option (\<lambda>k. \<lparr>delegate = pd, ratio = of_nat k\<rparr>) (may_use to_str env asset account pd))"
  by (auto simp: registry_answers_ok_def may_use_def split_delegation_of_spec split: option.splits)

lemma may_use_bounds:
  "registry_answers_ok to_str env asset pd \<Longrightarrow> may_use to_str env asset account pd = Some k \<Longrightarrow>
   0 < k \<and> k < 2 ^ 256"
  by (auto simp: registry_answers_ok_def may_use_def bind_eq_Some_conv dest: share_of_bounds
      split: option.splits)

lemma SplitDelegation_process_on_addresses:
  "SplitDelegation_process to_str env account asset (concat (map to_be_bytes as)) =
     rbind (mapM (split_delegation_of to_str env account asset) as) (\<lambda>account_delegates.
       if list_ex Option.is_none account_delegates
       then Inr (Inl ''One or more delegations are invalid'')
       else Inr (Inr (map the account_delegates)))"
  by (simp add: SplitDelegation_process_def length_concat_addresses chunks_exact_concat_addresses)

lemma SplitDelegation_process_outcome:
  assumes "\<And>pd. pd \<in> set as \<Longrightarrow> registry_answers_ok to_str env asset pd"
  shows "SplitDelegation_process to_str env account asset (concat (map to_be_bytes as)) =
     (if \<forall>pd\<in>set as. may_use to_str env asset account pd \<noteq> None
      then Inr (Inr (map (\<lambda>pd. \<lparr>delegate = pd,
                                ratio = of_nat (the (may_use to_str env asset account pd))\<rparr>) as))
      else Inr (Inl ''One or more delegations are invalid''))"
proof -
  let ?g = "\<lambda>pd. map_option (\<lambda>k. \<lparr>delegate = pd, ratio = of_nat k\<rparr>) (may_use to_str env asset account pd)"
  have "mapM (split_delegation_of to_str env account asset) as = Inr (map ?g as)"
    by (rule mapM_total) (simp add: assms split_delegation_of_may_use)
  moreover have "list_ex Option.is_none (map ?g as)
      \<longleftrightarrow> \<not> (\<forall>pd\<in>set as. may_use to_str env asset account pd \<noteq> None)"
    by (auto simp: list_ex_iff Option.is_none_def)
  moreover have "map the (map ?g as) = map (\<lambda>pd. \<lparr>delegate = pd,
        ratio = of_nat (the (may_use to_str env asset account pd))\<rparr>) as"
    if "\<forall>pd\<in>set as. may_use to_str env asset account pd \<noteq> None"
    using that by (auto simp: option.map_sel)
  ultimately show ?thesis
    by (simp add: SplitDelegation_process_on_addresses)
qed

section \<open>Sharing one account's power\<close>

text \<open>The ratios of the entries found for distinct voters never add up to more than the total.\<close>

lemma sum_list_point:
  fixes r :: nat
  shows "distinct vs \<Longrightarrow> (\<Sum>v\<leftarrow>vs. if a = v then r else f v) \<le> r + (\<Sum>v\<leftarrow>vs. f v)"
proof (induction vs)
  case Nil
  show ?case by simp
next
  case (Cons v vs)
  show ?case
  proof (cases "a = v")
    case True
    with Cons.prems have "a \<notin> set vs" by simp
    then have "(\<Sum>v\<leftarrow>vs. if a = v then r else f v) = (\<Sum>v\<leftarrow>vs. f v)"
      by (intro arg_cong [where f = sum_list] map_cong) auto
    with True show ?thesis by simp
  next
    case False
    with Cons show ?thesis by simp
  qed
qed

definition found_ratio :: "RegistryDelegation list \<Rightarrow> address \<Rightarrow> nat" where
  "found_ratio ds v = (case find (\<lambda>d. ucast (reg_delegate d) = v) ds of
                         None \<Rightarrow> 0 | Some d \<Rightarrow> unat (reg_ratio d))"

lemma found_ratio_Cons:
  "found_ratio (d # ds) v = (if ucast (reg_delegate d) = v then unat (reg_ratio d) else found_ratio ds v)"
  by (simp add: found_ratio_def)

lemma found_ratios_le_total:
  "distinct vs \<Longrightarrow> (\<Sum>v\<leftarrow>vs. found_ratio ds v) \<le> total_ratio ds"
proof (induction ds)
  case Nil
  show ?case by (simp add: total_ratio_def found_ratio_def)
next
  case (Cons d ds)
  have "(\<Sum>v\<leftarrow>vs. found_ratio (d # ds) v) \<le> unat (reg_ratio d) + (\<Sum>v\<leftarrow>vs. found_ratio ds v)"
    unfolding found_ratio_Cons by (rule sum_list_point [OF Cons.prems])
  with Cons show ?case by (simp add: total_ratio_def)
qed

text \<open>Dividing by a truncated divisor gives at least the exact pro-rata share.\<close>

lemma pro_rata_le:
  fixes p r T :: nat
  assumes "r \<le> T" "0 < r"
  shows "(p * r) div T \<le> p div (T div r)"
proof -
  have pos: "0 < T div r" using assms by (simp add: div_greater_zero_iff)
  have "(p * r) div T \<le> (p * r) div (T div r * r)"
    by (rule div_le_mono2) (use assms pos in auto)
  also have "\<dots> = p div (T div r)" using assms by simp
  finally show ?thesis .
qed

lemma exact_share_le:
  fixes p r T :: nat
  assumes "r dvd T" "0 < r"
  shows "p div (T div r) * T \<le> p * r"
proof -
  have "p div (T div r) * T = p div (T div r) * (T div r) * r"
    using assms by simp
  also have "\<dots> \<le> p * r" by (intro mult_le_mono1) simp
  finally show ?thesis .
qed

lemma credited_le_pro_rata:
  assumes call: "registry_answer to_str env asset pd = Some (ds, e)"
    and ok: "ratios_ok ds" and some: "ds \<noteq> []"
    and dvd: "list_all (\<lambda>d. unat (reg_ratio d) dvd total_ratio ds) ds"
    and accepted: "split_delegation_of to_str env v asset pd = Inr (Some g)"
  shows "unat (p div ratio g) * total_ratio ds \<le> unat p * found_ratio ds v"
proof -
  let ?T = "total_ratio ds"
  from accepted obtain k where k: "share_of ds v = Some k" and g: "g = \<lparr>delegate = pd, ratio = of_nat k\<rparr>"
    by (auto simp: split_delegation_of_spec [OF call ok])
  with some obtain d where d: "find (\<lambda>d. ucast (reg_delegate d) = v) ds = Some d"
      and kd: "k = ?T div unat (reg_ratio d)"
    by (auto simp: share_of_def)
  have mem: "d \<in> set ds" using d by (simp add: find_SomeD)
  have "unat (of_nat k :: u256) = k"
    using share_of_bounds [OF ok k] by (simp add: unat_of_nat)
  then have "unat (p div ratio g) = unat p div (?T div unat (reg_ratio d))"
    by (simp add: g kd unat_div)
  moreover have "unat (reg_ratio d) dvd ?T" "0 < unat (reg_ratio d)"
    using mem dvd ok by (auto simp: list_all_iff ratios_ok_def unat_gt_0)
  ultimately show ?thesis using d by (simp add: exact_share_le found_ratio_def)
qed

lemma total_ratio_pos: "ratios_ok ds \<Longrightarrow> ds \<noteq> [] \<Longrightarrow> 0 < total_ratio ds"
  by (cases ds) (auto simp: ratios_ok_def total_ratio_def unat_gt_0)

lemma ex_registry_answer [simp]: "registry_answer to_str ex_env ex_asset pd = Some (ex_delegations pd, 0)"
  by (simp add: registry_answer_def ex_env_def ex_chain_def)

lemma ex_ratios_ok [simp]: "ratios_ok (ex_delegations pd)"
  by (simp add: ratios_ok_def total_ratio_def ex_delegations_def)

lemma ex_registry_answers_ok [simp]: "registry_answers_ok to_str ex_env ex_asset pd"
  by (simp add: registry_answers_ok_def)

section \<open>Properties\<close>

text \<open>
  C9: On a well-formed delegate list the strategy returns, in the order of the list, every listed
  account with the exact divisor the registry gives the voter, and it refuses the list as soon as
  one account gives the voter no share: when the registry answers every listed account with positive
  ratios whose sum fits a \<^verbatim>\<open>uint256\<close>, no call panics and this is the whole outcome.
\<close>

theorem split_delegation_functional:
  assumes "\<And>pd. pd \<in> set as \<Longrightarrow> registry_answers_ok to_str env asset pd"
  shows "SplitDelegation_process to_str env account asset (concat (map to_be_bytes as)) =
     (if \<forall>pd\<in>set as. may_use to_str env asset account pd \<noteq> None
      then Inr (Inr (map (\<lambda>pd. \<lparr>delegate = pd,
                                ratio = of_nat (the (may_use to_str env asset account pd))\<rparr>) as))
      else Inr (Inl ''One or more delegations are invalid''))"
  using assms by (rule SplitDelegation_process_outcome)

theorem split_delegation_functional_witness:
  "SplitDelegation_process (\<lambda>_. []) ex_env 1 ex_asset (concat (map to_be_bytes [2, 4 :: address])) =
     Inr (Inr [\<lparr>delegate = 2, ratio = 2\<rparr>, \<lparr>delegate = 4, ratio = 1\<rparr>])"
  by (subst split_delegation_functional)
    (simp_all add: may_use_def share_of_def total_ratio_def ex_delegations_def)

text \<open>
  C17: Sharing one account's power is conservative when the registry answers for the account with at least one
  delegation, with positive ratios whose sum fits a \<^verbatim>\<open>uint256\<close>, and every ratio divides that sum: the amounts
  credited to any set of distinct accepted voters add up to at most the account's power. (For an account without
  delegations, \<open>split_delegation_unregistered_account\<close>, and for ratios that do not divide the sum,
  \<open>split_delegation_overcounts\<close>, this fails.)
\<close>

theorem split_delegation_conservation:
  assumes call: "registry_answer to_str env asset pd = Some (ds, e)"
    and ok: "ratios_ok ds" and some: "ds \<noteq> []"
    and dvd: "list_all (\<lambda>d. unat (reg_ratio d) dvd total_ratio ds) ds"
    and voters: "distinct vs"
    and accepted: "\<And>v. v \<in> set vs \<Longrightarrow> split_delegation_of to_str env v asset pd = Inr (Some (g v))"
  shows "(\<Sum>v\<leftarrow>vs. unat (p div ratio (g v))) \<le> unat p"
proof -
  let ?T = "total_ratio ds"
  have "(\<Sum>v\<leftarrow>vs. unat (p div ratio (g v))) * ?T = (\<Sum>v\<leftarrow>vs. unat (p div ratio (g v)) * ?T)"
    by (simp add: sum_list_mult_const)
  also have "\<dots> \<le> (\<Sum>v\<leftarrow>vs. unat p * found_ratio ds v)"
    by (intro sum_list_mono credited_le_pro_rata [OF call ok some dvd accepted])
  also have "\<dots> = unat p * (\<Sum>v\<leftarrow>vs. found_ratio ds v)"
    by (simp add: sum_list_const_mult)
  also have "\<dots> \<le> unat p * ?T"
    by (intro mult_le_mono2 found_ratios_le_total voters)
  finally show ?thesis using total_ratio_pos [OF ok some] by simp
qed

theorem split_delegation_conservation_witness:
  "(\<Sum>v\<leftarrow>[1, 3 :: address]. unat ((300 :: u256) div ratio \<lparr>delegate = 2, ratio = 2\<rparr>)) \<le> unat (300 :: u256)"
proof (rule split_delegation_conservation)
  show "registry_answer (\<lambda>_. []) ex_env ex_asset 2 = Some (ex_delegations 2, 0)"
    by (rule ex_registry_answer)
  show "split_delegation_of (\<lambda>_. []) ex_env v ex_asset 2 = Inr (Some \<lparr>delegate = 2, ratio = 2\<rparr>)"
    if "v \<in> set [1, 3]" for v
    using that by (auto simp: split_delegation_of_def compare_bytes32_to_address_ucast ex_defs)
qed (simp_all add: ratios_ok_def total_ratio_def ex_delegations_def)

text \<open>
  The truncated divisor never credits a voter with less than the exact pro-rata part of the
  account's power: an accepted voter with ratio \<open>r\<close> out of a total \<open>T\<close> is credited at least
  \<open>p * r div T\<close>, and never more than \<open>p\<close>.
\<close>

lemma split_delegation_credit_bounds:
  assumes call: "registry_answer to_str env asset pd = Some (ds, e)"
    and ok: "ratios_ok ds" and some: "ds \<noteq> []"
    and accepted: "split_delegation_of to_str env v asset pd = Inr (Some g)"
  shows "unat p * found_ratio ds v div total_ratio ds \<le> unat (p div ratio g) \<and> p div ratio g \<le> p"
proof -
  from accepted obtain k where k: "share_of ds v = Some k" and g: "ratio g = of_nat k"
    by (auto simp: split_delegation_of_spec [OF call ok])
  with some obtain d where d: "find (\<lambda>d. ucast (reg_delegate d) = v) ds = Some d"
      and kd: "k = total_ratio ds div unat (reg_ratio d)"
    by (auto simp: share_of_def)
  have mem: "d \<in> set ds" using d by (simp add: find_SomeD)
  then have r: "unat (reg_ratio d) \<le> total_ratio ds" "0 < unat (reg_ratio d)"
    using ok by (auto simp: total_ratio_ge ratios_ok_def list_all_iff unat_gt_0)
  have "unat (of_nat k :: u256) = k"
    using share_of_bounds [OF ok k] by (simp add: unat_of_nat)
  then have "unat (p div ratio g) = unat p div (total_ratio ds div unat (reg_ratio d))"
    by (simp add: g kd unat_div)
  then show ?thesis
    using d r by (simp add: found_ratio_def pro_rata_le word_le_nat_alt)
qed

lemma split_delegation_credit_bounds_witness:
  "unat (90 :: u256) * found_ratio (ex_delegations 5) 3 div total_ratio (ex_delegations 5)
     \<le> unat ((90 :: u256) div 3) \<and> (90 :: u256) div 3 \<le> 90"
  using split_delegation_credit_bounds [of "\<lambda>_. []" ex_env ex_asset 5 "ex_delegations 5" 0 3
      "\<lparr>delegate = 5, ratio = 3\<rparr>" 90]
  by (simp add: split_delegation_of_def compare_bytes32_to_address_ucast u256_div_def
      found_ratio_def total_ratio_def ex_defs)

text \<open>
  Where a ratio does not divide the total the credits add up to more than the account's power:
  with ratios two and one, the first voter is credited with the whole power and the second with a
  third of it.
\<close>

lemma split_delegation_overcounts:
  assumes call: "registry_answer to_str env asset pd =
      Some ([\<lparr>reg_delegate = a, reg_ratio = 2\<rparr>, \<lparr>reg_delegate = b, reg_ratio = 1\<rparr>], e)"
    and other: "(ucast a :: address) \<noteq> ucast b"
  shows "\<exists>g h. split_delegation_of to_str env (ucast a) asset pd = Inr (Some g) \<and>
               split_delegation_of to_str env (ucast b) asset pd = Inr (Some h) \<and>
               p div ratio g = p \<and> p div ratio h = p div 3"
  using assms
  by (auto simp: split_delegation_of_def registry_answer_def compare_bytes32_to_address_ucast u256_div_def)

lemma split_delegation_overcounts_witness:
  "\<exists>g h. split_delegation_of (\<lambda>_. []) ex_env (ucast (1 :: bytes32)) ex_asset 5 = Inr (Some g) \<and>
         split_delegation_of (\<lambda>_. []) ex_env (ucast (3 :: bytes32)) ex_asset 5 = Inr (Some h) \<and>
         (90 :: u256) div ratio g = 90 \<and> (90 :: u256) div ratio h = 90 div 3"
  by (rule split_delegation_overcounts [of "\<lambda>_. []" ex_env ex_asset 5 1 3 0 90])
    (simp_all add: ex_delegations_def)

text \<open>
  A potential delegate that the registry answers with no delegation at all is accepted with
  divisor one for every voter: the strategy does not compare it with the voter.
\<close>

lemma split_delegation_unregistered_account:
  assumes "\<And>pd. pd \<in> set as \<Longrightarrow> \<exists>e. registry_answer to_str env asset pd = Some ([], e)"
  shows "SplitDelegation_process to_str env account asset (concat (map to_be_bytes as)) =
     Inr (Inr (map (\<lambda>pd. \<lparr>delegate = pd, ratio = 1\<rparr>) as))"
proof -
  have "mapM (split_delegation_of to_str env account asset) as
      = Inr (map (\<lambda>pd. Some \<lparr>delegate = pd, ratio = 1\<rparr>) as)"
    using assms by (intro mapM_total) (metis split_delegation_of_empty)
  then show ?thesis
    by (auto simp: SplitDelegation_process_on_addresses list_ex_iff Option.is_none_def comp_def)
qed

lemma split_delegation_unregistered_account_witness:
  "SplitDelegation_process (\<lambda>_. []) ex_env 1 ex_asset (concat (map to_be_bytes [4 :: address])) =
     Inr (Inr (map (\<lambda>pd. \<lparr>delegate = pd, ratio = 1\<rparr>) [4]))"
  by (rule split_delegation_unregistered_account) (simp add: ex_delegations_def)

text \<open>
  A delegate list is refused with an error, and no contract is called, when its length is not a
  multiple of 20; otherwise it is read as addresses without loss, so the outcome on any byte string
  is the outcome on the addresses it spells.
\<close>

lemma split_delegation_input_format:
  "if length bs mod 20 \<noteq> 0
   then SplitDelegation_process to_str env account asset bs =
          Inr (Inl ''Input byte vector is not a valid length for Address conversion'')
   else \<exists>as. bs = concat (map to_be_bytes (as :: address list)) \<and> length as = length bs div 20 \<and>
          SplitDelegation_process to_str env account asset bs =
            rbind (mapM (split_delegation_of to_str env account asset) as) (\<lambda>account_delegates.
              if list_ex Option.is_none account_delegates
              then Inr (Inl ''One or more delegations are invalid'')
              else Inr (Inr (map the account_delegates)))"
proof (cases "length bs mod 20 = 0")
  case True
  then obtain as where as: "bs = concat (map to_be_bytes (as :: address list))"
    using chunks_exact_addresses [of bs] by auto
  then have "length as = length bs div 20" by (simp add: length_concat_addresses)
  with True as show ?thesis by (auto simp: SplitDelegation_process_on_addresses)
next
  case False
  then show ?thesis by (simp add: SplitDelegation_process_def)
qed

end
