(* ===== verification/Strategies.thy ===== *)
theory Strategies
  imports Split_Delegation
begin

text \<open>
  The rest of the guest's \<^verbatim>\<open>strategies\<close> crate: the voting power strategies
  \<^verbatim>\<open>BalanceOf\<close> and \<^verbatim>\<open>GetPastVotes\<close>, the execution strategy \<^verbatim>\<open>MajorityVoting\<close>, and
  the \<^verbatim>\<open>Context\<close> that finds a strategy by its name in the configuration. A
  \<^verbatim>\<open>Box<dyn Trait>\<close> is the record (or the function) of the trait's methods; a
  \<^verbatim>\<open>HashMap\<close> is a map.
\<close>

section \<open>Voting power strategies\<close>

record VotingPowerStrategy =
  vp_process :: "GuestEvmEnv \<Rightarrow> address \<Rightarrow> Asset \<Rightarrow> u256 exec"
  vp_get_supply :: "GuestEvmEnv \<Rightarrow> Asset \<Rightarrow> u256 exec"

definition BalanceOf_process :: "GuestEvmEnv \<Rightarrow> address \<Rightarrow> Asset \<Rightarrow> u256 exec" where
  "BalanceOf_process env account asset =
     (let contract = erc20_at (env_chain env) (asset_contract asset)
      in call_or_panic (balanceOf contract account))"

definition BalanceOf_get_supply :: "GuestEvmEnv \<Rightarrow> Asset \<Rightarrow> u256 exec" where
  "BalanceOf_get_supply env asset =
     (let contract = erc20_at (env_chain env) (asset_contract asset)
      in call_or_panic (getTotalSupply contract))"

definition BalanceOf :: VotingPowerStrategy where
  "BalanceOf = \<lparr>vp_process = BalanceOf_process, vp_get_supply = BalanceOf_get_supply\<rparr>"

definition GetPastVotes_process :: "GuestEvmEnv \<Rightarrow> address \<Rightarrow> Asset \<Rightarrow> u256 exec" where
  "GetPastVotes_process env account asset =
     (let block_number = env_header_number env;
          contract = erc20votes_at (env_chain env) (asset_contract asset)
      in call_or_panic (getPastVotes contract account (ucast block_number)))"

definition GetPastVotes_get_supply :: "GuestEvmEnv \<Rightarrow> Asset \<Rightarrow> u256 exec" where
  "GetPastVotes_get_supply env asset =
     (let block_number = env_header_number env;
          contract = erc20votes_at (env_chain env) (asset_contract asset)
      in call_or_panic (getPastTotalSupply contract (ucast block_number)))"

definition GetPastVotes :: VotingPowerStrategy where
  "GetPastVotes = \<lparr>vp_process = GetPastVotes_process, vp_get_supply = GetPastVotes_get_supply\<rparr>"

section \<open>Execution strategy\<close>

text \<open>The tally \<^verbatim>\<open>[U256; 3]\<close> holds the yes, no and abstain votes, in this order.\<close>

type_synonym tally = "u256 \<times> u256 \<times> u256"

type_synonym ProtocolExecutionStrategy = "GuestEvmEnv \<Rightarrow> u256 \<Rightarrow> tally \<Rightarrow> bool"

definition MajorityVoting_proof_execution :: ProtocolExecutionStrategy where
  "MajorityVoting_proof_execution env total_supply tally =
     (case tally of (yes_votes, no_votes, abstain_votes) \<Rightarrow>
        let total_votes = yes_votes + no_votes + abstain_votes
        in if total_votes \<le> total_supply div 2 then False
           else
             let non_abstain_votes = yes_votes + no_votes;
                 threshold = non_abstain_votes div 2
             in threshold < yes_votes)"

section \<open>Context\<close>

type_synonym DelegationStrategy =
  "GuestEvmEnv \<Rightarrow> address \<Rightarrow> Asset \<Rightarrow> u8 list \<Rightarrow> Delegation list Result exec"

record Context =
  voting_power_strategies :: "string \<rightharpoonup> VotingPowerStrategy"
  delegation_strategies :: "string \<rightharpoonup> DelegationStrategy"
  execution_strategies :: "string \<rightharpoonup> ProtocolExecutionStrategy"
  context_env :: GuestEvmEnv

definition Context_new :: "GuestEvmEnv \<Rightarrow> Context" where
  "Context_new env =
     \<lparr>voting_power_strategies = Map.empty, delegation_strategies = Map.empty,
      execution_strategies = Map.empty, context_env = env\<rparr>"

definition Context_default :: "(address \<Rightarrow> string) \<Rightarrow> GuestEvmEnv \<Rightarrow> Context" where
  "Context_default to_str env =
     \<lparr>voting_power_strategies = [''BalanceOf'' \<mapsto> BalanceOf, ''GetPastVotes'' \<mapsto> GetPastVotes],
      delegation_strategies = [''SplitDelegation'' \<mapsto> SplitDelegation_process to_str],
      execution_strategies = [''MajorityVoting'' \<mapsto> MajorityVoting_proof_execution],
      context_env = env\<rparr>"

definition add_strategy :: "Context \<Rightarrow> string \<Rightarrow> VotingPowerStrategy \<Rightarrow> Context" where
  "add_strategy ctx name protocol_strategy =
     ctx\<lparr>voting_power_strategies := (voting_power_strategies ctx)(name \<mapsto> protocol_strategy)\<rparr>"

definition process_voting_strategy :: "Context \<Rightarrow> string \<Rightarrow> address \<Rightarrow> Asset \<Rightarrow> u256 exec" where
  "process_voting_strategy ctx name account asset =
     (case voting_power_strategies ctx name of
        Some protocol_strategy \<Rightarrow> vp_process protocol_strategy (context_env ctx) account asset
      | None \<Rightarrow> Inl (Strategy_not_found name))"

definition process_total_supply :: "Context \<Rightarrow> Asset \<Rightarrow> u256 exec" where
  "process_total_supply ctx asset =
     (case voting_power_strategies ctx (voting_power_strategy asset) of
        Some protocol_strategy \<Rightarrow> vp_get_supply protocol_strategy (context_env ctx) asset
      | None \<Rightarrow> Inl (Strategy_not_found (voting_power_strategy asset)))"

definition process_delegation_strategy ::
    "Context \<Rightarrow> address \<Rightarrow> Asset \<Rightarrow> u8 list \<Rightarrow> Delegation list Result exec" where
  "process_delegation_strategy ctx account asset additional_data =
     (case delegation_strategies ctx (delegation_strategy (delegation asset)) of
        Some strategy \<Rightarrow> strategy (context_env ctx) account asset additional_data
      | None \<Rightarrow> Inr (Inl (''Strategy not found: '' @ delegation_strategy (delegation asset))))"

definition process_execution_strategy :: "Context \<Rightarrow> string \<Rightarrow> u256 \<Rightarrow> tally \<Rightarrow> bool exec" where
  "process_execution_strategy ctx name total_supply tally =
     (case execution_strategies ctx name of
        Some strategy \<Rightarrow> Inr (strategy (context_env ctx) total_supply tally)
      | None \<Rightarrow> Inl (Strategy_not_found name))"

definition block_commitment :: "Context \<Rightarrow> Commitment" where
  "block_commitment ctx = env_commitment (context_env ctx)"

section \<open>The registry interface\<close>

text \<open>
  What the clients of a strategy registry rely on: registering a strategy makes it the one found
  under its name and changes no other name.
\<close>

locale strategy_registry =
  fixes look :: "'ctx \<Rightarrow> string \<Rightarrow> 's option"
    and register :: "'ctx \<Rightarrow> string \<Rightarrow> 's \<Rightarrow> 'ctx"
  assumes look_register: "look (register c n s) m = (if m = n then Some s else look c m)"
begin

lemma look_registered_all:
  "look (foldl (\<lambda>c (n, s). register c n s) c ns) m =
     (case map_of (rev ns) m of Some s \<Rightarrow> Some s | None \<Rightarrow> look c m)"
  by (induction ns arbitrary: c) (auto simp: look_register map_add_def split: option.splits)

lemma look_register_twice: "look (register (register c n s) n t) = look (register c n t)"
  by (rule ext) (simp add: look_register)

lemma look_register_commute:
  "n \<noteq> m \<Longrightarrow> look (register (register c n s) m t) = look (register (register c m t) n s)"
  by (rule ext) (simp add: look_register)

end

interpretation vp_registry: strategy_registry voting_power_strategies add_strategy
  by unfold_locales (simp add: add_strategy_def)

lemma Context_default_voting:
  "process_voting_strategy (Context_default to_str env) name account asset =
     (if name = ''BalanceOf'' then BalanceOf_process env account asset
      else if name = ''GetPastVotes'' then GetPastVotes_process env account asset
      else Inl (Strategy_not_found name))"
  by (simp add: process_voting_strategy_def Context_default_def BalanceOf_def GetPastVotes_def)

lemma Context_default_supply:
  "process_total_supply (Context_default to_str env) asset =
     (if voting_power_strategy asset = ''BalanceOf'' then BalanceOf_get_supply env asset
      else if voting_power_strategy asset = ''GetPastVotes'' then GetPastVotes_get_supply env asset
      else Inl (Strategy_not_found (voting_power_strategy asset)))"
  by (simp add: process_total_supply_def Context_default_def BalanceOf_def GetPastVotes_def)

lemma Context_default_delegation:
  "process_delegation_strategy (Context_default to_str env) account asset bs =
     (if delegation_strategy (delegation asset) = ''SplitDelegation''
      then SplitDelegation_process to_str env account asset bs
      else Inr (Inl (''Strategy not found: '' @ delegation_strategy (delegation asset))))"
  by (simp add: process_delegation_strategy_def Context_default_def)

lemma Context_default_execution:
  "process_execution_strategy (Context_default to_str env) name supply tally =
     (if name = ''MajorityVoting'' then Inr (MajorityVoting_proof_execution env supply tally)
      else Inl (Strategy_not_found name))"
  by (simp add: process_execution_strategy_def Context_default_def)

lemma Context_default_commitment [simp]:
  "block_commitment (Context_default to_str env) = env_commitment env"
  by (simp add: block_commitment_def Context_default_def)

lemmas Context_default_simps =
  Context_default_voting Context_default_supply Context_default_delegation Context_default_execution

lemma context_env_add_strategy [simp]: "context_env (add_strategy ctx name s) = context_env ctx"
  and delegation_strategies_add_strategy [simp]:
    "delegation_strategies (add_strategy ctx name s) = delegation_strategies ctx"
  and execution_strategies_add_strategy [simp]:
    "execution_strategies (add_strategy ctx name s) = execution_strategies ctx"
  by (simp_all add: add_strategy_def)

section \<open>Majority voting over the natural numbers\<close>

text \<open>Halving a bound by truncating division does not change a strict comparison with it.\<close>

lemma half_less_iff: "(s :: nat) div 2 < t \<longleftrightarrow> s < 2 * t"
  by linarith

lemma majority_iff: "((y :: nat) + n) div 2 < y \<longleftrightarrow> n < y"
  by linarith

lemma MajorityVoting_exact:
  assumes "unat y + unat n + unat a < 2 ^ 256"
  shows "MajorityVoting_proof_execution env supply (y, n, a) \<longleftrightarrow>
     unat supply < 2 * (unat y + unat n + unat a) \<and> unat n < unat y"
proof -
  have yn: "unat (y + n) = unat y + unat n"
    using assms by (simp add: unat_word_ariths)
  then have yna: "unat (y + n + a) = unat y + unat n + unat a"
    using assms by (simp add: unat_word_ariths)
  have "(y + n + a \<le> supply div 2) \<longleftrightarrow> \<not> unat supply < 2 * (unat y + unat n + unat a)"
    unfolding word_le_nat_alt yna half_less_iff [symmetric] by (simp add: unat_div not_less)
  moreover have "((y + n) div 2 < y) \<longleftrightarrow> unat n < unat y"
    by (simp add: word_less_nat_alt unat_div yn majority_iff)
  ultimately show ?thesis
    by (simp add: MajorityVoting_proof_execution_def)
qed

section \<open>Properties\<close>

text \<open>
  C18: As long as the three counts do not overflow, \<^verbatim>\<open>MajorityVoting\<close> accepts exactly when strictly
  more than half of the total supply has voted and there are strictly more yes than no votes; the
  truncating divisions of the code do not blur either bound.
\<close>

theorem majority_voting_decision:
  assumes "unat y + unat n + unat a < 2 ^ 256"
  shows "MajorityVoting_proof_execution env supply (y, n, a) \<longleftrightarrow>
     unat supply < 2 * (unat y + unat n + unat a) \<and> unat n < unat y"
  using assms by (rule MajorityVoting_exact)

theorem majority_voting_decision_witness:
  "MajorityVoting_proof_execution ex_env 1000 (300, 200, 1) \<longleftrightarrow>
     unat (1000 :: u256) < 2 * (unat (300 :: u256) + unat (200 :: u256) + unat (1 :: u256)) \<and>
     unat (200 :: u256) < unat (300 :: u256)"
  by (rule majority_voting_decision) simp

text \<open>
  Further yes votes never turn an accepted tally into a refused one, as long as the counts fit.
\<close>

lemma majority_voting_monotone:
  assumes "MajorityVoting_proof_execution env supply (y, n, a)"
    and "unat y + unat extra + unat n + unat a < 2 ^ 256"
  shows "MajorityVoting_proof_execution env supply (y + extra, n, a)"
proof -
  have "unat (y + extra) = unat y + unat extra"
    using assms(2) by (simp add: unat_word_ariths)
  with assms show ?thesis by (simp add: MajorityVoting_exact)
qed

text \<open>
  The additions wrap around: there are tallies with more no than yes votes that
  \<^verbatim>\<open>MajorityVoting\<close> accepts, whatever the environment.
\<close>

lemma majority_voting_wraps:
  "\<exists>y n a supply. y < n \<and> MajorityVoting_proof_execution env supply (y, n, a)"
proof -
  have "(2 ^ 255 :: u256) < 2 ^ 255 + 2 \<and>
      MajorityVoting_proof_execution env 10 (2 ^ 255, 2 ^ 255 + 2, 100)"
    by (simp add: MajorityVoting_proof_execution_def)
  then show ?thesis by blast
qed

text \<open>
  The default context offers exactly the four strategies of the crate under their names, and
  a strategy registered with \<^verbatim>\<open>add_strategy\<close> is the one used for its name while every other name
  keeps its strategy; an unknown name panics for voting power and execution, and is an error value
  for delegation.
\<close>

lemma context_dispatch:
  "process_voting_strategy (add_strategy (Context_default to_str env) name s) m account asset =
     (if m = name then vp_process s env account asset
      else if m = ''BalanceOf'' then BalanceOf_process env account asset
      else if m = ''GetPastVotes'' then GetPastVotes_process env account asset
      else Inl (Strategy_not_found m)) \<and>
   process_delegation_strategy (add_strategy (Context_default to_str env) name s) account asset bs =
     (if delegation_strategy (delegation asset) = ''SplitDelegation''
      then SplitDelegation_process to_str env account asset bs
      else Inr (Inl (''Strategy not found: '' @ delegation_strategy (delegation asset)))) \<and>
   process_execution_strategy (add_strategy (Context_default to_str env) name s) m supply tally =
     (if m = ''MajorityVoting'' then Inr (MajorityVoting_proof_execution env supply tally)
      else Inl (Strategy_not_found m))"
proof -
  have "process_voting_strategy (add_strategy ctx name s) m account asset =
      (if m = name then vp_process s (context_env ctx) account asset
       else process_voting_strategy ctx m account asset)" for ctx
    by (simp add: process_voting_strategy_def vp_registry.look_register split: option.splits)
  moreover have "process_delegation_strategy (add_strategy ctx name s) = process_delegation_strategy ctx"
    "process_execution_strategy (add_strategy ctx name s) = process_execution_strategy ctx" for ctx
    by (auto simp: fun_eq_iff process_delegation_strategy_def process_execution_strategy_def
        split: option.split)
  moreover have "context_env (Context_default to_str env) = env"
    by (simp add: Context_default_def)
  ultimately show ?thesis
    by (simp add: Context_default_simps)
qed

end
