(* ===== verification/Text_Forms.thy ===== *)
theory Text_Forms
  imports Prelude
begin

text \<open>
  Numbers and bytes as text, the way the programs exchange them over command lines and logs: decimal output
  (\<^verbatim>\<open>format!("{}", n)\<close>) and input (\<^verbatim>\<open>FromStr\<close> of the unsigned integers) of the Rust standard
  library, and hexadecimal output of bytes (\<^verbatim>\<open>to_hex_string\<close> of the guest).
\<close>

section \<open>Decimal numbers\<close>

definition decimal_digit :: "nat \<Rightarrow> char" where
  "decimal_digit d = char_of (48 + d)"

fun show_nat :: "nat \<Rightarrow> string" where
  "show_nat n = (if n < 10 then [] else show_nat (n div 10)) @ [decimal_digit (n mod 10)]"

declare show_nat.simps [simp del]

definition digit_value :: "char \<Rightarrow> nat option" where
  "digit_value ch = (let c = of_char ch in if 48 \<le> c \<and> c \<le> 57 then Some (c - 48) else None)"

fun read_digits :: "nat \<Rightarrow> string \<Rightarrow> nat option" where
  "read_digits acc [] = Some acc"
| "read_digits acc (ch # s) =
     (case digit_value ch of None \<Rightarrow> None | Some d \<Rightarrow> read_digits (10 * acc + d) s)"

text \<open>
  \<^verbatim>\<open>u64::from_str\<close> and its like: an optional plus sign, at least one digit, and a value that fits.
\<close>

definition uint_from_str :: "string \<Rightarrow> ('a::len) word option" where
  "uint_from_str s =
     (let digits = (case s of ch # rest \<Rightarrow> if ch = CHR ''+'' then rest else s | [] \<Rightarrow> []) in
      if digits = [] then None
      else case read_digits 0 digits of
             None \<Rightarrow> None
           | Some n \<Rightarrow> if n < 2 ^ LENGTH('a) then Some (of_nat n) else None)"

lemma of_char_decimal_digit [simp]: "d < 10 \<Longrightarrow> of_char (decimal_digit d) = 48 + d"
  by (simp add: decimal_digit_def)

lemma digit_value_digit [simp]: "d < 10 \<Longrightarrow> digit_value (decimal_digit d) = Some d"
  by (simp add: digit_value_def Let_def)

lemma read_digits_append:
  "read_digits acc (s @ t) = Option.bind (read_digits acc s) (\<lambda>acc'. read_digits acc' t)"
  by (induction acc s rule: read_digits.induct) (auto split: option.split)

lemma show_nat_not_Nil [simp]: "show_nat n \<noteq> []"
  by (subst show_nat.simps) simp

lemma read_show_nat: "read_digits 0 (show_nat n) = Some n"
proof (induction n rule: show_nat.induct)
  case (1 n)
  then show ?case
    by (subst show_nat.simps) (auto simp: read_digits_append)
qed

lemma show_nat_inject: "show_nat m = show_nat n \<longleftrightarrow> m = n"
  by (metis option.inject read_show_nat)

lemma show_nat_digits: "ch \<in> set (show_nat n) \<Longrightarrow> digit_value ch \<noteq> None"
proof (induction n rule: show_nat.induct)
  case (1 n)
  from 1(2) have "\<not> n < 10 \<and> ch \<in> set (show_nat (n div 10)) \<or> ch = decimal_digit (n mod 10)"
    by (subst (asm) show_nat.simps) (auto split: if_splits)
  then show ?case using 1(1) by auto
qed

lemma show_nat_no_sign: "show_nat n \<noteq> CHR ''+'' # s"
  using show_nat_digits [of "CHR ''+''" n] by (auto simp: digit_value_def)

text \<open>Printing and reading back: a number is read back exactly when it fits.\<close>

lemma uint_from_str_show_nat:
  "uint_from_str (show_nat n) = (if n < 2 ^ LENGTH('a) then Some (of_nat n :: 'a::len word) else None)"
  using show_nat_no_sign [of n] show_nat_not_Nil [of n] read_show_nat [of n]
  by (cases "show_nat n") (auto simp: uint_from_str_def simp del: read_digits.simps)

lemma uint_from_str_show [simp]: "uint_from_str (show_nat (unat w)) = Some w"
  using unsigned_less [of w, where ?'a = nat] by (simp add: uint_from_str_show_nat)

lemma show_uint_inject: "show_nat (unat a) = show_nat (unat b) \<longleftrightarrow> a = b"
  by (simp only: show_nat_inject word_unat_eq_iff)

section \<open>Hexadecimal bytes\<close>

definition hex_digit :: "nat \<Rightarrow> char" where
  "hex_digit n = ''0123456789abcdef'' ! n"

text \<open>\<^verbatim>\<open>format!("{:02x}", byte)\<close>: two lower-case hexadecimal digits.\<close>

definition format_02x :: "u8 \<Rightarrow> string" where
  "format_02x b = [hex_digit (unat b div 16), hex_digit (unat b mod 16)]"

definition to_hex_string :: "u8 list \<Rightarrow> string" where
  "to_hex_string bytes = concat (map format_02x bytes)"

lemma hex_digit_inject: "m < 16 \<Longrightarrow> n < 16 \<Longrightarrow> hex_digit m = hex_digit n \<longleftrightarrow> m = n"
  unfolding hex_digit_def by (rule nth_eq_iff_index_eq) simp_all

lemma format_02x_inject: "format_02x a = format_02x b \<Longrightarrow> a = b"
proof -
  assume eq: "format_02x a = format_02x b"
  have "unat a < 2 ^ LENGTH(8)" "unat b < 2 ^ LENGTH(8)" by (rule unsigned_less)+
  then have bounds: "unat a div 16 < 16" "unat b div 16 < 16" by simp_all
  from eq have "unat a div 16 = unat b div 16" "unat a mod 16 = unat b mod 16"
    using bounds by (simp_all add: format_02x_def hex_digit_inject)
  then have "unat a = unat b" by (metis div_mult_mod_eq)
  then show ?thesis by (simp add: word_unat_eq_iff)
qed

interpretation hex_byte: fixed_width format_02x 2
  by unfold_locales (simp add: format_02x_def, rule format_02x_inject)

text \<open>
  \<^verbatim>\<open>to_hex_string\<close> prints two characters per byte and loses nothing: different byte strings
  print differently.
\<close>

lemma to_hex_string_injective:
  "length (to_hex_string bs) = 2 * length bs \<and> (to_hex_string bs = to_hex_string bs' \<longleftrightarrow> bs = bs')"
  by (simp add: to_hex_string_def hex_byte.length_concat_enc hex_byte.concat_enc_eq_iff)

end
