(* ===== verification/Vote_Signature.thy ===== *)
theory Vote_Signature
  imports Text_Forms
begin

text \<open>
  The signature part of the voting guest, \<^verbatim>\<open>methods/guest/src/bin/voting_protocol.rs\<close>: the signed
  message and the recovery of the signer, and the signing side in
  \<^verbatim>\<open>tests/src/lib.rs\<close>. The hash function of \<^verbatim>\<open>tiny_keccak\<close> and the curve operations of
  \<^verbatim>\<open>k256\<close> are not part of the repository: they are the fields of the parameter \<open>crypto\<close>.
\<close>

section \<open>Parameters\<close>

record ('sig, 'pk) crypto =
  Keccak_v256 :: "u8 list \<Rightarrow> bytes32"
  RecoveryId_from_byte :: "u8 \<Rightarrow> u8 option"
  Signature_from_slice :: "u8 list \<Rightarrow> 'sig option"
  recover_from_prehash :: "u8 list \<Rightarrow> 'sig \<Rightarrow> u8 \<Rightarrow> 'pk option"
  to_encoded_point :: "'pk \<Rightarrow> u8 list"

section \<open>Hashing and recovery\<close>

definition PREFIX :: string where
  "PREFIX = [CHR 0x19] @ ''Ethereum Signed Message:'' @ [CHR 0x0A] @ ''32''"

definition keccak256 :: "('sig, 'pk, 'z) crypto_scheme \<Rightarrow> u8 list \<Rightarrow> u8 list" where
  "keccak256 c bytes = to_be_bytes (Keccak_v256 c bytes)"

definition into_recovery_id :: "('sig, 'pk, 'z) crypto_scheme \<Rightarrow> u8 \<Rightarrow> u8 option" where
  "into_recovery_id c v =
     Option.bind
       (if v = 0 then Some 0
        else if v = 1 then Some 1
        else if v = 27 then Some 0
        else if v = 28 then Some 1
        else if 35 \<le> v then Some ((v - 1) mod 2)
        else None)
       (RecoveryId_from_byte c)"

definition ecrecover :: "('sig, 'pk, 'z) crypto_scheme \<Rightarrow> u8 \<Rightarrow> u8 list \<Rightarrow> u8 list \<Rightarrow> u8 list exec" where
  "ecrecover c v rs digest =
     rbind (expect (into_recovery_id c v) ''value for v is invalid'') (\<lambda>recovery_id.
     rbind (expect (Signature_from_slice c rs) ''signature encoding is invalid'') (\<lambda>signature.
     rbind (expect (recover_from_prehash c digest signature recovery_id) ''signature is invalid'')
       (\<lambda>recovered_pk.
        let encoded_pk = to_encoded_point c recovered_pk
        in rbind (slice encoded_pk 1 (length encoded_pk)) (\<lambda>point.
             let hash = keccak256 c point
             in rbind (slice hash 12 (length hash)) (\<lambda>addr.
                  if length addr = 20 then Inr addr else Inl Unwrap_failed)))))"

definition hash_vote ::
    "('sig, 'pk, 'z) crypto_scheme \<Rightarrow> u64 \<Rightarrow> address \<Rightarrow> u256 \<Rightarrow> u8 \<Rightarrow> u256 \<Rightarrow> u8 list" where
  "hash_vote c chain_id dao proposal_id direction balance =
     (let message_hash =
            keccak256 c (concat [to_be_bytes chain_id, to_be_bytes dao, to_be_bytes proposal_id,
                                 [direction], to_be_bytes balance]);
          prefixed_message = concat [string_bytes PREFIX, message_hash]
      in keccak256 c prefixed_message)"

section \<open>The signing side\<close>

text \<open>\<^verbatim>\<open>hash_vote\<close> of \<^verbatim>\<open>tests/src/lib.rs\<close>, with the same hash function.\<close>

definition tests_PREFIX :: string where
  "tests_PREFIX = [CHR 0x19] @ ''Ethereum Signed Message:'' @ [CHR 0x0A] @ ''32''"

definition tests_hash_vote ::
    "('sig, 'pk, 'z) crypto_scheme \<Rightarrow> u64 \<Rightarrow> address \<Rightarrow> u256 \<Rightarrow> u8 \<Rightarrow> u256 \<Rightarrow> bytes32" where
  "tests_hash_vote c chain_id dao_address proposal_id direction balance =
     (let concat_data = concat [to_be_bytes chain_id, to_be_bytes dao_address, to_be_bytes proposal_id,
                                [direction], to_be_bytes balance];
          hashed_data = to_be_bytes (Keccak_v256 c concat_data)
      in Keccak_v256 c (concat [string_bytes tests_PREFIX, hashed_data]))"

text \<open>
  \<^verbatim>\<open>get_user_vote_signature\<close> signs that hash; the wallet is the parameter \<open>sign_hash\<close>, a
  failure of which is the \<^verbatim>\<open>?\<close> return.
\<close>

definition get_user_vote_signature ::
    "('sig, 'pk, 'z) crypto_scheme \<Rightarrow> (bytes32 \<Rightarrow> u8 list Result) \<Rightarrow> u64 \<Rightarrow> address \<Rightarrow> u256 \<Rightarrow> u8 \<Rightarrow> u256 \<Rightarrow> u8 list Result" where
  "get_user_vote_signature c sign_hash chain_id dao_address proposal_id direction balance =
     (let vote_hash = tests_hash_vote c chain_id dao_address proposal_id direction balance
      in rbind (sign_hash vote_hash) (\<lambda>signature. Inr signature))"

section \<open>Lemmas\<close>

lemma length_keccak256 [simp]: "length (keccak256 c bs) = 32"
  by (simp add: keccak256_def)

lemma keccak256_eq_iff: "keccak256 c u = keccak256 c v \<longleftrightarrow> Keccak_v256 c u = Keccak_v256 c v"
  by (simp add: keccak256_def u256_be.enc_eq_iff)

text \<open>The two strings that are hashed: the fields of the vote at their fixed widths, and the prefixed hash of that.\<close>

definition vote_preimage :: "u64 \<Rightarrow> address \<Rightarrow> u256 \<Rightarrow> u8 \<Rightarrow> u256 \<Rightarrow> u8 list" where
  "vote_preimage chain_id dao proposal_id direction balance =
     to_be_bytes chain_id @ to_be_bytes dao @ to_be_bytes proposal_id @ [direction] @ to_be_bytes balance"

definition signed_preimage :: "('sig, 'pk, 'z) crypto_scheme \<Rightarrow> u8 list \<Rightarrow> u8 list" where
  "signed_preimage c message = string_bytes PREFIX @ to_be_bytes (Keccak_v256 c message)"

lemma vote_preimage_inject:
  "vote_preimage c1 d1 p1 o1 b1 = vote_preimage c2 d2 p2 o2 b2 \<longleftrightarrow>
     c1 = c2 \<and> d1 = d2 \<and> p1 = p2 \<and> o1 = o2 \<and> b1 = b2"
  unfolding vote_preimage_def
  by (simp only: u64_be.field_eq_iff address_be.field_eq_iff u256_be.field_eq_iff byte_be.field_eq_iff
      u256_be.enc_eq_iff)

lemma signed_preimage_inject:
  "signed_preimage c m1 = signed_preimage c m2 \<longleftrightarrow> Keccak_v256 c m1 = Keccak_v256 c m2"
  by (simp add: signed_preimage_def u256_be.enc_eq_iff)

lemma hash_vote_preimage:
  "hash_vote c chain_id dao pid dir bal =
     keccak256 c (signed_preimage c (vote_preimage chain_id dao pid dir bal))"
  by (simp add: hash_vote_def vote_preimage_def signed_preimage_def keccak256_def)

section \<open>Properties\<close>

text \<open>
  C34: The signed message binds every field of a vote. Let Keccak not collide on the strings that are hashed for two
  votes, the two messages and their two prefixed hashes. Then the votes have the same signed hash exactly when they
  are the same vote: same chain, DAO, proposal, direction and balance. So a signature for one vote is never one for
  another.
\<close>

theorem hash_vote_binding:
  assumes "m1 = vote_preimage chain1 dao1 pid1 dir1 bal1" and "m2 = vote_preimage chain2 dao2 pid2 dir2 bal2"
    and "inj_on (Keccak_v256 c) {m1, m2, signed_preimage c m1, signed_preimage c m2}"
  shows "hash_vote c chain1 dao1 pid1 dir1 bal1 = hash_vote c chain2 dao2 pid2 dir2 bal2 \<longleftrightarrow>
    chain1 = chain2 \<and> dao1 = dao2 \<and> pid1 = pid2 \<and> dir1 = dir2 \<and> bal1 = bal2"
proof -
  have "hash_vote c chain1 dao1 pid1 dir1 bal1 = hash_vote c chain2 dao2 pid2 dir2 bal2 \<longleftrightarrow>
      Keccak_v256 c (signed_preimage c m1) = Keccak_v256 c (signed_preimage c m2)"
    by (simp add: hash_vote_preimage keccak256_eq_iff assms(1,2))
  also have "\<dots> \<longleftrightarrow> Keccak_v256 c m1 = Keccak_v256 c m2"
    using inj_on_eq_iff [OF assms(3)] by (simp add: signed_preimage_inject)
  also have "\<dots> \<longleftrightarrow> m1 = m2" using inj_on_eq_iff [OF assms(3)] by simp
  finally show ?thesis by (simp add: assms(1,2) vote_preimage_inject)
qed

text \<open>A small hash that depends on the length and on the last 32 bytes.\<close>

definition ex_crypto :: "(unit, unit) crypto" where
  "ex_crypto = \<lparr>Keccak_v256 = (\<lambda>bs. of_nat (length bs) + from_be_bytes (drop (length bs - 32) bs)),
     RecoveryId_from_byte = (\<lambda>b. if b < 4 then Some b else None),
     Signature_from_slice = (\<lambda>bs. if length bs = 64 then Some () else None),
     recover_from_prehash = (\<lambda>d s r. Some ()), to_encoded_point = (\<lambda>pk. replicate 65 4)\<rparr>"

lemma ex_crypto_hashes:
  "Keccak_v256 ex_crypto (vote_preimage chain dao pid dir bal) = 93 + bal"
  "Keccak_v256 ex_crypto (signed_preimage ex_crypto m) = 60 + Keccak_v256 ex_crypto m"
proof -
  show "Keccak_v256 ex_crypto (vote_preimage chain dao pid dir bal) = 93 + bal"
    by (simp add: ex_crypto_def vote_preimage_def from_to_be_bytes)
  have "length (string_bytes PREFIX) = 28" by (simp add: PREFIX_def string_bytes_def)
  then show "Keccak_v256 ex_crypto (signed_preimage ex_crypto m) = 60 + Keccak_v256 ex_crypto m"
    by (subst ex_crypto_def) (simp add: signed_preimage_def from_to_be_bytes)
qed

theorem hash_vote_binding_witness: "hash_vote ex_crypto 1 3 0 2 7 \<noteq> hash_vote ex_crypto 1 3 0 2 8"
proof -
  let ?m1 = "vote_preimage 1 3 0 2 7" and ?m2 = "vote_preimage 1 3 0 2 8"
  have "inj_on (Keccak_v256 ex_crypto) {?m1, ?m2, signed_preimage ex_crypto ?m1, signed_preimage ex_crypto ?m2}"
    by (auto simp: inj_on_def ex_crypto_hashes)
  from hash_vote_binding [OF refl refl this] show ?thesis by simp
qed

text \<open>
  Signer and guest hash the same message: the 32 bytes the guest checks a signature against are
  the bytes of the hash that \<^verbatim>\<open>get_user_vote_signature\<close> signs, so the signature it returns is the
  wallet's signature of the guest's digest.
\<close>

lemma signing_side_agrees:
  "get_user_vote_signature c sign_hash chain_id dao pid dir bal =
     sign_hash (from_be_bytes (hash_vote c chain_id dao pid dir bal))"
  by (simp add: tests_PREFIX_def PREFIX_def get_user_vote_signature_def tests_hash_vote_def hash_vote_def keccak256_def from_to_be_bytes)

text \<open>
  \<^verbatim>\<open>ecrecover\<close> accepts exactly the recovery bytes 0, 1, 27, 28 and 35 upwards: on every other
  value of \<open>v\<close> it panics before looking at the signature, and on these it uses recovery id 0 or 1
  with the parity of Ethereum's convention.
\<close>

lemma ecrecover_recovery_byte:
  assumes "RecoveryId_from_byte c 0 = Some 0" "RecoveryId_from_byte c 1 = Some 1"
  shows "into_recovery_id c v =
     (if v \<in> {0, 27} \<or> 35 \<le> v \<and> odd v then Some 0
      else if v \<in> {1, 28} \<or> 35 \<le> v \<and> even v then Some 1 else None) \<and>
    (into_recovery_id c v = None \<longrightarrow> ecrecover c v rs digest = Inl (Expect_failed ''value for v is invalid''))"
proof -
  have "(v - 1) mod 2 = (if odd v then 0 else 1)"
    by (simp add: mod_2_eq_odd)
  moreover have "\<not> 35 \<le> (1 :: u8)" by (simp add: word_le_nat_alt)
  ultimately show ?thesis
    using assms by (auto simp: into_recovery_id_def ecrecover_def)
qed

end
