(* ===== verification/Zkvm_Io.thy ===== *)
theory Zkvm_Io
  imports Strategies Vote_Signature
begin

text \<open>
  How host and guest exchange values. The host writes its values one after the other into the
  executor environment (\<^verbatim>\<open>ExecutorEnv::builder().write(..)\<close>), the guest reads them back one
  after the other (\<^verbatim>\<open>env::read()\<close>) from the same stream of 32-bit words. The serialisation of
  one value belongs to \<^verbatim>\<open>risc0_zkvm\<close>; it is the parameter \<open>stdin_codec\<close>, of which the program
  relies on one thing: reading the encoding of a value of the expected type gives that value and
  leaves the rest of the stream. The other library functions the guests call are the fields of
  \<open>guest_libs\<close>.
\<close>

section \<open>Journals\<close>

text \<open>The public outputs of the two guests.\<close>

record VotingJournal =
  vj_commitment :: Commitment
  vj_config_contract :: address
  vj_proposal_id :: u256
  vj_voter :: address
  vj_balance :: u256
  vj_direction :: u8

record ExecutionJournal =
  ej_commitment :: Commitment
  ej_config_contract :: address
  ej_proposal_id :: u256
  ej_tally :: "u256 list"

section \<open>Parameters\<close>

record 'i stdin_codec =
  put_input :: "'i \<Rightarrow> u32 list"
  get_input :: "u32 list \<Rightarrow> ('i \<times> u32 list) option"
  put_string :: "string \<Rightarrow> u32 list"
  get_string :: "u32 list \<Rightarrow> (string \<times> u32 list) option"
  put_address :: "address \<Rightarrow> u32 list"
  get_address :: "u32 list \<Rightarrow> (address \<times> u32 list) option"
  put_u256 :: "u256 \<Rightarrow> u32 list"
  get_u256 :: "u32 list \<Rightarrow> (u256 \<times> u32 list) option"
  put_u8 :: "u8 \<Rightarrow> u32 list"
  get_u8 :: "u32 list \<Rightarrow> (u8 \<times> u32 list) option"
  put_tally :: "tally \<Rightarrow> u32 list"
  get_tally :: "u32 list \<Rightarrow> (tally \<times> u32 list) option"

text \<open>Reading back what was written, for each type.\<close>

definition reads_back :: "('v \<Rightarrow> u32 list) \<Rightarrow> (u32 list \<Rightarrow> ('v \<times> u32 list) option) \<Rightarrow> bool" where
  "reads_back put get \<longleftrightarrow> (\<forall>x rest. get (put x @ rest) = Some (x, rest))"

definition codec_ok :: "'i stdin_codec \<Rightarrow> bool" where
  "codec_ok c \<longleftrightarrow>
     reads_back (put_input c) (get_input c) \<and> reads_back (put_string c) (get_string c) \<and>
     reads_back (put_address c) (get_address c) \<and> reads_back (put_u256 c) (get_u256 c) \<and>
     reads_back (put_u8 c) (get_u8 c) \<and> reads_back (put_tally c) (get_tally c)"

record ('sig, 'pk, 'i) guest_libs = "('sig, 'pk) crypto" +
  into_env :: "'i \<Rightarrow> GuestEvmEnv option"
  sepolia_chain_id :: u64
  address_to_string :: "address \<Rightarrow> string"
  config_from_str :: "string \<Rightarrow> RiscVotingProtocolConfig option"
  Vec_from_hex :: "string \<Rightarrow> u8 list option"
  Bytes_from_str :: "string \<Rightarrow> u8 list option"
  abi_encode_voting :: "VotingJournal \<Rightarrow> u8 list"
  abi_encode_execution :: "ExecutionJournal \<Rightarrow> u8 list"

section \<open>Reading\<close>

text \<open>\<^verbatim>\<open>env::read()\<close> panics when the stream does not decode.\<close>

definition env_read :: "(u32 list \<Rightarrow> ('v \<times> u32 list) option) \<Rightarrow> u32 list \<Rightarrow> ('v \<times> u32 list) exec" where
  "env_read get stdin = unwrap (get stdin)"

lemma env_read_put:
  "reads_back put get \<Longrightarrow> env_read get (put x @ rest) = Inr (x, rest)"
  by (simp add: reads_back_def env_read_def)

lemmas env_read_codec =
  env_read_put [of "put_input c" "get_input c"] env_read_put [of "put_string c" "get_string c"]
  env_read_put [of "put_address c" "get_address c"] env_read_put [of "put_u256 c" "get_u256 c"]
  env_read_put [of "put_u8 c" "get_u8 c"] env_read_put [of "put_tally c" "get_tally c"] for c

section \<open>A concrete codec\<close>

text \<open>
  Frames of a type word, the bytes of the value each preceded by the word 1, and a closing 0: an
  instance of the parameter, on which the hypotheses about it are shown to be satisfiable.
\<close>

fun ex_body :: "u8 list \<Rightarrow> u32 list" where
  "ex_body [] = [0]"
| "ex_body (b # bs) = 1 # ucast b # ex_body bs"

fun ex_unbody :: "u32 list \<Rightarrow> (u8 list \<times> u32 list) option" where
  "ex_unbody [] = None"
| "ex_unbody [x] = (if x = 0 then Some ([], []) else None)"
| "ex_unbody (x # y # rest) =
     (if x = 0 then Some ([], y # rest)
      else map_option (\<lambda>(bs, r). (ucast y # bs, r)) (ex_unbody rest))"

lemma ex_unbody_body [simp]: "ex_unbody (ex_body bs @ rest) = Some (bs, rest)"
proof (induction bs)
  case Nil
  show ?case by (cases rest) simp_all
next
  case (Cons b bs)
  have "(ucast (ucast b :: u32) :: u8) = b" by (intro bit_word_eqI) (auto simp: bit_simps)
  with Cons show ?case by simp
qed

definition ex_put :: "u32 \<Rightarrow> ('v \<Rightarrow> u8 list) \<Rightarrow> 'v \<Rightarrow> u32 list" where
  "ex_put t enc x = t # ex_body (enc x)"

definition ex_get :: "u32 \<Rightarrow> (u8 list \<Rightarrow> 'v) \<Rightarrow> u32 list \<Rightarrow> ('v \<times> u32 list) option" where
  "ex_get t dec s =
     (case s of t' # body \<Rightarrow> if t' = t then map_option (\<lambda>(bs, rest). (dec bs, rest)) (ex_unbody body) else None
      | [] \<Rightarrow> None)"

lemma ex_get_put: "(\<And>x. dec (enc x) = x) \<Longrightarrow> ex_get t dec (ex_put t enc x @ rest) = Some (x, rest)"
  by (simp add: ex_get_def ex_put_def)

lemma ex_get_put_other: "t \<noteq> t' \<Longrightarrow> ex_get t dec (ex_put t' enc x @ rest) = None"
  by (simp add: ex_get_def ex_put_def)

definition ex_tally_bytes :: "tally \<Rightarrow> u8 list" where
  "ex_tally_bytes t = (case t of (y, n, a) \<Rightarrow> to_be_bytes y @ to_be_bytes n @ to_be_bytes a)"

definition ex_bytes_tally :: "u8 list \<Rightarrow> tally" where
  "ex_bytes_tally bs = (from_be_bytes (take 32 bs), from_be_bytes (take 32 (drop 32 bs)), from_be_bytes (drop 64 bs))"

definition ex_codec_for :: "('i \<Rightarrow> u8 list) \<Rightarrow> (u8 list \<Rightarrow> 'i) \<Rightarrow> 'i stdin_codec" where
  "ex_codec_for enc dec =
     \<lparr>put_input = ex_put 1 enc, get_input = ex_get 1 dec,
      put_string = ex_put 2 string_bytes, get_string = ex_get 2 (map (\<lambda>b. char_of (unat b))),
      put_address = ex_put 3 to_be_bytes, get_address = ex_get 3 from_be_bytes,
      put_u256 = ex_put 4 to_be_bytes, get_u256 = ex_get 4 from_be_bytes,
      put_u8 = ex_put 5 (\<lambda>b. [b]), get_u8 = ex_get 5 (\<lambda>bs. hd bs),
      put_tally = ex_put 6 ex_tally_bytes, get_tally = ex_get 6 ex_bytes_tally\<rparr>"

definition ex_codec :: "unit stdin_codec" where
  "ex_codec = ex_codec_for (\<lambda>_. []) (\<lambda>_. ())"

lemma ex_tally_roundtrip [simp]: "ex_bytes_tally (ex_tally_bytes t) = t"
  by (simp add: ex_tally_bytes_def ex_bytes_tally_def from_to_be_bytes split: prod.split)

lemma string_bytes_roundtrip [simp]: "map (\<lambda>b. char_of (unat b)) (string_bytes cs) = cs"
  by (induction cs) (simp_all add: string_bytes_def unat_of_nat)

lemma ex_codec_for_ok: "(\<And>i. dec (enc i) = i) \<Longrightarrow> codec_ok (ex_codec_for enc dec)"
  unfolding codec_ok_def reads_back_def ex_codec_for_def
  by (simp add: ex_get_put from_to_be_bytes comp_def)

lemma ex_codec_ok [simp]: "codec_ok ex_codec"
  unfolding ex_codec_def by (rule ex_codec_for_ok) simp

end
