(* ===== verification/Voting_Guest.thy ===== *)
theory Voting_Guest
  imports Zkvm_Io
begin

text \<open>
  The voting guest, \<^verbatim>\<open>methods/guest/src/bin/voting_protocol.rs\<close>: the program whose execution is
  proved in zero knowledge and whose journal the plugin accepts. \<open>voting_protocol_main\<close> is its
  \<^verbatim>\<open>main\<close>, from the input stream to the committed bytes; a panic means that no proof exists.
\<close>

section \<open>The program\<close>

record 'i voting_input =
  vi_input :: 'i
  vi_signature :: string
  vi_voter :: address
  vi_dao :: address
  vi_proposal_id :: u256
  vi_direction :: u8
  vi_balance :: u256
  vi_config_contract :: address
  vi_additional_delegation_data :: string

definition read_voting_input :: "'i stdin_codec \<Rightarrow> u32 list \<Rightarrow> 'i voting_input exec" where
  "read_voting_input c s0 =
     rbind (env_read (get_input c) s0) (\<lambda>(input, s1).
     rbind (env_read (get_string c) s1) (\<lambda>(signature, s2).
     rbind (env_read (get_address c) s2) (\<lambda>(voter, s3).
     rbind (env_read (get_address c) s3) (\<lambda>(dao, s4).
     rbind (env_read (get_u256 c) s4) (\<lambda>(proposal_id, s5).
     rbind (env_read (get_u8 c) s5) (\<lambda>(direction, s6).
     rbind (env_read (get_u256 c) s6) (\<lambda>(balance, s7).
     rbind (env_read (get_address c) s7) (\<lambda>(config_contract, s8).
     rbind (env_read (get_string c) s8) (\<lambda>(additional_delegation_data, s9).
       Inr \<lparr>vi_input = input, vi_signature = signature, vi_voter = voter, vi_dao = dao,
            vi_proposal_id = proposal_id, vi_direction = direction, vi_balance = balance,
            vi_config_contract = config_contract,
            vi_additional_delegation_data = additional_delegation_data\<rparr>)))))))))"

text \<open>The signature check: the recovered address, which the rest of the program only prints.\<close>

definition recover_vote_signer :: "('sig, 'pk, 'i) guest_libs \<Rightarrow> 'i voting_input \<Rightarrow> u8 list exec" where
  "recover_vote_signer L inp =
     (let digest = hash_vote L (sepolia_chain_id L) (vi_dao inp) (vi_proposal_id inp)
                     (vi_direction inp) (vi_balance inp)
      in rbind (expect (Vec_from_hex L (vi_signature inp)) ''Invalid hex string'') (\<lambda>byte_signature.
         rbind (index byte_signature 64) (\<lambda>v.
         rbind (slice byte_signature 0 64) (\<lambda>rs. ecrecover L v rs digest))))"

text \<open>The configuration of the proposal, read from the plugin and parsed.\<close>

definition read_config ::
    "('sig, 'pk, 'i) guest_libs \<Rightarrow> GuestEvmEnv \<Rightarrow> address \<Rightarrow> u256 \<Rightarrow> RiscVotingProtocolConfig exec" where
  "read_config L env config_contract proposal_id =
     rbind (call_or_panic (votingProtocolConfig (config_at (env_chain env) config_contract) proposal_id))
       (\<lambda>config_string. unwrap (config_from_str L config_string))"

text \<open>One delegation's contribution: the account's voting power divided by the delegation's divisor.\<close>

definition delegation_power :: "Context \<Rightarrow> Asset \<Rightarrow> Delegation \<Rightarrow> u256 exec" where
  "delegation_power ctx asset d =
     rbind (process_voting_strategy ctx (voting_power_strategy asset) (delegate d) asset)
       (\<lambda>p. u256_div p (ratio d))"

text \<open>The closure that gives the voter's power in one asset.\<close>

definition asset_voting_power ::
    "('sig, 'pk, 'i) guest_libs \<Rightarrow> Context \<Rightarrow> address \<Rightarrow> string \<Rightarrow> Asset \<Rightarrow> u256 exec" where
  "asset_voting_power L ctx voter additional_delegation_data asset =
     rbind (unwrap (Bytes_from_str L additional_delegation_data)) (\<lambda>bytes.
     rbind (process_delegation_strategy ctx voter asset bytes) (\<lambda>delegations.
       case delegations of
         Inl _ \<Rightarrow> Inl Assertion_failed
       | Inr ds \<Rightarrow>
           foldM (\<lambda>acc d. rbind (delegation_power ctx asset d) (\<lambda>q. Inr (q + acc))) 0 ds))"

definition total_voting_power ::
    "('sig, 'pk, 'i) guest_libs \<Rightarrow> Context \<Rightarrow> address \<Rightarrow> string \<Rightarrow> Asset list \<Rightarrow> u256 exec" where
  "total_voting_power L ctx voter additional_delegation_data as =
     rbind (mapM (asset_voting_power L ctx voter additional_delegation_data) as)
       (\<lambda>powers. Inr (sum_list powers))"

definition voting_body :: "('sig, 'pk, 'i) guest_libs \<Rightarrow> 'i voting_input \<Rightarrow> u8 list exec" where
  "voting_body L inp =
     rbind (recover_vote_signer L inp) (\<lambda>signature_address.
     rbind (unwrap (into_env L (vi_input inp))) (\<lambda>env.
     rbind (read_config L env (vi_config_contract inp) (vi_proposal_id inp)) (\<lambda>config.
     let strategies_context = Context_default (address_to_string L) env in
     rbind (total_voting_power L strategies_context (vi_voter inp)
              (vi_additional_delegation_data inp) (assets config)) (\<lambda>tot.
     rbind (rassert (vi_direction inp = 1 \<or> vi_direction inp = 2 \<or> vi_direction inp = 3)) (\<lambda>_.
     rbind (rassert (0 < vi_balance inp)) (\<lambda>_.
     rbind (rassert (vi_balance inp = tot)) (\<lambda>_.
       Inr (abi_encode_voting L
              \<lparr>vj_commitment = block_commitment strategies_context,
               vj_config_contract = vi_config_contract inp,
               vj_proposal_id = vi_proposal_id inp,
               vj_voter = vi_voter inp,
               vj_balance = vi_balance inp,
               vj_direction = vi_direction inp\<rparr>))))))))"

definition voting_protocol_main :: "('sig, 'pk, 'i) guest_libs \<Rightarrow> 'i stdin_codec \<Rightarrow> u32 list \<Rightarrow> u8 list exec" where
  "voting_protocol_main L c stdin = rbind (read_voting_input c stdin) (voting_body L)"

section \<open>The voter's power, exactly\<close>

text \<open>
  The specification: over the natural numbers, an account's power divided by the divisor the registry
  gives the voter, summed over the listed accounts and over the assets.
\<close>

definition power_of :: "GuestEvmEnv \<Rightarrow> Asset \<Rightarrow> address \<Rightarrow> u256 option" where
  "power_of env asset a =
     (if voting_power_strategy asset = ''BalanceOf''
      then balanceOf (erc20_at (env_chain env) (asset_contract asset)) a
      else if voting_power_strategy asset = ''GetPastVotes''
      then getPastVotes (erc20votes_at (env_chain env) (asset_contract asset)) a (ucast (env_header_number env))
      else None)"

definition exact_asset_power ::
    "(address \<Rightarrow> string) \<Rightarrow> GuestEvmEnv \<Rightarrow> address \<Rightarrow> address list \<Rightarrow> Asset \<Rightarrow> nat" where
  "exact_asset_power to_str env voter as asset =
     (\<Sum>pd\<leftarrow>as. unat (the (power_of env asset pd)) div the (may_use to_str env asset voter pd))"

definition exact_total_power ::
    "(address \<Rightarrow> string) \<Rightarrow> GuestEvmEnv \<Rightarrow> address \<Rightarrow> address list \<Rightarrow> Asset list \<Rightarrow> nat" where
  "exact_total_power to_str env voter as assts = (\<Sum>a\<leftarrow>assts. exact_asset_power to_str env voter as a)"

text \<open>An asset on which the voter may use every listed account.\<close>

definition asset_usable ::
    "(address \<Rightarrow> string) \<Rightarrow> GuestEvmEnv \<Rightarrow> address \<Rightarrow> address list \<Rightarrow> Asset \<Rightarrow> bool" where
  "asset_usable to_str env voter as asset \<longleftrightarrow>
     delegation_strategy (delegation asset) = ''SplitDelegation'' \<and>
     list_all (\<lambda>pd. registry_answers_ok to_str env asset pd \<and> may_use to_str env asset voter pd \<noteq> None \<and>
                    power_of env asset pd \<noteq> None) as"

lemma process_voting_power_of:
  "power_of env asset a = Some p \<Longrightarrow>
   process_voting_strategy (Context_default to_str env) (voting_power_strategy asset) a asset = Inr p"
  by (auto simp: power_of_def Context_default_voting BalanceOf_process_def GetPastVotes_process_def
      split: if_splits)

lemma foldM_delegations:
  "foldM (\<lambda>acc d. rbind (delegation_power ctx asset d) (\<lambda>q. Inr (q + acc))) acc ds =
     rbind (mapM (delegation_power ctx asset) ds) (\<lambda>qs. Inr (acc + sum_list qs))"
  by (rule foldM_plus_mapM)

lemma delegation_power_exact:
  assumes ok: "registry_answers_ok to_str env asset pd" and use: "may_use to_str env asset voter pd = Some k"
    and power: "power_of env asset pd = Some p"
  shows "delegation_power (Context_default to_str env) asset \<lparr>delegate = pd, ratio = of_nat k\<rparr> =
     Inr (of_nat (unat p div k))"
proof -
  have k: "0 < k" "k < 2 ^ 256" using may_use_bounds [OF ok use] by auto
  then have uk: "unat (of_nat k :: u256) = k" by (simp add: unat_of_nat)
  then have nz: "(of_nat k :: u256) \<noteq> 0" using k by (metis unat_0 less_irrefl)
  have "p div of_nat k = of_nat (unat p div k)"
    by (metis of_nat_unat ucast_id uk unat_div)
  with nz show ?thesis
    by (simp add: delegation_power_def process_voting_power_of [OF power])
qed

lemma asset_voting_power_exact:
  assumes bytes: "Bytes_from_str L data = Some (concat (map to_be_bytes as))"
    and usable: "asset_usable (address_to_string L) env voter as asset"
  shows "asset_voting_power L (Context_default (address_to_string L) env) voter data asset =
     Inr (of_nat (exact_asset_power (address_to_string L) env voter as asset))"
proof -
  let ?ts = "address_to_string L"
  let ?ctx = "Context_default ?ts env"
  let ?d = "\<lambda>pd. \<lparr>delegate = pd, ratio = of_nat (the (may_use ?ts env asset voter pd))\<rparr>"
  let ?q = "\<lambda>pd. of_nat (unat (the (power_of env asset pd)) div the (may_use ?ts env asset voter pd)) :: u256"
  have all: "registry_answers_ok ?ts env asset pd" "may_use ?ts env asset voter pd \<noteq> None"
    "power_of env asset pd \<noteq> None" if "pd \<in> set as" for pd
    using usable that by (auto simp: asset_usable_def list_all_iff)
  have strategy: "delegation_strategy (delegation asset) = ''SplitDelegation''"
    using usable by (simp add: asset_usable_def)
  have ds: "process_delegation_strategy ?ctx voter asset (concat (map to_be_bytes as)) = Inr (Inr (map ?d as))"
    using all SplitDelegation_process_outcome [of as ?ts env asset voter] strategy
    by (simp add: Context_default_delegation)
  have "delegation_power ?ctx asset (?d pd) = Inr (?q pd)" if "pd \<in> set as" for pd
    using all [OF that] by (auto intro: delegation_power_exact)
  then have "mapM (delegation_power ?ctx asset) (map ?d as) = Inr (map ?q as)"
    unfolding mapM_map by (intro mapM_total) blast
  then show ?thesis
    by (simp add: asset_voting_power_def bytes ds foldM_delegations exact_asset_power_def
        of_nat_sum_list comp_def)
qed

lemma total_voting_power_exact:
  assumes "Bytes_from_str L data = Some (concat (map to_be_bytes as))"
    and "list_all (asset_usable (address_to_string L) env voter as) assts"
  shows "total_voting_power L (Context_default (address_to_string L) env) voter data assts =
     Inr (of_nat (exact_total_power (address_to_string L) env voter as assts))"
proof -
  have "mapM (asset_voting_power L (Context_default (address_to_string L) env) voter data) assts =
     Inr (map (\<lambda>a. of_nat (exact_asset_power (address_to_string L) env voter as a)) assts)"
    using assms by (intro mapM_total asset_voting_power_exact) (auto simp: list_all_iff)
  then show ?thesis
    by (simp add: total_voting_power_def exact_total_power_def of_nat_sum_list comp_def)
qed

section \<open>Outcomes of the program\<close>

definition voting_journal :: "GuestEvmEnv \<Rightarrow> 'i voting_input \<Rightarrow> VotingJournal" where
  "voting_journal env inp =
     \<lparr>vj_commitment = env_commitment env, vj_config_contract = vi_config_contract inp,
      vj_proposal_id = vi_proposal_id inp, vj_voter = vi_voter inp,
      vj_balance = vi_balance inp, vj_direction = vi_direction inp\<rparr>"

definition vote_admissible :: "'i voting_input \<Rightarrow> u256 \<Rightarrow> bool" where
  "vote_admissible inp tot \<longleftrightarrow>
     vi_direction inp \<in> {1, 2, 3} \<and> 0 < vi_balance inp \<and> vi_balance inp = tot"

lemma voting_body_after_power:
  assumes "recover_vote_signer L inp = Inr signer" and "into_env L (vi_input inp) = Some env"
    and "read_config L env (vi_config_contract inp) (vi_proposal_id inp) = Inr config"
    and "total_voting_power L (Context_default (address_to_string L) env) (vi_voter inp)
           (vi_additional_delegation_data inp) (assets config) = Inr tot"
  shows "voting_body L inp =
     (if vote_admissible inp tot then Inr (abi_encode_voting L (voting_journal env inp))
      else Inl Assertion_failed)"
  using assms by (auto simp: voting_body_def vote_admissible_def voting_journal_def rassert_def)

lemma voting_body_InrE:
  assumes "voting_body L inp = Inr out"
  obtains signer env config tot where
    "recover_vote_signer L inp = Inr signer" "into_env L (vi_input inp) = Some env"
    "read_config L env (vi_config_contract inp) (vi_proposal_id inp) = Inr config"
    "total_voting_power L (Context_default (address_to_string L) env) (vi_voter inp)
       (vi_additional_delegation_data inp) (assets config) = Inr tot"
    "vote_admissible inp tot" "out = abi_encode_voting L (voting_journal env inp)"
  using assms
  by (auto simp: voting_body_def vote_admissible_def voting_journal_def outcome_iff Let_def)

lemma voting_body_complete:
  assumes signer: "recover_vote_signer L inp = Inr signer" and env: "into_env L (vi_input inp) = Some env"
    and config: "read_config L env (vi_config_contract inp) (vi_proposal_id inp) = Inr config"
    and bytes: "Bytes_from_str L (vi_additional_delegation_data inp) = Some (concat (map to_be_bytes as))"
    and usable: "list_all (asset_usable (address_to_string L) env (vi_voter inp) as) (assets config)"
  shows "voting_body L inp =
     (if vote_admissible inp (of_nat (exact_total_power (address_to_string L) env (vi_voter inp) as (assets config)))
      then Inr (abi_encode_voting L (voting_journal env inp)) else Inl Assertion_failed)"
  by (rule voting_body_after_power [OF signer env config total_voting_power_exact [OF bytes usable]])

text \<open>What a run that computes a total has checked of every asset and every listed account.\<close>

lemma asset_voting_power_authorised:
  assumes run: "asset_voting_power L (Context_default (address_to_string L) env) voter data asset = Inr p"
    and bytes: "Bytes_from_str L data = Some (concat (map to_be_bytes as))"
    and answers: "\<And>pd. pd \<in> set as \<Longrightarrow> registry_answers_ok (address_to_string L) env asset pd"
    and pd: "pd \<in> set as"
  shows "delegation_strategy (delegation asset) = ''SplitDelegation'' \<and>
     may_use (address_to_string L) env asset voter pd \<noteq> None"
proof -
  from run bytes obtain ds where
    "process_delegation_strategy (Context_default (address_to_string L) env) voter asset
       (concat (map to_be_bytes as)) = Inr (Inr ds)"
    by (auto simp: asset_voting_power_def outcome_iff)
  then show ?thesis
    using SplitDelegation_process_outcome [OF answers, of as voter] pd
    by (auto simp: Context_default_delegation split: if_splits)
qed

lemma total_voting_power_assets:
  assumes "total_voting_power L ctx voter data assts = Inr tot" and "asset \<in> set assts"
  shows "\<exists>p. asset_voting_power L ctx voter data asset = Inr p"
  using assms
  by (auto simp: total_voting_power_def outcome_iff mapM_Inr_iff in_set_conv_nth list_all2_conv_all_nth)

text \<open>An empty list of accounts gives no power, and only that list gives no delegations.\<close>

lemma SplitDelegation_process_Nil:
  "SplitDelegation_process to_str env account asset bs = Inr (Inr []) \<longleftrightarrow> bs = []"
proof
  assume run: "SplitDelegation_process to_str env account asset bs = Inr (Inr [])"
  then obtain as where as: "bs = concat (map to_be_bytes as)"
      and chunks: "mapM Address_from_slice (chunks_exact 20 bs) = Inr (as :: address list)"
    using chunks_exact_addresses [of bs] by (auto simp: SplitDelegation_process_def split: if_splits)
  with run have "mapM (split_delegation_of to_str env account asset) as = Inr []"
    by (auto simp: SplitDelegation_process_def outcome_iff split: if_splits)
  with as show "bs = []" by (auto dest: mapM_length)
qed (simp add: SplitDelegation_process_def)

lemma asset_voting_power_empty:
  assumes "asset_voting_power L (Context_default to_str env) voter data asset = Inr p"
    and "Bytes_from_str L data = Some []"
  shows "p = 0"
  using assms
  by (auto simp: asset_voting_power_def Context_default_delegation SplitDelegation_process_Nil [THEN iffD2]
      split: if_splits)

lemma total_voting_power_empty:
  assumes "total_voting_power L (Context_default to_str env) voter data assts = Inr t"
    and "Bytes_from_str L data = Some []"
  shows "t = 0"
proof -
  from assms(1) obtain ps where t: "t = sum_list ps"
      and ps: "list_all2 (\<lambda>a p. asset_voting_power L (Context_default to_str env) voter data a = Inr p) assts ps"
    by (auto simp: total_voting_power_def outcome_iff mapM_Inr_iff)
  have "list_all (\<lambda>p. p = 0) ps"
    using ps asset_voting_power_empty [OF _ assms(2)] by (induction rule: list_all2_induct) auto
  then have "sum_list ps = 0" by (induction ps) auto
  with t show ?thesis by simp
qed

text \<open>A strategy that fails on every account leaves only the empty list.\<close>

lemma asset_voting_power_all_fail:
  assumes "asset_voting_power L (Context_default to_str env) voter data asset = Inr p"
    and fail: "\<And>d. \<exists>e. delegation_power (Context_default to_str env) asset d = Inl e"
  shows "Bytes_from_str L data = Some []"
proof -
  from assms(1) obtain bs ds where bs: "Bytes_from_str L data = Some bs"
      and ds: "process_delegation_strategy (Context_default to_str env) voter asset bs = Inr (Inr ds)"
      and fold: "foldM (\<lambda>acc d. rbind (delegation_power (Context_default to_str env) asset d) (\<lambda>q. Inr (q + acc))) 0 ds = Inr p"
    by (auto simp: asset_voting_power_def outcome_iff)
  have "ds = []"
  proof (cases ds)
    case (Cons d ds')
    with fold fail [of d] show ?thesis by auto
  qed simp
  with ds bs show ?thesis
    by (auto simp: Context_default_delegation SplitDelegation_process_Nil split: if_splits)
qed

section \<open>A concrete run\<close>

definition ex_libs :: "(unit, unit, unit) guest_libs" where
  "ex_libs =
     \<lparr>Keccak_v256 = (\<lambda>bs. 5), RecoveryId_from_byte = (\<lambda>b. if b < 4 then Some b else None),
      Signature_from_slice = (\<lambda>bs. if length bs = 64 then Some () else None),
      recover_from_prehash = (\<lambda>d s r. Some ()), to_encoded_point = (\<lambda>pk. replicate 65 4),
      into_env = (\<lambda>_. Some ex_env), sepolia_chain_id = 11155111, address_to_string = (\<lambda>_. []),
      config_from_str = (\<lambda>s. if s = ''config'' then Some ex_config else None),
      Vec_from_hex = (\<lambda>s. if s = ''sig'' then Some (replicate 64 7 @ [27]) else
                          if s = ''forged'' then Some (replicate 64 9 @ [28]) else None),
      Bytes_from_str = (\<lambda>s. if s = [] then Some [] else
                            if s = ''two and four'' then Some (concat (map to_be_bytes [2, 4 :: address])) else
                            if s = ''four'' then Some (concat (map to_be_bytes [4 :: address])) else
                            if s = ''four twice'' then Some (concat (map to_be_bytes ([4] @ [4 :: address]))) else None),
      abi_encode_voting = (\<lambda>j. to_be_bytes (vj_balance j)),
      abi_encode_execution = (\<lambda>j. concat (map to_be_bytes (ej_tally j)))\<rparr>"

definition ex_voting_input :: "unit voting_input" where
  "ex_voting_input =
     \<lparr>vi_input = (), vi_signature = ''sig'', vi_voter = 1, vi_dao = 77, vi_proposal_id = 0,
      vi_direction = 2, vi_balance = 200, vi_config_contract = 48,
      vi_additional_delegation_data = ''two and four''\<rparr>"

lemma ex_recover: "recover_vote_signer ex_libs ex_voting_input = Inr (drop 12 (to_be_bytes (5 :: bytes32)))"
  by (simp add: recover_vote_signer_def ex_libs_def ex_voting_input_def ecrecover_def into_recovery_id_def
      keccak256_def Let_def index_def slice_def nth_append)

lemma ex_into_env: "into_env ex_libs (vi_input ex_voting_input) = Some ex_env"
  by (simp add: ex_libs_def)

lemma ex_read_config: "read_config ex_libs ex_env 48 0 = Inr ex_config"
  by (simp add: read_config_def ex_libs_def ex_env_def ex_chain_def)

lemma ex_usable: "list_all (asset_usable (address_to_string ex_libs) ex_env 1 [2, 4]) (assets ex_config)"
  by (simp add: ex_config_def asset_usable_def may_use_def share_of_def power_of_def)
    (simp add: ex_defs)

lemma ex_exact_power: "exact_total_power (address_to_string ex_libs) ex_env 1 [2, 4] (assets ex_config) = 200"
  by (simp add: ex_config_def exact_total_power_def exact_asset_power_def may_use_def share_of_def
      power_of_def total_ratio_def) (simp add: ex_defs, arith)

lemma ex_bytes:
  "Bytes_from_str ex_libs (vi_additional_delegation_data ex_voting_input) = Some (concat (map to_be_bytes [2, 4 :: address]))"
  by (simp add: ex_libs_def ex_voting_input_def)

lemma ex_body: "voting_body ex_libs ex_voting_input = Inr (to_be_bytes (200 :: u256))"
proof -
  have "voting_body ex_libs ex_voting_input = Inr (abi_encode_voting ex_libs (voting_journal ex_env ex_voting_input))"
    using voting_body_complete [OF ex_recover ex_into_env _ ex_bytes, of ex_config]
      ex_read_config ex_usable ex_exact_power
    by (simp add: vote_admissible_def ex_voting_input_def)
  then show ?thesis by (simp add: ex_libs_def voting_journal_def ex_voting_input_def)
qed

text \<open>What the host writes, the guest reads.\<close>

lemma read_voting_input_written:
  assumes "codec_ok c"
  shows "read_voting_input c (put_input c (vi_input inp) @ put_string c (vi_signature inp) @
     put_address c (vi_voter inp) @ put_address c (vi_dao inp) @ put_u256 c (vi_proposal_id inp) @
     put_u8 c (vi_direction inp) @ put_u256 c (vi_balance inp) @ put_address c (vi_config_contract inp) @
     put_string c (vi_additional_delegation_data inp) @ rest) = Inr inp"
  using assms by (simp add: read_voting_input_def codec_ok_def env_read_codec)

definition ex_stdin :: "u32 list" where
  "ex_stdin = put_input ex_codec () @ put_string ex_codec ''sig'' @
     put_address ex_codec 1 @ put_address ex_codec 77 @ put_u256 ex_codec 0 @
     put_u8 ex_codec 2 @ put_u256 ex_codec 200 @ put_address ex_codec 48 @
     put_string ex_codec ''two and four'' @ []"

lemma ex_read: "read_voting_input ex_codec ex_stdin = Inr ex_voting_input"
  using read_voting_input_written [OF ex_codec_ok, of ex_voting_input "[]"]
  by (simp add: ex_stdin_def ex_voting_input_def)

lemma ex_main: "voting_protocol_main ex_libs ex_codec ex_stdin = Inr (to_be_bytes (200 :: u256))"
  by (simp add: voting_protocol_main_def ex_read ex_body)

section \<open>Properties\<close>

text \<open>
  C7: Functional correctness of the voting guest. On an input whose signature decodes, whose
  configuration parses and whose listed accounts the voter may use, the guest commits exactly the
  journal of the vote when the direction is one of 1, 2, 3, the balance is positive and equals the
  exact voting power (modulo \<open>2 ^ 256\<close>); in every other case it panics with a failed assertion.
\<close>

theorem voting_guest_functional:
  assumes "read_voting_input c stdin = Inr inp"
    and "recover_vote_signer L inp = Inr signer" and "into_env L (vi_input inp) = Some env"
    and "read_config L env (vi_config_contract inp) (vi_proposal_id inp) = Inr config"
    and "Bytes_from_str L (vi_additional_delegation_data inp) = Some (concat (map to_be_bytes as))"
    and "list_all (asset_usable (address_to_string L) env (vi_voter inp) as) (assets config)"
  shows "voting_protocol_main L c stdin =
     (if vi_direction inp \<in> {1, 2, 3} \<and> 0 < vi_balance inp \<and>
         unat (vi_balance inp) =
           exact_total_power (address_to_string L) env (vi_voter inp) as (assets config) mod 2 ^ 256
      then Inr (abi_encode_voting L
              \<lparr>vj_commitment = env_commitment env, vj_config_contract = vi_config_contract inp,
               vj_proposal_id = vi_proposal_id inp, vj_voter = vi_voter inp,
               vj_balance = vi_balance inp, vj_direction = vi_direction inp\<rparr>)
      else Inl Assertion_failed)"
proof -
  have "vi_balance inp = of_nat n \<longleftrightarrow> unat (vi_balance inp) = n mod 2 ^ 256" for n
    by (simp add: word_unat_eq_iff unat_of_nat)
  with assms show ?thesis
    by (simp add: voting_protocol_main_def voting_body_complete vote_admissible_def voting_journal_def)
qed

theorem voting_guest_functional_witness:
  "voting_protocol_main ex_libs ex_codec ex_stdin = Inr (to_be_bytes (200 :: u256))"
proof -
  have cfg: "read_config ex_libs ex_env (vi_config_contract ex_voting_input) (vi_proposal_id ex_voting_input) =
      Inr ex_config"
    using ex_read_config by (simp add: ex_voting_input_def)
  have usable: "list_all (asset_usable (address_to_string ex_libs) ex_env (vi_voter ex_voting_input) [2, 4])
      (assets ex_config)"
    using ex_usable by (simp add: ex_voting_input_def)
  show ?thesis
    using voting_guest_functional [OF ex_read ex_recover ex_into_env cfg ex_bytes usable] ex_exact_power
    by (simp add: ex_voting_input_def ex_libs_def)
qed

text \<open>
  Soundness of the voting guest, with no assumption on its input: whenever it commits anything,
  that is the journal of the values it read, for the block of its environment, with a direction of
  1, 2 or 3 and a positive balance equal to the voting power it computed from the assets configured
  for that proposal.
\<close>

lemma voting_guest_sound:
  assumes "voting_protocol_main L c stdin = Inr out"
  shows "\<exists>inp env config.
     read_voting_input c stdin = Inr inp \<and> into_env L (vi_input inp) = Some env \<and>
     read_config L env (vi_config_contract inp) (vi_proposal_id inp) = Inr config \<and>
     total_voting_power L (Context_default (address_to_string L) env) (vi_voter inp)
       (vi_additional_delegation_data inp) (assets config) = Inr (vi_balance inp) \<and>
     vi_direction inp \<in> {1, 2, 3} \<and> 0 < vi_balance inp \<and>
     out = abi_encode_voting L
              \<lparr>vj_commitment = env_commitment env, vj_config_contract = vi_config_contract inp,
               vj_proposal_id = vi_proposal_id inp, vj_voter = vi_voter inp,
               vj_balance = vi_balance inp, vj_direction = vi_direction inp\<rparr>"
proof -
  from assms obtain inp where inp: "read_voting_input c stdin = Inr inp" and body: "voting_body L inp = Inr out"
    by (auto simp: voting_protocol_main_def outcome_iff)
  from body show ?thesis
    by (rule voting_body_InrE) (use inp in \<open>auto simp: vote_admissible_def voting_journal_def\<close>)
qed

lemma voting_guest_sound_witness:
  "\<exists>inp env config.
     read_voting_input ex_codec ex_stdin = Inr inp \<and> into_env ex_libs (vi_input inp) = Some env \<and>
     read_config ex_libs env (vi_config_contract inp) (vi_proposal_id inp) = Inr config \<and>
     total_voting_power ex_libs (Context_default (address_to_string ex_libs) env) (vi_voter inp)
       (vi_additional_delegation_data inp) (assets config) = Inr (vi_balance inp) \<and>
     vi_direction inp \<in> {1, 2, 3} \<and> 0 < vi_balance inp \<and>
     to_be_bytes (200 :: u256) = abi_encode_voting ex_libs
              \<lparr>vj_commitment = env_commitment env, vj_config_contract = vi_config_contract inp,
               vj_proposal_id = vi_proposal_id inp, vj_voter = vi_voter inp,
               vj_balance = vi_balance inp, vj_direction = vi_direction inp\<rparr>"
  by (rule voting_guest_sound [OF ex_main])

text \<open>
  No vote uses power it was not given: when the guest commits a vote, every account listed in
  the delegation data gives the voter a share in every configured asset (read from a registry that
  answers with positive ratios that fit), under the delegation strategy the asset names.
\<close>

lemma voting_guest_authorised:
  assumes "voting_body L inp = Inr out" and "into_env L (vi_input inp) = Some env"
    and "read_config L env (vi_config_contract inp) (vi_proposal_id inp) = Inr config"
    and "Bytes_from_str L (vi_additional_delegation_data inp) = Some (concat (map to_be_bytes as))"
    and "\<And>asset pd. asset \<in> set (assets config) \<Longrightarrow> pd \<in> set as \<Longrightarrow>
           registry_answers_ok (address_to_string L) env asset pd"
    and "asset \<in> set (assets config)" and "pd \<in> set as"
  shows "delegation_strategy (delegation asset) = ''SplitDelegation'' \<and>
     may_use (address_to_string L) env asset (vi_voter inp) pd \<noteq> None"
proof -
  from assms(1-3) obtain tot where
    "total_voting_power L (Context_default (address_to_string L) env) (vi_voter inp)
       (vi_additional_delegation_data inp) (assets config) = Inr tot"
    by (auto elim: voting_body_InrE)
  then obtain p where
    "asset_voting_power L (Context_default (address_to_string L) env) (vi_voter inp)
       (vi_additional_delegation_data inp) asset = Inr p"
    using total_voting_power_assets assms(6) by blast
  then show ?thesis
    by (rule asset_voting_power_authorised [OF _ assms(4) _ assms(7)]) (rule assms(5) [OF assms(6)])
qed

lemma voting_guest_authorised_witness:
  "delegation_strategy (delegation ex_asset) = ''SplitDelegation'' \<and>
     may_use (address_to_string ex_libs) ex_env ex_asset (vi_voter ex_voting_input) 2 \<noteq> None"
proof (rule voting_guest_authorised)
  show "voting_body ex_libs ex_voting_input = Inr (to_be_bytes (200 :: u256))"
    by (rule ex_body)
  show "into_env ex_libs (vi_input ex_voting_input) = Some ex_env" by (rule ex_into_env)
  show "read_config ex_libs ex_env (vi_config_contract ex_voting_input) (vi_proposal_id ex_voting_input) =
      Inr ex_config"
    using ex_read_config by (simp add: ex_voting_input_def)
  show "Bytes_from_str ex_libs (vi_additional_delegation_data ex_voting_input) =
      Some (concat (map to_be_bytes [2, 4 :: address]))"
    by (rule ex_bytes)
qed (auto simp: ex_config_def ex_libs_def)

text \<open>
  C39: The committed vote does not depend on who signed it: replacing the signature by any other one
  from which some address can be recovered leaves the committed journal unchanged (the comparison of
  the recovered address with the voter is commented out in the source).
\<close>

theorem voting_guest_ignores_signer:
  assumes "voting_body L inp = Inr out"
    and "recover_vote_signer L (inp\<lparr>vi_signature := other\<rparr>) = Inr someone"
  shows "voting_body L (inp\<lparr>vi_signature := other\<rparr>) = Inr out"
  using assms by (auto simp: voting_body_def outcome_iff Let_def)

theorem voting_guest_ignores_signer_witness:
  "voting_body ex_libs (ex_voting_input\<lparr>vi_signature := ''forged''\<rparr>) = Inr (to_be_bytes (200 :: u256))"
proof (rule voting_guest_ignores_signer)
  show "voting_body ex_libs ex_voting_input = Inr (to_be_bytes (200 :: u256))" by (rule ex_body)
  show "recover_vote_signer ex_libs (ex_voting_input\<lparr>vi_signature := ''forged''\<rparr>) =
      Inr (drop 12 (to_be_bytes (5 :: bytes32)))"
    by (simp add: recover_vote_signer_def ex_libs_def ex_voting_input_def ecrecover_def into_recovery_id_def
        keccak256_def Let_def index_def slice_def nth_append)
qed

text \<open>
  An account listed twice counts twice: repeating the whole list of delegates doubles the power
  the guest computes.
\<close>

lemma voting_guest_counts_repetitions:
  assumes "Bytes_from_str L once = Some (concat (map to_be_bytes as))"
    and "Bytes_from_str L twice = Some (concat (map to_be_bytes (as @ as)))"
    and "list_all (asset_usable (address_to_string L) env voter as) assts"
    and "total_voting_power L (Context_default (address_to_string L) env) voter once assts = Inr p"
  shows "total_voting_power L (Context_default (address_to_string L) env) voter twice assts = Inr (p + p)"
proof -
  have "list_all (asset_usable (address_to_string L) env voter (as @ as)) assts"
    using assms(3) by (auto simp: list_all_iff asset_usable_def)
  moreover have "exact_total_power (address_to_string L) env voter (as @ as) assts =
      exact_total_power (address_to_string L) env voter as assts +
      exact_total_power (address_to_string L) env voter as assts"
    by (simp add: exact_total_power_def exact_asset_power_def sum_list_addf)
  moreover have "p = of_nat (exact_total_power (address_to_string L) env voter as assts)"
    using assms(4) by (simp add: total_voting_power_exact [OF assms(1,3)])
  ultimately show ?thesis
    by (simp add: total_voting_power_exact [OF assms(2)])
qed

lemma voting_guest_counts_repetitions_witness:
  "total_voting_power ex_libs (Context_default (address_to_string ex_libs) ex_env) 1 ''four twice'' [ex_asset] =
     Inr (50 + 50)"
proof (rule voting_guest_counts_repetitions)
  show "Bytes_from_str ex_libs ''four'' = Some (concat (map to_be_bytes [4 :: address]))"
    and "Bytes_from_str ex_libs ''four twice'' = Some (concat (map to_be_bytes ([4] @ [4 :: address])))"
    by (simp_all add: ex_libs_def)
  show usable: "list_all (asset_usable (address_to_string ex_libs) ex_env 1 [4]) [ex_asset]"
    by (simp add: asset_usable_def may_use_def share_of_def power_of_def) (simp add: ex_defs)
  have "exact_total_power (address_to_string ex_libs) ex_env 1 [4] [ex_asset] = 50"
    by (simp add: exact_total_power_def exact_asset_power_def may_use_def share_of_def power_of_def)
      (simp add: ex_defs)
  then show "total_voting_power ex_libs (Context_default (address_to_string ex_libs) ex_env) 1 ''four'' [ex_asset]
      = Inr 50"
    using total_voting_power_exact [OF _ usable, of "''four''"] by (simp add: ex_libs_def)
qed

text \<open>
  A configuration with a \<^verbatim>\<open>GetPastVotes\<close> asset admits no vote. The guest asks such a token for
  the votes at the number of the block it executes on; a token that follows ERC-5805 rejects a lookup
  that is not strictly in the past. Then the guest panics on every input for that proposal: on a listed
  account at the lookup, and on an empty list because the balance must be positive.
\<close>

lemma voting_guest_rejects_get_past_votes:
  assumes "read_voting_input c stdin = Inr inp" and "into_env L (vi_input inp) = Some env"
    and "read_config L env (vi_config_contract inp) (vi_proposal_id inp) = Inr config"
    and "asset \<in> set (assets config)" and "voting_power_strategy asset = ''GetPastVotes''"
    and future: "\<And>account n. ucast (env_header_number env) \<le> n \<Longrightarrow>
       getPastVotes (erc20votes_at (env_chain env) (asset_contract asset)) account n = None"
  shows "\<exists>p. voting_protocol_main L c stdin = Inl p"
proof (rule ccontr)
  let ?ctx = "Context_default (address_to_string L) env"
  assume "\<nexists>p. voting_protocol_main L c stdin = Inl p"
  then obtain out where "voting_protocol_main L c stdin = Inr out"
    by (cases "voting_protocol_main L c stdin") auto
  with assms(1) have "voting_body L inp = Inr out" by (simp add: voting_protocol_main_def)
  with assms(2,3) obtain t where tot: "total_voting_power L ?ctx (vi_voter inp)
        (vi_additional_delegation_data inp) (assets config) = Inr t" and t: "t \<noteq> 0"
    by (elim voting_body_InrE) (auto simp: vote_admissible_def)
  obtain p where p: "asset_voting_power L ?ctx (vi_voter inp) (vi_additional_delegation_data inp) asset = Inr p"
    using total_voting_power_assets [OF tot assms(4)] by blast
  have "delegation_power ?ctx asset d = Inl Contract_call_failed" for d
    using assms(5) future by (simp add: delegation_power_def Context_default_voting GetPastVotes_process_def)
  then have "Bytes_from_str L (vi_additional_delegation_data inp) = Some []"
    by (intro asset_voting_power_all_fail [OF p]) blast
  with total_voting_power_empty [OF tot] t show False by simp
qed

definition ex_past_asset :: Asset where
  "ex_past_asset = ex_asset\<lparr>voting_power_strategy := ''GetPastVotes''\<rparr>"

lemma voting_guest_rejects_get_past_votes_witness:
  "\<exists>p. voting_protocol_main
         (ex_libs\<lparr>config_from_str := \<lambda>s. Some \<lparr>voting_protocol_version = ''1'', assets = [ex_past_asset],
                                            execution_strategy = ''MajorityVoting''\<rparr>\<rparr>)
         ex_codec ex_stdin = Inl p"
proof (rule voting_guest_rejects_get_past_votes [OF ex_read])
  show "into_env (ex_libs\<lparr>config_from_str := \<lambda>s. Some \<lparr>voting_protocol_version = ''1'', assets = [ex_past_asset],
      execution_strategy = ''MajorityVoting''\<rparr>\<rparr>) (vi_input ex_voting_input) = Some ex_env"
    by (simp add: ex_libs_def)
  show "read_config (ex_libs\<lparr>config_from_str := \<lambda>s. Some \<lparr>voting_protocol_version = ''1'', assets = [ex_past_asset],
      execution_strategy = ''MajorityVoting''\<rparr>\<rparr>) ex_env (vi_config_contract ex_voting_input)
      (vi_proposal_id ex_voting_input) = Inr \<lparr>voting_protocol_version = ''1'', assets = [ex_past_asset],
      execution_strategy = ''MajorityVoting''\<rparr>"
    by (simp add: read_config_def ex_env_def ex_chain_def ex_voting_input_def)
  show "ex_past_asset \<in> set (assets \<lparr>voting_protocol_version = ''1'', assets = [ex_past_asset],
      execution_strategy = ''MajorityVoting''\<rparr>)" by simp
  show "voting_power_strategy ex_past_asset = ''GetPastVotes''" by (simp add: ex_past_asset_def)
  show "getPastVotes (erc20votes_at (env_chain ex_env) (asset_contract ex_past_asset)) account n = None"
    if "ucast (env_header_number ex_env) \<le> n" for account n
    using that by (simp add: ex_env_def ex_chain_def not_less)
qed

end
