(* ===== verification/Execution_Guest.thy ===== *)
theory Execution_Guest
  imports Voting_Guest
begin

text \<open>
  The execution guest, \<^verbatim>\<open>methods/guest/src/bin/execution_protocol.rs\<close>: it proves that a tally
  lets a proposal be executed under the execution strategy and the total supply of the configured
  assets.
\<close>

section \<open>The program\<close>

record 'i execution_input =
  xi_input :: 'i
  xi_dao :: address
  xi_proposal_id :: u256
  xi_tally :: tally
  xi_config_contract :: address

definition read_execution_input :: "'i stdin_codec \<Rightarrow> u32 list \<Rightarrow> 'i execution_input exec" where
  "read_execution_input c s0 =
     rbind (env_read (get_input c) s0) (\<lambda>(input, s1).
     rbind (env_read (get_address c) s1) (\<lambda>(dao, s2).
     rbind (env_read (get_u256 c) s2) (\<lambda>(proposal_id, s3).
     rbind (env_read (get_tally c) s3) (\<lambda>(tally, s4).
     rbind (env_read (get_address c) s4) (\<lambda>(config_contract, s5).
       Inr \<lparr>xi_input = input, xi_dao = dao, xi_proposal_id = proposal_id, xi_tally = tally,
            xi_config_contract = config_contract\<rparr>)))))"

definition total_supply_power :: "Context \<Rightarrow> Asset list \<Rightarrow> u256 exec" where
  "total_supply_power ctx as =
     rbind (mapM (process_total_supply ctx) as) (\<lambda>supplies. Inr (sum_list supplies))"

definition tally_to_vec :: "tally \<Rightarrow> u256 list" where
  "tally_to_vec t = (case t of (y, n, a) \<Rightarrow> [y, n, a])"

definition execution_body :: "('sig, 'pk, 'i) guest_libs \<Rightarrow> 'i execution_input \<Rightarrow> u8 list exec" where
  "execution_body L inp =
     rbind (unwrap (into_env L (xi_input inp))) (\<lambda>env.
     rbind (read_config L env (xi_config_contract inp) (xi_proposal_id inp)) (\<lambda>config.
     let strategies_context = Context_default (address_to_string L) env in
     rbind (total_supply_power strategies_context (assets config)) (\<lambda>supply.
     rbind (process_execution_strategy strategies_context (execution_strategy config) supply (xi_tally inp))
       (\<lambda>accepted.
     rbind (rassert accepted) (\<lambda>_.
       Inr (abi_encode_execution L
              \<lparr>ej_commitment = block_commitment strategies_context,
               ej_config_contract = xi_config_contract inp,
               ej_proposal_id = xi_proposal_id inp,
               ej_tally = tally_to_vec (xi_tally inp)\<rparr>))))))"

definition execution_protocol_main ::
    "('sig, 'pk, 'i) guest_libs \<Rightarrow> 'i stdin_codec \<Rightarrow> u32 list \<Rightarrow> u8 list exec" where
  "execution_protocol_main L c stdin = rbind (read_execution_input c stdin) (execution_body L)"

section \<open>Exact total supply\<close>

definition supply_of :: "GuestEvmEnv \<Rightarrow> Asset \<Rightarrow> u256 option" where
  "supply_of env asset =
     (if voting_power_strategy asset = ''BalanceOf''
      then getTotalSupply (erc20_at (env_chain env) (asset_contract asset))
      else if voting_power_strategy asset = ''GetPastVotes''
      then getPastTotalSupply (erc20votes_at (env_chain env) (asset_contract asset)) (ucast (env_header_number env))
      else None)"

definition exact_supply :: "GuestEvmEnv \<Rightarrow> Asset list \<Rightarrow> nat" where
  "exact_supply env as = (\<Sum>a\<leftarrow>as. unat (the (supply_of env a)))"

lemma process_total_supply_of:
  "supply_of env asset = Some s \<Longrightarrow> process_total_supply (Context_default to_str env) asset = Inr s"
  by (auto simp: supply_of_def Context_default_supply BalanceOf_get_supply_def GetPastVotes_get_supply_def
      split: if_splits)

lemma total_supply_power_exact:
  assumes all: "list_all (\<lambda>a. supply_of env a \<noteq> None) as" and fits: "exact_supply env as < 2 ^ 256"
  shows "\<exists>s. total_supply_power (Context_default to_str env) as = Inr s \<and> unat s = exact_supply env as"
proof -
  let ?ss = "map (\<lambda>a. the (supply_of env a)) as"
  have "mapM (process_total_supply (Context_default to_str env)) as = Inr ?ss"
    using all by (intro mapM_total) (auto simp: list_all_iff process_total_supply_of)
  moreover have "unat (sum_list ?ss) = exact_supply env as"
    using unat_sum_list_exact [of ?ss] fits by (simp add: exact_supply_def comp_def)
  ultimately show ?thesis by (simp add: total_supply_power_def)
qed

section \<open>Outcomes of the program\<close>

definition execution_journal :: "GuestEvmEnv \<Rightarrow> 'i execution_input \<Rightarrow> ExecutionJournal" where
  "execution_journal env inp =
     \<lparr>ej_commitment = env_commitment env, ej_config_contract = xi_config_contract inp,
      ej_proposal_id = xi_proposal_id inp, ej_tally = tally_to_vec (xi_tally inp)\<rparr>"

lemma execution_body_outcome:
  assumes "into_env L (xi_input inp) = Some env"
    and "read_config L env (xi_config_contract inp) (xi_proposal_id inp) = Inr config"
    and "total_supply_power (Context_default (address_to_string L) env) (assets config) = Inr s"
    and "execution_strategy config = ''MajorityVoting''"
  shows "execution_body L inp =
     (if MajorityVoting_proof_execution env s (xi_tally inp)
      then Inr (abi_encode_execution L (execution_journal env inp)) else Inl Assertion_failed)"
  using assms
  by (auto simp: execution_body_def execution_journal_def Context_default_execution rassert_def)

lemma execution_body_InrE:
  assumes "execution_body L inp = Inr out"
  obtains env config s where
    "into_env L (xi_input inp) = Some env"
    "read_config L env (xi_config_contract inp) (xi_proposal_id inp) = Inr config"
    "total_supply_power (Context_default (address_to_string L) env) (assets config) = Inr s"
    "execution_strategy config = ''MajorityVoting''" "MajorityVoting_proof_execution env s (xi_tally inp)"
    "out = abi_encode_execution L (execution_journal env inp)"
  using assms
  by (auto simp: execution_body_def execution_journal_def Context_default_execution outcome_iff Let_def
      split: if_splits)

section \<open>A concrete run\<close>

definition ex_execution_input :: "unit execution_input" where
  "ex_execution_input =
     \<lparr>xi_input = (), xi_dao = 77, xi_proposal_id = 0, xi_tally = (300, 200, 1), xi_config_contract = 48\<rparr>"

definition ex_execution_stdin :: "u32 list" where
  "ex_execution_stdin = put_input ex_codec () @ put_address ex_codec 77 @ put_u256 ex_codec 0 @
     put_tally ex_codec (300, 200, 1) @ put_address ex_codec 48"

lemma read_execution_input_written:
  assumes "codec_ok c"
  shows "read_execution_input c (put_input c (xi_input inp) @ put_address c (xi_dao inp) @
     put_u256 c (xi_proposal_id inp) @ put_tally c (xi_tally inp) @
     put_address c (xi_config_contract inp) @ rest) = Inr inp"
  using assms by (simp add: read_execution_input_def codec_ok_def env_read_codec)

lemma ex_execution_read: "read_execution_input ex_codec ex_execution_stdin = Inr ex_execution_input"
  using read_execution_input_written [OF ex_codec_ok, of ex_execution_input "[]"]
  by (simp add: ex_execution_stdin_def ex_execution_input_def)

lemma ex_supply: "list_all (\<lambda>a. supply_of ex_env a \<noteq> None) (assets ex_config)" "exact_supply ex_env (assets ex_config) = 1000"
  by (simp_all add: supply_of_def exact_supply_def ex_defs)

section \<open>Properties\<close>

text \<open>
  C11: Functional correctness of the execution guest. On a readable input for a proposal configured
  with \<^verbatim>\<open>MajorityVoting\<close>, with assets whose supplies are readable and add up within a
  \<^verbatim>\<open>uint256\<close>, and with a tally that does not overflow, the guest commits the journal of the tally
  exactly when more than half of the exact supply has voted and yes outnumbers no; otherwise it panics.
\<close>

theorem execution_guest_functional:
  assumes "read_execution_input c stdin = Inr inp" and "into_env L (xi_input inp) = Some env"
    and "read_config L env (xi_config_contract inp) (xi_proposal_id inp) = Inr config"
    and "execution_strategy config = ''MajorityVoting''"
    and "list_all (\<lambda>a. supply_of env a \<noteq> None) (assets config)"
    and "exact_supply env (assets config) < 2 ^ 256"
    and "xi_tally inp = (y, n, a)" and "unat y + unat n + unat a < 2 ^ 256"
  shows "execution_protocol_main L c stdin =
     (if exact_supply env (assets config) < 2 * (unat y + unat n + unat a) \<and> unat n < unat y
      then Inr (abi_encode_execution L
              \<lparr>ej_commitment = env_commitment env, ej_config_contract = xi_config_contract inp,
               ej_proposal_id = xi_proposal_id inp, ej_tally = [y, n, a]\<rparr>)
      else Inl Assertion_failed)"
proof -
  obtain s where s: "total_supply_power (Context_default (address_to_string L) env) (assets config) = Inr s"
      and us: "unat s = exact_supply env (assets config)"
    using total_supply_power_exact [OF assms(5,6)] by blast
  show ?thesis
    using assms us
    by (simp add: execution_protocol_main_def execution_body_outcome [OF assms(2,3) s assms(4)]
        MajorityVoting_exact execution_journal_def tally_to_vec_def)
qed

theorem execution_guest_functional_witness:
  "execution_protocol_main ex_libs ex_codec ex_execution_stdin =
     Inr (concat (map to_be_bytes [300, 200, 1 :: u256]))"
proof -
  have env: "into_env ex_libs (xi_input ex_execution_input) = Some ex_env" by (simp add: ex_libs_def)
  have cfg: "read_config ex_libs ex_env (xi_config_contract ex_execution_input) (xi_proposal_id ex_execution_input) =
      Inr ex_config"
    using ex_read_config by (simp add: ex_execution_input_def)
  show ?thesis
    using execution_guest_functional [OF ex_execution_read env cfg, of 300 200 1] ex_supply
    by (simp add: ex_execution_input_def ex_libs_def ex_config_def)
qed

text \<open>
  Soundness of the execution guest, with no assumption on its input: whatever it commits is the
  journal of the tally it read, for a proposal whose configuration names \<^verbatim>\<open>MajorityVoting\<close>, and
  that strategy accepts the tally against the supply it computed.
\<close>

lemma execution_guest_sound:
  assumes "execution_protocol_main L c stdin = Inr out"
  shows "\<exists>inp env config s.
     read_execution_input c stdin = Inr inp \<and> into_env L (xi_input inp) = Some env \<and>
     read_config L env (xi_config_contract inp) (xi_proposal_id inp) = Inr config \<and>
     execution_strategy config = ''MajorityVoting'' \<and>
     total_supply_power (Context_default (address_to_string L) env) (assets config) = Inr s \<and>
     MajorityVoting_proof_execution env s (xi_tally inp) \<and>
     out = abi_encode_execution L
              \<lparr>ej_commitment = env_commitment env, ej_config_contract = xi_config_contract inp,
               ej_proposal_id = xi_proposal_id inp, ej_tally = tally_to_vec (xi_tally inp)\<rparr>"
proof -
  from assms obtain inp where inp: "read_execution_input c stdin = Inr inp" and body: "execution_body L inp = Inr out"
    by (auto simp: execution_protocol_main_def outcome_iff)
  from body show ?thesis
    by (rule execution_body_InrE) (use inp in \<open>auto simp: execution_journal_def\<close>)
qed

lemma execution_guest_sound_witness:
  "\<exists>inp env config s.
     read_execution_input ex_codec ex_execution_stdin = Inr inp \<and> into_env ex_libs (xi_input inp) = Some env \<and>
     read_config ex_libs env (xi_config_contract inp) (xi_proposal_id inp) = Inr config \<and>
     execution_strategy config = ''MajorityVoting'' \<and>
     total_supply_power (Context_default (address_to_string ex_libs) env) (assets config) = Inr s \<and>
     MajorityVoting_proof_execution env s (xi_tally inp) \<and>
     concat (map to_be_bytes [300, 200, 1 :: u256]) = abi_encode_execution ex_libs
              \<lparr>ej_commitment = env_commitment env, ej_config_contract = xi_config_contract inp,
               ej_proposal_id = xi_proposal_id inp, ej_tally = tally_to_vec (xi_tally inp)\<rparr>"
proof (rule execution_guest_sound)
  have env: "into_env ex_libs (xi_input ex_execution_input) = Some ex_env" by (simp add: ex_libs_def)
  have cfg: "read_config ex_libs ex_env (xi_config_contract ex_execution_input) (xi_proposal_id ex_execution_input) =
      Inr ex_config"
    using ex_read_config by (simp add: ex_execution_input_def)
  have sup: "total_supply_power (Context_default (address_to_string ex_libs) ex_env) (assets ex_config) = Inr 1000"
    by (simp add: total_supply_power_def Context_default_supply BalanceOf_get_supply_def ex_defs)
  show "execution_protocol_main ex_libs ex_codec ex_execution_stdin =
      Inr (concat (map to_be_bytes [300, 200, 1 :: u256]))"
    using execution_body_outcome [OF env cfg sup]
    by (simp add: execution_protocol_main_def ex_execution_read ex_config_def ex_execution_input_def
        MajorityVoting_proof_execution_def execution_journal_def tally_to_vec_def ex_libs_def)
qed

end
