(* ===== verification/Host_Env.thy ===== *)
theory Host_Env
  imports Strategies
begin

text \<open>
  The host's view of the chain, as the \<^verbatim>\<open>apps\<close> crate uses it. The host runs the same view calls as
  the guest, but against a live node and through \<^verbatim>\<open>Contract::preflight\<close>, which records the state
  each call touches so that \<^verbatim>\<open>into_input\<close> can hand it to the guest. The mutable host environment is
  a record with the log of preflighted calls, threaded through the operations. \<open>agrees g h\<close> states what
  Steel promises of the guest environment \<open>g\<close> made from \<open>h\<close>: the same block, and the same answer to
  every call that was preflighted; about any other call it promises nothing.
\<close>

section \<open>Host environments\<close>

text \<open>The view calls of the Solidity interfaces declared with \<^verbatim>\<open>sol!\<close>, with the called contract first.\<close>

datatype view_call =
    balanceOfCall address address
  | getTotalSupplyCall address
  | getPastVotesCall address address u256
  | getPastTotalSupplyCall address u256
  | getDelegationCall address string address
  | votingProtocolConfigCall address u256

text \<open>
  \<open>henv_parent_number\<close> is \<^verbatim>\<open>header().parent_num_hash().number\<close>.
\<close>

record HostEvmEnv =
  henv_chain :: chain_state
  henv_header_number :: u64
  henv_parent_number :: u64
  henv_commitment :: Commitment
  henv_preflighted :: "view_call list"

type_synonym 'a host = "HostEvmEnv \<Rightarrow> ('a \<times> HostEvmEnv) exec"

definition hret :: "'a \<Rightarrow> 'a host" where
  "hret x = (\<lambda>h. Inr (x, h))"

definition hbind :: "'a host \<Rightarrow> ('a \<Rightarrow> 'b host) \<Rightarrow> 'b host" where
  "hbind m f = (\<lambda>h. rbind (m h) (\<lambda>(x, h'). f x h'))"

text \<open>A computation that does not touch the environment.\<close>

definition hlift :: "'a exec \<Rightarrow> 'a host" where
  "hlift e = (\<lambda>h. rbind e (\<lambda>x. Inr (x, h)))"

fun hmapM :: "('a \<Rightarrow> 'b host) \<Rightarrow> 'a list \<Rightarrow> 'b list host" where
  "hmapM f [] = hret []"
| "hmapM f (x # xs) = hbind (f x) (\<lambda>y. hbind (hmapM f xs) (\<lambda>ys. hret (y # ys)))"

fun hfoldM :: "('b \<Rightarrow> 'a \<Rightarrow> 'b host) \<Rightarrow> 'b \<Rightarrow> 'a list \<Rightarrow> 'b host" where
  "hfoldM f acc [] = hret acc"
| "hfoldM f acc (x # xs) = hbind (f acc x) (\<lambda>acc'. hfoldM f acc' xs)"

lemma hbind_assoc: "hbind (hbind m f) k = hbind m (\<lambda>x. hbind (f x) k)"
  by (rule ext) (simp add: hbind_def rbind_assoc split_def)

text \<open>One preflighted call: the node's answer, and the call in the log.\<close>

definition preflight :: "view_call \<Rightarrow> (chain_state \<Rightarrow> 'a option) \<Rightarrow> 'a option host" where
  "preflight call get = (\<lambda>h. Inr (get (henv_chain h), h\<lparr>henv_preflighted := henv_preflighted h @ [call]\<rparr>))"

definition call_balanceOf :: "address \<times> address \<Rightarrow> u256 option host" where
  "call_balanceOf = (\<lambda>(c, a). preflight (balanceOfCall c a) (\<lambda>ch. balanceOf (erc20_at ch c) a))"

definition call_getTotalSupply :: "address \<Rightarrow> u256 option host" where
  "call_getTotalSupply c = preflight (getTotalSupplyCall c) (\<lambda>ch. getTotalSupply (erc20_at ch c))"

definition call_getPastVotes :: "address \<times> address \<times> u256 \<Rightarrow> u256 option host" where
  "call_getPastVotes = (\<lambda>(c, a, n). preflight (getPastVotesCall c a n) (\<lambda>ch. getPastVotes (erc20votes_at ch c) a n))"

definition call_getPastTotalSupply :: "address \<times> u256 \<Rightarrow> u256 option host" where
  "call_getPastTotalSupply =
     (\<lambda>(c, n). preflight (getPastTotalSupplyCall c n) (\<lambda>ch. getPastTotalSupply (erc20votes_at ch c) n))"

definition call_getDelegation ::
    "address \<times> string \<times> address \<Rightarrow> (RegistryDelegation list \<times> u256) option host" where
  "call_getDelegation =
     (\<lambda>(c, s, a). preflight (getDelegationCall c s a) (\<lambda>ch. getDelegation (registry_at ch c) s a))"

definition call_votingProtocolConfig :: "address \<times> u256 \<Rightarrow> string option host" where
  "call_votingProtocolConfig =
     (\<lambda>(c, i). preflight (votingProtocolConfigCall c i) (\<lambda>ch. votingProtocolConfig (config_at ch c) i))"

section \<open>What the guest may rely on\<close>

fun same_answer :: "chain_state \<Rightarrow> chain_state \<Rightarrow> view_call \<Rightarrow> bool" where
  "same_answer g h (balanceOfCall c a) \<longleftrightarrow> balanceOf (erc20_at g c) a = balanceOf (erc20_at h c) a"
| "same_answer g h (getTotalSupplyCall c) \<longleftrightarrow> getTotalSupply (erc20_at g c) = getTotalSupply (erc20_at h c)"
| "same_answer g h (getPastVotesCall c a n) \<longleftrightarrow>
     getPastVotes (erc20votes_at g c) a n = getPastVotes (erc20votes_at h c) a n"
| "same_answer g h (getPastTotalSupplyCall c n) \<longleftrightarrow>
     getPastTotalSupply (erc20votes_at g c) n = getPastTotalSupply (erc20votes_at h c) n"
| "same_answer g h (getDelegationCall c s a) \<longleftrightarrow>
     getDelegation (registry_at g c) s a = getDelegation (registry_at h c) s a"
| "same_answer g h (votingProtocolConfigCall c i) \<longleftrightarrow>
     votingProtocolConfig (config_at g c) i = votingProtocolConfig (config_at h c) i"

definition agrees :: "GuestEvmEnv \<Rightarrow> HostEvmEnv \<Rightarrow> bool" where
  "agrees g h \<longleftrightarrow>
     env_header_number g = henv_header_number h \<and> env_commitment g = henv_commitment h \<and>
     list_all (same_answer (env_chain g) (henv_chain h)) (henv_preflighted h)"

text \<open>The operations only ever add calls to the log.\<close>

definition extends :: "HostEvmEnv \<Rightarrow> HostEvmEnv \<Rightarrow> bool" where
  "extends h h' \<longleftrightarrow> (\<exists>cs. h' = h\<lparr>henv_preflighted := henv_preflighted h @ cs\<rparr>)"

lemma extends_refl [simp]: "extends h h"
  by (auto simp: extends_def intro: exI [of _ "[]"])

lemma extends_trans: "extends h h' \<Longrightarrow> extends h' h'' \<Longrightarrow> extends h h''"
  by (auto simp: extends_def)

lemma agrees_extends: "extends h h' \<Longrightarrow> agrees g h' \<Longrightarrow> agrees g h"
  by (auto simp: extends_def agrees_def)

lemma extends_chain: "extends h h' \<Longrightarrow> henv_chain h' = henv_chain h"
  by (auto simp: extends_def)

lemma extends_commitment: "extends h h' \<Longrightarrow> henv_commitment h' = henv_commitment h"
  by (auto simp: extends_def)

section \<open>Simulation of host computations by guest computations\<close>

text \<open>
  \<open>simulates m p\<close>: whenever the host computation \<open>m\<close> returns a value, the guest computation \<open>p\<close>
  returns the same value in every guest environment that agrees with the host's at the end.
\<close>

named_theorems simulation \<open>host computations and the guest computations they prepare\<close>

definition simulates :: "'a host \<Rightarrow> (GuestEvmEnv \<Rightarrow> 'a exec) \<Rightarrow> bool" where
  "simulates m p \<longleftrightarrow>
     (\<forall>h x h'. m h = Inr (x, h') \<longrightarrow> extends h h' \<and> (\<forall>g. agrees g h' \<longrightarrow> p g = Inr x))"

lemma simulatesI:
  "(\<And>h x h'. m h = Inr (x, h') \<Longrightarrow> extends h h' \<and> (\<forall>g. agrees g h' \<longrightarrow> p g = Inr x)) \<Longrightarrow> simulates m p"
  by (simp add: simulates_def)

lemma simulatesD:
  "simulates m p \<Longrightarrow> m h = Inr (x, h') \<Longrightarrow> agrees g h' \<Longrightarrow> p g = Inr x"
  "simulates m p \<Longrightarrow> m h = Inr (x, h') \<Longrightarrow> extends h h'"
  by (simp_all add: simulates_def)

lemma simulates_weaken:
  "simulates m p \<Longrightarrow> (\<And>g x. p g = Inr x \<Longrightarrow> q g = Inr x) \<Longrightarrow> simulates m q"
  unfolding simulates_def by blast

lemma simulates_hret [simulation]: "simulates (hret x) (\<lambda>g. Inr x)"
  by (auto intro!: simulatesI simp: hret_def)

lemma simulates_hlift [simulation]: "simulates (hlift e) (\<lambda>g. e)"
  by (auto intro!: simulatesI simp: hlift_def outcome_iff)

lemma simulates_panic: "(\<And>h. \<exists>e. m h = Inl e) \<Longrightarrow> simulates m p"
  by (rule simulatesI) (metis Inl_Inr_False)

lemma simulates_hbind [simulation]:
  assumes m: "simulates m p" and f: "\<And>x. simulates (f x) (q x)"
  shows "simulates (hbind m f) (\<lambda>g. rbind (p g) (\<lambda>x. q x g))"
proof (rule simulatesI)
  fix h y h2
  assume "hbind m f h = Inr (y, h2)"
  then obtain x h1 where 1: "m h = Inr (x, h1)" and 2: "f x h1 = Inr (y, h2)"
    by (auto simp: hbind_def outcome_iff)
  from simulatesD(2) [OF m 1] simulatesD(2) [OF f 2] have "extends h h2" and "extends h1 h2"
    by (auto intro: extends_trans)
  then show "extends h h2 \<and> (\<forall>g. agrees g h2 \<longrightarrow> rbind (p g) (\<lambda>x. q x g) = Inr y)"
    using simulatesD(1) [OF m 1] simulatesD(1) [OF f 2] by (auto dest: agrees_extends)
qed

lemma simulates_hmapM [simulation]:
  "(\<And>x. x \<in> set xs \<Longrightarrow> simulates (f x) (p x)) \<Longrightarrow> simulates (hmapM f xs) (\<lambda>g. mapM (\<lambda>x. p x g) xs)"
  by (induction xs) (auto intro!: simulation)

lemma hmapM_InrD:
  assumes "hmapM f xs h = Inr (ys, h')" and sim: "\<And>x. simulates (f x) (p x)" and "x \<in> set xs"
  shows "\<exists>h1 y h2. extends h h1 \<and> f x h1 = Inr (y, h2)"
  using assms(1,3)
proof (induction xs arbitrary: h ys h')
  case (Cons z xs)
  from Cons.prems(1) obtain y h1 ys' where 1: "f z h = Inr (y, h1)" and 2: "hmapM f xs h1 = Inr (ys', h')"
    by (auto simp: hbind_def hret_def outcome_iff)
  show ?case
  proof (cases "x = z")
    case True
    with 1 show ?thesis using extends_refl by blast
  next
    case False
    with Cons.prems(2) Cons.IH [OF 2] simulatesD(2) [OF sim 1] show ?thesis
      by (auto intro: extends_trans)
  qed
qed simp

lemma simulates_hfoldM [simulation]:
  "(\<And>a x. x \<in> set xs \<Longrightarrow> simulates (f a x) (p a x)) \<Longrightarrow>
   simulates (hfoldM f a xs) (\<lambda>g. foldM (\<lambda>a x. p a x g) a xs)"
  by (induction xs arbitrary: a) (auto intro!: simulation)

text \<open>Some computations prepare nothing for the guest, but all of them only add to the log.\<close>

definition only_logs :: "'a host \<Rightarrow> bool" where
  "only_logs m \<longleftrightarrow> (\<forall>h x h'. m h = Inr (x, h') \<longrightarrow> extends h h')"

lemma only_logsD: "only_logs m \<Longrightarrow> m h = Inr (x, h') \<Longrightarrow> extends h h'"
  by (simp add: only_logs_def)

lemma simulates_only_logs: "simulates m p \<Longrightarrow> only_logs m"
  by (simp add: simulates_def only_logs_def)

lemmas only_logs_hret = simulates_only_logs [OF simulates_hret]
  and only_logs_hlift = simulates_only_logs [OF simulates_hlift]

lemma only_logs_hbind: "only_logs m \<Longrightarrow> (\<And>x. only_logs (f x)) \<Longrightarrow> only_logs (hbind m f)"
  by (auto simp: only_logs_def hbind_def outcome_iff) (blast intro: extends_trans)

lemma only_logs_hfoldM: "(\<And>a x. only_logs (f a x)) \<Longrightarrow> only_logs (hfoldM f a xs)"
  by (induction xs arbitrary: a) (auto intro: only_logs_hret only_logs_hbind)

section \<open>The interface of a view function\<close>

text \<open>
  A view function as both halves use it: the host asks it through a preflight, and the guest's
  environment answers what the host was told.
\<close>

locale view_function =
  fixes ask :: "'q \<Rightarrow> 'a option host" and answer :: "chain_state \<Rightarrow> 'q \<Rightarrow> 'a option"
  assumes ask_returns: "ask q h = Inr (x, h') \<Longrightarrow> x = answer (henv_chain h) q \<and> extends h h'"
    and guest_answers: "ask q h = Inr (x, h') \<Longrightarrow> agrees g h' \<Longrightarrow> answer (env_chain g) q = x"
begin

lemma simulates_ask: "simulates (ask q) (\<lambda>g. Inr (answer (env_chain g) q))"
  by (rule simulatesI) (auto simp: ask_returns guest_answers)

lemma simulates_unwrap:
  "simulates (hbind (ask q) (\<lambda>r. hlift (unwrap r))) (\<lambda>g. call_or_panic (answer (env_chain g) q))"
  by (rule simulates_weaken [OF simulates_hbind [OF simulates_ask simulates_hlift]]) simp

end

interpretation vf_balanceOf: view_function call_balanceOf "\<lambda>ch (c, a). balanceOf (erc20_at ch c) a"
  by unfold_locales (auto simp: call_balanceOf_def preflight_def extends_def agrees_def split: prod.splits)

interpretation vf_getTotalSupply: view_function call_getTotalSupply "\<lambda>ch c. getTotalSupply (erc20_at ch c)"
  by unfold_locales (auto simp: call_getTotalSupply_def preflight_def extends_def agrees_def)

interpretation vf_getPastVotes:
  view_function call_getPastVotes "\<lambda>ch (c, a, n). getPastVotes (erc20votes_at ch c) a n"
  by unfold_locales (auto simp: call_getPastVotes_def preflight_def extends_def agrees_def split: prod.splits)

interpretation vf_getPastTotalSupply:
  view_function call_getPastTotalSupply "\<lambda>ch (c, n). getPastTotalSupply (erc20votes_at ch c) n"
  by unfold_locales (auto simp: call_getPastTotalSupply_def preflight_def extends_def agrees_def split: prod.splits)

interpretation vf_getDelegation:
  view_function call_getDelegation "\<lambda>ch (c, s, a). getDelegation (registry_at ch c) s a"
  by unfold_locales (auto simp: call_getDelegation_def preflight_def extends_def agrees_def split: prod.splits)

interpretation vf_votingProtocolConfig:
  view_function call_votingProtocolConfig "\<lambda>ch (c, i). votingProtocolConfig (config_at ch c) i"
  by unfold_locales (auto simp: call_votingProtocolConfig_def preflight_def extends_def agrees_def split: prod.splits)

end
