(* ===== verification/Host_Strategies.thy ===== *)
theory Host_Strategies
  imports Host_Env
begin

text \<open>
  The strategies of the \<^verbatim>\<open>apps\<close> crate (\<^verbatim>\<open>apps/src/lib.rs\<close> and the modules below it), which
  the publishers run before proving: the host's \<^verbatim>\<open>BalanceOf\<close>, \<^verbatim>\<open>GetPastVotes\<close>,
  \<^verbatim>\<open>SplitDelegation\<close> and \<^verbatim>\<open>MajorityVoting\<close>, and the \<^verbatim>\<open>HostContext\<close> that dispatches to
  them. They repeat the guest's strategies over a host environment; the second half of the theory says
  where the two agree and where they do not.
\<close>

section \<open>Configuration\<close>

text \<open>The crate declares the types of the configuration again, field by field as in the strategies.\<close>

type_synonym HostDelegationObject = DelegationObject
type_synonym HostAsset = Asset
type_synonym HostRiscVotingProtocolConfig = RiscVotingProtocolConfig
type_synonym HostDelegation = Delegation

section \<open>Voting power strategies\<close>

record HostVotingPowerStrategy =
  hvp_process :: "address \<Rightarrow> HostAsset \<Rightarrow> u256 host"
  hvp_get_supply :: "HostAsset \<Rightarrow> u256 host"

definition host_BalanceOf_process :: "address \<Rightarrow> HostAsset \<Rightarrow> u256 host" where
  "host_BalanceOf_process account asset =
     hbind (call_balanceOf (asset_contract asset, account)) (\<lambda>balance. hlift (unwrap balance))"

definition host_BalanceOf_get_supply :: "HostAsset \<Rightarrow> u256 host" where
  "host_BalanceOf_get_supply asset =
     hbind (call_getTotalSupply (asset_contract asset)) (\<lambda>total_supply. hlift (unwrap total_supply))"

definition host_BalanceOf :: HostVotingPowerStrategy where
  "host_BalanceOf = \<lparr>hvp_process = host_BalanceOf_process, hvp_get_supply = host_BalanceOf_get_supply\<rparr>"

text \<open>The block number is read from the environment before the call.\<close>

definition host_GetPastVotes_process :: "address \<Rightarrow> HostAsset \<Rightarrow> u256 host" where
  "host_GetPastVotes_process account asset = (\<lambda>h.
     let block_number = henv_parent_number h
     in hbind (call_getPastVotes (asset_contract asset, account, ucast block_number))
          (\<lambda>past_votes. hlift (unwrap past_votes)) h)"

definition host_GetPastVotes_get_supply :: "HostAsset \<Rightarrow> u256 host" where
  "host_GetPastVotes_get_supply asset = (\<lambda>h.
     let block_number = henv_parent_number h
     in hbind (call_getPastTotalSupply (asset_contract asset, ucast block_number))
          (\<lambda>total_supply. hlift (unwrap total_supply)) h)"

definition host_GetPastVotes :: HostVotingPowerStrategy where
  "host_GetPastVotes = \<lparr>hvp_process = host_GetPastVotes_process, hvp_get_supply = host_GetPastVotes_get_supply\<rparr>"

section \<open>Delegation strategy\<close>

text \<open>The trait, and the host's \<^verbatim>\<open>from_iter\<close>, which differs from the guest's in its message.\<close>

type_synonym HostDelegationStrategy = "address \<Rightarrow> HostAsset \<Rightarrow> u8 list \<Rightarrow> HostDelegation list Result host"

definition host_Delegation_from_iter :: "(address \<times> u256) list \<Rightarrow> HostDelegation exec" where
  "host_Delegation_from_iter iter =
     (case iter of
        (d, r) # _ \<Rightarrow> Inr \<lparr>delegate = d, ratio = r\<rparr>
      | [] \<Rightarrow> Inl (Explicit_panic ''Iterator is empty, cannot create Delegation''))"

text \<open>The host's own \<^verbatim>\<open>compare_bytes32_to_address\<close>.\<close>

definition host_compare_bytes32_to_address :: "bytes32 \<Rightarrow> address \<Rightarrow> bool" where
  "host_compare_bytes32_to_address b a =
     (let bytes = to_be_bytes b; last_20_bytes = drop 12 bytes in last_20_bytes = to_be_bytes a)"

lemma host_compare_eq [simp]: "host_compare_bytes32_to_address = compare_bytes32_to_address"
  by (intro ext) (simp add: host_compare_bytes32_to_address_def compare_bytes32_to_address_def)

text \<open>
  The debug output formats the first entry of the answer, so an empty answer panics there.
\<close>

definition process_delegate :: "address \<Rightarrow> string \<Rightarrow> address \<Rightarrow> address \<Rightarrow> HostDelegation option host" where
  "process_delegate contract context potential_delegate account =
     hbind (call_getDelegation (contract, context, potential_delegate)) (\<lambda>answer.
     hbind (hlift (unwrap answer)) (\<lambda>(delegations, expirationTimestamp).
     hbind (hlift (index delegations 0)) (\<lambda>printed.
       if delegations = [] then hret (Some \<lparr>delegate = potential_delegate, ratio = 1\<rparr>)
       else
         let total_ratios = foldl (\<lambda>acc d. acc + reg_ratio d) 0 delegations
         in case find (\<lambda>d. host_compare_bytes32_to_address (reg_delegate d) account) delegations of
              None \<Rightarrow> hret None
            | Some d \<Rightarrow>
                hlift (rbind (u256_div total_ratios (reg_ratio d))
                  (\<lambda>r. Inr (Some \<lparr>delegate = potential_delegate, ratio = r\<rparr>))))))"

definition host_SplitDelegation_process ::
    "(address \<Rightarrow> string) \<Rightarrow> address \<Rightarrow> Asset \<Rightarrow> u8 list \<Rightarrow> Delegation list Result host" where
  "host_SplitDelegation_process to_str account asset additional_data =
     (if length additional_data mod 20 \<noteq> 0
      then hret (Inl ''Input byte vector is not a valid length for Address conversion'')
      else
        hbind (hlift (mapM Address_from_slice (chunks_exact 20 additional_data))) (\<lambda>delegations.
        hbind (hmapM (\<lambda>potential_delegate.
                 process_delegate (delegation_contract (delegation asset)) (to_str (asset_contract asset))
                   potential_delegate account) delegations) (\<lambda>account_delegates.
          if list_ex Option.is_none account_delegates
          then hret (Inl ''One or more delegations are invalid'')
          else hret (Inr (map the account_delegates)))))"

section \<open>Execution strategy\<close>

type_synonym HostExecutionStrategy = "u256 \<Rightarrow> tally \<Rightarrow> bool host"

definition host_MajorityVoting_proof_execution :: "u256 \<Rightarrow> tally \<Rightarrow> bool host" where
  "host_MajorityVoting_proof_execution total_supply tally =
     (case tally of (yes_votes, no_votes, abstain_votes) \<Rightarrow>
        let total_votes = yes_votes + no_votes + abstain_votes
        in if total_votes \<le> total_supply div 2 then hret False
           else
             let non_abstain_votes = yes_votes + no_votes;
                 threshold = non_abstain_votes div 2
             in hret (yes_votes > threshold))"

section \<open>Context\<close>

text \<open>
  The environment that a \<^verbatim>\<open>HostContext\<close> borrows mutably is the state of the \<open>host\<close> computations.
\<close>

record HostContext =
  host_voting_power_strategies :: "string \<rightharpoonup> HostVotingPowerStrategy"
  host_delegation_strategies :: "string \<rightharpoonup> HostDelegationStrategy"
  host_execution_strategies :: "string \<rightharpoonup> HostExecutionStrategy"

definition HostContext_default :: "(address \<Rightarrow> string) \<Rightarrow> HostContext" where
  "HostContext_default to_str =
     \<lparr>host_voting_power_strategies = [''BalanceOf'' \<mapsto> host_BalanceOf, ''GetPastVotes'' \<mapsto> host_GetPastVotes],
      host_delegation_strategies = [''SplitDelegation'' \<mapsto> host_SplitDelegation_process to_str],
      host_execution_strategies = [''MajorityVoting'' \<mapsto> host_MajorityVoting_proof_execution]\<rparr>"

definition host_process_voting_power_strategy :: "HostContext \<Rightarrow> string \<Rightarrow> address \<Rightarrow> HostAsset \<Rightarrow> u256 host" where
  "host_process_voting_power_strategy ctx name account asset =
     (case host_voting_power_strategies ctx name of
        Some strategy \<Rightarrow> hvp_process strategy account asset
      | None \<Rightarrow> hlift (Inl (Strategy_not_found name)))"

definition host_process_delegation_strategy ::
    "HostContext \<Rightarrow> address \<Rightarrow> Asset \<Rightarrow> u8 list \<Rightarrow> Delegation list Result host" where
  "host_process_delegation_strategy ctx account asset additional_data =
     (case host_delegation_strategies ctx (delegation_strategy (delegation asset)) of
        Some strategy \<Rightarrow> strategy account asset additional_data
      | None \<Rightarrow> hlift (Inl (Strategy_not_found (delegation_strategy (delegation asset)))))"

definition host_process_total_supply :: "HostContext \<Rightarrow> HostAsset \<Rightarrow> u256 Result host" where
  "host_process_total_supply ctx asset =
     (case host_voting_power_strategies ctx (voting_power_strategy asset) of
        Some strategy \<Rightarrow> hbind (hvp_get_supply strategy asset) (\<lambda>s. hret (Inr s))
      | None \<Rightarrow> hret (Inl (''Strategy not found: '' @ voting_power_strategy asset)))"

definition host_process_execution_strategy :: "HostContext \<Rightarrow> string \<Rightarrow> u256 \<Rightarrow> tally \<Rightarrow> bool Result host" where
  "host_process_execution_strategy ctx name total_supply tally =
     (case host_execution_strategies ctx name of
        Some strategy \<Rightarrow> hbind (strategy total_supply tally) (\<lambda>b. hret (Inr b))
      | None \<Rightarrow> hret (Inl (''Strategy not found: '' @ name)))"

section \<open>Simulation by the guest's strategies\<close>

lemma simulates_host_BalanceOf_process:
  "simulates (host_BalanceOf_process account asset) (\<lambda>g. BalanceOf_process g account asset)"
  unfolding host_BalanceOf_process_def BalanceOf_process_def Let_def
  using vf_balanceOf.simulates_unwrap [of "(asset_contract asset, account)"] by simp

lemma simulates_host_BalanceOf_get_supply:
  "simulates (host_BalanceOf_get_supply asset) (\<lambda>g. BalanceOf_get_supply g asset)"
  unfolding host_BalanceOf_get_supply_def BalanceOf_get_supply_def Let_def
  by (rule vf_getTotalSupply.simulates_unwrap)

lemma simulates_process_delegate:
  "simulates (process_delegate (delegation_contract (delegation asset)) (to_str (asset_contract asset)) pd account)
     (\<lambda>g. split_delegation_of to_str g account asset pd)"
proof -
  let ?q = "(delegation_contract (delegation asset), to_str (asset_contract asset), pd)"
  let ?rest = "\<lambda>(delegations, expirationTimestamp :: u256).
      if delegations = [] then Inr (Some \<lparr>delegate = pd, ratio = 1\<rparr>)
      else case find (\<lambda>d. compare_bytes32_to_address (reg_delegate d) account) delegations of
             None \<Rightarrow> Inr None
           | Some d \<Rightarrow> rbind (u256_div (foldl (\<lambda>acc d. acc + reg_ratio d) 0 delegations) (reg_ratio d))
               (\<lambda>r. Inr (Some \<lparr>delegate = pd, ratio = r\<rparr>))"
  have "simulates (case a of (delegations, expirationTimestamp) \<Rightarrow>
       hbind (hlift (index delegations 0)) (\<lambda>printed.
       if delegations = [] then hret (Some \<lparr>delegate = pd, ratio = 1\<rparr>)
       else
         let total_ratios = foldl (\<lambda>acc d. acc + reg_ratio d) 0 delegations
         in case find (\<lambda>d. compare_bytes32_to_address (reg_delegate d) account) delegations of
              None \<Rightarrow> hret None
            | Some d \<Rightarrow> hlift (rbind (u256_div total_ratios (reg_ratio d))
                  (\<lambda>r. Inr (Some \<lparr>delegate = pd, ratio = r\<rparr>))))) (\<lambda>g. ?rest a)" for a
    by (rule simulatesI)
      (auto simp: hbind_def hlift_def hret_def outcome_iff Let_def split: prod.splits option.splits if_splits)
  from simulates_hbind [OF vf_getDelegation.simulates_unwrap [of ?q] this]
  show ?thesis
    unfolding process_delegate_def hbind_assoc host_compare_eq
    by (rule simulates_weaken) (unfold split_delegation_of_def Let_def, simp)
qed

lemma process_delegate_empty:
  "getDelegation (registry_at (henv_chain h) c) ctxt pd = Some ([], e) \<Longrightarrow>
   process_delegate c ctxt pd account h = Inl Out_of_range"
  by (simp add: process_delegate_def hbind_def hlift_def call_getDelegation_def preflight_def index_def)

lemma simulates_host_SplitDelegation:
  "simulates (host_SplitDelegation_process to_str account asset bs)
     (\<lambda>g. SplitDelegation_process to_str g account asset bs)"
  unfolding host_SplitDelegation_process_def SplitDelegation_process_def
  by (auto intro!: simulation simulates_process_delegate)

lemma ucast_u64_u256_inject: "(ucast (a :: u64) :: u256) = ucast b \<longleftrightarrow> a = b"
proof
  assume "(ucast a :: u256) = ucast b"
  then have eq: "bit (ucast a :: u256) n = bit (ucast b :: u256) n" for n by simp
  have "n < 256 \<Longrightarrow> bit a n = bit b n" for n using eq [of n] by (simp add: bit_simps)
  then show "a = b" by (intro bit_word_eqI) simp
qed simp

lemma host_MajorityVoting_eq:
  "host_MajorityVoting_proof_execution s tally = hret (MajorityVoting_proof_execution env s tally)"
  by (auto simp: host_MajorityVoting_proof_execution_def MajorityVoting_proof_execution_def Let_def
      split: prod.split)

lemma HostContext_default_voting:
  "host_process_voting_power_strategy (HostContext_default to_str) name account asset =
     (if name = ''BalanceOf'' then host_BalanceOf_process account asset
      else if name = ''GetPastVotes'' then host_GetPastVotes_process account asset
      else hlift (Inl (Strategy_not_found name)))"
  by (simp add: host_process_voting_power_strategy_def HostContext_default_def host_BalanceOf_def
      host_GetPastVotes_def)

lemma HostContext_default_supply:
  "host_process_total_supply (HostContext_default to_str) asset =
     (if voting_power_strategy asset = ''BalanceOf''
      then hbind (host_BalanceOf_get_supply asset) (\<lambda>s. hret (Inr s))
      else if voting_power_strategy asset = ''GetPastVotes''
      then hbind (host_GetPastVotes_get_supply asset) (\<lambda>s. hret (Inr s))
      else hret (Inl (''Strategy not found: '' @ voting_power_strategy asset)))"
  by (simp add: host_process_total_supply_def HostContext_default_def host_BalanceOf_def host_GetPastVotes_def)

lemma HostContext_default_delegation:
  "host_process_delegation_strategy (HostContext_default to_str) account asset bs =
     (if delegation_strategy (delegation asset) = ''SplitDelegation''
      then host_SplitDelegation_process to_str account asset bs
      else hlift (Inl (Strategy_not_found (delegation_strategy (delegation asset)))))"
  by (simp add: host_process_delegation_strategy_def HostContext_default_def)

lemma HostContext_default_execution:
  "host_process_execution_strategy (HostContext_default to_str) name s tally =
     (if name = ''MajorityVoting'' then hret (Inr (MajorityVoting_proof_execution env s tally))
      else hret (Inl (''Strategy not found: '' @ name)))"
  by (simp add: host_process_execution_strategy_def HostContext_default_def
      host_MajorityVoting_eq [of _ _ env] hbind_def hret_def)

text \<open>The three operations that decide a vote, for an asset that does not use \<^verbatim>\<open>GetPastVotes\<close>.\<close>

lemma simulates_host_voting_power:
  assumes "name \<noteq> ''GetPastVotes''"
  shows "simulates (host_process_voting_power_strategy (HostContext_default to_str) name account asset)
     (\<lambda>g. process_voting_strategy (Context_default to_str g) name account asset)"
  using assms
  by (auto simp: HostContext_default_voting Context_default_voting simulates_host_BalanceOf_process
      intro: simulates_hlift)

lemma only_logs_host_voting_power:
  "only_logs (host_process_voting_power_strategy (HostContext_default to_str) name account asset)"
proof (cases "name = ''GetPastVotes''")
  case True
  have "only_logs (host_GetPastVotes_process account asset)"
    by (auto simp: only_logs_def host_GetPastVotes_process_def Let_def hbind_def hlift_def outcome_iff
        dest: vf_getPastVotes.ask_returns)
  with True show ?thesis by (simp add: HostContext_default_voting)
next
  case False
  then show ?thesis by (rule simulates_only_logs [OF simulates_host_voting_power])
qed

lemma simulates_host_delegation:
  "simulates (host_process_delegation_strategy (HostContext_default to_str) account asset bs)
     (\<lambda>g. process_delegation_strategy (Context_default to_str g) account asset bs)"
proof (cases "delegation_strategy (delegation asset) = ''SplitDelegation''")
  case True
  then show ?thesis
    by (simp add: HostContext_default_delegation Context_default_delegation simulates_host_SplitDelegation)
next
  case False
  then show ?thesis
    by (intro simulates_panic) (simp add: HostContext_default_delegation hlift_def)
qed

text \<open>The host's supply is a \<^verbatim>\<open>Result\<close>, the guest's a value.\<close>

lemma simulates_host_supply:
  assumes "voting_power_strategy asset \<noteq> ''GetPastVotes''"
    and "host_process_total_supply (HostContext_default to_str) asset h = Inr (Inr s, h')"
  shows "extends h h' \<and> (\<forall>g. agrees g h' \<longrightarrow> process_total_supply (Context_default to_str g) asset = Inr s)"
  using assms simulatesD [OF simulates_host_BalanceOf_get_supply]
  by (auto simp: HostContext_default_supply Context_default_supply hbind_def hret_def outcome_iff split: if_splits)

section \<open>Properties\<close>

text \<open>
  The host's delegation check prepares the guest's. When the host's
  \<^verbatim>\<open>process_delegation_strategy\<close> returns (a list of delegations or an error), the guest's returns
  exactly the same in every guest environment that answers the preflighted calls as the node did; the
  host leaves its environment unchanged except for the calls it has preflighted.
\<close>

lemma host_delegation_prepares_guest:
  assumes "host_process_delegation_strategy (HostContext_default to_str) account asset bs h = Inr (r, h')"
    and "agrees g h'"
  shows "process_delegation_strategy (Context_default to_str g) account asset bs = Inr r \<and> extends h h'"
  using simulatesD [OF simulates_host_delegation assms(1)] assms(2) by simp

definition ex_host_env :: HostEvmEnv where
  "ex_host_env = \<lparr>henv_chain = ex_chain, henv_header_number = 100, henv_parent_number = 99,
     henv_commitment = env_commitment ex_env, henv_preflighted = []\<rparr>"

lemma ex_agrees [simp]: "agrees ex_env (ex_host_env\<lparr>henv_preflighted := cs\<rparr>)"
proof -
  have "same_answer ch ch call" for ch call by (cases call) simp_all
  then show ?thesis by (simp add: agrees_def ex_host_env_def ex_env_def list_all_iff)
qed

lemma ex_host_SplitDelegation:
  "host_process_delegation_strategy (HostContext_default (\<lambda>a. '''')) 1 ex_asset (to_be_bytes (2 :: address)) ex_host_env =
     Inr (Inr [\<lparr>delegate = 2, ratio = 2\<rparr>], ex_host_env\<lparr>henv_preflighted := [getDelegationCall 32 '''' 2]\<rparr>)"
proof -
  have chunks: "mapM Address_from_slice (chunks_exact 20 (to_be_bytes (2 :: address))) = Inr [2]"
    using chunks_exact_concat_addresses [of "[2]"] by simp
  show ?thesis
    by (simp add: HostContext_default_delegation host_SplitDelegation_process_def chunks ex_asset_def
        hbind_def hlift_def hret_def process_delegate_def call_getDelegation_def preflight_def
        compare_bytes32_to_address_ucast ex_host_env_def ex_chain_def ex_delegations_def index_def
        unwrap_def u256_div_def)
qed

lemma host_delegation_prepares_guest_witness:
  "process_delegation_strategy (Context_default (\<lambda>a. '''') ex_env) 1 ex_asset (to_be_bytes (2 :: address)) =
     Inr (Inr [\<lparr>delegate = 2, ratio = 2\<rparr>])"
  using host_delegation_prepares_guest [OF ex_host_SplitDelegation, of ex_env] by simp

text \<open>
  The host cannot use an account without delegations. If the registry knows no delegation of an
  account in the list, the host's \<^verbatim>\<open>process_delegation_strategy\<close> always panics, although the guest
  accepts that account with divisor one; so a publisher cannot prepare such a vote, a voter's own
  undelegated balance included.
\<close>

lemma host_rejects_unregistered:
  assumes strat: "delegation_strategy (delegation asset) = ''SplitDelegation''"
    and mem: "pd \<in> set as"
    and none: "getDelegation (registry_at (henv_chain h) (delegation_contract (delegation asset)))
                 (to_str (asset_contract asset)) pd = Some ([], e)"
  shows "(\<exists>p. host_process_delegation_strategy (HostContext_default to_str) account asset
                (concat (map to_be_bytes as)) h = Inl p) \<and>
     split_delegation_of to_str \<lparr>env_chain = henv_chain h, env_header_number = n, env_commitment = c\<rparr>
       account asset pd = Inr (Some \<lparr>delegate = pd, ratio = 1\<rparr>)"
proof
  let ?f = "\<lambda>pd. process_delegate (delegation_contract (delegation asset)) (to_str (asset_contract asset)) pd account"
  have "\<exists>p. hmapM ?f as h = Inl p"
  proof (rule ccontr)
    assume "\<nexists>p. hmapM ?f as h = Inl p"
    then obtain ys h' where "hmapM ?f as h = Inr (ys, h')" by (cases "hmapM ?f as h") auto
    then obtain h1 y h2 where "extends h h1" and "?f pd h1 = Inr (y, h2)"
      using hmapM_InrD [where f = ?f and p = "\<lambda>pd g. split_delegation_of to_str g account asset pd"]
        simulates_process_delegate mem by blast
    with none show False by (simp add: process_delegate_empty extends_chain)
  qed
  then show "\<exists>p. host_process_delegation_strategy (HostContext_default to_str) account asset
       (concat (map to_be_bytes as)) h = Inl p"
    using strat
    by (auto simp: HostContext_default_delegation host_SplitDelegation_process_def
        chunks_exact_concat_addresses length_concat_addresses hbind_def hlift_def)
  show "split_delegation_of to_str \<lparr>env_chain = henv_chain h, env_header_number = n, env_commitment = c\<rparr>
      account asset pd = Inr (Some \<lparr>delegate = pd, ratio = 1\<rparr>)"
    using none by (intro split_delegation_of_empty [of _ _ _ _ e]) (simp add: registry_answer_def)
qed

lemma host_rejects_unregistered_witness:
  "(\<exists>p. host_process_delegation_strategy (HostContext_default (\<lambda>a. '''')) 4 ex_asset
           (concat (map to_be_bytes [4 :: address])) ex_host_env = Inl p) \<and>
   split_delegation_of (\<lambda>a. '''') \<lparr>env_chain = henv_chain ex_host_env, env_header_number = 100, env_commitment = env_commitment ex_env\<rparr>
     4 ex_asset 4 = Inr (Some \<lparr>delegate = 4, ratio = 1\<rparr>)"
  by (rule host_rejects_unregistered [where e = 0])
    (simp_all add: ex_host_env_def ex_chain_def ex_asset_def ex_delegations_def)

text \<open>
  With \<^verbatim>\<open>GetPastVotes\<close> the host preflights another call than the one the guest makes: the
  host asks for the votes at the parent block, the guest at the block itself. After a successful host
  run there is a guest environment that agrees with every preflighted call and in which the guest's
  \<^verbatim>\<open>GetPastVotes\<close> panics.
\<close>

lemma get_past_votes_not_prepared:
  assumes "host_GetPastVotes_process account asset h = Inr (p, h')"
    and "henv_parent_number h \<noteq> henv_header_number h"
    and "henv_preflighted h = []"
  shows "henv_preflighted h' = [getPastVotesCall (asset_contract asset) account (ucast (henv_parent_number h))] \<and>
     (\<exists>g. agrees g h' \<and> GetPastVotes_process g account asset = Inl Contract_call_failed)"
proof -
  let ?g = "\<lparr>env_chain = (henv_chain h)\<lparr>erc20votes_at := \<lambda>c. (erc20votes_at (henv_chain h) c)\<lparr>getPastVotes :=
        \<lambda>a n. if n = ucast (henv_header_number h) then None else getPastVotes (erc20votes_at (henv_chain h) c) a n\<rparr>\<rparr>,
      env_header_number = henv_header_number h, env_commitment = henv_commitment h\<rparr>"
  have h': "h' = h\<lparr>henv_preflighted := [getPastVotesCall (asset_contract asset) account (ucast (henv_parent_number h))]\<rparr>"
    using assms(1,3)
    by (auto simp: host_GetPastVotes_process_def Let_def hbind_def hlift_def call_getPastVotes_def preflight_def
        outcome_iff)
  have "(ucast (henv_parent_number h) :: u256) \<noteq> ucast (henv_header_number h)"
    using assms(2) by (simp add: ucast_u64_u256_inject)
  then have "agrees ?g h'" by (simp add: h' agrees_def)
  moreover have "GetPastVotes_process ?g account asset = Inl Contract_call_failed"
    by (simp add: GetPastVotes_process_def)
  ultimately show ?thesis using h' by auto
qed

lemma get_past_votes_not_prepared_witness:
  "host_GetPastVotes_process 2 ex_asset ex_host_env =
     Inr (300, ex_host_env\<lparr>henv_preflighted := [getPastVotesCall 16 2 99]\<rparr>) \<and>
   (\<exists>g. agrees g (ex_host_env\<lparr>henv_preflighted := [getPastVotesCall 16 2 99]\<rparr>) \<and>
        GetPastVotes_process g 2 ex_asset = Inl Contract_call_failed)"
proof -
  have run: "host_GetPastVotes_process 2 ex_asset ex_host_env =
      Inr (300, ex_host_env\<lparr>henv_preflighted := [getPastVotesCall 16 2 99]\<rparr>)"
    by (simp add: host_GetPastVotes_process_def hbind_def hlift_def call_getPastVotes_def preflight_def
        ex_host_env_def ex_asset_def ex_chain_def ex_balance_def)
  show ?thesis
    using get_past_votes_not_prepared [OF run] run by (simp add: ex_host_env_def)
qed

section \<open>Unit tests\<close>

text \<open>
  The tests of the two voting power strategies ask a live node for one account of one token. The variables of the
  process, the parser of URLs and the builder of the environment are arguments.
\<close>

definition test_env ::
    "(string \<rightharpoonup> string) \<Rightarrow> (string \<Rightarrow> unit option) \<Rightarrow> (string \<Rightarrow> HostEvmEnv Result) \<Rightarrow> HostEvmEnv exec" where
  "test_env vars Url_from_str build =
     rbind (unwrap (vars ''RPC_URL'')) (\<lambda>rpc_url.
     rbind (unwrap (Url_from_str rpc_url)) (\<lambda>_. unwrap_result (build rpc_url)))"

definition test_asset :: "string \<Rightarrow> HostAsset" where
  "test_asset strategy =
     \<lparr>asset_contract = 0x185Bb1cca668C474214e934028A3e4BB7A5E6525, chain_id = 11155111, voting_power_strategy = strategy,
      delegation = \<lparr>delegation_contract = 0x185Bb1cca668C474214e934028A3e4BB7A5E6525,
        delegation_strategy = ''SplitDelegation''\<rparr>\<rparr>"

definition host_BalanceOf_test_process ::
    "(string \<rightharpoonup> string) \<Rightarrow> (string \<Rightarrow> unit option) \<Rightarrow> (string \<Rightarrow> HostEvmEnv Result) \<Rightarrow> unit exec" where
  "host_BalanceOf_test_process vars Url_from_str build =
     rbind (test_env vars Url_from_str build) (\<lambda>env.
     let account = 0x8bF1e340055c7dE62F11229A149d3A1918de3d74; asset = test_asset ''BalanceOf'' in
     rbind (hvp_process host_BalanceOf account asset env) (\<lambda>(balance, _). rassert (balance = 900000000000000000)))"

definition host_GetPastVotes_test_process ::
    "(string \<rightharpoonup> string) \<Rightarrow> (string \<Rightarrow> unit option) \<Rightarrow> (string \<Rightarrow> HostEvmEnv Result) \<Rightarrow> unit exec" where
  "host_GetPastVotes_test_process vars Url_from_str build =
     rbind (test_env vars Url_from_str build) (\<lambda>env.
     let account = 0x8bF1e340055c7dE62F11229A149d3A1918de3d74; asset = test_asset ''GetPastVotes'' in
     rbind (hvp_process host_GetPastVotes account asset env) (\<lambda>(past_votes, _). rassert (past_votes = 900000000000000000)))"

text \<open>
  What the tests pin down of the node: the balance of the account, and its past votes at the parent of the block,
  which is not the block that the guest asks for.
\<close>

lemma host_tests_pass:
  assumes "test_env vars Url_from_str build = Inr env"
  shows "host_BalanceOf_test_process vars Url_from_str build = Inr () \<longleftrightarrow>
      balanceOf (erc20_at (henv_chain env) 0x185Bb1cca668C474214e934028A3e4BB7A5E6525)
        0x8bF1e340055c7dE62F11229A149d3A1918de3d74 = Some 900000000000000000"
    and "host_GetPastVotes_test_process vars Url_from_str build = Inr () \<longleftrightarrow>
      getPastVotes (erc20votes_at (henv_chain env) 0x185Bb1cca668C474214e934028A3e4BB7A5E6525)
        0x8bF1e340055c7dE62F11229A149d3A1918de3d74 (ucast (henv_parent_number env)) = Some 900000000000000000"
  using assms
  by (auto simp: host_BalanceOf_test_process_def host_GetPastVotes_test_process_def host_BalanceOf_def host_GetPastVotes_def
      host_BalanceOf_process_def host_GetPastVotes_process_def call_balanceOf_def call_getPastVotes_def preflight_def
      hbind_def hlift_def test_asset_def Let_def outcome_iff)

end
