(* ===== verification/Seal.thy ===== *)
theory Seal
  imports Prelude
begin

text \<open>
  The seal that goes on chain with a journal: \<^verbatim>\<open>encode_seal\<close> of \<^verbatim>\<open>lib/risc0/lib.rs\<close> and
  \<^verbatim>\<open>encode\<close> of \<^verbatim>\<open>lib/risc0/groth16.rs\<close>, which put a four-byte verifier selector before the
  seal. The digests of the zkVM's own structures are parameters.
\<close>

section \<open>Encoding\<close>

record Groth16Receipt =
  groth16_seal :: "u8 list"
  verifier_parameters :: bytes32

text \<open>The receipt kinds that the code tells apart; \<open>Other_receipt\<close> stands for the remaining ones.\<close>

datatype 'c InnerReceipt = Fake 'c | Groth16 Groth16Receipt | Other_receipt

record 'c Receipt =
  inner :: "'c InnerReceipt"
  journal_bytes :: "u8 list"

definition encode_seal :: "('c \<Rightarrow> bytes32) \<Rightarrow> 'c Receipt \<Rightarrow> u8 list Result" where
  "encode_seal digest receipt =
     (case inner receipt of
        Fake claim \<Rightarrow>
          (let seal = to_be_bytes (digest claim); selector = [0, 0, 0, 0] in Inr (selector @ seal))
      | Groth16 r \<Rightarrow>
          (let selector = take 4 (to_be_bytes (verifier_parameters r)) in Inr (selector @ groth16_seal r))
      | Other_receipt \<Rightarrow> Inl ''Unsupported receipt type'')"

definition groth16_encode :: "bytes32 \<Rightarrow> u8 list \<Rightarrow> u8 list Result" where
  "groth16_encode verifier_parameters_digest seal =
     (let selector = take 4 (to_be_bytes verifier_parameters_digest) in Inr (selector @ seal))"

definition groth16_abi_encode :: "bytes32 \<Rightarrow> (u8 list \<Rightarrow> u8 list) \<Rightarrow> u8 list \<Rightarrow> u8 list Result" where
  "groth16_abi_encode verifier_parameters_digest abi_encode seal =
     rbind (groth16_encode verifier_parameters_digest seal) (\<lambda>bs. Inr (abi_encode bs))"

section \<open>Properties\<close>

text \<open>
  A seal can be taken apart again: \<^verbatim>\<open>encode_seal\<close> fails exactly on receipts that are neither
  fake nor Groth16; otherwise its first four bytes are the selector (zero for a fake receipt, the start
  of the verifier parameters for a Groth16 receipt) and the rest is the seal itself; and for a Groth16
  receipt with the current parameters it is what \<^verbatim>\<open>groth16::encode\<close> computes.
\<close>

lemma encode_seal_splits:
  "(encode_seal digest r = Inl ''Unsupported receipt type'' \<longleftrightarrow> inner r = Other_receipt) \<and>
   (\<exists>s. encode_seal digest \<lparr>inner = Fake claim, journal_bytes = j\<rparr> = Inr s \<and>
        take 4 s = [0, 0, 0, 0] \<and> from_be_bytes (drop 4 s) = digest claim) \<and>
   (\<exists>s. encode_seal digest \<lparr>inner = Groth16 g, journal_bytes = j\<rparr> = Inr s \<and>
        groth16_encode (verifier_parameters g) (groth16_seal g) = Inr s \<and>
        take 4 s = take 4 (to_be_bytes (verifier_parameters g)) \<and> drop 4 s = groth16_seal g)"
  by (auto simp: encode_seal_def groth16_encode_def Let_def from_to_be_bytes split: InnerReceipt.splits)

end
