(* ===== verification/Publisher.thy ===== *)
theory Publisher
  imports Execution_Guest Host_Strategies Seal
begin

text \<open>
  The two command line programs of the \<^verbatim>\<open>apps\<close> crate: \<^verbatim>\<open>publisher.rs\<close> publishes a vote and
  \<^verbatim>\<open>execution_publisher.rs\<close> executes a proposal. Each runs the strategies against a node, writes the
  guest's input, has the guest proved and sends the journal with the seal to the plugin. The node, the
  prover, the ABI decoder and the wallet are the parameters in \<open>host_libs\<close>; a run gives the
  transactions it submits and its result.
\<close>

section \<open>Parameters\<close>

datatype guest_elf = VOTING_PROTOCOL_ELF | EXECUTION_PROTOCOL_ELF

datatype plugin_function = Vote | Execute

record 'k transaction =
  tx_key :: 'k
  tx_rpc_url :: string
  tx_to :: address
  tx_function :: plugin_function
  tx_journal :: "u8 list"
  tx_seal :: "u8 list"

text \<open>
  \<open>build_env\<close> is \<^verbatim>\<open>EthEvmEnv::builder().rpc(..).block_number(..).build()\<close>; \<open>spawn_prove\<close> the
  closure that writes the input, builds the executor environment and calls the prover, with the failure
  of the blocking task as its outer error.
\<close>

record ('sig, 'pk, 'i, 'c, 'k) host_libs = "('sig, 'pk, 'i) guest_libs" +
  Url_from_str :: "string \<Rightarrow> unit option"
  build_env :: "string \<Rightarrow> u64 \<Rightarrow> HostEvmEnv Result"
  call_error :: string
  into_input :: "HostEvmEnv \<Rightarrow> 'i Result"
  spawn_prove :: "guest_elf \<Rightarrow> u32 list \<Rightarrow> 'c Receipt Result Result"
  VotingJournal_abi_decode :: "u8 list \<Rightarrow> VotingJournal Result"
  claim_digest :: "'c \<Rightarrow> bytes32"
  send_transaction :: "'k transaction \<Rightarrow> bytes32 Result"
  get_receipt :: "bytes32 \<Rightarrow> bool Result"
  hash_to_string :: "bytes32 \<Rightarrow> string"

section \<open>The vote publisher\<close>

record 'k publisher_args =
  pa_chain_id :: u64
  pa_eth_wallet_private_key :: 'k
  pa_rpc_url :: string
  pa_block_number :: "u64 option"
  pa_voter_signature :: string
  pa_voter :: address
  pa_dao_address :: address
  pa_proposal_id :: u256
  pa_direction :: u8
  pa_balance :: u256
  pa_config_contract :: address
  pa_token :: address
  pa_additional_delegation_data :: string
  pa_testing :: u8

text \<open>The environment at the requested block; the URL is parsed twice.\<close>

definition open_env :: "('sig, 'pk, 'i, 'c, 'k) host_libs \<Rightarrow> string \<Rightarrow> u64 option \<Rightarrow> HostEvmEnv Result exec" where
  "open_env L rpc_url block_number =
     rbind (unwrap (Url_from_str L rpc_url)) (\<lambda>_.
     rbind (unwrap (Url_from_str L rpc_url)) (\<lambda>_.
     rbind (unwrap block_number) (\<lambda>n. Inr (build_env L rpc_url n))))"

text \<open>The configuration of the proposal, through a preflight.\<close>

definition host_read_config ::
    "('sig, 'pk, 'i, 'c, 'k) host_libs \<Rightarrow> address \<Rightarrow> u256 \<Rightarrow> HostEvmEnv \<Rightarrow>
     (RiscVotingProtocolConfig \<times> HostEvmEnv) Result exec" where
  "host_read_config L config_contract proposal_id h =
     rbind (call_votingProtocolConfig (config_contract, proposal_id) h) (\<lambda>(config_returns, h').
       case config_returns of
         None \<Rightarrow> Inr (Inl (call_error L))
       | Some s \<Rightarrow> rbind (unwrap (config_from_str L s)) (\<lambda>config. Inr (Inr (config, h'))))"

text \<open>The loop over the assets and, inside it, the loop over the delegations.\<close>

definition host_asset_voting_power ::
    "('sig, 'pk, 'i, 'c, 'k) host_libs \<Rightarrow> HostContext \<Rightarrow> address \<Rightarrow> string \<Rightarrow> Asset \<Rightarrow> u256 host" where
  "host_asset_voting_power L ctx voter additional_delegation_data asset =
     hbind (hlift (unwrap (Bytes_from_str L additional_delegation_data))) (\<lambda>bytes.
     hbind (host_process_delegation_strategy ctx voter asset bytes) (\<lambda>delegations_result.
       case delegations_result of
         Inl _ \<Rightarrow> hlift (Inl Assertion_failed)
       | Inr delegations \<Rightarrow>
           hfoldM (\<lambda>asset_voting_power d.
               hbind (host_process_voting_power_strategy ctx (voting_power_strategy asset) (delegate d) asset)
                 (\<lambda>p. hlift (rbind (u256_div p (ratio d)) (\<lambda>q. Inr (asset_voting_power + q)))))
             0 delegations))"

definition host_total_voting_power ::
    "('sig, 'pk, 'i, 'c, 'k) host_libs \<Rightarrow> HostContext \<Rightarrow> address \<Rightarrow> string \<Rightarrow> Asset list \<Rightarrow> u256 host" where
  "host_total_voting_power L ctx voter additional_delegation_data as =
     hfoldM (\<lambda>tot asset. hbind (host_asset_voting_power L ctx voter additional_delegation_data asset)
                           (\<lambda>p. hret (tot + p))) 0 as"

text \<open>Everything up to the test of the \<^verbatim>\<open>testing\<close> flag: the environment with the preflighted calls.\<close>

definition publisher_checks ::
    "('sig, 'pk, 'i, 'c, 'k) host_libs \<Rightarrow> 'k publisher_args \<Rightarrow> HostEvmEnv \<Rightarrow> HostEvmEnv Result exec" where
  "publisher_checks L args h =
     try_bind (host_read_config L (pa_config_contract args) (pa_proposal_id args) h) (\<lambda>(config, h1).
     rbind (host_total_voting_power L (HostContext_default (address_to_string L)) (pa_voter args)
              (pa_additional_delegation_data args) (assets config) h1) (\<lambda>(tot, h2).
     rbind (rassert (tot = pa_balance args)) (\<lambda>_. Inr (Inr h2))))"

definition publisher_stdin :: "'i stdin_codec \<Rightarrow> 'k publisher_args \<Rightarrow> 'i \<Rightarrow> u32 list" where
  "publisher_stdin c args view_call_input =
     put_input c view_call_input @ put_string c (pa_voter_signature args) @ put_address c (pa_voter args) @
     put_address c (pa_dao_address args) @ put_u256 c (pa_proposal_id args) @ put_u8 c (pa_direction args) @
     put_u256 c (pa_balance args) @ put_address c (pa_config_contract args) @
     put_string c (pa_additional_delegation_data args)"

text \<open>
  Proving and packing, the same statements in both programs: the guest is proved, the journal decoded
  for the log, the seal encoded, and the call to the plugin built.
\<close>

definition prove_call ::
    "('sig, 'pk, 'i, 'c, 'k) host_libs \<Rightarrow> guest_elf \<Rightarrow> u32 list \<Rightarrow> 'k \<Rightarrow> string \<Rightarrow> address \<Rightarrow> plugin_function \<Rightarrow>
     'k transaction Result" where
  "prove_call L elf stdin key rpc_url to_contract fn =
     rbind (spawn_prove L elf stdin) (\<lambda>proved.
     rbind (with_context ''failed to create proof'' proved) (\<lambda>receipt.
     rbind (with_context ''invalid journal'' (VotingJournal_abi_decode L (journal_bytes receipt))) (\<lambda>journal.
     rbind (with_context ''invalid receipt'' (encode_seal (claim_digest L) receipt)) (\<lambda>seal.
       Inr \<lparr>tx_key = key, tx_rpc_url = rpc_url, tx_to = to_contract, tx_function = fn,
            tx_journal = journal_bytes receipt, tx_seal = seal\<rparr>))))"

definition confirm_transaction :: "('sig, 'pk, 'i, 'c, 'k) host_libs \<Rightarrow> 'k transaction \<Rightarrow> unit Result" where
  "confirm_transaction L tx =
     rbind (send_transaction L tx) (\<lambda>tx_hash.
     rbind (with_context (''transaction did not confirm: '' @ hash_to_string L tx_hash) (get_receipt L tx_hash))
       (\<lambda>status. if status then Inr () else Inl (''transaction failed: '' @ hash_to_string L tx_hash)))"

text \<open>The transaction a run submits, if it gets that far; none in testing mode.\<close>

definition publisher_transaction ::
    "('sig, 'pk, 'i, 'c, 'k) host_libs \<Rightarrow> 'i stdin_codec \<Rightarrow> 'k publisher_args \<Rightarrow> 'k transaction option Result exec" where
  "publisher_transaction L c args =
     try_bind (open_env L (pa_rpc_url args) (pa_block_number args)) (\<lambda>h.
     try_bind (publisher_checks L args h) (\<lambda>h'.
       if pa_testing args = 1 then Inr (Inr None)
       else
         try_bind (Inr (into_input L h')) (\<lambda>view_call_input.
         try_bind (Inr (prove_call L VOTING_PROTOCOL_ELF (publisher_stdin c args view_call_input)
                         (pa_eth_wallet_private_key args) (pa_rpc_url args) (pa_config_contract args) Vote))
           (\<lambda>tx. Inr (Inr (Some tx))))))"

definition submit ::
    "('sig, 'pk, 'i, 'c, 'k) host_libs \<Rightarrow> 'k transaction option Result exec \<Rightarrow>
     'k transaction list \<times> unit Result exec" where
  "submit L prepared =
     (case prepared of
        Inl p \<Rightarrow> ([], Inl p)
      | Inr (Inl e) \<Rightarrow> ([], Inr (Inl e))
      | Inr (Inr None) \<Rightarrow> ([], Inr (Inr ()))
      | Inr (Inr (Some tx)) \<Rightarrow> ([tx], Inr (confirm_transaction L tx)))"

definition publisher_main ::
    "('sig, 'pk, 'i, 'c, 'k) host_libs \<Rightarrow> 'i stdin_codec \<Rightarrow> 'k publisher_args \<Rightarrow>
     'k transaction list \<times> unit Result exec" where
  "publisher_main L c args = submit L (publisher_transaction L c args)"

section \<open>The execution publisher\<close>

record 'k execution_args =
  xa_chain_id :: u64
  xa_eth_wallet_private_key :: 'k
  xa_rpc_url :: string
  xa_block_number :: "u64 option"
  xa_dao_address :: address
  xa_proposal_id :: u256
  xa_config_contract :: address
  xa_tally :: "u256 list"
  xa_testing :: u8

definition tally_try_into :: "u256 list \<Rightarrow> tally option" where
  "tally_try_into ts = (case ts of [y, n, a] \<Rightarrow> Some (y, n, a) | _ \<Rightarrow> None)"

fun host_total_supply :: "HostContext \<Rightarrow> u256 \<Rightarrow> Asset list \<Rightarrow> HostEvmEnv \<Rightarrow> (u256 \<times> HostEvmEnv) Result exec" where
  "host_total_supply ctx tot [] h = Inr (Inr (tot, h))"
| "host_total_supply ctx tot (asset # as) h =
     rbind (host_process_total_supply ctx asset h) (\<lambda>(r, h').
       case r of
         Inl e \<Rightarrow> Inr (Inl e)
       | Inr voting_power \<Rightarrow> host_total_supply ctx (tot + voting_power) as h')"

definition execution_checks ::
    "('sig, 'pk, 'i, 'c, 'k) host_libs \<Rightarrow> 'k execution_args \<Rightarrow> tally \<Rightarrow> HostEvmEnv \<Rightarrow> HostEvmEnv Result exec" where
  "execution_checks L args tally h =
     try_bind (host_read_config L (xa_config_contract args) (xa_proposal_id args) h) (\<lambda>(config, h1).
     let ctx = HostContext_default (address_to_string L) in
     try_bind (host_total_supply ctx 0 (assets config) h1) (\<lambda>(total_voting_power, h2).
     rbind (host_process_execution_strategy ctx (execution_strategy config) total_voting_power tally h2)
       (\<lambda>(r, h3).
         case r of
           Inl e \<Rightarrow> Inr (Inl e)
         | Inr accepted \<Rightarrow> rbind (rassert accepted) (\<lambda>_. Inr (Inr h3)))))"

definition execution_publisher_stdin :: "'i stdin_codec \<Rightarrow> 'k execution_args \<Rightarrow> tally \<Rightarrow> 'i \<Rightarrow> u32 list" where
  "execution_publisher_stdin c args tally view_call_input =
     put_input c view_call_input @ put_address c (xa_dao_address args) @ put_u256 c (xa_proposal_id args) @
     put_address c (xa_config_contract args) @ put_tally c tally"

definition execution_transaction ::
    "('sig, 'pk, 'i, 'c, 'k) host_libs \<Rightarrow> 'i stdin_codec \<Rightarrow> 'k execution_args \<Rightarrow> 'k transaction option Result exec" where
  "execution_transaction L c args =
     rbind (expect (tally_try_into (xa_tally args)) ''Expected tally input to be an array of 3'') (\<lambda>tally.
     try_bind (open_env L (xa_rpc_url args) (xa_block_number args)) (\<lambda>h.
     try_bind (execution_checks L args tally h) (\<lambda>h'.
       if xa_testing args = 1 then Inr (Inr None)
       else
         try_bind (Inr (into_input L h')) (\<lambda>view_call_input.
         try_bind (Inr (prove_call L EXECUTION_PROTOCOL_ELF (execution_publisher_stdin c args tally view_call_input)
                         (xa_eth_wallet_private_key args) (xa_rpc_url args) (xa_config_contract args) Execute))
           (\<lambda>tx. Inr (Inr (Some tx)))))))"

definition execution_publisher_main ::
    "('sig, 'pk, 'i, 'c, 'k) host_libs \<Rightarrow> 'i stdin_codec \<Rightarrow> 'k execution_args \<Rightarrow>
     'k transaction list \<times> unit Result exec" where
  "execution_publisher_main L c args = submit L (execution_transaction L c args)"

section \<open>What the other side of the zkVM does\<close>

text \<open>
  The prover runs the guest: a receipt exists only if the guest returned, and then carries the bytes the
  guest committed.
\<close>

definition guest_main ::
    "('sig, 'pk, 'i, 'z) guest_libs_scheme \<Rightarrow> 'i stdin_codec \<Rightarrow> guest_elf \<Rightarrow> u32 list \<Rightarrow> u8 list exec" where
  "guest_main L c elf stdin =
     (case elf of
        VOTING_PROTOCOL_ELF \<Rightarrow> voting_protocol_main (guest_libs.truncate L) c stdin
      | EXECUTION_PROTOCOL_ELF \<Rightarrow> execution_protocol_main (guest_libs.truncate L) c stdin)"

definition proves_guest :: "('sig, 'pk, 'i, 'c, 'k) host_libs \<Rightarrow> 'i stdin_codec \<Rightarrow> bool" where
  "proves_guest L c \<longleftrightarrow>
     (\<forall>elf stdin r. spawn_prove L elf stdin = Inr (Inr r) \<longrightarrow> guest_main L c elf stdin = Inr (journal_bytes r))"

lemma proves_guestD:
  "proves_guest L c \<Longrightarrow> spawn_prove L elf stdin = Inr (Inr r) \<Longrightarrow> guest_main L c elf stdin = Inr (journal_bytes r)"
  by (simp add: proves_guest_def)

text \<open>
  And it proves what the guest returns: with the options of the publishers the receipt is one that can go on chain.
\<close>

definition prover_complete :: "('sig, 'pk, 'i, 'c, 'k) host_libs \<Rightarrow> 'i stdin_codec \<Rightarrow> bool" where
  "prover_complete L c \<longleftrightarrow>
     (\<forall>elf stdin j. guest_main L c elf stdin = Inr j \<longrightarrow>
        (\<exists>r. spawn_prove L elf stdin = Inr (Inr r) \<and> journal_bytes r = j \<and> inner r \<noteq> Other_receipt))"

text \<open>
  What Steel documents of the input it makes of a host environment: the guest's environment is that of the same block,
  with the same commitment, and answers every preflighted call as the node did.
\<close>

definition steel_documented :: "('sig, 'pk, 'i, 'c, 'k) host_libs \<Rightarrow> bool" where
  "steel_documented L \<longleftrightarrow> (\<forall>h i g. into_input L h = Inr i \<longrightarrow> into_env L i = Some g \<longrightarrow> agrees g h)"

lemma encode_seal_returns: "inner r \<noteq> Other_receipt \<Longrightarrow> \<exists>seal. encode_seal digest r = Inr seal"
  by (simp add: encode_seal_def Let_def split: InnerReceipt.split)

lemma prove_call_returns:
  assumes "prover_complete L c" and "guest_main L c elf stdin = Inr j" and "VotingJournal_abi_decode L j = Inr journal"
  obtains tx where "prove_call L elf stdin key rpc_url to_contract fn = Inr tx"
    "tx_key tx = key" "tx_to tx = to_contract" "tx_function tx = fn" "tx_journal tx = j"
proof -
  from assms(1,2) obtain r where r: "spawn_prove L elf stdin = Inr (Inr r)" "journal_bytes r = j" "inner r \<noteq> Other_receipt"
    unfolding prover_complete_def by blast
  then obtain seal where "encode_seal (claim_digest L) r = Inr seal" using encode_seal_returns by blast
  then show thesis
    using r assms(3) that [of "\<lparr>tx_key = key, tx_rpc_url = rpc_url, tx_to = to_contract, tx_function = fn,
      tx_journal = j, tx_seal = seal\<rparr>"] by (simp add: prove_call_def)
qed

lemma prove_call_guest:
  assumes "proves_guest L c" and "prove_call L elf stdin key rpc to_contract fn = Inr tx"
  shows "guest_main L c elf stdin = Inr (tx_journal tx) \<and> tx_to tx = to_contract \<and> tx_function tx = fn \<and>
     (\<exists>r. encode_seal (claim_digest L) r = Inr (tx_seal tx) \<and> journal_bytes r = tx_journal tx)"
  using assms(2) proves_guestD [OF assms(1), of elf stdin] by (auto simp: prove_call_def outcome_iff)

section \<open>The publishers prepare the guests\<close>

abbreviation publisher_input :: "'k publisher_args \<Rightarrow> 'i \<Rightarrow> 'i voting_input" where
  "publisher_input args i \<equiv>
     \<lparr>vi_input = i, vi_signature = pa_voter_signature args, vi_voter = pa_voter args,
      vi_dao = pa_dao_address args, vi_proposal_id = pa_proposal_id args, vi_direction = pa_direction args,
      vi_balance = pa_balance args, vi_config_contract = pa_config_contract args,
      vi_additional_delegation_data = pa_additional_delegation_data args\<rparr>"

lemma publisher_stdin_read:
  "codec_ok c \<Longrightarrow> read_voting_input c (publisher_stdin c args i) = Inr (publisher_input args i)"
  using read_voting_input_written [of c "publisher_input args i" "[]"] by (simp add: publisher_stdin_def)

lemma guest_libs_truncate_simps [simp]:
  "into_env (guest_libs.truncate L) = into_env L" "address_to_string (guest_libs.truncate L) = address_to_string L"
  "config_from_str (guest_libs.truncate L) = config_from_str L"
  "Bytes_from_str (guest_libs.truncate L) = Bytes_from_str L"
  "abi_encode_voting (guest_libs.truncate L) = abi_encode_voting L"
  "abi_encode_execution (guest_libs.truncate L) = abi_encode_execution L"
  by (simp_all add: guest_libs.truncate_def)

lemma simulates_host_asset_voting_power:
  assumes "voting_power_strategy asset \<noteq> ''GetPastVotes''"
  shows "simulates (host_asset_voting_power L (HostContext_default (address_to_string L)) voter data asset)
     (\<lambda>g. asset_voting_power (guest_libs.truncate L) (Context_default (address_to_string L) g) voter data asset)"
proof -
  let ?hctx = "HostContext_default (address_to_string L)" and ?ctx = "Context_default (address_to_string L)"
  have step: "simulates
      (hbind (host_process_voting_power_strategy ?hctx (voting_power_strategy asset) (delegate d) asset)
         (\<lambda>p. hlift (rbind (u256_div p (ratio d)) (\<lambda>q. Inr (acc + q)))))
      (\<lambda>g. rbind (delegation_power (?ctx g) asset d) (\<lambda>q. Inr (acc + q)))" for acc d
    using simulates_hbind [OF simulates_host_voting_power [OF assms] simulates_hlift]
    by (simp add: delegation_power_def rbind_assoc)
  have "simulates
      (case r of Inl _ \<Rightarrow> hlift (Inl Assertion_failed)
       | Inr ds \<Rightarrow> hfoldM (\<lambda>acc d.
           hbind (host_process_voting_power_strategy ?hctx (voting_power_strategy asset) (delegate d) asset)
             (\<lambda>p. hlift (rbind (u256_div p (ratio d)) (\<lambda>q. Inr (acc + q))))) 0 ds)
      (\<lambda>g. case r of Inl _ \<Rightarrow> Inl Assertion_failed
         | Inr ds \<Rightarrow> foldM (\<lambda>acc d. rbind (delegation_power (?ctx g) asset d) (\<lambda>q. Inr (acc + q))) 0 ds)"
    for r :: "Delegation list Result"
    by (cases r) (auto intro: simulates_hlift simulates_hfoldM step)
  from simulates_hbind [OF simulates_hlift simulates_hbind [OF simulates_host_delegation this]]
  show ?thesis
    unfolding host_asset_voting_power_def asset_voting_power_def
    by (simp add: add.commute cong: sum.case_cong)
qed

lemma simulates_host_total_voting_power:
  assumes "list_all (\<lambda>a. voting_power_strategy a \<noteq> ''GetPastVotes'') as"
  shows "simulates (host_total_voting_power L (HostContext_default (address_to_string L)) voter data as)
     (\<lambda>g. total_voting_power (guest_libs.truncate L) (Context_default (address_to_string L) g) voter data as)"
proof -
  have "simulates (host_total_voting_power L (HostContext_default (address_to_string L)) voter data as)
     (\<lambda>g. foldM (\<lambda>tot a. rbind (asset_voting_power (guest_libs.truncate L)
         (Context_default (address_to_string L) g) voter data a) (\<lambda>p. Inr (tot + p))) 0 as)"
    unfolding host_total_voting_power_def using assms
    by (intro simulates_hfoldM simulates_hbind simulates_hret simulates_host_asset_voting_power)
      (auto simp: list_all_iff)
  then show ?thesis by (simp add: foldM_plus_mapM' total_voting_power_def)
qed

lemma only_logs_host_total_voting_power:
  "only_logs (host_total_voting_power L (HostContext_default (address_to_string L)) voter data as)"
proof -
  have "only_logs (case r of Inl _ \<Rightarrow> hlift (Inl Assertion_failed)
      | Inr ds \<Rightarrow> hfoldM (\<lambda>acc d.
          hbind (host_process_voting_power_strategy (HostContext_default (address_to_string L))
              (voting_power_strategy asset) (delegate d) asset)
            (\<lambda>p. hlift (rbind (u256_div p (ratio d)) (\<lambda>q. Inr (acc + q))))) 0 ds)"
    for r :: "Delegation list Result" and asset
    by (cases r) (auto intro: only_logs_hlift only_logs_hfoldM only_logs_hbind only_logs_host_voting_power)
  then show ?thesis
    unfolding host_total_voting_power_def host_asset_voting_power_def
    by (intro only_logs_hfoldM only_logs_hbind only_logs_hlift only_logs_hret
        simulates_only_logs [OF simulates_host_delegation])
qed

lemma host_read_config_Inr:
  assumes "host_read_config L cc pid h = Inr (Inr (config, h'))"
  shows "extends h h'" and "agrees g h' \<Longrightarrow> read_config (guest_libs.truncate L) g cc pid = Inr config"
proof -
  from assms obtain s where ask: "call_votingProtocolConfig (cc, pid) h = Inr (Some s, h')"
      and config: "config_from_str L s = Some config"
    by (auto simp: host_read_config_def outcome_iff split: option.splits)
  show "extends h h'" using vf_votingProtocolConfig.ask_returns [OF ask] by simp
  show "agrees g h' \<Longrightarrow> read_config (guest_libs.truncate L) g cc pid = Inr config"
    using vf_votingProtocolConfig.guest_answers [OF ask, of g] config by (simp add: read_config_def)
qed

text \<open>What the checks of the vote publisher establish for the guest.\<close>

lemma publisher_checks_extends:
  assumes "publisher_checks L args h = Inr (Inr h')"
  shows "extends h h'"
proof -
  from assms obtain config h1 tot where
      "host_read_config L (pa_config_contract args) (pa_proposal_id args) h = Inr (Inr (config, h1))"
      "host_total_voting_power L (HostContext_default (address_to_string L)) (pa_voter args)
         (pa_additional_delegation_data args) (assets config) h1 = Inr (tot, h')"
    by (auto simp: publisher_checks_def outcome_iff)
  then show ?thesis
    by (blast intro: extends_trans host_read_config_Inr(1) only_logsD [OF only_logs_host_total_voting_power])
qed

lemma publisher_checks_guest:
  assumes config: "host_read_config L (pa_config_contract args) (pa_proposal_id args) h = Inr (Inr (config, h1))"
    and past: "list_all (\<lambda>a. voting_power_strategy a \<noteq> ''GetPastVotes'') (assets config)"
    and run: "publisher_checks L args h = Inr (Inr h')" and g: "agrees g h'"
  shows "read_config (guest_libs.truncate L) g (pa_config_contract args) (pa_proposal_id args) = Inr config"
    and "total_voting_power (guest_libs.truncate L) (Context_default (address_to_string L) g) (pa_voter args)
       (pa_additional_delegation_data args) (assets config) = Inr (pa_balance args)"
proof -
  from config run have tot: "host_total_voting_power L (HostContext_default (address_to_string L)) (pa_voter args)
      (pa_additional_delegation_data args) (assets config) h1 = Inr (pa_balance args, h')"
    by (auto simp: publisher_checks_def outcome_iff)
  note sim = simulates_host_total_voting_power [OF past]
  from simulatesD(2) [OF sim tot] g have "agrees g h1" by (rule agrees_extends)
  with config show "read_config (guest_libs.truncate L) g (pa_config_contract args) (pa_proposal_id args) = Inr config"
    by (rule host_read_config_Inr)
  show "total_voting_power (guest_libs.truncate L) (Context_default (address_to_string L) g) (pa_voter args)
      (pa_additional_delegation_data args) (assets config) = Inr (pa_balance args)"
    using simulatesD(1) [OF sim tot g] .
qed

text \<open>The same for the execution publisher.\<close>

lemma host_total_supply_guest:
  assumes "host_total_supply (HostContext_default to_str) tot as h = Inr (Inr (s, h'))"
    and "list_all (\<lambda>a. voting_power_strategy a \<noteq> ''GetPastVotes'') as"
  shows "extends h h' \<and> (\<forall>g. agrees g h' \<longrightarrow>
     (\<exists>ss. mapM (process_total_supply (Context_default to_str g)) as = Inr ss \<and> s = tot + sum_list ss))"
  using assms
proof (induction as arbitrary: tot h)
  case (Cons a as)
  from Cons.prems(1) obtain p h1 where
      1: "host_process_total_supply (HostContext_default to_str) a h = Inr (Inr p, h1)" and
      2: "host_total_supply (HostContext_default to_str) (tot + p) as h1 = Inr (Inr (s, h'))"
    by (auto simp: outcome_iff)
  from Cons.prems(2) have a: "voting_power_strategy a \<noteq> ''GetPastVotes''"
      and as: "list_all (\<lambda>a. voting_power_strategy a \<noteq> ''GetPastVotes'') as" by simp_all
  note here = simulates_host_supply [OF a 1] and rest = Cons.IH [OF 2 as]
  from here rest have "extends h h'" by (blast intro: extends_trans)
  moreover have "\<exists>ss. mapM (process_total_supply (Context_default to_str g)) (a # as) = Inr ss \<and> s = tot + sum_list ss"
    if "agrees g h'" for g
  proof -
    from rest that obtain ss where "mapM (process_total_supply (Context_default to_str g)) as = Inr ss"
        and "s = tot + p + sum_list ss" by blast
    moreover have "process_total_supply (Context_default to_str g) a = Inr p"
      using here rest that by (blast intro: agrees_extends)
    ultimately show ?thesis by (simp add: ac_simps)
  qed
  ultimately show ?case by blast
qed simp

lemma execution_checks_guest:
  assumes config: "host_read_config L (xa_config_contract args) (xa_proposal_id args) h = Inr (Inr (config, h1))"
    and past: "list_all (\<lambda>a. voting_power_strategy a \<noteq> ''GetPastVotes'') (assets config)"
    and run: "execution_checks L args tally h = Inr (Inr h')" and g: "agrees g h'"
  shows "read_config (guest_libs.truncate L) g (xa_config_contract args) (xa_proposal_id args) = Inr config \<and>
     execution_strategy config = ''MajorityVoting'' \<and>
     (\<exists>s. total_supply_power (Context_default (address_to_string L) g) (assets config) = Inr s \<and>
          MajorityVoting_proof_execution g s tally)"
proof -
  from config run obtain s where
      tot: "host_total_supply (HostContext_default (address_to_string L)) 0 (assets config) h1 = Inr (Inr (s, h'))"
      and strat: "execution_strategy config = ''MajorityVoting''" and "MajorityVoting_proof_execution g s tally"
    by (auto simp: execution_checks_def Let_def outcome_iff HostContext_default_execution [of _ _ _ _ g] hret_def
        split: if_splits)
  moreover note host_total_supply_guest [OF tot past]
  ultimately show ?thesis
    using host_read_config_Inr(2) [OF config, of g] g
    by (auto simp: total_supply_power_def dest: agrees_extends)
qed

section \<open>A concrete deployment\<close>

text \<open>
  Libraries on the small chain: the prover runs the model of the guest and returns a fake receipt.
\<close>

definition ex_guest :: "guest_elf \<Rightarrow> u32 list \<Rightarrow> u8 list exec" where
  "ex_guest elf stdin =
     (case elf of
        VOTING_PROTOCOL_ELF \<Rightarrow>
          voting_protocol_main (ex_libs\<lparr>Bytes_from_str := \<lambda>_. Some (concat (map to_be_bytes [2 :: address]))\<rparr>) ex_codec stdin
      | EXECUTION_PROTOCOL_ELF \<Rightarrow> 
          execution_protocol_main (ex_libs\<lparr>Bytes_from_str := \<lambda>_. Some (concat (map to_be_bytes [2 :: address]))\<rparr>) ex_codec stdin)"

definition ex_host_libs :: "(unit, unit, unit, bytes32, unit) host_libs" where
  "ex_host_libs =
     guest_libs.extend (ex_libs\<lparr>Bytes_from_str := \<lambda>_. Some (concat (map to_be_bytes [2 :: address]))\<rparr>)
       (host_libs.fields (\<lambda>_. Some ()) (\<lambda>_ _. Inr ex_host_env) ''call failed'' (\<lambda>_. Inr ())
          (\<lambda>elf stdin. case ex_guest elf stdin of
             Inl _ \<Rightarrow> Inr (Inl ''guest panicked'')
           | Inr j \<Rightarrow> Inr (Inr \<lparr>inner = Fake 7, journal_bytes = j\<rparr>))
          (\<lambda>_. Inr (voting_journal ex_env ex_voting_input)) (\<lambda>c. c) (\<lambda>_. Inr 1) (\<lambda>_. Inr True) (\<lambda>_. ''0x01''))"

definition ex_args :: "unit publisher_args" where
  "ex_args =
     \<lparr>pa_chain_id = 11155111, pa_eth_wallet_private_key = (), pa_rpc_url = ''http'', pa_block_number = Some 100,
      pa_voter_signature = ''sig'', pa_voter = 1, pa_dao_address = 77, pa_proposal_id = 0, pa_direction = 2,
      pa_balance = 150, pa_config_contract = 48, pa_token = 16, pa_additional_delegation_data = ''0x02'',
      pa_testing = 0\<rparr>"

abbreviation ex_checked_env :: HostEvmEnv where
  "ex_checked_env \<equiv> ex_host_env\<lparr>henv_preflighted :=
     [votingProtocolConfigCall 48 0, getDelegationCall 32 '''' 2, balanceOfCall 16 2]\<rparr>"

lemma ex_truncate: "guest_libs.truncate ex_host_libs =
    ex_libs\<lparr>Bytes_from_str := \<lambda>_. Some (concat (map to_be_bytes [2 :: address]))\<rparr>"
  by (simp add: ex_host_libs_def guest_libs.truncate_def guest_libs.extend_def host_libs.fields_def ex_libs_def)

lemma ex_host_libs_simps:
  "Url_from_str ex_host_libs u = Some ()" "build_env ex_host_libs u n = Inr ex_host_env"
  "into_input ex_host_libs h = Inr ()" "into_env ex_host_libs i = Some ex_env"
  "address_to_string ex_host_libs a = ''''" "abi_encode_voting ex_host_libs j = to_be_bytes (vj_balance j)"
  "config_from_str ex_host_libs s = (if s = ''config'' then Some ex_config else None)"
  "Bytes_from_str ex_host_libs d = Some (concat (map to_be_bytes [2 :: address]))"
  "abi_encode_execution ex_host_libs x = concat (map to_be_bytes (ej_tally x))"
  by (simp_all add: ex_host_libs_def guest_libs.extend_def host_libs.fields_def ex_libs_def)

lemma ex_host_config:
  "host_read_config ex_host_libs 48 0 ex_host_env =
     Inr (Inr (ex_config, ex_host_env\<lparr>henv_preflighted := [votingProtocolConfigCall 48 0]\<rparr>))"
  by (simp add: host_read_config_def call_votingProtocolConfig_def preflight_def ex_host_env_def ex_chain_def
      ex_host_libs_simps)

lemma ex_checks: "publisher_checks ex_host_libs ex_args ex_host_env = Inr (Inr ex_checked_env)"
proof -
  have chunks: "mapM Address_from_slice (chunks_exact 20 (to_be_bytes (2 :: address))) = Inr [2]"
    using chunks_exact_concat_addresses [of "[2]"] by simp
  have delegations: "host_process_delegation_strategy (HostContext_default (address_to_string ex_host_libs)) 1 ex_asset
      (to_be_bytes (2 :: address)) (ex_host_env\<lparr>henv_preflighted := [votingProtocolConfigCall 48 0]\<rparr>) =
      Inr (Inr [\<lparr>delegate = 2, ratio = 2\<rparr>], ex_host_env\<lparr>henv_preflighted :=
        [votingProtocolConfigCall 48 0, getDelegationCall 32 '''' 2]\<rparr>)"
    by (simp add: HostContext_default_delegation host_SplitDelegation_process_def chunks ex_asset_def
        hbind_def hlift_def hret_def process_delegate_def call_getDelegation_def preflight_def
        compare_bytes32_to_address_ucast ex_host_env_def ex_chain_def ex_delegations_def index_def
        unwrap_def u256_div_def ex_host_libs_simps)
  have balance: "host_process_voting_power_strategy (HostContext_default (address_to_string ex_host_libs)) ''BalanceOf'' 2
      ex_asset (ex_host_env\<lparr>henv_preflighted := [votingProtocolConfigCall 48 0, getDelegationCall 32 '''' 2]\<rparr>) =
      Inr (300, ex_checked_env)"
    by (simp add: HostContext_default_voting host_BalanceOf_process_def hbind_def hlift_def call_balanceOf_def
        preflight_def ex_host_env_def ex_chain_def ex_asset_def ex_balance_def)
  have asset: "assets ex_config = [ex_asset]" "voting_power_strategy ex_asset = ''BalanceOf''"
    by (simp_all add: ex_config_def ex_asset_def)
  show ?thesis
    using ex_host_config
    by (simp add: publisher_checks_def ex_args_def asset host_total_voting_power_def host_asset_voting_power_def
        ex_host_libs_simps hbind_def hlift_def hret_def delegations balance u256_div_def)
qed

lemma ex_recover_signer:
  "recover_vote_signer (guest_libs.truncate ex_host_libs) (publisher_input ex_args ()) =
     Inr (drop 12 (to_be_bytes (5 :: bytes32)))"
  by (simp add: ex_truncate recover_vote_signer_def ex_libs_def ex_args_def ecrecover_def into_recovery_id_def
      keccak256_def Let_def index_def slice_def nth_append)

lemma ex_spawn_prove:
  "spawn_prove ex_host_libs elf stdin =
     (case ex_guest elf stdin of Inl _ \<Rightarrow> Inr (Inl ''guest panicked'')
      | Inr j \<Rightarrow> Inr (Inr \<lparr>inner = Fake 7, journal_bytes = j\<rparr>))"
  by (simp add: ex_host_libs_def guest_libs.extend_def host_libs.fields_def)

lemma ex_decode:
  "VotingJournal_abi_decode ex_host_libs bs = Inr (voting_journal ex_env ex_voting_input)"
  "claim_digest ex_host_libs d = d"
  by (simp_all add: ex_host_libs_def guest_libs.extend_def host_libs.fields_def)

lemma ex_guest_main: "guest_main ex_host_libs ex_codec elf stdin = ex_guest elf stdin"
  by (simp add: guest_main_def ex_guest_def ex_truncate split: guest_elf.split)

lemma ex_proves_guest: "proves_guest ex_host_libs ex_codec"
  by (auto simp: proves_guest_def ex_guest_main ex_spawn_prove split: sum.splits)

text \<open>
  From the publisher to the journal. When the publisher's checks pass for a configuration without
  \<^verbatim>\<open>GetPastVotes\<close> assets, the signature can be recovered, the direction is valid and the balance
  positive, then the guest, run on exactly the words the publisher writes, returns and commits the journal
  of the publisher's own arguments under the commitment of the block the publisher opened. The only
  assumptions on the libraries are that values are read back as written and that Steel answers the
  preflighted calls.
\<close>

lemma publisher_vote_provable:
  assumes "codec_ok c"
    and "host_read_config L (pa_config_contract args) (pa_proposal_id args) h = Inr (Inr (config, h1))"
    and "list_all (\<lambda>a. voting_power_strategy a \<noteq> ''GetPastVotes'') (assets config)"
    and "publisher_checks L args h = Inr (Inr h')"
    and "into_input L h' = Inr i" and "into_env L i = Some g" and "agrees g h'"
    and "recover_vote_signer (guest_libs.truncate L) (publisher_input args i) = Inr signer"
    and "pa_direction args \<in> {1, 2, 3}" and "0 < pa_balance args"
  shows "guest_main L c VOTING_PROTOCOL_ELF (publisher_stdin c args i) =
     Inr (abi_encode_voting L
       \<lparr>vj_commitment = henv_commitment h', vj_config_contract = pa_config_contract args,
        vj_proposal_id = pa_proposal_id args, vj_voter = pa_voter args, vj_balance = pa_balance args,
        vj_direction = pa_direction args\<rparr>)"
proof -
  note guest = publisher_checks_guest [OF assms(2,3,4,7)]
  have "voting_body (guest_libs.truncate L) (publisher_input args i) =
      Inr (abi_encode_voting L (voting_journal g (publisher_input args i)))"
    using voting_body_after_power [OF assms(8), of g config "pa_balance args"] guest assms(6,9,10)
    by (simp add: vote_admissible_def)
  moreover have "env_commitment g = henv_commitment h'"
    using assms(7) by (simp add: agrees_def)
  ultimately show ?thesis
    using publisher_stdin_read [OF assms(1), of args i]
    by (simp add: guest_main_def voting_protocol_main_def voting_journal_def)
qed

lemma ex_env_into: "into_env ex_host_libs () = Some ex_env"
  by (simp add: ex_host_libs_simps)

lemma ex_args_config:
  "host_read_config ex_host_libs (pa_config_contract ex_args) (pa_proposal_id ex_args) ex_host_env =
     Inr (Inr (ex_config, ex_host_env\<lparr>henv_preflighted := [votingProtocolConfigCall 48 0]\<rparr>))"
  using ex_host_config by (simp add: ex_args_def)

lemma ex_no_past_votes: "list_all (\<lambda>a. voting_power_strategy a \<noteq> ''GetPastVotes'') (assets ex_config)"
  by (simp add: ex_config_def ex_asset_def)

lemma ex_args_simps:
  "pa_eth_wallet_private_key ex_args = ()" "pa_rpc_url ex_args = ''http''" "pa_block_number ex_args = Some 100"
  "pa_config_contract ex_args = 48" "pa_testing ex_args = 0" "pa_direction ex_args = 2" "pa_balance ex_args = 150"
  by (simp_all add: ex_args_def)

lemma ex_vote_proved:
  "ex_guest VOTING_PROTOCOL_ELF (publisher_stdin ex_codec ex_args ()) = Inr (to_be_bytes (150 :: u256))"
  using publisher_vote_provable [OF ex_codec_ok ex_args_config ex_no_past_votes ex_checks _ ex_env_into ex_agrees
      ex_recover_signer]
  by (simp add: ex_host_libs_simps ex_guest_main) (simp add: ex_args_def)

section \<open>Properties\<close>

text \<open>With a complete prover the publisher submits what its checks let pass.\<close>

lemma publisher_submits_valid:
  assumes "codec_ok c" and "prover_complete L c" and "open_env L (pa_rpc_url args) (pa_block_number args) = Inr (Inr h)"
    and "host_read_config L (pa_config_contract args) (pa_proposal_id args) h = Inr (Inr (config, h1))"
    and "list_all (\<lambda>a. voting_power_strategy a \<noteq> ''GetPastVotes'') (assets config)"
    and "publisher_checks L args h = Inr (Inr h')"
    and "into_input L h' = Inr i" and "into_env L i = Some g" and "agrees g h'"
    and "recover_vote_signer (guest_libs.truncate L) (publisher_input args i) = Inr signer"
    and "pa_direction args \<in> {1, 2, 3}" and "0 < pa_balance args" and "pa_testing args \<noteq> 1"
    and "j = abi_encode_voting L
       \<lparr>vj_commitment = henv_commitment h', vj_config_contract = pa_config_contract args,
        vj_proposal_id = pa_proposal_id args, vj_voter = pa_voter args, vj_balance = pa_balance args,
        vj_direction = pa_direction args\<rparr>"
    and "VotingJournal_abi_decode L j = Inr journal"
  obtains tx where "fst (publisher_main L c args) = [tx]" "tx_key tx = pa_eth_wallet_private_key args"
    "tx_to tx = pa_config_contract args" "tx_function tx = Vote" "tx_journal tx = j"
proof -
  have "guest_main L c VOTING_PROTOCOL_ELF (publisher_stdin c args i) = Inr j"
    unfolding assms(14) by (rule publisher_vote_provable [OF assms(1,4-12)])
  then obtain tx where tx: "prove_call L VOTING_PROTOCOL_ELF (publisher_stdin c args i) (pa_eth_wallet_private_key args)
        (pa_rpc_url args) (pa_config_contract args) Vote = Inr tx"
      and fields: "tx_key tx = pa_eth_wallet_private_key args" "tx_to tx = pa_config_contract args"
        "tx_function tx = Vote" "tx_journal tx = j"
    using prove_call_returns [OF assms(2) _ assms(15)] by metis
  have "fst (publisher_main L c args) = [tx]"
    using tx assms(3,6,7,13) by (simp add: publisher_main_def publisher_transaction_def submit_def)
  from this fields show thesis by (rule that)
qed

lemma publisher_submits:
  assumes "codec_ok c" and "proves_guest L c" and "tx \<in> set (fst (publisher_main L c args))"
  shows "fst (publisher_main L c args) = [tx] \<and> pa_testing args \<noteq> 1 \<and>
     tx_to tx = pa_config_contract args \<and> tx_function tx = Vote \<and>
     (\<exists>r. encode_seal (claim_digest L) r = Inr (tx_seal tx) \<and> journal_bytes r = tx_journal tx) \<and>
     (\<exists>h h' i g config.
        open_env L (pa_rpc_url args) (pa_block_number args) = Inr (Inr h) \<and> publisher_checks L args h = Inr (Inr h') \<and>
        into_input L h' = Inr i \<and> into_env L i = Some g \<and> pa_direction args \<in> {1, 2, 3} \<and> 0 < pa_balance args \<and>
        read_config (guest_libs.truncate L) g (pa_config_contract args) (pa_proposal_id args) = Inr config \<and>
        total_voting_power (guest_libs.truncate L) (Context_default (address_to_string L) g) (pa_voter args)
          (pa_additional_delegation_data args) (assets config) = Inr (pa_balance args) \<and>
        tx_journal tx = abi_encode_voting L
          \<lparr>vj_commitment = env_commitment g, vj_config_contract = pa_config_contract args,
           vj_proposal_id = pa_proposal_id args, vj_voter = pa_voter args, vj_balance = pa_balance args,
           vj_direction = pa_direction args\<rparr>)"
proof -
  from assms(3) have tx: "publisher_transaction L c args = Inr (Inr (Some tx))"
      and only: "fst (publisher_main L c args) = [tx]"
    by (auto simp: publisher_main_def submit_def split: sum.splits option.splits)
  then obtain h h' i where not_testing: "pa_testing args \<noteq> 1"
      and run: "open_env L (pa_rpc_url args) (pa_block_number args) = Inr (Inr h)" "publisher_checks L args h = Inr (Inr h')"
        "into_input L h' = Inr i"
      and call: "prove_call L VOTING_PROTOCOL_ELF (publisher_stdin c args i)
         (pa_eth_wallet_private_key args) (pa_rpc_url args) (pa_config_contract args) Vote = Inr tx"
    by (auto simp: publisher_transaction_def outcome_iff split: if_splits)
  note fields = prove_call_guest [OF assms(2) call]
  then have "voting_body (guest_libs.truncate L) (publisher_input args i) = Inr (tx_journal tx)"
    using publisher_stdin_read [OF assms(1), of args i] by (simp add: guest_main_def voting_protocol_main_def)
  then obtain signer g config where
      "into_env L i = Some g"
      "read_config (guest_libs.truncate L) g (pa_config_contract args) (pa_proposal_id args) = Inr config"
      "total_voting_power (guest_libs.truncate L) (Context_default (address_to_string L) g) (pa_voter args)
         (pa_additional_delegation_data args) (assets config) = Inr (pa_balance args)"
      "vote_admissible (publisher_input args i) (pa_balance args)"
      "tx_journal tx = abi_encode_voting L (voting_journal g (publisher_input args i))"
    by (elim voting_body_InrE) (auto simp: vote_admissible_def)
  then show ?thesis
    using only not_testing fields run
    by (intro conjI exI [of _ h] exI [of _ h'] exI [of _ i] exI [of _ g] exI [of _ config]) (simp_all add: vote_admissible_def voting_journal_def)
qed

text \<open>
  C10: The publisher submits nothing but proved votes. If the prover only returns receipts for runs of the
  guest, then whatever transaction a run of the publisher submits is its only one; it calls \<^verbatim>\<open>vote\<close>
  of the configured plugin, not in testing mode; its seal is the encoding of a receipt; and its journal
  is the one the guest commits for the publisher's arguments, with a valid direction and a positive
  balance that is the total voting power computed in the guest.
\<close>

theorem publisher_submits_proved_votes:
  assumes "codec_ok c" and "proves_guest L c" and "tx \<in> set (fst (publisher_main L c args))"
  shows "fst (publisher_main L c args) = [tx] \<and> pa_testing args \<noteq> 1 \<and>
     tx_to tx = pa_config_contract args \<and> tx_function tx = Vote \<and>
     (\<exists>r. encode_seal (claim_digest L) r = Inr (tx_seal tx) \<and> journal_bytes r = tx_journal tx) \<and>
     (\<exists>i g config.
        into_env L i = Some g \<and> pa_direction args \<in> {1, 2, 3} \<and> 0 < pa_balance args \<and>
        read_config (guest_libs.truncate L) g (pa_config_contract args) (pa_proposal_id args) = Inr config \<and>
        total_voting_power (guest_libs.truncate L) (Context_default (address_to_string L) g) (pa_voter args)
          (pa_additional_delegation_data args) (assets config) = Inr (pa_balance args) \<and>
        tx_journal tx = abi_encode_voting L
          \<lparr>vj_commitment = env_commitment g, vj_config_contract = pa_config_contract args,
           vj_proposal_id = pa_proposal_id args, vj_voter = pa_voter args, vj_balance = pa_balance args,
           vj_direction = pa_direction args\<rparr>)"
  using publisher_submits [OF assms] by blast

theorem publisher_submits_proved_votes_witness:
  "\<exists>tx. fst (publisher_main ex_host_libs ex_codec ex_args) = [tx] \<and> tx_to tx = 48 \<and> tx_function tx = Vote \<and>
     tx_journal tx = to_be_bytes (150 :: u256)"
proof -
  let ?tx = "\<lparr>tx_key = (), tx_rpc_url = ''http'', tx_to = 48, tx_function = Vote,
      tx_journal = to_be_bytes (150 :: u256), tx_seal = [0, 0, 0, 0] @ to_be_bytes (7 :: bytes32)\<rparr>"
  have "publisher_transaction ex_host_libs ex_codec ex_args = Inr (Inr (Some ?tx))"
    by (simp add: publisher_transaction_def open_env_def prove_call_def ex_spawn_prove ex_host_libs_simps
        ex_decode encode_seal_def ex_checks ex_vote_proved ex_args_simps)
  then have "?tx \<in> set (fst (publisher_main ex_host_libs ex_codec ex_args))"
    by (simp add: publisher_main_def submit_def)
  from publisher_submits_proved_votes [OF ex_codec_ok ex_proves_guest this] show ?thesis
    by (intro exI [of _ ?tx]) (simp add: ex_args_def)
qed

text \<open>
  The execution publisher's checks are the guest's: when they pass for a configuration without
  \<^verbatim>\<open>GetPastVotes\<close> assets, the execution guest accepts the tally in every environment that answers the
  preflighted calls, and commits the journal of the publisher's arguments - provided it is given these
  arguments.
\<close>

lemma execution_checks_suffice:
  assumes "host_read_config L (xa_config_contract args) (xa_proposal_id args) h = Inr (Inr (config, h1))"
    and "list_all (\<lambda>a. voting_power_strategy a \<noteq> ''GetPastVotes'') (assets config)"
    and "execution_checks L args tally h = Inr (Inr h')"
    and "into_env L i = Some g" and "agrees g h'"
  shows "execution_body (guest_libs.truncate L)
       \<lparr>xi_input = i, xi_dao = xa_dao_address args, xi_proposal_id = xa_proposal_id args, xi_tally = tally,
        xi_config_contract = xa_config_contract args\<rparr> =
     Inr (abi_encode_execution L
       \<lparr>ej_commitment = henv_commitment h', ej_config_contract = xa_config_contract args,
        ej_proposal_id = xa_proposal_id args, ej_tally = tally_to_vec tally\<rparr>)"
proof -
  from execution_checks_guest [OF assms(1,2,3,5)] obtain s where
      "read_config (guest_libs.truncate L) g (xa_config_contract args) (xa_proposal_id args) = Inr config"
      "execution_strategy config = ''MajorityVoting''"
      "total_supply_power (Context_default (address_to_string L) g) (assets config) = Inr s"
      "MajorityVoting_proof_execution g s tally"
    by blast
  moreover have "env_commitment g = henv_commitment h'"
    using assms(5) by (simp add: agrees_def)
  ultimately show ?thesis
    using assms(4) by (simp add: execution_body_outcome execution_journal_def)
qed

definition ex_execution_args :: "unit execution_args" where
  "ex_execution_args =
     \<lparr>xa_chain_id = 11155111, xa_eth_wallet_private_key = (), xa_rpc_url = ''http'', xa_block_number = Some 100,
      xa_dao_address = 77, xa_proposal_id = 0, xa_config_contract = 48, xa_tally = [300, 200, 1], xa_testing = 0\<rparr>"

lemma ex_execution_checks:
  "execution_checks ex_host_libs ex_execution_args (300, 200, 1) ex_host_env =
     Inr (Inr (ex_host_env\<lparr>henv_preflighted := [votingProtocolConfigCall 48 0, getTotalSupplyCall 16]\<rparr>))"
proof -
  have "host_process_total_supply (HostContext_default (address_to_string ex_host_libs)) ex_asset
      (ex_host_env\<lparr>henv_preflighted := [votingProtocolConfigCall 48 0]\<rparr>) =
      Inr (Inr 1000, ex_host_env\<lparr>henv_preflighted := [votingProtocolConfigCall 48 0, getTotalSupplyCall 16]\<rparr>)"
    by (simp add: HostContext_default_supply host_BalanceOf_get_supply_def hbind_def hlift_def hret_def
        call_getTotalSupply_def preflight_def ex_host_env_def ex_chain_def ex_asset_def)
  then show ?thesis
    using ex_host_config
    by (simp add: execution_checks_def ex_execution_args_def ex_config_def
        HostContext_default_execution [of _ _ _ _ ex_env] MajorityVoting_proof_execution_def hret_def)
qed

lemma execution_checks_suffice_witness:
  "execution_body (guest_libs.truncate ex_host_libs)
     \<lparr>xi_input = (), xi_dao = 77, xi_proposal_id = 0, xi_tally = (300, 200, 1), xi_config_contract = 48\<rparr> =
     Inr (concat (map to_be_bytes [300, 200, 1 :: u256]))"
proof -
  have config: "host_read_config ex_host_libs (xa_config_contract ex_execution_args) (xa_proposal_id ex_execution_args)
      ex_host_env = Inr (Inr (ex_config, ex_host_env\<lparr>henv_preflighted := [votingProtocolConfigCall 48 0]\<rparr>))"
    using ex_host_config by (simp add: ex_execution_args_def)
  show ?thesis
    using execution_checks_suffice [OF config ex_no_past_votes ex_execution_checks ex_env_into ex_agrees]
    by (simp add: ex_host_libs_simps tally_to_vec_def) (simp add: ex_execution_args_def)
qed

text \<open>
  C35: The execution publisher never submits. It writes the configuration contract before the tally, the
  guest reads the tally before the configuration contract. So whenever the encoding of an address does
  not decode as a tally, no run with an honest prover submits a transaction; outside testing mode no run
  returns successfully.
\<close>

theorem execution_publisher_never_submits:
  assumes "codec_ok c" and "proves_guest L c"
    and "\<And>a t. get_tally c (put_address c a @ put_tally c t) = None"
  shows "fst (execution_publisher_main L c args) = [] \<and>
     (snd (execution_publisher_main L c args) = Inr (Inr ()) \<longrightarrow> xa_testing args = 1)"
proof -
  have "read_execution_input c (execution_publisher_stdin c args tally i) = Inl Unwrap_failed" for tally i
    using assms(1,3)
    by (simp add: read_execution_input_def execution_publisher_stdin_def codec_ok_def env_read_codec)
      (simp add: env_read_def)
  then have panics: "guest_main L c EXECUTION_PROTOCOL_ELF (execution_publisher_stdin c args tally i) = Inl Unwrap_failed"
    for tally i
    by (simp add: guest_main_def execution_protocol_main_def)
  have "prove_call L EXECUTION_PROTOCOL_ELF (execution_publisher_stdin c args tally i) key rpc to fn \<noteq> Inr tx"
    for tally i key rpc to fn tx
    using prove_call_guest [OF assms(2)] panics by (metis Inl_Inr_False)
  then have "execution_transaction L c args \<noteq> Inr (Inr (Some tx))"
      and "execution_transaction L c args = Inr (Inr None) \<Longrightarrow> xa_testing args = 1" for tx
    by (auto simp: execution_transaction_def outcome_iff split: if_splits)
  then show ?thesis
    by (auto simp: execution_publisher_main_def submit_def split: sum.splits option.splits)
qed

theorem execution_publisher_never_submits_witness:
  "fst (execution_publisher_main ex_host_libs ex_codec ex_execution_args) = [] \<and>
   snd (execution_publisher_main ex_host_libs ex_codec ex_execution_args) \<noteq> Inr (Inr ())"
proof -
  have "get_tally ex_codec (put_address ex_codec a @ put_tally ex_codec t) = None" for a t
    by (simp add: ex_codec_def ex_codec_for_def ex_get_put_other)
  from execution_publisher_never_submits [OF ex_codec_ok ex_proves_guest this, of ex_execution_args]
  show ?thesis by (auto simp: ex_execution_args_def)
qed

end
