(* ===== verification/Server.thy ===== *)
theory Server
  imports Text_Forms "HOL-Library.Multiset"
begin

text \<open>
  The web service \<^verbatim>\<open>server/src/main.rs\<close>: a table of votes behind four handlers, and the handler
  that starts the publisher. The table is the Postgres table of the migration \<^verbatim>\<open>0001_init.sql\<close>:
  its rows, and the sequence behind the \<^verbatim>\<open>serial\<close> key. The outcome of each statement that is not
  decided by the table (a lost connection, a rejected string) is an argument \<open>fault\<close> of the handler.
  Strings are the bytes of UTF-8 text.
\<close>

section \<open>Data\<close>

record VoteNew =
  vn_account :: string
  vn_option :: "16 word"
  vn_proposal_id :: "64 word"
  vn_dao :: string

text \<open>The key is an \<^verbatim>\<open>i32\<close>, kept as an integer with its bounds in the invariant.\<close>

record VoteRow =
  vote_id :: int
  vote_account :: string
  vote_option :: "16 word"
  vote_proposal_id :: "64 word"
  vote_dao :: string

record VotingParams =
  vp_block_number :: string
  vp_voter_signature :: string
  vp_voter :: string
  vp_dao_address :: string
  vp_proposal_id :: string
  vp_direction :: u8
  vp_balance :: string
  vp_config_contract :: string
  vp_token_address :: string
  vp_additional_delegation_data :: string

text \<open>\<open>seq_next\<close> is the value the sequence gives next; a \<^verbatim>\<open>serial\<close> sequence ends at the largest \<^verbatim>\<open>i32\<close>.\<close>

record AppState =
  votes :: "VoteRow list"
  seq_next :: int

definition i32_max :: int where
  "i32_max = 2147483647"

definition AppState_init :: AppState where
  "AppState_init = \<lparr>votes = [], seq_next = 1\<rparr>"

text \<open>
  The migration creates the table if it does not exist, so a restart finds the votes again; \<^verbatim>\<open>main\<close> panics
  when the migration fails.
\<close>

definition migration_init :: "AppState option \<Rightarrow> AppState" where
  "migration_init db = (case db of None \<Rightarrow> AppState_init | Some s \<Rightarrow> s)"

definition server_main :: "string option \<Rightarrow> AppState option \<Rightarrow> AppState exec" where
  "server_main fault db =
     (case fault of
        Some e \<Rightarrow> Inl (Expect_failed ''Failed to run migrations'')
      | None \<Rightarrow> Inr (migration_init db))"

datatype http_error = ErrorBadRequest string

type_synonym 'a http = "http_error + 'a"

section \<open>Handlers on the table\<close>

definition retrieve_vote :: "string option \<Rightarrow> int \<Rightarrow> AppState \<Rightarrow> VoteRow http" where
  "retrieve_vote fault path state =
     (case fault of
        Some e \<Rightarrow> Inl (ErrorBadRequest e)
      | None \<Rightarrow>
          (case filter (\<lambda>v. vote_id v = path) (votes state) of
             [] \<Rightarrow> Inl (ErrorBadRequest ''no rows returned by a query that expected to return at least one row'')
           | v # _ \<Rightarrow> Inr v))"

definition retrieve_all_votes :: "string option \<Rightarrow> AppState \<Rightarrow> VoteRow list http" where
  "retrieve_all_votes fault state =
     (case fault of
        Some e \<Rightarrow> Inl (ErrorBadRequest e)
      | None \<Rightarrow> Inr (rev (sort_key vote_id (votes state))))"

text \<open>
  The sequence does not go back when the statement fails after drawing from it: a fault carries whether
  it came after the draw. An exhausted sequence is a database error too (its text is shortened here).
\<close>

definition add_vote :: "(string \<times> bool) option \<Rightarrow> VoteNew \<Rightarrow> AppState \<Rightarrow> VoteRow http \<times> AppState" where
  "add_vote fault vote state =
     (if i32_max < seq_next state
      then (Inl (ErrorBadRequest ''nextval: reached maximum value of sequence''), state)
      else
        let row = \<lparr>vote_id = seq_next state, vote_account = vn_account vote, vote_option = vn_option vote,
                   vote_proposal_id = vn_proposal_id vote, vote_dao = vn_dao vote\<rparr>;
            state' = state\<lparr>seq_next := seq_next state + 1\<rparr>
        in case fault of
             Some (e, drawn) \<Rightarrow> (Inl (ErrorBadRequest e), if drawn then state' else state)
           | None \<Rightarrow> (Inr row, state'\<lparr>votes := votes state @ [row]\<rparr>))"

definition delete_vote :: "string option \<Rightarrow> int \<Rightarrow> AppState \<Rightarrow> unit http exec \<times> AppState" where
  "delete_vote fault path state =
     (case fault of
        Some e \<Rightarrow> (Inl Unwrap_failed, state)
      | None \<Rightarrow> (Inr (Inr ()), state\<lparr>votes := filter (\<lambda>v. vote_id v \<noteq> path) (votes state)\<rparr>))"

section \<open>Starting the publisher\<close>

text \<open>\<^verbatim>\<open>&s[i..]\<close>, which panics off a character boundary.\<close>

definition is_char_boundary :: "string \<Rightarrow> nat \<Rightarrow> bool" where
  "is_char_boundary s i \<longleftrightarrow>
     i = 0 \<or> i = length s \<or> (i < length s \<and> \<not> (128 \<le> (of_char (s ! i) :: nat) \<and> (of_char (s ! i) :: nat) < 192))"

definition str_from :: "string \<Rightarrow> nat \<Rightarrow> string exec" where
  "str_from s i = (if is_char_boundary s i then Inr (drop i s) else Inl Out_of_range)"

record command =
  cmd_program :: string
  cmd_current_dir :: string
  cmd_env :: "(string \<times> string) list"
  cmd_args :: "string list"

definition publisher_command :: "(string \<rightharpoonup> string) \<Rightarrow> VotingParams \<Rightarrow> command exec" where
  "publisher_command vars payload =
     rbind (str_from (vp_voter_signature payload) 2) (\<lambda>voter_signature.
     rbind (unwrap (vars ''BONSAI_API_KEY'')) (\<lambda>bonsai_api_key.
     rbind (unwrap (vars ''BONSAI_API_URL'')) (\<lambda>bonsai_api_url.
     rbind (unwrap (vars ''RPC_URL'')) (\<lambda>rpc_url.
     rbind (unwrap (vars ''ETH_WALLET_PRIVATE_KEY'')) (\<lambda>eth_wallet_private_key.
       Inr \<lparr>cmd_program = ''./publisher'', cmd_current_dir = ''./target/release/'',
            cmd_env = [(''BONSAI_API_KEY'', bonsai_api_key), (''BONSAI_API_URL'', bonsai_api_url),
                       (''RPC_URL'', rpc_url), (''ETH_WALLET_PRIVATE_KEY'', eth_wallet_private_key)],
            cmd_args =
              [''--chain-id='' @ (case vars ''CHAIN_ID'' of Some i \<Rightarrow> i | None \<Rightarrow> ''11155111''),
               ''--rpc-url='' @ rpc_url,
               ''--block-number='' @ vp_block_number payload,
               ''--voter-signature='' @ voter_signature,
               ''--voter='' @ vp_voter payload,
               ''--dao-address='' @ vp_dao_address payload,
               ''--proposal-id='' @ vp_proposal_id payload,
               ''--direction='' @ show_nat (unat (vp_direction payload)),
               ''--balance='' @ vp_balance payload,
               ''--config-contract='' @ vp_config_contract payload,
               ''--token='' @ vp_token_address payload,
               ''--additional-delegation-data='' @ vp_additional_delegation_data payload,
               ''--testing='' @ show_nat 0]\<rparr>)))))"

text \<open>
  The operating system's side of \<^verbatim>\<open>Command::output\<close>: \<open>None\<close> when the program cannot be started,
  otherwise whether it succeeded.
\<close>

definition proof_vote :: "(command \<Rightarrow> bool option) \<Rightarrow> (string \<rightharpoonup> string) \<Rightarrow> VotingParams \<Rightarrow> unit http exec" where
  "proof_vote run vars payload =
     rbind (publisher_command vars payload) (\<lambda>cmd.
     rbind (expect (run cmd) ''Failed to execute command'') (\<lambda>success. Inr (Inr ())))"

section \<open>Requests\<close>

datatype request =
    Retrieve_all "string option"
  | Retrieve "string option" int
  | Add "(string \<times> bool) option" VoteNew
  | Delete "string option" int
  | Proof VotingParams

datatype response =
    Votes "VoteRow list http"
  | Voted "VoteRow http"
  | Done "unit http exec"

text \<open>\<^verbatim>\<open>proof_vote\<close> does not get the state.\<close>

fun handle :: "(command \<Rightarrow> bool option) \<Rightarrow> (string \<rightharpoonup> string) \<Rightarrow> request \<Rightarrow> AppState \<Rightarrow> response \<times> AppState" where
  "handle run vars (Retrieve_all fault) s = (Votes (retrieve_all_votes fault s), s)"
| "handle run vars (Retrieve fault i) s = (Voted (retrieve_vote fault i s), s)"
| "handle run vars (Add fault v) s = (case add_vote fault v s of (r, s') \<Rightarrow> (Voted r, s'))"
| "handle run vars (Delete fault i) s = (case delete_vote fault i s of (r, s') \<Rightarrow> (Done r, s'))"
| "handle run vars (Proof p) s = (Done (proof_vote run vars p), s)"

inductive server_reachable :: "(command \<Rightarrow> bool option) \<Rightarrow> (string \<rightharpoonup> string) \<Rightarrow> AppState \<Rightarrow> bool"
  for run vars where
  server_init: "server_reachable run vars AppState_init"
| server_step: "server_reachable run vars s \<Longrightarrow> server_reachable run vars (snd (handle run vars r s))"

text \<open>A start on an empty database and every restart begin in a reachable state.\<close>

lemma server_main_reachable:
  "server_main fault db = Inr s \<Longrightarrow> (\<And>s0. db = Some s0 \<Longrightarrow> server_reachable run vars s0) \<Longrightarrow> server_reachable run vars s"
  by (auto simp: server_main_def migration_init_def intro: server_init split: option.splits)

text \<open>The paths of the scope \<^verbatim>\<open>/votes\<close>.\<close>

datatype http_method = GET | POST | DELETE

datatype endpoint = Ep_retrieve_all | Ep_retrieve string | Ep_add | Ep_delete string | Ep_proof

fun route :: "http_method \<Rightarrow> string list \<Rightarrow> endpoint option" where
  "route GET [] = Some Ep_retrieve_all"
| "route GET [seg] = Some (Ep_retrieve seg)"
| "route POST [] = Some Ep_add"
| "route DELETE [seg] = Some (Ep_delete seg)"
| "route POST [seg] = (if seg = ''vote'' then Some Ep_proof else None)"
| "route _ _ = None"

section \<open>The table as an interface\<close>

text \<open>
  What the users of a table with generated keys rely on, and what follows for them.
\<close>

locale keyed_table =
  fixes inv :: "'s \<Rightarrow> bool" and look :: "'s \<Rightarrow> 'k \<Rightarrow> 'v option"
    and ins :: "'s \<Rightarrow> 'd \<Rightarrow> ('k \<times> 'v \<times> 's) option" and del :: "'s \<Rightarrow> 'k \<Rightarrow> 's"
  assumes inv_ins: "inv s \<Longrightarrow> ins s d = Some (k, v, s') \<Longrightarrow> inv s'"
    and inv_del: "inv s \<Longrightarrow> inv (del s k)"
    and look_ins: "inv s \<Longrightarrow> ins s d = Some (k, v, s') \<Longrightarrow> look s' j = (if j = k then Some v else look s j)"
    and ins_fresh: "inv s \<Longrightarrow> ins s d = Some (k, v, s') \<Longrightarrow> look s k = None"
    and look_del: "inv s \<Longrightarrow> look (del s k) j = (if j = k then None else look s j)"
begin

lemma del_ins: "inv s \<Longrightarrow> ins s d = Some (k, v, s') \<Longrightarrow> look (del s' k) = look s"
  by (rule ext) (simp add: look_del inv_ins look_ins ins_fresh)

end

definition table_ok :: "AppState \<Rightarrow> bool" where
  "table_ok s \<longleftrightarrow>
     distinct (map vote_id (votes s)) \<and> list_all (\<lambda>v. 1 \<le> vote_id v \<and> vote_id v < seq_next s) (votes s) \<and>
     1 \<le> seq_next s \<and> seq_next s \<le> i32_max + 1"

definition table_look :: "AppState \<Rightarrow> int \<Rightarrow> VoteRow option" where
  "table_look s i = (case retrieve_vote None i s of Inl _ \<Rightarrow> None | Inr v \<Rightarrow> Some v)"

definition table_insert :: "AppState \<Rightarrow> VoteNew \<Rightarrow> (int \<times> VoteRow \<times> AppState) option" where
  "table_insert s d = (case add_vote None d s of (Inl _, _) \<Rightarrow> None | (Inr v, s') \<Rightarrow> Some (vote_id v, v, s'))"

definition table_delete :: "AppState \<Rightarrow> int \<Rightarrow> AppState" where
  "table_delete s i = snd (delete_vote None i s)"

lemma table_look_filter:
  "table_look s i = (case filter (\<lambda>v. vote_id v = i) (votes s) of [] \<Rightarrow> None | v # _ \<Rightarrow> Some v)"
  by (simp add: table_look_def retrieve_vote_def split: list.split)

lemma retrieve_vote_look:
  "retrieve_vote None i s =
     (case table_look s i of
        None \<Rightarrow> Inl (ErrorBadRequest ''no rows returned by a query that expected to return at least one row'')
      | Some v \<Rightarrow> Inr v)"
  by (simp add: table_look_def retrieve_vote_def split: list.split)

lemma table_insert_Some:
  assumes "table_insert s d = Some (k, v, s')"
  shows "seq_next s \<le> i32_max" and "k = seq_next s"
    and "v = \<lparr>vote_id = seq_next s, vote_account = vn_account d, vote_option = vn_option d,
              vote_proposal_id = vn_proposal_id d, vote_dao = vn_dao d\<rparr>"
    and "s' = s\<lparr>votes := votes s @ [v], seq_next := seq_next s + 1\<rparr>"
  using assms by (auto simp: table_insert_def add_vote_def Let_def split: if_splits)

lemma table_fresh: "table_ok s \<Longrightarrow> filter (\<lambda>v. vote_id v = seq_next s) (votes s) = []"
  by (auto simp: table_ok_def list_all_iff filter_empty_conv)

lemma table_ok_init [simp]: "table_ok AppState_init"
  by (simp add: table_ok_def AppState_init_def i32_max_def)

lemma table_ok_add: "table_ok s \<Longrightarrow> table_ok (snd (add_vote fault d s))"
  by (auto simp: table_ok_def add_vote_def Let_def list_all_iff split: option.split)

lemma table_ok_delete: "table_ok s \<Longrightarrow> table_ok (snd (delete_vote fault i s))"
  by (auto simp: table_ok_def delete_vote_def list_all_iff distinct_map inj_on_def split: option.split)

lemma filter_filter_neq:
  "filter (\<lambda>v. f v = j) (filter (\<lambda>v. f v \<noteq> i) xs) = (if i = j then [] else filter (\<lambda>v. f v = j) xs)"
  by (induction xs) auto

interpretation votes_table: keyed_table table_ok table_look table_insert table_delete
proof unfold_locales
  fix s d k v s' j
  assume ok: "table_ok s" and ins: "table_insert s d = Some (k, v, s')"
  have s': "s' = snd (add_vote None d s)"
    using ins by (auto simp: table_insert_def split: prod.splits sum.splits)
  then show "table_ok s'" using ok by (simp add: table_ok_add)
  show "table_look s' j = (if j = k then Some v else table_look s j)"
    using table_fresh [OF ok] table_insert_Some [OF ins] by (auto simp: table_look_filter)
  show "table_look s k = None"
    using table_fresh [OF ok] table_insert_Some(2) [OF ins] by (simp add: table_look_filter)
next
  fix s k j
  assume "table_ok s"
  then show "table_ok (table_delete s k)" by (simp add: table_delete_def table_ok_delete)
  show "table_look (table_delete s k) j = (if j = k then None else table_look s j)"
    by (simp add: table_look_filter table_delete_def delete_vote_def filter_filter_neq del: filter_filter)
qed

lemma table_ok_handle: "table_ok s \<Longrightarrow> table_ok (snd (handle run vars r s))"
  by (cases r) (simp_all add: split_beta table_ok_add table_ok_delete)

lemma server_reachable_ok: "server_reachable run vars s \<Longrightarrow> table_ok s"
  by (induction rule: server_reachable.induct) (simp_all add: table_ok_handle)

section \<open>Properties\<close>

text \<open>
  In every state the server can reach, the keys of the stored votes are distinct, within
  \<^verbatim>\<open>i32\<close> and below the next key the sequence will give, so no key is ever given twice.
\<close>

lemma server_keys_invariant:
  assumes "server_reachable run vars s"
  shows "distinct (map vote_id (votes s)) \<and>
     (\<forall>v. v \<in> set (votes s) \<longrightarrow> 1 \<le> vote_id v \<and> vote_id v < seq_next s) \<and> seq_next s \<le> i32_max + 1"
  using server_reachable_ok [OF assms] by (simp add: table_ok_def list_all_iff)

text \<open>
  A stored vote can be read back. In a reachable state, \<^verbatim>\<open>add_vote\<close> answers with the vote it was
  given under a key that was not in use; from then on \<^verbatim>\<open>retrieve_vote\<close> finds exactly this vote under
  the key and every other key gives what it gave before; deleting the key restores every lookup.
\<close>

lemma add_vote_retrieve:
  assumes "server_reachable run vars s" and "add_vote None vote s = (Inr v, s')"
  shows "vote_account v = vn_account vote \<and> vote_option v = vn_option vote \<and>
     vote_proposal_id v = vn_proposal_id vote \<and> vote_dao v = vn_dao vote \<and>
     retrieve_vote None (vote_id v) s' = Inr v \<and>
     (\<forall>i. i \<noteq> vote_id v \<longrightarrow> retrieve_vote None i s' = retrieve_vote None i s) \<and>
     (\<forall>i. retrieve_vote None i (snd (delete_vote None (vote_id v) s')) = retrieve_vote None i s)"
proof -
  have ok: "table_ok s" using assms(1) by (rule server_reachable_ok)
  have ins: "table_insert s vote = Some (vote_id v, v, s')" using assms(2) by (simp add: table_insert_def)
  have "retrieve_vote None i (snd (delete_vote None (vote_id v) s')) = retrieve_vote None i s" for i
    using votes_table.del_ins [OF ok ins] by (simp add: retrieve_vote_look table_delete_def)
  then show ?thesis
    using table_insert_Some(3) [OF ins] votes_table.look_ins [OF ok ins] by (simp add: retrieve_vote_look)
qed

definition ex_vote :: VoteNew where
  "ex_vote = \<lparr>vn_account = ''alice'', vn_option = 2, vn_proposal_id = 7, vn_dao = ''dao''\<rparr>"

lemma add_vote_retrieve_witness:
  "retrieve_vote None 1 (snd (add_vote None ex_vote AppState_init)) =
     Inr \<lparr>vote_id = 1, vote_account = ''alice'', vote_option = 2, vote_proposal_id = 7, vote_dao = ''dao''\<rparr>"
proof -
  have add: "add_vote None ex_vote AppState_init =
      (Inr \<lparr>vote_id = 1, vote_account = ''alice'', vote_option = 2, vote_proposal_id = 7, vote_dao = ''dao''\<rparr>,
       snd (add_vote None ex_vote AppState_init))"
    by (simp add: add_vote_def AppState_init_def ex_vote_def i32_max_def Let_def)
  show ?thesis
    using add_vote_retrieve [OF server_init [of "\<lambda>_. None" Map.empty] add] by simp
qed

lemma server_keys_invariant_witness:
  "distinct (map vote_id (votes (snd (handle (\<lambda>_. None) Map.empty (Add None ex_vote) AppState_init))))"
  using server_keys_invariant [OF server_step [OF server_init], of "\<lambda>_. None" Map.empty "Add None ex_vote"] by blast

text \<open>
  \<^verbatim>\<open>retrieve_all_votes\<close> lists every stored vote exactly once, newest key first.
\<close>

lemma retrieve_all_newest_first:
  assumes "server_reachable run vars s"
  shows "\<exists>vs. retrieve_all_votes None s = Inr vs \<and> mset vs = mset (votes s) \<and>
     sorted_wrt (\<lambda>v w. vote_id v > vote_id w) vs"
proof -
  let ?vs = "sort_key vote_id (votes s)"
  have "distinct (map vote_id ?vs)"
    using server_reachable_ok [OF assms]
    by (simp add: table_ok_def distinct_map inj_on_def)
  then have "sorted_wrt (<) (map vote_id ?vs)"
    using sorted_sort_key [of vote_id "votes s"] by (simp add: strict_sorted_iff)
  then have "sorted_wrt (\<lambda>v w. vote_id v > vote_id w) (rev ?vs)"
    by (simp add: sorted_wrt_map sorted_wrt_rev)
  then show ?thesis by (simp add: retrieve_all_votes_def)
qed

lemma retrieve_all_newest_first_witness:
  "\<exists>vs. retrieve_all_votes None AppState_init = Inr vs \<and> mset vs = mset (votes AppState_init) \<and>
     sorted_wrt (\<lambda>v w. vote_id v > vote_id w) vs"
  by (rule retrieve_all_newest_first [OF server_init [of "\<lambda>_. None" Map.empty]])

text \<open>
  The command line carries the whole request. From the command that \<^verbatim>\<open>proof_vote\<close> starts, every
  field of the payload is determined, except for the first two bytes of the signature, which it cuts off.
\<close>

lemma publisher_command_faithful:
  assumes "publisher_command vars p = Inr cmd" and "publisher_command vars q = Inr cmd"
  shows "p\<lparr>vp_voter_signature := drop 2 (vp_voter_signature p)\<rparr> = q\<lparr>vp_voter_signature := drop 2 (vp_voter_signature q)\<rparr>"
  using assms
  by (cases p; cases q)
    (auto simp: publisher_command_def str_from_def outcome_iff show_uint_inject
      split: if_splits)

definition ex_vars :: "string \<rightharpoonup> string" where
  "ex_vars = [''BONSAI_API_KEY'' \<mapsto> ''k'', ''BONSAI_API_URL'' \<mapsto> ''u'', ''RPC_URL'' \<mapsto> ''r'',
              ''ETH_WALLET_PRIVATE_KEY'' \<mapsto> ''w'']"

definition ex_params :: VotingParams where
  "ex_params = \<lparr>vp_block_number = ''100'', vp_voter_signature = ''0xab'', vp_voter = ''0x1'', vp_dao_address = ''0x4d'',
     vp_proposal_id = ''0'', vp_direction = 2, vp_balance = ''150'', vp_config_contract = ''0x30'',
     vp_token_address = ''0x10'', vp_additional_delegation_data = ''0x02''\<rparr>"

lemma ex_command: "\<exists>cmd. publisher_command ex_vars ex_params = Inr cmd"
  by (simp add: publisher_command_def ex_vars_def ex_params_def str_from_def is_char_boundary_def)

lemma publisher_command_faithful_witness:
  "\<exists>cmd. publisher_command ex_vars ex_params = Inr cmd \<and>
     publisher_command ex_vars (ex_params\<lparr>vp_balance := ''151''\<rparr>) \<noteq> Inr cmd"
proof -
  obtain cmd where cmd: "publisher_command ex_vars ex_params = Inr cmd" using ex_command by blast
  have "publisher_command ex_vars (ex_params\<lparr>vp_balance := ''151''\<rparr>) \<noteq> Inr cmd"
  proof
    assume other: "publisher_command ex_vars (ex_params\<lparr>vp_balance := ''151''\<rparr>) = Inr cmd"
    from publisher_command_faithful [OF cmd other] show False by (simp add: ex_params_def)
  qed
  with cmd show ?thesis by blast
qed

text \<open>
  \<^verbatim>\<open>proof_vote\<close> does not report the outcome of the vote. Whenever the publisher can be started,
  the client is told that the request succeeded, also when the publisher failed; a signature of fewer
  than two bytes makes the handler panic.
\<close>

lemma proof_vote_hides_failure:
  assumes "publisher_command vars p = Inr cmd"
  shows "(run cmd = Some True \<or> run cmd = Some False \<longleftrightarrow> proof_vote run vars p = Inr (Inr ())) \<and>
     (length sig < 2 \<longrightarrow> proof_vote run vars (p\<lparr>vp_voter_signature := sig\<rparr>) = Inl Out_of_range)"
proof
  show "run cmd = Some True \<or> run cmd = Some False \<longleftrightarrow> proof_vote run vars p = Inr (Inr ())"
    using assms by (cases "run cmd") (auto simp: proof_vote_def)
  show "length sig < 2 \<longrightarrow> proof_vote run vars (p\<lparr>vp_voter_signature := sig\<rparr>) = Inl Out_of_range"
    by (simp add: proof_vote_def publisher_command_def str_from_def is_char_boundary_def)
qed

lemma proof_vote_hides_failure_witness:
  "proof_vote (\<lambda>_. Some False) ex_vars ex_params = Inr (Inr ()) \<and>
   proof_vote (\<lambda>_. Some False) ex_vars (ex_params\<lparr>vp_voter_signature := ''0''\<rparr>) = Inl Out_of_range"
proof -
  obtain cmd where cmd: "publisher_command ex_vars ex_params = Inr cmd" using ex_command by blast
  show ?thesis
    using proof_vote_hides_failure [OF cmd, of "\<lambda>_. Some False" "''0''"] by simp
qed

end
