(* ===== verification/Command_Line.thy ===== *)
theory Command_Line
  imports Publisher Server "HOL-Library.Monad_Syntax"
begin

text \<open>
  The command line of the vote publisher and those who write one. \<open>Args_parse\<close> is \<^verbatim>\<open>Args::parse\<close> for the
  struct \<^verbatim>\<open>Args\<close> of \<^verbatim>\<open>apps/src/bin/publisher.rs\<close>; its callers are the handler \<^verbatim>\<open>proof_vote\<close> of
  \<^verbatim>\<open>server/src/main.rs\<close>, the script \<^verbatim>\<open>test-sepolia.sh\<close> and the integration test. Two libraries are
  parameters: \<^verbatim>\<open>clap\<close>, which finds the texts of the options, with what it documents as the hypothesis
  \<open>clap_documented\<close>, and the parsers of \<^verbatim>\<open>alloy\<close> for addresses, 256-bit numbers and keys.
\<close>

section \<open>Options\<close>

text \<open>An option as \<^verbatim>\<open>#[clap(long)]\<close> or \<^verbatim>\<open>#[clap(long, env)]\<close> declares it; an \<^verbatim>\<open>Option\<close> field is not required.\<close>

record clap_arg =
  arg_long :: string
  arg_env :: "string option"
  arg_required :: bool

type_synonym clap = "clap_arg list \<Rightarrow> (string \<rightharpoonup> string) \<Rightarrow> string list \<Rightarrow> (string \<rightharpoonup> string) option"

definition long_option :: "string \<times> string \<Rightarrow> string" where
  "long_option = (\<lambda>(name, v). ''--'' @ name @ ''='' @ v)"

text \<open>
  The value of an option: the command line before the environment. \<open>None\<close> when a required one is missing.
\<close>

definition option_value :: "(string \<rightharpoonup> string) \<Rightarrow> (string \<times> string) list \<Rightarrow> clap_arg \<Rightarrow> string option" where
  "option_value vars given a =
     (case map_of given (arg_long a) of Some v \<Rightarrow> Some v | None \<Rightarrow> Option.bind (arg_env a) vars)"

definition option_values ::
    "clap_arg list \<Rightarrow> (string \<rightharpoonup> string) \<Rightarrow> (string \<times> string) list \<Rightarrow> (string \<rightharpoonup> string) option" where
  "option_values args vars given =
     (if list_all (\<lambda>a. arg_required a \<longrightarrow> option_value vars given a \<noteq> None) args
      then Some (\<lambda>name. Option.bind (find (\<lambda>a. arg_long a = name) args) (option_value vars given))
      else None)"

text \<open>
  What \<^verbatim>\<open>clap\<close> documents of a command line on which every word has the form \<^verbatim>\<open>--name=value\<close> for a declared
  name and no name comes twice. About other command lines nothing is assumed.
\<close>

definition clap_documented :: "clap \<Rightarrow> bool" where
  "clap_documented clap \<longleftrightarrow>
     (\<forall>args vars given.
        distinct (map arg_long args) \<and> list_all (\<lambda>a. CHR ''='' \<notin> set (arg_long a)) args \<and>
        distinct (map fst given) \<and> set (map fst given) \<subseteq> set (map arg_long args) \<longrightarrow>
        clap args vars (map long_option given) = option_values args vars given)"

section \<open>The arguments of the publisher\<close>

record 'k value_parsers =
  PrivateKeySigner_from_str :: "string \<Rightarrow> 'k option"
  Address_from_str :: "string \<Rightarrow> address option"
  U256_from_str :: "string \<Rightarrow> u256 option"

definition publisher_options :: "clap_arg list" where
  "publisher_options =
     [\<lparr>arg_long = ''chain-id'', arg_env = None, arg_required = True\<rparr>,
      \<lparr>arg_long = ''eth-wallet-private-key'', arg_env = Some ''ETH_WALLET_PRIVATE_KEY'', arg_required = True\<rparr>,
      \<lparr>arg_long = ''rpc-url'', arg_env = Some ''RPC_URL'', arg_required = True\<rparr>,
      \<lparr>arg_long = ''block-number'', arg_env = None, arg_required = False\<rparr>,
      \<lparr>arg_long = ''voter-signature'', arg_env = None, arg_required = True\<rparr>,
      \<lparr>arg_long = ''voter'', arg_env = None, arg_required = True\<rparr>,
      \<lparr>arg_long = ''dao-address'', arg_env = None, arg_required = True\<rparr>,
      \<lparr>arg_long = ''proposal-id'', arg_env = None, arg_required = True\<rparr>,
      \<lparr>arg_long = ''direction'', arg_env = None, arg_required = True\<rparr>,
      \<lparr>arg_long = ''balance'', arg_env = None, arg_required = True\<rparr>,
      \<lparr>arg_long = ''config-contract'', arg_env = None, arg_required = True\<rparr>,
      \<lparr>arg_long = ''token'', arg_env = None, arg_required = True\<rparr>,
      \<lparr>arg_long = ''additional-delegation-data'', arg_env = None, arg_required = True\<rparr>,
      \<lparr>arg_long = ''testing'', arg_env = None, arg_required = True\<rparr>]"

definition optional_value :: "('a \<Rightarrow> 'b option) \<Rightarrow> 'a option \<Rightarrow> 'b option option" where
  "optional_value parse v = (case v of None \<Rightarrow> Some None | Some s \<Rightarrow> map_option Some (parse s))"

text \<open>The struct from the texts of its options, each read by the parser of its field's type.\<close>

definition Args_from_values :: "'k value_parsers \<Rightarrow> (string \<rightharpoonup> string) \<Rightarrow> 'k publisher_args option" where
  "Args_from_values V m = do {
     chain_id \<leftarrow> Option.bind (m ''chain-id'') uint_from_str;
     key \<leftarrow> Option.bind (m ''eth-wallet-private-key'') (PrivateKeySigner_from_str V);
     rpc_url \<leftarrow> m ''rpc-url'';
     block_number \<leftarrow> optional_value uint_from_str (m ''block-number'');
     voter_signature \<leftarrow> m ''voter-signature'';
     voter \<leftarrow> Option.bind (m ''voter'') (Address_from_str V);
     dao_address \<leftarrow> Option.bind (m ''dao-address'') (Address_from_str V);
     proposal_id \<leftarrow> Option.bind (m ''proposal-id'') (U256_from_str V);
     direction \<leftarrow> Option.bind (m ''direction'') uint_from_str;
     balance \<leftarrow> Option.bind (m ''balance'') (U256_from_str V);
     config_contract \<leftarrow> Option.bind (m ''config-contract'') (Address_from_str V);
     token \<leftarrow> Option.bind (m ''token'') (Address_from_str V);
     additional_delegation_data \<leftarrow> m ''additional-delegation-data'';
     testing \<leftarrow> Option.bind (m ''testing'') uint_from_str;
     Some \<lparr>pa_chain_id = chain_id, pa_eth_wallet_private_key = key, pa_rpc_url = rpc_url,
       pa_block_number = block_number, pa_voter_signature = voter_signature, pa_voter = voter,
       pa_dao_address = dao_address, pa_proposal_id = proposal_id, pa_direction = direction, pa_balance = balance,
       pa_config_contract = config_contract, pa_token = token,
       pa_additional_delegation_data = additional_delegation_data, pa_testing = testing\<rparr>
   }"

definition Args_parse ::
    "clap \<Rightarrow> 'k value_parsers \<Rightarrow> (string \<rightharpoonup> string) \<Rightarrow> string list \<Rightarrow> 'k publisher_args option" where
  "Args_parse clap V vars argv = Option.bind (clap publisher_options vars argv) (Args_from_values V)"

text \<open>
  The process: wrong arguments end it before anything is sent; otherwise \<^verbatim>\<open>main\<close> decides. The second component
  is whether the exit status is success.
\<close>

definition publisher_process ::
    "clap \<Rightarrow> 'k value_parsers \<Rightarrow> ('sig, 'pk, 'i, 'c, 'k) host_libs \<Rightarrow> 'i stdin_codec \<Rightarrow>
     (string \<rightharpoonup> string) \<Rightarrow> string list \<Rightarrow> 'k transaction list \<times> bool" where
  "publisher_process clap V L c vars argv =
     (case Args_parse clap V vars argv of
        None \<Rightarrow> ([], False)
      | Some args \<Rightarrow> (case publisher_main L c args of (txs, r) \<Rightarrow> (txs, r = Inr (Inr ()))))"

section \<open>The callers\<close>

text \<open>A command inherits the variables of its parent and adds its own.\<close>

definition launch ::
    "clap \<Rightarrow> 'k value_parsers \<Rightarrow> ('sig, 'pk, 'i, 'c, 'k) host_libs \<Rightarrow> 'i stdin_codec \<Rightarrow>
     (string \<rightharpoonup> string) \<Rightarrow> command \<Rightarrow> 'k transaction list \<times> bool" where
  "launch clap V L c vars cmd = publisher_process clap V L c (vars ++ map_of (cmd_env cmd)) (cmd_args cmd)"

text \<open>
  \<^verbatim>\<open>proof_vote\<close> with the publisher it starts: the transactions sent while the request is handled, and the answer.
  \<open>startable\<close> is whether the operating system can start a command.
\<close>

definition serve_proof_vote ::
    "clap \<Rightarrow> 'k value_parsers \<Rightarrow> ('sig, 'pk, 'i, 'c, 'k) host_libs \<Rightarrow> 'i stdin_codec \<Rightarrow> (command \<Rightarrow> bool) \<Rightarrow>
     (string \<rightharpoonup> string) \<Rightarrow> VotingParams \<Rightarrow> 'k transaction list \<times> unit http exec" where
  "serve_proof_vote clap V L c startable vars payload =
     (let run = (\<lambda>cmd. if startable cmd then Some (snd (launch clap V L c vars cmd)) else None);
          sent = (case publisher_command vars payload of
                    Inl _ \<Rightarrow> []
                  | Inr cmd \<Rightarrow> if startable cmd then fst (launch clap V L c vars cmd) else [])
      in (sent, proof_vote run vars payload))"

text \<open>
  The words after \<^verbatim>\<open>--\<close> in \<^verbatim>\<open>test-sepolia.sh\<close>, with the values the script exports and an \<^verbatim>\<open>RPC_URL\<close>
  without blanks.
\<close>

definition sepolia_options :: "string \<Rightarrow> (string \<times> string) list" where
  "sepolia_options rpc_url =
     [(''chain-id'', ''11155111''), (''rpc-url'', rpc_url), (''block-number'', ''7087022''),
      (''voter-signature'', ''476d1ca40c07dad98cad9acf0b08e673ae0ea7b2efb01453bd123333c800c6ee'' @
        ''3b6f2a642e7aa03e777cfea4fec2c790ca99515a2d4acad0adbf062602ef0b9d1c''),
      (''voter'', ''0x8bF1e340055c7dE62F11229A149d3A1918de3d74''),
      (''dao-address'', ''0xB32806A45fDdB87747bb641A890D10F2F819c267''), (''proposal-id'', ''0''),
      (''direction'', ''2''), (''balance'', ''450000000000000000''),
      (''config-contract'', ''0xaf4ba5015Eb5bE8780e664e2BE40144668361B0f''),
      (''token'', ''0x185Bb1cca668C474214e934028A3e4BB7A5E6525''),
      (''additional-delegation-data'', ''8bF1e340055c7dE62F11229A149d3A1918de3d74'')]"

text \<open>
  The integration test: it signs a vote and runs the publisher in testing mode. The signature is printed with
  \<^verbatim>\<open>{:?}\<close>, which puts a text without special characters between quotation marks; \<open>hex_encode\<close> is \<^verbatim>\<open>hex::encode\<close>.
\<close>

definition test_signed_vote ::
    "('sig, 'pk, 'z) crypto_scheme \<Rightarrow> (bytes32 \<Rightarrow> u8 list Result) \<Rightarrow> (u8 list \<Rightarrow> string) \<Rightarrow> address \<Rightarrow> u256 \<Rightarrow> string Result" where
  "test_signed_vote C sign_hash hex_encode dao balance =
     rbind (get_user_vote_signature C sign_hash 11155111 dao 2 0 balance) (\<lambda>signature. Inr (hex_encode signature))"

definition debug_format :: "string \<Rightarrow> string" where
  "debug_format s = [CHR 0x22] @ s @ [CHR 0x22]"

definition test_options ::
    "(string \<rightharpoonup> string) \<Rightarrow> (address \<Rightarrow> string) \<Rightarrow> string \<Rightarrow> u64 \<Rightarrow> string \<Rightarrow> address \<Rightarrow> address \<Rightarrow> address \<Rightarrow>
     (string \<times> string) list" where
  "test_options vars show_address endpoint block_number signed_vote voter dao plugin =
     [(''chain-id'', case vars ''CHAIN_ID'' of Some i \<Rightarrow> i | None \<Rightarrow> ''11155111''), (''rpc-url'', endpoint),
      (''block-number'', show_nat (unat block_number)), (''voter-signature'', debug_format signed_vote),
      (''voter'', show_address voter), (''dao-address'', show_address dao), (''proposal-id'', show_nat 0),
      (''direction'', show_nat 2), (''balance'', show_nat 0), (''config-contract'', show_address plugin),
      (''token'', show_address 0x185Bb1cca668C474214e934028A3e4BB7A5E6525), (''testing'', show_nat 1),
      (''additional-delegation-data'', '''')]"

section \<open>What the publisher is given\<close>

text \<open>The arguments that a request asks for, field by field.\<close>

definition request_args :: "'k value_parsers \<Rightarrow> (string \<rightharpoonup> string) \<Rightarrow> VotingParams \<Rightarrow> 'k publisher_args \<Rightarrow> bool" where
  "request_args V vars p args \<longleftrightarrow>
     uint_from_str (case vars ''CHAIN_ID'' of Some i \<Rightarrow> i | None \<Rightarrow> ''11155111'') = Some (pa_chain_id args) \<and>
     Option.bind (vars ''ETH_WALLET_PRIVATE_KEY'') (PrivateKeySigner_from_str V) = Some (pa_eth_wallet_private_key args) \<and>
     vars ''RPC_URL'' = Some (pa_rpc_url args) \<and>
     map_option Some (uint_from_str (vp_block_number p)) = Some (pa_block_number args) \<and>
     pa_voter_signature args = drop 2 (vp_voter_signature p) \<and>
     Address_from_str V (vp_voter p) = Some (pa_voter args) \<and>
     Address_from_str V (vp_dao_address p) = Some (pa_dao_address args) \<and>
     U256_from_str V (vp_proposal_id p) = Some (pa_proposal_id args) \<and>
     pa_direction args = vp_direction p \<and>
     U256_from_str V (vp_balance p) = Some (pa_balance args) \<and>
     Address_from_str V (vp_config_contract p) = Some (pa_config_contract args) \<and>
     Address_from_str V (vp_token_address p) = Some (pa_token args) \<and>
     pa_additional_delegation_data args = vp_additional_delegation_data p \<and> pa_testing args = 0"

lemma publisher_options_ok:
  "distinct (map arg_long publisher_options)" "list_all (\<lambda>a. CHR ''='' \<notin> set (arg_long a)) publisher_options"
  by (simp_all add: publisher_options_def)

lemma publisher_option_names:
  "arg_long ` set publisher_options =
     {''chain-id'', ''eth-wallet-private-key'', ''rpc-url'', ''block-number'', ''voter-signature'', ''voter'', ''dao-address'',
      ''proposal-id'', ''direction'', ''balance'', ''config-contract'', ''token'', ''additional-delegation-data'', ''testing''}"
  by (simp add: publisher_options_def)

lemma Args_parse_options:
  assumes "clap_documented clap" and "distinct (map fst given)"
    and "set (map fst given) \<subseteq> set (map arg_long publisher_options)"
  shows "Args_parse clap V vars (map long_option given) =
    Option.bind (option_values publisher_options vars given) (Args_from_values V)"
  using assms publisher_options_ok by (simp add: Args_parse_def clap_documented_def)

text \<open>The options that \<^verbatim>\<open>proof_vote\<close> writes.\<close>

abbreviation request_options :: "(string \<rightharpoonup> string) \<Rightarrow> string \<Rightarrow> string \<Rightarrow> VotingParams \<Rightarrow> (string \<times> string) list" where
  "request_options vars rpc_url voter_signature p \<equiv>
     [(''chain-id'', case vars ''CHAIN_ID'' of Some i \<Rightarrow> i | None \<Rightarrow> ''11155111''), (''rpc-url'', rpc_url),
      (''block-number'', vp_block_number p), (''voter-signature'', voter_signature), (''voter'', vp_voter p),
      (''dao-address'', vp_dao_address p), (''proposal-id'', vp_proposal_id p),
      (''direction'', show_nat (unat (vp_direction p))), (''balance'', vp_balance p),
      (''config-contract'', vp_config_contract p), (''token'', vp_token_address p),
      (''additional-delegation-data'', vp_additional_delegation_data p), (''testing'', show_nat 0)]"

lemma publisher_command_Inr:
  assumes "publisher_command vars p = Inr cmd"
  obtains rpc_url key where "vars ''RPC_URL'' = Some rpc_url" "vars ''ETH_WALLET_PRIVATE_KEY'' = Some key"
    "(vars ++ map_of (cmd_env cmd)) ''ETH_WALLET_PRIVATE_KEY'' = Some key"
    "cmd_args cmd = map long_option (request_options vars rpc_url (drop 2 (vp_voter_signature p)) p)"
  using assms by (auto simp: publisher_command_def str_from_def outcome_iff long_option_def split: if_splits)

lemma uint_from_str_show_0 [simp]: "uint_from_str (show_nat 0) = Some 0"
  using uint_from_str_show [of 0] by simp

lemma option_values_Some:
  "option_values args vars given = Some m \<Longrightarrow>
   m name = Option.bind (find (\<lambda>a. arg_long a = name) args) (option_value vars given)"
  by (auto simp: option_values_def split: if_splits)

lemma option_values_request:
  assumes "vars ''ETH_WALLET_PRIVATE_KEY'' = Some key"
  obtains m where "option_values publisher_options vars (request_options vars' rpc_url sig p) = Some m"
    "m ''chain-id'' = Some (case vars' ''CHAIN_ID'' of Some i \<Rightarrow> i | None \<Rightarrow> ''11155111'')"
    "m ''eth-wallet-private-key'' = Some key" "m ''rpc-url'' = Some rpc_url"
    "m ''block-number'' = Some (vp_block_number p)" "m ''voter-signature'' = Some sig" "m ''voter'' = Some (vp_voter p)"
    "m ''dao-address'' = Some (vp_dao_address p)" "m ''proposal-id'' = Some (vp_proposal_id p)"
    "m ''direction'' = Some (show_nat (unat (vp_direction p)))" "m ''balance'' = Some (vp_balance p)"
    "m ''config-contract'' = Some (vp_config_contract p)" "m ''token'' = Some (vp_token_address p)"
    "m ''additional-delegation-data'' = Some (vp_additional_delegation_data p)" "m ''testing'' = Some (show_nat 0)"
proof -
  obtain m where m: "option_values publisher_options vars (request_options vars' rpc_url sig p) = Some m"
    using assms by (simp add: option_values_def option_value_def publisher_options_def)
  show thesis
    by (rule that [OF m])
      (simp_all add: option_values_Some [OF m] option_value_def publisher_options_def assms)
qed

lemma Args_parse_request:
  assumes "clap_documented clap" and "publisher_command vars p = Inr cmd"
  shows "Args_parse clap V (vars ++ map_of (cmd_env cmd)) (cmd_args cmd) = Some args \<longleftrightarrow> request_args V vars p args"
proof -
  obtain rpc_url key where vars: "vars ''RPC_URL'' = Some rpc_url" "vars ''ETH_WALLET_PRIVATE_KEY'' = Some key"
      and key: "(vars ++ map_of (cmd_env cmd)) ''ETH_WALLET_PRIVATE_KEY'' = Some key"
      and argv: "cmd_args cmd = map long_option (request_options vars rpc_url (drop 2 (vp_voter_signature p)) p)"
    using assms(2) by (rule publisher_command_Inr)
  obtain m where m: "option_values publisher_options (vars ++ map_of (cmd_env cmd))
        (request_options vars rpc_url (drop 2 (vp_voter_signature p)) p) = Some m"
      and texts: "m ''chain-id'' = Some (case vars ''CHAIN_ID'' of Some i \<Rightarrow> i | None \<Rightarrow> ''11155111'')"
        "m ''eth-wallet-private-key'' = Some key" "m ''rpc-url'' = Some rpc_url"
        "m ''block-number'' = Some (vp_block_number p)" "m ''voter-signature'' = Some (drop 2 (vp_voter_signature p))"
        "m ''voter'' = Some (vp_voter p)" "m ''dao-address'' = Some (vp_dao_address p)"
        "m ''proposal-id'' = Some (vp_proposal_id p)" "m ''direction'' = Some (show_nat (unat (vp_direction p)))"
        "m ''balance'' = Some (vp_balance p)" "m ''config-contract'' = Some (vp_config_contract p)"
        "m ''token'' = Some (vp_token_address p)"
        "m ''additional-delegation-data'' = Some (vp_additional_delegation_data p)" "m ''testing'' = Some (show_nat 0)"
    using key by (rule option_values_request)
  have "Args_parse clap V (vars ++ map_of (cmd_env cmd)) (cmd_args cmd) = Args_from_values V m"
    unfolding argv by (subst Args_parse_options [OF assms(1)]) (simp_all add: m publisher_option_names)
  moreover have "Args_from_values V m = Some args \<longleftrightarrow> request_args V vars p args"
    by (cases args) (auto simp: Args_from_values_def request_args_def optional_value_def texts vars bind_eq_Some_conv)
  ultimately show ?thesis by simp
qed

section \<open>Properties\<close>

text \<open>
  C25: A request reaches the publisher unchanged. When \<^verbatim>\<open>proof_vote\<close> gets as far as starting the publisher, the
  publisher's \<^verbatim>\<open>Args::parse\<close> succeeds exactly when every text of the request can be read as the type of its field,
  and then gives the request's own values: the signature without its first two characters, the block, voter, DAO,
  proposal, balance, contracts and delegation data as written, the direction as the number it was, the endpoint and
  key of the server's environment, the chain id of its environment or Sepolia's, and testing mode off.
\<close>

theorem request_reaches_publisher:
  assumes "clap_documented clap" and "publisher_command vars p = Inr cmd"
  shows "Args_parse clap V (vars ++ map_of (cmd_env cmd)) (cmd_args cmd) = Some args \<longleftrightarrow> request_args V vars p args"
  using assms by (rule Args_parse_request)

text \<open>A parser for words of the documented form.\<close>

definition split_option :: "string \<Rightarrow> string \<times> string" where
  "split_option s = (takeWhile (\<lambda>ch. ch \<noteq> CHR ''='') (drop 2 s), tl (dropWhile (\<lambda>ch. ch \<noteq> CHR ''='') (drop 2 s)))"

definition ex_clap :: clap where
  "ex_clap args vars argv = option_values args vars (map split_option argv)"

lemma split_long_option: "CHR ''='' \<notin> set name \<Longrightarrow> split_option (long_option (name, v)) = (name, v)"
  by (induction name) (auto simp: split_option_def long_option_def takeWhile_append dropWhile_append)

lemma split_long_options:
  assumes "list_all (\<lambda>a. CHR ''='' \<notin> set (arg_long a)) args" "set (map fst given) \<subseteq> set (map arg_long args)"
  shows "map split_option (map long_option given) = given"
  using assms(2) by (induction given) (use assms(1) in \<open>auto simp: split_long_option list_all_iff\<close>)

lemma ex_clap_documented: "clap_documented ex_clap"
  unfolding clap_documented_def ex_clap_def by (metis split_long_options)

definition ex_parsers :: "unit value_parsers" where
  "ex_parsers = \<lparr>PrivateKeySigner_from_str = (\<lambda>_. Some ()),
     Address_from_str = map_of [(''0x1'', 1), (''0x4d'', 77), (''0x30'', 48), (''0x10'', 16)],
     U256_from_str = uint_from_str\<rparr>"

definition ex_request_vars :: "string \<rightharpoonup> string" where
  "ex_request_vars = ex_vars(''RPC_URL'' \<mapsto> ''http'')"

definition ex_request :: VotingParams where
  "ex_request = ex_params\<lparr>vp_voter_signature := ''0xsig''\<rparr>"

lemma ex_numerals:
  "uint_from_str ''100'' = Some (100 :: u64)" "uint_from_str ''11155111'' = Some (11155111 :: u64)"
  "uint_from_str ''0'' = Some (0 :: u256)" "uint_from_str ''150'' = Some (150 :: u256)"
  by (simp_all add: uint_from_str_def digit_value_def)

lemma ex_request_args: "request_args ex_parsers ex_request_vars ex_request ex_args"
  by (simp add: request_args_def ex_parsers_def ex_request_vars_def ex_vars_def ex_request_def ex_params_def ex_args_def
      ex_numerals)

lemma ex_request_command: "\<exists>cmd. publisher_command ex_request_vars ex_request = Inr cmd"
  by (simp add: publisher_command_def ex_request_vars_def ex_vars_def ex_request_def ex_params_def str_from_def
      is_char_boundary_def)

theorem request_reaches_publisher_witness:
  "\<exists>cmd. publisher_command ex_request_vars ex_request = Inr cmd \<and>
     Args_parse ex_clap ex_parsers (ex_request_vars ++ map_of (cmd_env cmd)) (cmd_args cmd) = Some ex_args"
proof -
  obtain cmd where cmd: "publisher_command ex_request_vars ex_request = Inr cmd" using ex_request_command by blast
  show ?thesis
    using request_reaches_publisher [OF ex_clap_documented cmd, of ex_parsers ex_args] ex_request_args cmd by blast
qed

text \<open>The testing mode of the publisher sends nothing.\<close>

lemma publisher_testing: "pa_testing args = 1 \<Longrightarrow> fst (publisher_main L c args) = []"
proof -
  assume "pa_testing args = 1"
  then have "publisher_transaction L c args \<noteq> Inr (Inr (Some tx))" for tx
    by (auto simp: publisher_transaction_def outcome_iff)
  then show ?thesis by (auto simp: publisher_main_def submit_def split: sum.split option.split)
qed

text \<open>What a command line of declared options must contain to be accepted.\<close>

lemma Args_parse_given:
  assumes "clap_documented clap" and "distinct (map fst given)" and "set (map fst given) \<subseteq> set (map arg_long publisher_options)"
    and "Args_parse clap V vars (map long_option given) = Some args"
  shows "\<forall>a \<in> set publisher_options. arg_required a \<longrightarrow> option_value vars given a \<noteq> None"
    and "\<exists>text. map_of given ''testing'' = Some text \<and> uint_from_str text = Some (pa_testing args)"
proof -
  from assms obtain m where m: "option_values publisher_options vars given = Some m" "Args_from_values V m = Some args"
    by (auto simp: Args_parse_options bind_eq_Some_conv)
  from m(1) show "\<forall>a \<in> set publisher_options. arg_required a \<longrightarrow> option_value vars given a \<noteq> None"
    by (auto simp: option_values_def list_all_iff split: if_splits)
  have "m ''testing'' = map_of given ''testing''"
    by (simp add: option_values_Some [OF m(1)] option_value_def publisher_options_def split: option.split)
  with m(2) show "\<exists>text. map_of given ''testing'' = Some text \<and> uint_from_str text = Some (pa_testing args)"
    by (auto simp: Args_from_values_def bind_eq_Some_conv)
qed

text \<open>A process that sends something has read its arguments and is not in testing mode.\<close>

lemma publisher_process_sends:
  assumes "tx \<in> set (fst (publisher_process clap V L c vars argv))"
  obtains args where "Args_parse clap V vars argv = Some args" "pa_testing args \<noteq> 1"
proof -
  from assms obtain args where args: "Args_parse clap V vars argv = Some args" "tx \<in> set (fst (publisher_main L c args))"
    by (auto simp: publisher_process_def split: option.splits prod.splits)
  with publisher_testing [of args L c] have "pa_testing args \<noteq> 1" by auto
  with args(1) show thesis by (rule that)
qed

text \<open>
  C38: Which callers can publish a vote. On any command line of declared options the publisher sends a transaction only
  if every required option has a value and \<^verbatim>\<open>--testing\<close> is given a number other than one. Three parts of the
  repository run the publisher. \<^verbatim>\<open>test-sepolia.sh\<close> leaves out the required option \<^verbatim>\<open>--testing\<close>, so the publisher
  stops at its arguments, whatever the environment. The integration test sets it to one, so no transaction is sent,
  whatever its other arguments. Only the command of the server's \<^verbatim>\<open>proof_vote\<close> can publish: it turns testing mode off,
  and what it sends for a request that can be read is what the publisher sends for the values of the request.
\<close>

theorem only_server_publishes:
  assumes "clap_documented clap"
  shows "(\<forall>given tx. distinct (map fst given) \<and> set (map fst given) \<subseteq> set (map arg_long publisher_options) \<and>
       tx \<in> set (fst (publisher_process clap V L c vars (map long_option given))) \<longrightarrow>
       (\<forall>a \<in> set publisher_options. arg_required a \<longrightarrow> option_value vars given a \<noteq> None) \<and>
       (\<exists>text n. map_of given ''testing'' = Some text \<and> uint_from_str text = Some (n :: u8) \<and> n \<noteq> 1)) \<and>
    publisher_process clap V L c vars (map long_option (sepolia_options rpc_url)) = ([], False) \<and>
    fst (publisher_process clap V L c vars
      (map long_option (test_options vars show_address endpoint block_number signed_vote voter dao plugin))) = [] \<and>
    (\<forall>cmd args. publisher_command vars p = Inr cmd \<and> request_args V vars p args \<longrightarrow>
       pa_testing args = 0 \<and> fst (launch clap V L c vars cmd) = fst (publisher_main L c args))"
proof (intro conjI allI impI)
  fix given tx
  assume given: "distinct (map fst given) \<and> set (map fst given) \<subseteq> set (map arg_long publisher_options) \<and>
      tx \<in> set (fst (publisher_process clap V L c vars (map long_option given)))"
  then obtain args where args: "Args_parse clap V vars (map long_option given) = Some args" "pa_testing args \<noteq> 1"
    by (blast elim: publisher_process_sends)
  note found = Args_parse_given [OF assms _ _ args(1)]
  show "\<forall>a \<in> set publisher_options. arg_required a \<longrightarrow> option_value vars given a \<noteq> None" using found given by blast
  show "\<exists>text n. map_of given ''testing'' = Some text \<and> uint_from_str text = Some (n :: u8) \<and> n \<noteq> 1"
    using found given args(2) by blast
next
  let ?given = "sepolia_options rpc_url"
  have ok: "distinct (map fst ?given)" "set (map fst ?given) \<subseteq> set (map arg_long publisher_options)"
      "map_of ?given ''testing'' = None"
    by (simp_all add: sepolia_options_def publisher_option_names)
  have "Args_parse clap V vars (map long_option ?given) = None"
    using Args_parse_given(2) [OF assms ok(1,2), of V vars] ok(3) by (cases "Args_parse clap V vars (map long_option ?given)") auto
  then show "publisher_process clap V L c vars (map long_option ?given) = ([], False)" by (simp add: publisher_process_def)
next
  let ?given = "test_options vars show_address endpoint block_number signed_vote voter dao plugin"
  have ok: "distinct (map fst ?given)" "set (map fst ?given) \<subseteq> set (map arg_long publisher_options)"
      "map_of ?given ''testing'' = Some (show_nat 1)"
    by (simp_all add: test_options_def publisher_option_names)
  moreover have "uint_from_str (show_nat 1) = Some (1 :: u8)" using uint_from_str_show [of "1 :: u8"] by simp
  ultimately have "tx \<notin> set (fst (publisher_process clap V L c vars (map long_option ?given)))" for tx
    using Args_parse_given(2) [OF assms ok(1,2), of V vars] by (auto elim!: publisher_process_sends)
  then show "fst (publisher_process clap V L c vars (map long_option ?given)) = []" by (metis list.set_intros(1) neq_Nil_conv)
next
  fix cmd args
  assume "publisher_command vars p = Inr cmd \<and> request_args V vars p args"
  then show "pa_testing args = 0" "fst (launch clap V L c vars cmd) = fst (publisher_main L c args)"
    using Args_parse_request [OF assms, of vars p cmd V args]
    by (simp_all add: request_args_def launch_def publisher_process_def split: prod.split)
qed

theorem only_server_publishes_witness:
  "publisher_process ex_clap ex_parsers ex_host_libs ex_codec ex_vars (map long_option (sepolia_options ''http'')) = ([], False) \<and>
   (\<exists>cmd. publisher_command ex_request_vars ex_request = Inr cmd \<and>
      fst (launch ex_clap ex_parsers ex_host_libs ex_codec ex_request_vars cmd) =
        fst (publisher_main ex_host_libs ex_codec ex_args))"
proof -
  obtain cmd where cmd: "publisher_command ex_request_vars ex_request = Inr cmd" using ex_request_command by blast
  then have "fst (launch ex_clap ex_parsers ex_host_libs ex_codec ex_request_vars cmd) =
      fst (publisher_main ex_host_libs ex_codec ex_args)"
    using only_server_publishes [OF ex_clap_documented, of ex_parsers ex_host_libs ex_codec ex_request_vars _ _ _ _ _ _ _ _ ex_request]
      ex_request_args by blast
  with cmd only_server_publishes [OF ex_clap_documented, of ex_parsers ex_host_libs ex_codec ex_vars] show ?thesis by blast
qed

end
