(* ===== verification/Evm_Tx.thy ===== *)
theory Evm_Tx
  imports Prelude
begin

unbundle bit_operations_syntax

text \<open>
  What the Solidity sources share: the block and sender a transaction sees, reverts as values (one
  constructor per custom error of the contracts, and the compiler's own panics), checked arithmetic,
  the narrowing casts of \<^verbatim>\<open>SafeCast\<close>, calldata slices and four-byte selectors.
\<close>

section \<open>Blocks and reverts\<close>

type_synonym u16 = "16 word"
type_synonym bytes4 = "32 word"

record block =
  block_number :: u256
  block_timestamp :: u256
  blockhash :: "u256 \<Rightarrow> bytes32"
  msgSender :: address

text \<open>
  The \<^verbatim>\<open>BLOCKHASH\<close> operation answers for the 256 blocks before the current one and gives zero
  otherwise.
\<close>

definition evm_block :: "block \<Rightarrow> bool" where
  "evm_block b \<longleftrightarrow>
     (\<forall>n. \<not> (n < block_number b \<and> block_number b - n \<le> 256) \<longrightarrow> blockhash b n = 0)"

datatype revert =
    DaoUnauthorized
  | RatioOutOfBounds u256 u256
  | MinDurationOutOfBounds u64 u64
  | DateOutOfBounds u64 u64
  | ProposalExecutionForbidden u256
  | WrongHelpersArrayLength u256
  | InvalidCommitmentVersion
  | CommitmentTooOld
  | SelectorMismatch bytes4 bytes4
  | VerificationFailed
  | SelectorUnknown bytes4
  | SelectorInUse bytes4
  | SelectorRemoved bytes4
  | InvalidProofOfExploit
  | OwnableUnauthorized
  | EnforcedPause
  | Require_failed string
  | Arithmetic_panic
  | Enum_panic
  | Array_panic
  | Cast_failed
  | Decode_failed
  | Calldata_out_of_range
  | Verification_reverted
  | Execution_reverted
  | Deployment_reverted

type_synonym 'a tx = "revert + 'a"

definition require :: "bool \<Rightarrow> revert \<Rightarrow> unit tx" where
  "require b e = (if b then Inr () else Inl e)"

lemma require_Inr_iff [outcome_iff, simp]: "require b e = Inr u \<longleftrightarrow> b"
  by (simp add: require_def)

lemma require_simps [outcome_simps, simp]: "require True e = Inr ()" "require False e = Inl e"
  by (simp_all add: require_def)

section \<open>Checked arithmetic\<close>

definition checked_add :: "'a::len word \<Rightarrow> 'a word \<Rightarrow> 'a word tx" where
  "checked_add a b = (if unat a + unat b < 2 ^ LENGTH('a) then Inr (a + b) else Inl Arithmetic_panic)"

definition checked_sub :: "'a::len word \<Rightarrow> 'a word \<Rightarrow> 'a word tx" where
  "checked_sub a b = (if b \<le> a then Inr (a - b) else Inl Arithmetic_panic)"

text \<open>\<^verbatim>\<open>SafeCast.toUint64\<close> and \<^verbatim>\<open>SafeCast.toUint16\<close>.\<close>

definition toUint64 :: "u256 \<Rightarrow> u64 tx" where
  "toUint64 x = (if unat x < 2 ^ 64 then Inr (ucast x) else Inl Cast_failed)"

definition toUint16 :: "u256 \<Rightarrow> u16 tx" where
  "toUint16 x = (if unat x < 2 ^ 16 then Inr (ucast x) else Inl Cast_failed)"

lemma checked_add_Inr_iff [outcome_iff]:
  "checked_add a b = Inr c \<longleftrightarrow> unat a + unat b < 2 ^ LENGTH('a) \<and> c = a + b" for a :: "'a::len word"
  by (auto simp: checked_add_def)

lemma checked_sub_Inr_iff [outcome_iff]: "checked_sub a b = Inr c \<longleftrightarrow> b \<le> a \<and> c = a - b"
  by (auto simp: checked_sub_def)

lemma toUint64_Inr_iff [outcome_iff]: "toUint64 x = Inr y \<longleftrightarrow> unat x < 2 ^ 64 \<and> y = ucast x"
  by (auto simp: toUint64_def)

lemma toUint16_Inr_iff [outcome_iff]: "toUint16 x = Inr y \<longleftrightarrow> unat x < 2 ^ 16 \<and> y = ucast x"
  by (auto simp: toUint16_def)

text \<open>Widening keeps the value; a checked sum or difference is the exact one.\<close>

lemma unat_ucast_widen:
  fixes x :: "'a::len word"
  assumes "LENGTH('a) \<le> LENGTH('b::len)"
  shows "unat (ucast x :: 'b word) = unat x"
proof -
  have "unat x < 2 ^ LENGTH('a)" using unsigned_less [of x, where ?'a = nat] by simp
  also have "(2 :: nat) ^ LENGTH('a) \<le> 2 ^ LENGTH('b)" using assms by simp
  finally show ?thesis by (simp add: unsigned_ucast_eq take_bit_nat_eq_self)
qed

lemma unat_add_exact:
  fixes a b :: "'a::len word"
  assumes "unat a + unat b < 2 ^ LENGTH('a)"
  shows "unat (a + b) = unat a + unat b"
  using assms by (simp add: unat_word_ariths)

lemma uint_add_exact:
  fixes a b :: "'a::len word"
  assumes "unat a + unat b < 2 ^ LENGTH('a)"
  shows "uint (a + b) = uint a + uint b"
proof -
  have "int (unat (a + b)) = int (unat a) + int (unat b)" by (simp add: unat_add_exact [OF assms])
  then show ?thesis by (simp only: uint_nat)
qed

lemma unat_sub_exact:
  fixes a b :: "'a::len word"
  assumes "b \<le> a"
  shows "unat (a - b) = unat a - unat b" and "unat b \<le> unat a"
  using assms by (simp_all add: unat_sub word_le_nat_alt)

lemma uint_sub_exact:
  fixes a b :: "'a::len word"
  assumes "b \<le> a"
  shows "uint (a - b) = uint a - uint b"
proof -
  have "int (unat (a - b)) = int (unat a) - int (unat b)" using unat_sub_exact [OF assms] by simp
  then show ?thesis by (simp only: uint_nat)
qed

section \<open>Calldata\<close>

text \<open>\<^verbatim>\<open>bytes4(data[:4])\<close> and \<^verbatim>\<open>data[4:]\<close>; a slice beyond the end reverts.\<close>

definition calldata_selector :: "u8 list \<Rightarrow> bytes4 tx" where
  "calldata_selector data = (if length data < 4 then Inl Calldata_out_of_range else Inr (from_be_bytes (take 4 data)))"

lemma calldata_selector_Inr_iff [outcome_iff]:
  "calldata_selector data = Inr s \<longleftrightarrow> 4 \<le> length data \<and> s = from_be_bytes (take 4 data)"
  by (auto simp: calldata_selector_def)

lemma calldata_selector_append [simp]: "calldata_selector (to_be_bytes (s :: bytes4) @ rest) = Inr s"
  by (simp add: calldata_selector_def from_to_be_bytes)

interpretation bytes4_be: fixed_width "to_be_bytes :: bytes4 \<Rightarrow> u8 list" 4
  by unfold_locales (simp_all add: to_be_bytes_inject)

interpretation u16_be: fixed_width "to_be_bytes :: u16 \<Rightarrow> u8 list" 2
  by unfold_locales (simp_all add: to_be_bytes_inject)

section \<open>ABI words\<close>

definition abi_words :: "u256 list \<Rightarrow> u8 list" where
  "abi_words ws = concat (map to_be_bytes ws)"

definition words_of :: "u8 list \<Rightarrow> u256 list" where
  "words_of bs = map from_be_bytes (chunks_exact 32 bs)"

lemma words_of_abi_words [simp]: "words_of (abi_words ws) = ws"
proof -
  have "chunks_exact 32 (concat (map to_be_bytes ws)) = map to_be_bytes ws"
    by (rule chunks_exact_concat) auto
  then show ?thesis by (simp add: words_of_def abi_words_def comp_def from_to_be_bytes)
qed

lemma length_abi_words [simp]: "length (abi_words ws) = 32 * length ws"
  by (simp add: abi_words_def u256_be.length_concat_enc)

lemma abi_words_append: "abi_words xs @ abi_words ys = abi_words (xs @ ys)"
  by (simp add: abi_words_def)

lemma words_of_append: "words_of (abi_words ws @ bs) = ws @ words_of bs"
  by (induction ws) (simp_all add: words_of_def abi_words_def chunks_exact_append from_to_be_bytes)

lemma length_words_of: "length (words_of bs) = length bs div 32"
  by (simp add: words_of_def length_chunks_exact)

text \<open>The bytes of the two halves of a word.\<close>

lemma nth_to_be_bytes:
  "i < LENGTH('a) div 8 \<Longrightarrow> to_be_bytes (w :: 'a::len word) ! i = ucast (drop_bit (8 * (LENGTH('a) div 8 - Suc i)) w)"
  by (simp add: to_be_bytes_def rev_nth)

lemma to_be_bytes_halves:
  fixes w :: u256
  shows "to_be_bytes (ucast w :: 128 word) = drop 16 (to_be_bytes w)"
    and "to_be_bytes (ucast (drop_bit 128 w) :: 128 word) = take 16 (to_be_bytes w)"
proof -
  have "(ucast (drop_bit (8 * (16 - Suc i)) (ucast w :: 128 word)) :: u8) = ucast (drop_bit (8 * (32 - Suc (16 + i))) w)"
    if "i < 16" for i
    using that by (intro bit_word_eqI) (auto simp: bit_simps)
  then show "to_be_bytes (ucast w :: 128 word) = drop 16 (to_be_bytes w)"
    by (intro nth_equalityI) (simp_all add: nth_to_be_bytes)
  have "(ucast (drop_bit (8 * (16 - Suc i)) (ucast (drop_bit 128 w) :: 128 word)) :: u8) = ucast (drop_bit (8 * (32 - Suc i)) w)"
    if "i < 16" for i
  proof -
    have "8 * (16 - Suc i) + 128 = 8 * (32 - Suc i)" using that by simp
    then show ?thesis using that by (intro bit_word_eqI) (auto simp: bit_simps add.commute add.left_commute)
  qed
  then show "to_be_bytes (ucast (drop_bit 128 w) :: 128 word) = take 16 (to_be_bytes w)"
    by (intro nth_equalityI) (simp_all add: nth_to_be_bytes)
qed

end
