(* ===== verification/Steel_Commitment.thy ===== *)
theory Steel_Commitment
  imports Evm_Tx Steel_Env
begin

unbundle bit_operations_syntax

text \<open>
  \<^verbatim>\<open>lib/risc0/steel/Steel.sol\<close>: the versioned identifiers of Steel commitments and their validation
  on chain against recent block hashes and beacon roots. The beacon roots contract (EIP-4788) is a
  parameter: what a static call to an address with some calldata returns, \<open>None\<close> if it fails.
\<close>

section \<open>Versioned identifiers\<close>

definition encodeVersionedID :: "240 word \<Rightarrow> u16 \<Rightarrow> u256" where
  "encodeVersionedID i version = push_bit 240 (ucast version) OR ucast i"

definition decodeVersionedID :: "u256 \<Rightarrow> 240 word \<times> u16" where
  "decodeVersionedID i = (ucast (i AND mask 240), ucast (drop_bit 240 i))"

section \<open>Validation\<close>

type_synonym staticcalls = "address \<Rightarrow> u8 list \<Rightarrow> u8 list option"

definition BEACON_ROOTS_ADDRESS :: address where
  "BEACON_ROOTS_ADDRESS = 0x000F3df6D732807Ef1319fB7B8bB8522d0Beac02"

definition parentBlockRoot :: "staticcalls \<Rightarrow> u256 \<Rightarrow> bytes32 tx" where
  "parentBlockRoot staticcall timestamp =
     (case staticcall BEACON_ROOTS_ADDRESS (to_be_bytes timestamp) of
        Some result \<Rightarrow>
          if length result < 32 then Inl Decode_failed else Inr (from_be_bytes (take 32 result))
      | None \<Rightarrow> Inr 0)"

definition validateBlockCommitment :: "block \<Rightarrow> u256 \<Rightarrow> bytes32 \<Rightarrow> bool tx" where
  "validateBlockCommitment b blockNumber blockHash =
     rbind (checked_sub (block_number b) blockNumber) (\<lambda>age.
     rbind (require (\<not> 256 < age) CommitmentTooOld) (\<lambda>_.
       Inr (blockHash = blockhash b blockNumber)))"

definition validateBeaconCommitment :: "block \<Rightarrow> staticcalls \<Rightarrow> u256 \<Rightarrow> bytes32 \<Rightarrow> bool tx" where
  "validateBeaconCommitment b staticcall timestamp blockRoot =
     rbind (checked_sub (block_timestamp b) timestamp) (\<lambda>age.
     rbind (require (\<not> 12 * 8191 < age) CommitmentTooOld) (\<lambda>_.
     rbind (parentBlockRoot staticcall timestamp) (\<lambda>root.
       Inr (blockRoot = root))))"

definition validateCommitment :: "block \<Rightarrow> staticcalls \<Rightarrow> Commitment \<Rightarrow> bool tx" where
  "validateCommitment b staticcall c =
     (let (claimID, version) = decodeVersionedID (commitment_id c) in
      if version = 0 then validateBlockCommitment b (ucast claimID) (commitment_digest c)
      else if version = 1 then validateBeaconCommitment b staticcall (ucast claimID) (commitment_digest c)
      else Inl InvalidCommitmentVersion)"

section \<open>Properties\<close>

text \<open>
  The version and the identifier of a Steel commitment share one word without mixing: decoding what
  was encoded gives both back, and every word is the encoding of what it decodes to.
\<close>

lemma versioned_id_roundtrip:
  "decodeVersionedID (encodeVersionedID i v) = (i, v) \<and>
   encodeVersionedID (fst (decodeVersionedID w)) (snd (decodeVersionedID w)) = w"
proof
  have "(ucast ((push_bit 240 (ucast v) OR ucast i :: u256) AND mask 240) :: 240 word) = i"
    by (intro bit_word_eqI) (auto simp: bit_simps)
  moreover have "(ucast (drop_bit 240 (push_bit 240 (ucast v) OR ucast i :: u256)) :: 16 word) = v"
    by (intro bit_word_eqI) (auto simp: bit_simps dest: bit_imp_le_length)
  ultimately show "decodeVersionedID (encodeVersionedID i v) = (i, v)"
    by (simp add: decodeVersionedID_def encodeVersionedID_def)
  show "encodeVersionedID (fst (decodeVersionedID w)) (snd (decodeVersionedID w)) = w"
    unfolding decodeVersionedID_def encodeVersionedID_def
    by (intro bit_word_eqI) (auto simp: bit_simps)
qed

text \<open>
  A commitment that the on-chain validation accepts names a real and recent block. A block commitment
  (version zero) has the hash of the block it names, which lies among the last 256; the one exception is a
  zero digest for the current block, whose hash the EVM gives as zero. A beacon commitment (version one) is
  no older than 8191 slots and has the root of the beacon roots contract. Other versions are refused, and
  so is a block or time in the future.
\<close>

lemma validated_commitment_recent:
  assumes "evm_block b" and "validateCommitment b staticcall c = Inr True"
    and "decodeVersionedID (commitment_id c) = (claim, version)"
  shows "version = 0 \<and> commitment_digest c = blockhash b (ucast claim) \<and>
           (unat claim < unat (block_number b) \<and> unat (block_number b) \<le> unat claim + 256 \<or>
            ucast claim = block_number b \<and> commitment_digest c = 0) \<or>
         version = 1 \<and> unat claim \<le> unat (block_timestamp b) \<and>
           unat (block_timestamp b) \<le> unat claim + 98292 \<and>
           parentBlockRoot staticcall (ucast claim) = Inr (commitment_digest c)"
proof -
  have widen: "unat (ucast claim :: u256) = unat claim" by (rule unat_ucast_widen) simp
  consider (block) "version = 0" "validateBlockCommitment b (ucast claim) (commitment_digest c) = Inr True"
    | (beacon) "version = 1" "validateBeaconCommitment b staticcall (ucast claim) (commitment_digest c) = Inr True"
    using assms(2,3) by (auto simp: validateCommitment_def split: if_splits)
  then show ?thesis
  proof cases
    case block
    then have le: "ucast claim \<le> block_number b" and age: "block_number b - ucast claim \<le> 256"
        and hash: "commitment_digest c = blockhash b (ucast claim)"
      by (auto simp: validateBlockCommitment_def outcome_iff not_less)
    have recent: "unat (block_number b) \<le> unat claim + 256"
      using age unat_sub_exact [OF le] by (simp add: word_le_nat_alt widen)
    show ?thesis
    proof (cases "ucast claim = block_number b")
      case True
      then have "blockhash b (ucast claim) = 0" using assms(1) by (simp add: evm_block_def)
      with True hash block show ?thesis by simp
    next
      case False
      with le have "unat claim < unat (block_number b)"
        by (metis order_le_imp_less_or_eq widen word_less_nat_alt)
      with recent hash block show ?thesis by simp
    qed
  next
    case beacon
    then have le: "ucast claim \<le> block_timestamp b" and age: "block_timestamp b - ucast claim \<le> 98292"
        and root: "parentBlockRoot staticcall (ucast claim) = Inr (commitment_digest c)"
      by (auto simp: validateBeaconCommitment_def outcome_iff not_less)
    have "unat (block_timestamp b) \<le> unat claim + 98292"
      using age unat_sub_exact [OF le] by (simp add: word_le_nat_alt widen)
    with le root beacon show ?thesis by (simp add: word_le_nat_alt widen)
  qed
qed

definition ex_steel_block :: block where
  "ex_steel_block = \<lparr>block_number = 300, block_timestamp = 1000,
     blockhash = (\<lambda>n. if n = 299 then 7 else 0), msgSender = 9\<rparr>"

lemma validated_commitment_recent_witness:
  "validateCommitment ex_steel_block (\<lambda>_ _. None)
     \<lparr>commitment_id = 299, commitment_digest = 7, commitment_configID = 9\<rparr> = Inr True \<and>
   (unat (299 :: 240 word) < unat (block_number ex_steel_block) \<and>
    unat (block_number ex_steel_block) \<le> unat (299 :: 240 word) + 256)"
proof -
  have block: "evm_block ex_steel_block"
    by (auto simp: evm_block_def ex_steel_block_def)
  have accept: "validateCommitment ex_steel_block (\<lambda>_ _. None)
     \<lparr>commitment_id = 299, commitment_digest = 7, commitment_configID = 9\<rparr> = Inr True"
    by (simp add: validateCommitment_def decodeVersionedID_def validateBlockCommitment_def checked_sub_def
        ex_steel_block_def mask_eq_exp_minus_1)
  have ident: "decodeVersionedID 299 = (299, 0)"
    by (simp add: decodeVersionedID_def mask_eq_exp_minus_1)
  show ?thesis
    using validated_commitment_recent [OF block accept, of 299 0] accept ident by simp
qed

end
