(* ===== verification/Plugin.thy ===== *)
theory Plugin
  imports Zkvm_Io Steel_Commitment
begin

unbundle bit_operations_syntax

text \<open>
  The governance plugin on chain: \<^verbatim>\<open>contracts/RiscVotingProtocolPlugin.sol\<close> and the abstract
  \<^verbatim>\<open>contracts/MajorityVotingBase.sol\<close> it extends. The storage is a record, each external function
  a function from the block, the arguments and the storage to a revert or the new storage; Solidity's
  checked arithmetic reverts. The verifier, the hash, the ABI decoder, the permission manager, the id
  counter of \<^verbatim>\<open>ProposalUpgradeable\<close> and the DAO are parameters.
\<close>

section \<open>Storage\<close>

datatype VoteOption = VoteOption_None | Abstain | Yes | No

datatype VotingMode = Standard | EarlyExecution | VoteReplacement

record VotingSettings =
  vs_votingMode :: VotingMode
  vs_supportThreshold :: u32
  vs_minParticipation :: u32
  vs_minDuration :: u64
  vs_minProposerVotingPower :: u256
  vs_votingProtocolConfig :: string
  vs_verifier :: address
  vs_votingProtocolImageId :: bytes32
  vs_executionProtocolImageId :: bytes32

record ProposalParameters =
  pp_votingMode :: VotingMode
  pp_supportThreshold :: u32
  pp_startDate :: u64
  pp_endDate :: u64
  pp_snapshotBlock :: u64
  pp_snapshotBlockHash :: bytes32
  pp_votingProtocolConfig :: string
  pp_verifier :: address
  pp_votingProtocolImageId :: bytes32
  pp_executionProtocolImageId :: bytes32

record Tally =
  tally_abstain :: u256
  tally_yes :: u256
  tally_no :: u256

record 'act Proposal =
  executed :: bool
  parameters :: ProposalParameters
  prop_tally :: Tally
  voters :: "address \<Rightarrow> VoteOption"
  actions :: "'act list"
  allowFailureMap :: u256

text \<open>A mapping gives the all-zero value to a key that was never written.\<close>

definition empty_Proposal :: "'act Proposal" where
  "empty_Proposal =
     \<lparr>executed = False,
      parameters = \<lparr>pp_votingMode = Standard, pp_supportThreshold = 0, pp_startDate = 0, pp_endDate = 0,
        pp_snapshotBlock = 0, pp_snapshotBlockHash = 0, pp_votingProtocolConfig = '''', pp_verifier = 0,
        pp_votingProtocolImageId = 0, pp_executionProtocolImageId = 0\<rparr>,
      prop_tally = \<lparr>tally_abstain = 0, tally_yes = 0, tally_no = 0\<rparr>,
      voters = (\<lambda>_. VoteOption_None), actions = [], allowFailureMap = 0\<rparr>"

record 'act plugin =
  proposals :: "u256 \<Rightarrow> 'act Proposal"
  votingSettings :: VotingSettings
  proposalCounter :: u256

text \<open>
  The call of the DAO, \<open>executeProposal\<close>, gets the storage as it is at the call and gives the storage when it
  returns: the actions of a proposal may call the plugin again. It is \<open>None\<close> when the call reverts.
\<close>

record 'act plugin_libs =
  this_address :: address
  hasPermission :: "address \<Rightarrow> string \<Rightarrow> bool"
  createProposalId :: "u256 \<Rightarrow> u256 \<times> u256"
  sha256 :: "u8 list \<Rightarrow> bytes32"
  verify :: "address \<Rightarrow> u8 list \<Rightarrow> bytes32 \<Rightarrow> bytes32 \<Rightarrow> bool"
  abi_decode_journal :: "u8 list \<Rightarrow> VotingJournal option"
  executeProposal :: "block \<Rightarrow> u256 \<Rightarrow> 'act list \<Rightarrow> u256 \<Rightarrow> 'act plugin \<Rightarrow> 'act plugin option"

section \<open>Settings and dates\<close>

definition RATIO_BASE :: u256 where
  "RATIO_BASE = 1000000"

definition updateVotingSettings_internal :: "VotingSettings \<Rightarrow> 'act plugin \<Rightarrow> 'act plugin tx" where
  "updateVotingSettings_internal vs s =
     rbind (require (\<not> RATIO_BASE - 1 < ucast (vs_supportThreshold vs))
              (RatioOutOfBounds (RATIO_BASE - 1) (ucast (vs_supportThreshold vs)))) (\<lambda>_.
     rbind (require (\<not> RATIO_BASE < ucast (vs_minParticipation vs))
              (RatioOutOfBounds RATIO_BASE (ucast (vs_minParticipation vs)))) (\<lambda>_.
     rbind (require (\<not> vs_minDuration vs < 3600) (MinDurationOutOfBounds 3600 (vs_minDuration vs))) (\<lambda>_.
     rbind (require (\<not> 31536000 < vs_minDuration vs) (MinDurationOutOfBounds 31536000 (vs_minDuration vs))) (\<lambda>_.
       Inr (s\<lparr>votingSettings := vs\<rparr>)))))"

definition updateVotingSettings :: "'act plugin_libs \<Rightarrow> block \<Rightarrow> VotingSettings \<Rightarrow> 'act plugin \<Rightarrow> 'act plugin tx" where
  "updateVotingSettings P b vs s =
     rbind (require (hasPermission P (msgSender b) ''UPDATE_VOTING_SETTINGS_PERMISSION'') DaoUnauthorized) (\<lambda>_.
       updateVotingSettings_internal vs s)"

text \<open>\<^verbatim>\<open>initialize\<close> on fresh storage; the initializer guard allows it once.\<close>

definition initialize :: "VotingSettings \<Rightarrow> 'act plugin tx" where
  "initialize vs = updateVotingSettings_internal vs
     \<lparr>proposals = (\<lambda>_. empty_Proposal),
      votingSettings = \<lparr>vs_votingMode = Standard, vs_supportThreshold = 0, vs_minParticipation = 0,
        vs_minDuration = 0, vs_minProposerVotingPower = 0, vs_votingProtocolConfig = '''', vs_verifier = 0,
        vs_votingProtocolImageId = 0, vs_executionProtocolImageId = 0\<rparr>,
      proposalCounter = 0\<rparr>"

definition validateProposalDates :: "block \<Rightarrow> 'act plugin \<Rightarrow> u64 \<Rightarrow> u64 \<Rightarrow> (u64 \<times> u64) tx" where
  "validateProposalDates b s start till =
     rbind (toUint64 (block_timestamp b)) (\<lambda>currentTimestamp.
     rbind (if start = 0 then Inr currentTimestamp
            else rbind (require (\<not> start < currentTimestamp) (DateOutOfBounds currentTimestamp start))
                   (\<lambda>_. Inr start)) (\<lambda>startDate.
     rbind (checked_add startDate (vs_minDuration (votingSettings s))) (\<lambda>earliestEndDate.
     rbind (if till = 0 then Inr earliestEndDate
            else rbind (require (\<not> till < earliestEndDate) (DateOutOfBounds earliestEndDate till))
                   (\<lambda>_. Inr till)) (\<lambda>endDate.
       Inr (startDate, endDate)))))"

section \<open>Views\<close>

definition plugin_votingProtocolConfig :: "'act plugin \<Rightarrow> u256 \<Rightarrow> string" where
  "plugin_votingProtocolConfig s pid = pp_votingProtocolConfig (parameters (proposals s pid))"

definition isProposalOpen :: "block \<Rightarrow> 'act Proposal \<Rightarrow> bool tx" where
  "isProposalOpen b p =
     rbind (toUint64 (block_timestamp b)) (\<lambda>currentTime.
       Inr (pp_startDate (parameters p) \<le> currentTime \<and> currentTime < pp_endDate (parameters p) \<and> \<not> executed p))"

definition canVote :: "block \<Rightarrow> 'act plugin \<Rightarrow> u256 \<Rightarrow> address \<Rightarrow> VoteOption \<Rightarrow> bool tx" where
  "canVote b s pid account voteOption =
     (let p = proposals s pid
      in rbind (isProposalOpen b p) (\<lambda>open.
           if \<not> open then Inr False
           else if voteOption = VoteOption_None then Inr False
           else if voters p account \<noteq> VoteOption_None \<and> pp_votingMode (parameters p) \<noteq> VoteReplacement
           then Inr False
           else Inr True))"

definition canExecute :: "block \<Rightarrow> 'act plugin \<Rightarrow> u256 \<Rightarrow> bool tx" where
  "canExecute b s pid =
     (let p = proposals s pid
      in if executed p then Inr False
         else rbind (isProposalOpen b p) (\<lambda>open.
           if open \<and> pp_votingMode (parameters p) \<noteq> EarlyExecution then Inr False else Inr True))"

section \<open>Transactions\<close>

record 'act create_args =
  ca_actions :: "'act list"
  ca_allowFailureMap :: u256
  ca_startDate :: u64
  ca_endDate :: u64

text \<open>
  \<^verbatim>\<open>createProposal\<close>. The snapshot block is the previous one, computed unchecked; the metadata only
  goes into the event.
\<close>

definition createProposal ::
    "'act plugin_libs \<Rightarrow> block \<Rightarrow> 'act create_args \<Rightarrow> 'act plugin \<Rightarrow> (u256 \<times> 'act plugin) tx" where
  "createProposal P b a s =
     rbind (require (hasPermission P (msgSender b) ''CREATE_PROPOSAL_PERMISSION'') DaoUnauthorized) (\<lambda>_.
     let snapshotBlock = block_number b - 1 in
     rbind (validateProposalDates b s (ca_startDate a) (ca_endDate a)) (\<lambda>(startDate, endDate).
     let (proposalId, counter') = createProposalId P (proposalCounter s);
         vs = votingSettings s;
         p = proposals s proposalId in
     rbind (toUint64 snapshotBlock) (\<lambda>snapshot.
     let p' = p\<lparr>parameters := \<lparr>pp_votingMode = vs_votingMode vs, pp_supportThreshold = vs_supportThreshold vs,
                  pp_startDate = startDate, pp_endDate = endDate, pp_snapshotBlock = snapshot,
                  pp_snapshotBlockHash = blockhash b snapshotBlock,
                  pp_votingProtocolConfig = vs_votingProtocolConfig vs, pp_verifier = vs_verifier vs,
                  pp_votingProtocolImageId = vs_votingProtocolImageId vs,
                  pp_executionProtocolImageId = vs_executionProtocolImageId vs\<rparr>,
                allowFailureMap := (if ca_allowFailureMap a \<noteq> 0 then ca_allowFailureMap a else allowFailureMap p),
                actions := actions p @ ca_actions a\<rparr>
     in Inr (proposalId, s\<lparr>proposals := (proposals s)(proposalId := p'), proposalCounter := counter'\<rparr>))))"

text \<open>The checks that \<^verbatim>\<open>vote\<close> and \<^verbatim>\<open>execute\<close> share, on the commitment and on the proof.\<close>

definition check_commitment :: "'act Proposal \<Rightarrow> VotingJournal \<Rightarrow> unit tx" where
  "check_commitment p journal =
     rbind (require (commitment_digest (vj_commitment journal) = pp_snapshotBlockHash (parameters p))
              (Require_failed ''Invalid commitment'')) (\<lambda>_.
     let (claimID, version) = decodeVersionedID (commitment_id (vj_commitment journal)) in
     require (claimID = ucast (pp_snapshotBlock (parameters p))) (Require_failed ''Invalid commitment''))"

definition verify_proof :: "'act plugin_libs \<Rightarrow> 'act Proposal \<Rightarrow> bytes32 \<Rightarrow> u8 list \<Rightarrow> u8 list \<Rightarrow> unit tx" where
  "verify_proof P p imageId journalData seal =
     require (verify P (pp_verifier (parameters p)) seal imageId (sha256 P journalData)) Verification_reverted"

definition VoteOption_of :: "u8 \<Rightarrow> VoteOption tx" where
  "VoteOption_of d =
     (if d = 0 then Inr VoteOption_None else if d = 1 then Inr Abstain else if d = 2 then Inr Yes
      else if d = 3 then Inr No else Inl Enum_panic)"

definition tally_sub :: "VoteOption \<Rightarrow> u256 \<Rightarrow> Tally \<Rightarrow> Tally tx" where
  "tally_sub opt votingPower t =
     (case opt of
        Yes \<Rightarrow> rbind (checked_sub (tally_yes t) votingPower) (\<lambda>v. Inr (t\<lparr>tally_yes := v\<rparr>))
      | No \<Rightarrow> rbind (checked_sub (tally_no t) votingPower) (\<lambda>v. Inr (t\<lparr>tally_no := v\<rparr>))
      | Abstain \<Rightarrow> rbind (checked_sub (tally_abstain t) votingPower) (\<lambda>v. Inr (t\<lparr>tally_abstain := v\<rparr>))
      | VoteOption_None \<Rightarrow> Inr t)"

definition tally_add :: "VoteOption \<Rightarrow> u256 \<Rightarrow> Tally \<Rightarrow> Tally tx" where
  "tally_add opt votingPower t =
     (case opt of
        Yes \<Rightarrow> rbind (checked_add (tally_yes t) votingPower) (\<lambda>v. Inr (t\<lparr>tally_yes := v\<rparr>))
      | No \<Rightarrow> rbind (checked_add (tally_no t) votingPower) (\<lambda>v. Inr (t\<lparr>tally_no := v\<rparr>))
      | Abstain \<Rightarrow> rbind (checked_add (tally_abstain t) votingPower) (\<lambda>v. Inr (t\<lparr>tally_abstain := v\<rparr>))
      | VoteOption_None \<Rightarrow> Inr t)"

definition vote :: "'act plugin_libs \<Rightarrow> block \<Rightarrow> u8 list \<Rightarrow> u8 list \<Rightarrow> 'act plugin \<Rightarrow> 'act plugin tx" where
  "vote P b journalData seal s =
     (case abi_decode_journal P journalData of
        None \<Rightarrow> Inl Decode_failed
      | Some journal \<Rightarrow>
          rbind (require (vj_config_contract journal = this_address P) (Require_failed ''Invalid token address'')) (\<lambda>_.
          let p = proposals s (vj_proposal_id journal) in
          rbind (check_commitment p journal) (\<lambda>_.
          rbind (verify_proof P p (pp_votingProtocolImageId (parameters p)) journalData seal) (\<lambda>_.
          rbind (tally_sub (voters p (vj_voter journal)) (vj_balance journal) (prop_tally p)) (\<lambda>t1.
          rbind (VoteOption_of (vj_direction journal)) (\<lambda>voteOption.
          rbind (tally_add voteOption (vj_balance journal) t1) (\<lambda>t2.
            Inr (s\<lparr>proposals := (proposals s)(vj_proposal_id journal :=
                   p\<lparr>prop_tally := t2, voters := (voters p)(vj_voter journal := voteOption)\<rparr>)\<rparr>))))))))"

text \<open>
  \<^verbatim>\<open>_execute\<close> marks the proposal before it calls the DAO; \<^verbatim>\<open>execute\<close> first makes its checks.
\<close>

definition mark_executed :: "u256 \<Rightarrow> 'act plugin \<Rightarrow> 'act plugin" where
  "mark_executed pid s = s\<lparr>proposals := (proposals s)(pid := (proposals s pid)\<lparr>executed := True\<rparr>)\<rparr>"

definition execute_internal :: "'act plugin_libs \<Rightarrow> block \<Rightarrow> u256 \<Rightarrow> 'act plugin \<Rightarrow> 'act plugin tx" where
  "execute_internal P b pid s =
     (let s1 = mark_executed pid s in
      case executeProposal P b pid (actions (proposals s1 pid)) (allowFailureMap (proposals s1 pid)) s1 of
        None \<Rightarrow> Inl Execution_reverted
      | Some s' \<Rightarrow> Inr s')"

definition execute_checks :: "'act plugin_libs \<Rightarrow> block \<Rightarrow> u8 list \<Rightarrow> u8 list \<Rightarrow> 'act plugin \<Rightarrow> u256 tx" where
  "execute_checks P b journalData seal s =
     (case abi_decode_journal P journalData of
        None \<Rightarrow> Inl Decode_failed
      | Some journal \<Rightarrow>
          rbind (require (vj_config_contract journal = this_address P) (Require_failed ''Invalid token address'')) (\<lambda>_.
          let pid = vj_proposal_id journal; p = proposals s pid in
          rbind (canExecute b s pid) (\<lambda>can.
          rbind (require can (ProposalExecutionForbidden pid)) (\<lambda>_.
          rbind (check_commitment p journal) (\<lambda>_.
          rbind (verify_proof P p (pp_executionProtocolImageId (parameters p)) journalData seal) (\<lambda>_.
            Inr pid))))))"

definition execute :: "'act plugin_libs \<Rightarrow> block \<Rightarrow> u8 list \<Rightarrow> u8 list \<Rightarrow> 'act plugin \<Rightarrow> 'act plugin tx" where
  "execute P b journalData seal s =
     rbind (execute_checks P b journalData seal s) (\<lambda>pid. execute_internal P b pid s)"

section \<open>Runs\<close>

text \<open>
  The steps in which the storage changes, in the order in which they happen: the successful transactions, where
  of an execution only the marking is a step of its own. What the DAO's actions do to the plugin during the
  call are further steps; a transaction that reverts leaves no trace.
\<close>

inductive plugin_step :: "'act plugin_libs \<Rightarrow> 'act plugin \<Rightarrow> 'act plugin \<Rightarrow> bool" for P where
  step_settings: "updateVotingSettings P b vs s = Inr s' \<Longrightarrow> plugin_step P s s'"
| step_create: "createProposal P b a s = Inr (pid, s') \<Longrightarrow> plugin_step P s s'"
| step_vote: "vote P b journalData seal s = Inr s' \<Longrightarrow> plugin_step P s s'"
| step_execute: "execute_checks P b journalData seal s = Inr pid \<Longrightarrow> plugin_step P s (mark_executed pid s)"

text \<open>Runs carry the number of their transactions, against which the id counter is bounded.\<close>

inductive plugin_run :: "'act plugin_libs \<Rightarrow> nat \<Rightarrow> 'act plugin \<Rightarrow> 'act plugin \<Rightarrow> bool" for P where
  run_refl: "plugin_run P 0 s s"
| run_step: "plugin_run P n s s' \<Longrightarrow> plugin_step P s' s'' \<Longrightarrow> plugin_run P (Suc n) s s''"

text \<open>
  What the machine guarantees of a call out of the plugin: its storage changes only by the plugin's own steps,
  of which one call makes at most \<open>k\<close>.
\<close>

definition dao_transacts :: "'act plugin_libs \<Rightarrow> nat \<Rightarrow> bool" where
  "dao_transacts P k \<longleftrightarrow>
     (\<forall>b pid acts m s s'. executeProposal P b pid acts m s = Some s' \<longrightarrow> (\<exists>n \<le> k. plugin_run P n s s'))"

definition plugin_reachable :: "'act plugin_libs \<Rightarrow> nat \<Rightarrow> 'act plugin \<Rightarrow> bool" where
  "plugin_reachable P n s \<longleftrightarrow> (\<exists>vs s0. initialize vs = Inr s0 \<and> plugin_run P n s0 s)"

text \<open>The counter of \<^verbatim>\<open>ProposalUpgradeable\<close>: an id is the number of proposals before it.\<close>

definition counts_ids :: "'act plugin_libs \<Rightarrow> bool" where
  "counts_ids P \<longleftrightarrow> (\<forall>n. createProposalId P n = (n, n + 1))"

section \<open>What a successful transaction has done\<close>

definition settings_ok :: "VotingSettings \<Rightarrow> bool" where
  "settings_ok vs \<longleftrightarrow>
     unat (vs_supportThreshold vs) < 1000000 \<and> unat (vs_minParticipation vs) \<le> 1000000 \<and>
     3600 \<le> unat (vs_minDuration vs) \<and> unat (vs_minDuration vs) \<le> 31536000"

lemma updateVotingSettings_internal_Inr:
  "updateVotingSettings_internal vs s = Inr s' \<longleftrightarrow> settings_ok vs \<and> s' = s\<lparr>votingSettings := vs\<rparr>"
proof -
  have "\<not> RATIO_BASE - 1 < ucast (vs_supportThreshold vs) \<longleftrightarrow> unat (vs_supportThreshold vs) < 1000000"
    and "\<not> RATIO_BASE < ucast (vs_minParticipation vs) \<longleftrightarrow> unat (vs_minParticipation vs) \<le> 1000000"
    by (auto simp: RATIO_BASE_def word_less_nat_alt unat_ucast_widen)
  moreover have "\<not> vs_minDuration vs < 3600 \<longleftrightarrow> 3600 \<le> unat (vs_minDuration vs)"
    and "\<not> 31536000 < vs_minDuration vs \<longleftrightarrow> unat (vs_minDuration vs) \<le> 31536000"
    by (auto simp: word_less_nat_alt)
  ultimately show ?thesis
    by (auto simp: updateVotingSettings_internal_def settings_ok_def outcome_iff)
qed

lemma validateProposalDates_Inr:
  assumes "validateProposalDates b s start till = Inr (startDate, endDate)"
  shows "unat (block_timestamp b) \<le> unat startDate"
    and "unat startDate + unat (vs_minDuration (votingSettings s)) \<le> unat endDate"
    and "start \<noteq> 0 \<Longrightarrow> startDate = start" and "till \<noteq> 0 \<Longrightarrow> endDate = till"
proof -
  from assms obtain now where now: "toUint64 (block_timestamp b) = Inr now"
      and start: "startDate = (if start = 0 then now else start)" "now \<le> startDate"
      and dur: "unat startDate + unat (vs_minDuration (votingSettings s)) < 2 ^ 64"
      and fin: "endDate = (if till = 0 then startDate + vs_minDuration (votingSettings s) else till)"
        "startDate + vs_minDuration (votingSettings s) \<le> endDate"
    by (auto simp: validateProposalDates_def outcome_iff not_less split: if_splits)
  have "unat now = unat (block_timestamp b)"
    using now by (auto simp: toUint64_Inr_iff unsigned_ucast_eq take_bit_nat_eq_self)
  then show "unat (block_timestamp b) \<le> unat startDate" using start(2) by (simp add: word_le_nat_alt)
  have "unat (startDate + vs_minDuration (votingSettings s)) = unat startDate + unat (vs_minDuration (votingSettings s))"
    using dur by (simp add: unat_word_ariths)
  then show "unat startDate + unat (vs_minDuration (votingSettings s)) \<le> unat endDate"
    using fin(2) by (simp add: word_le_nat_alt)
  show "start \<noteq> 0 \<Longrightarrow> startDate = start" using start(1) by simp
  show "till \<noteq> 0 \<Longrightarrow> endDate = till" using fin(1) by simp
qed

lemma createProposal_Inr:
  assumes "createProposal P b a s = Inr (pid, s')" and "counts_ids P"
  shows "\<exists>startDate endDate. validateProposalDates b s (ca_startDate a) (ca_endDate a) = Inr (startDate, endDate) \<and>
     unat (block_number b - 1) < 2 ^ 64 \<and> pid = proposalCounter s \<and>
     s' = s\<lparr>proposals := (proposals s)(pid := (proposals s pid)
        \<lparr>parameters := \<lparr>pp_votingMode = vs_votingMode (votingSettings s),
           pp_supportThreshold = vs_supportThreshold (votingSettings s), pp_startDate = startDate,
           pp_endDate = endDate, pp_snapshotBlock = ucast (block_number b - 1),
           pp_snapshotBlockHash = blockhash b (block_number b - 1),
           pp_votingProtocolConfig = vs_votingProtocolConfig (votingSettings s),
           pp_verifier = vs_verifier (votingSettings s),
           pp_votingProtocolImageId = vs_votingProtocolImageId (votingSettings s),
           pp_executionProtocolImageId = vs_executionProtocolImageId (votingSettings s)\<rparr>,
         allowFailureMap := (if ca_allowFailureMap a \<noteq> 0 then ca_allowFailureMap a
                             else allowFailureMap (proposals s pid)),
         actions := actions (proposals s pid) @ ca_actions a\<rparr>), proposalCounter := pid + 1\<rparr>"
  using assms by (auto simp: createProposal_def counts_ids_def Let_def outcome_iff)

lemma vote_Inr:
  assumes "vote P b journalData seal s = Inr s'"
  obtains journal opt t1 t2 where "abi_decode_journal P journalData = Some journal"
    "vj_config_contract journal = this_address P"
    "check_commitment (proposals s (vj_proposal_id journal)) journal = Inr ()"
    "verify_proof P (proposals s (vj_proposal_id journal))
       (pp_votingProtocolImageId (parameters (proposals s (vj_proposal_id journal)))) journalData seal = Inr ()"
    "tally_sub (voters (proposals s (vj_proposal_id journal)) (vj_voter journal)) (vj_balance journal)
       (prop_tally (proposals s (vj_proposal_id journal))) = Inr t1"
    "VoteOption_of (vj_direction journal) = Inr opt" "tally_add opt (vj_balance journal) t1 = Inr t2"
    "s' = s\<lparr>proposals := (proposals s)(vj_proposal_id journal := (proposals s (vj_proposal_id journal))
        \<lparr>prop_tally := t2,
         voters := (voters (proposals s (vj_proposal_id journal)))(vj_voter journal := opt)\<rparr>)\<rparr>"
  using assms by (auto simp: vote_def Let_def outcome_iff split: option.splits)

lemma execute_checks_Inr:
  assumes "execute_checks P b journalData seal s = Inr pid"
  obtains journal where "abi_decode_journal P journalData = Some journal" "pid = vj_proposal_id journal"
    "vj_config_contract journal = this_address P" "canExecute b s pid = Inr True"
    "check_commitment (proposals s pid) journal = Inr ()"
    "verify_proof P (proposals s pid) (pp_executionProtocolImageId (parameters (proposals s pid))) journalData seal = Inr ()"
  using assms by (auto simp: execute_checks_def Let_def outcome_iff split: option.splits)

lemma execute_Inr:
  "execute P b journalData seal s = Inr s' \<longleftrightarrow>
     (\<exists>pid. execute_checks P b journalData seal s = Inr pid \<and>
        executeProposal P b pid (actions (proposals s pid)) (allowFailureMap (proposals s pid)) (mark_executed pid s) = Some s')"
  by (auto simp: execute_def execute_internal_def mark_executed_def outcome_iff Let_def split: option.splits)

lemma updateVotingSettings_Inr:
  "updateVotingSettings P b vs s = Inr s' \<Longrightarrow> settings_ok vs \<and> s' = s\<lparr>votingSettings := vs\<rparr>"
  by (auto simp: updateVotingSettings_def outcome_iff updateVotingSettings_internal_Inr)

section \<open>Invariants of runs\<close>

text \<open>
  The interface between steps and runs: a counter that every step raises by at most one stays below its
  bound along a run, and what every step keeps while the counter is in range, the run keeps.
\<close>

locale stepwise =
  fixes step :: "'s \<Rightarrow> 's \<Rightarrow> bool" and run :: "nat \<Rightarrow> 's \<Rightarrow> 's \<Rightarrow> bool"
  assumes run_0: "run 0 s s' \<Longrightarrow> s' = s"
    and run_Suc: "run (Suc n) s s'' \<Longrightarrow> \<exists>s'. run n s s' \<and> step s' s''"
begin

lemma run_counted:
  assumes "run n s s'" and "\<And>s s'. step s s' \<Longrightarrow> c s + (1 :: nat) < N \<Longrightarrow> c s' \<le> c s + 1 \<and> c s \<le> c s'"
    and "c s + n < N"
  shows "c s \<le> c s' \<and> c s' \<le> c s + n"
  using assms(1,3)
proof (induction n arbitrary: s')
  case 0
  with run_0 show ?case by fastforce
next
  case (Suc n)
  from run_Suc [OF Suc.prems(1)] obtain t where t: "run n s t" "step t s'" by blast
  with Suc have "c s \<le> c t \<and> c t \<le> c s + n" by simp
  with assms(2) [OF t(2)] Suc.prems(2) show ?case by simp
qed

lemma run_preserves:
  assumes "run n s s'" and "\<And>s s'. step s s' \<Longrightarrow> c s + (1 :: nat) < N \<Longrightarrow> c s' \<le> c s + 1 \<and> c s \<le> c s'"
    and "c s + n < N" and "k < c s"
    and "\<And>s s'. step s s' \<Longrightarrow> c s + 1 < N \<Longrightarrow> k < c s \<Longrightarrow> R s s'"
    and "\<And>s. R s s" and "\<And>s s' s''. R s s' \<Longrightarrow> R s' s'' \<Longrightarrow> R s s''"
  shows "R s s'"
  using assms(1,3)
proof (induction n arbitrary: s')
  case 0
  with run_0 assms(6) show ?case by blast
next
  case (Suc n)
  from run_Suc [OF Suc.prems(1)] obtain t where t: "run n s t" "step t s'" by blast
  have "c s \<le> c t \<and> c t \<le> c s + n"
    using run_counted [of n s t c N, OF t(1) assms(2)] Suc.prems(2) by simp
  with assms(5) [OF t(2)] assms(4) Suc.prems(2) have "R t s'" by simp
  moreover from Suc.IH [OF t(1)] Suc.prems(2) have "R s t" by simp
  ultimately show ?case using assms(7) by blast
qed

end

inductive_cases plugin_run_0E: "plugin_run P 0 s s'"

inductive_cases plugin_run_SucE: "plugin_run P (Suc n) s s'"

inductive_cases plugin_stepE: "plugin_step P s s'"

interpretation plugin_runs: stepwise "plugin_step P" "plugin_run P" for P
  by unfold_locales (auto elim: plugin_run_0E plugin_run_SucE)

lemma plugin_step_cases:
  assumes "plugin_step P s s'" and "counts_ids P"
  obtains
    (settings) vs where "settings_ok vs" "s' = s\<lparr>votingSettings := vs\<rparr>"
  | (create) b a pid where "createProposal P b a s = Inr (pid, s')" "pid = proposalCounter s"
      "proposalCounter s' = pid + 1"
  | (touch) pid p where "s' = s\<lparr>proposals := (proposals s)(pid := p)\<rparr>"
      "parameters p = parameters (proposals s pid)" "actions p = actions (proposals s pid)"
      "allowFailureMap p = allowFailureMap (proposals s pid)" "executed (proposals s pid) \<longrightarrow> executed p"
  using assms(1)
proof (cases rule: plugin_step.cases)
  case (step_settings b vs)
  then show ?thesis using settings updateVotingSettings_Inr by blast
next
  case (step_create b a pid)
  from createProposal_Inr [OF this assms(2)] show ?thesis using create [OF step_create] by auto
next
  case (step_vote b j seal)
  then show ?thesis
    by (rule vote_Inr) (use touch in fastforce)
next
  case (step_execute b j seal pid)
  then show ?thesis using touch by (fastforce simp: mark_executed_def)
qed

lemma plugin_step_counter:
  assumes "counts_ids P" and "plugin_step P s s'" and "unat (proposalCounter s) + 1 < 2 ^ 256"
  shows "unat (proposalCounter s') \<le> unat (proposalCounter s) + 1 \<and>
     unat (proposalCounter s) \<le> unat (proposalCounter s')"
  using assms(2,1)
proof (cases rule: plugin_step_cases)
  case (create b a pid)
  then have "unat (proposalCounter s') = unat (proposalCounter s) + 1"
    using assms(3) by (simp add: unat_word_ariths)
  then show ?thesis by simp
qed simp_all

text \<open>What a proposal keeps: its parameters and actions, and that it was executed.\<close>

definition keeps :: "u256 \<Rightarrow> 'act plugin \<Rightarrow> 'act plugin \<Rightarrow> bool" where
  "keeps pid s s' \<longleftrightarrow>
     parameters (proposals s' pid) = parameters (proposals s pid) \<and>
     actions (proposals s' pid) = actions (proposals s pid) \<and>
     allowFailureMap (proposals s' pid) = allowFailureMap (proposals s pid) \<and>
     (executed (proposals s pid) \<longrightarrow> executed (proposals s' pid))"

lemma keeps_refl: "keeps pid s s"
  and keeps_trans: "keeps pid s s' \<Longrightarrow> keeps pid s' s'' \<Longrightarrow> keeps pid s s''"
  by (auto simp: keeps_def)

lemma plugin_step_keeps:
  assumes "counts_ids P" and "plugin_step P s s'" and "unat pid < unat (proposalCounter s)"
  shows "keeps pid s s'"
  using assms(2,1)
proof (cases rule: plugin_step_cases)
  case (create b a pid')
  with assms(3) have "pid \<noteq> pid'" by auto
  with createProposal_Inr [OF create(1) assms(1)] show ?thesis by (auto simp: keeps_def)
qed (auto simp: keeps_def)

lemma plugin_run_keeps:
  assumes "counts_ids P" and "plugin_run P n s s'" and "unat (proposalCounter s) + n < 2 ^ 256"
    and "unat pid < unat (proposalCounter s)"
  shows "keeps pid s s'"
  by (rule plugin_runs.run_preserves [where c = "\<lambda>s. unat (proposalCounter s)" and N = "2 ^ 256" and k = "unat pid",
        OF assms(2) plugin_step_counter [OF assms(1)] assms(3,4) plugin_step_keeps [OF assms(1)] keeps_refl keeps_trans])

text \<open>Ids that are not given out yet have the all-zero proposal, and settings and dates are in range.\<close>

definition plugin_ok :: "'act plugin \<Rightarrow> bool" where
  "plugin_ok s \<longleftrightarrow> settings_ok (votingSettings s) \<and>
     (\<forall>pid. unat pid < unat (proposalCounter s) \<longrightarrow>
        unat (pp_startDate (parameters (proposals s pid))) + 3600 \<le> unat (pp_endDate (parameters (proposals s pid))) \<and>
        unat (pp_supportThreshold (parameters (proposals s pid))) < 1000000) \<and>
     (\<forall>pid. unat (proposalCounter s) \<le> unat pid \<longrightarrow>
        parameters (proposals s pid) = parameters (empty_Proposal :: 'act Proposal))"

lemma plugin_ok_init: "initialize vs = Inr s \<Longrightarrow> plugin_ok s"
  by (auto simp: initialize_def updateVotingSettings_internal_Inr plugin_ok_def)

lemma plugin_ok_step:
  assumes "counts_ids P" and "plugin_step P s s'" and "plugin_ok s" and "unat (proposalCounter s) + 1 < 2 ^ 256"
  shows "plugin_ok s'"
  using assms(2,1)
proof (cases rule: plugin_step_cases)
  case (settings vs)
  with assms(3) show ?thesis by (auto simp: plugin_ok_def)
next
  case (create b a pid)
  from createProposal_Inr [OF create(1) assms(1)] obtain sd ed where
      dates: "validateProposalDates b s (ca_startDate a) (ca_endDate a) = Inr (sd, ed)"
      and new: "parameters (proposals s' pid) =
        \<lparr>pp_votingMode = vs_votingMode (votingSettings s), pp_supportThreshold = vs_supportThreshold (votingSettings s),
         pp_startDate = sd, pp_endDate = ed, pp_snapshotBlock = ucast (block_number b - 1),
         pp_snapshotBlockHash = blockhash b (block_number b - 1),
         pp_votingProtocolConfig = vs_votingProtocolConfig (votingSettings s), pp_verifier = vs_verifier (votingSettings s),
         pp_votingProtocolImageId = vs_votingProtocolImageId (votingSettings s),
         pp_executionProtocolImageId = vs_executionProtocolImageId (votingSettings s)\<rparr>"
      and other: "\<And>q. q \<noteq> pid \<Longrightarrow> proposals s' q = proposals s q" and vs: "votingSettings s' = votingSettings s"
    by auto
  have counter: "unat (proposalCounter s') = unat pid + 1" and pid: "pid = proposalCounter s"
    using create assms(4) by (simp_all add: unat_word_ariths)
  have ok: "unat sd + 3600 \<le> unat ed \<and> unat (vs_supportThreshold (votingSettings s)) < 1000000"
    using validateProposalDates_Inr(2) [OF dates] assms(3) by (simp add: plugin_ok_def settings_ok_def)
  have less: "unat q < unat (proposalCounter s)" if "unat q < unat (proposalCounter s')" "q \<noteq> pid" for q :: u256
    using that counter pid word_unat_eq_iff [of q pid] by simp
  show ?thesis
    unfolding plugin_ok_def vs
  proof (intro conjI allI impI)
    fix q :: u256
    assume q: "unat q < unat (proposalCounter s')"
    show "unat (pp_startDate (parameters (proposals s' q))) + 3600 \<le> unat (pp_endDate (parameters (proposals s' q)))"
      and "unat (pp_supportThreshold (parameters (proposals s' q))) < 1000000"
      using q ok new other less [OF q] assms(3) by (cases "q = pid"; simp add: plugin_ok_def)+
  next
    fix q :: u256
    assume "unat (proposalCounter s') \<le> unat q"
    then show "parameters (proposals s' q) = parameters (empty_Proposal :: 'a Proposal)"
      using other [of q] counter pid assms(3) by (cases "q = pid") (simp_all add: plugin_ok_def)
  qed (use assms(3) in \<open>simp add: plugin_ok_def\<close>)
next
  case (touch pid p)
  with assms(3) show ?thesis by (auto simp: plugin_ok_def)
qed

lemma plugin_reachable_ok:
  assumes "counts_ids P" and "plugin_reachable P n s" and "n < 2 ^ 256"
  shows "plugin_ok s \<and> unat (proposalCounter s) \<le> n"
proof -
  from assms(2) obtain vs s0 where init: "initialize vs = Inr s0" and run: "plugin_run P n s0 s"
    by (auto simp: plugin_reachable_def)
  from init have 0: "unat (proposalCounter s0) = 0"
    by (auto simp: initialize_def updateVotingSettings_internal_Inr)
  from run assms(3) show ?thesis
  proof (induction n arbitrary: s)
    case 0
    then have "s = s0" by (auto elim: plugin_run_0E)
    with plugin_ok_init [OF init] \<open>unat (proposalCounter s0) = 0\<close> show ?case by simp
  next
    case (Suc n)
    from Suc.prems(1) obtain t where t: "plugin_run P n s0 t" "plugin_step P t s" by (auto elim: plugin_run_SucE)
    with Suc have "plugin_ok t" "unat (proposalCounter t) \<le> n" by auto
    with plugin_ok_step [OF assms(1) t(2)] plugin_step_counter [OF assms(1) t(2)] Suc.prems(2) show ?case by simp
  qed
qed

section \<open>Counting\<close>

definition tally_get :: "VoteOption \<Rightarrow> Tally \<Rightarrow> u256" where
  "tally_get opt t =
     (case opt of Yes \<Rightarrow> tally_yes t | No \<Rightarrow> tally_no t | Abstain \<Rightarrow> tally_abstain t | VoteOption_None \<Rightarrow> 0)"

text \<open>The power that a vote for \<open>opt\<close> adds to the count of \<open>for_opt\<close>.\<close>

definition credit :: "VoteOption \<Rightarrow> VoteOption \<Rightarrow> u256 \<Rightarrow> int" where
  "credit opt for_opt p = (if opt = for_opt \<and> opt \<noteq> VoteOption_None then uint p else 0)"

lemma tally_add_get:
  "tally_add opt p t = Inr t' \<Longrightarrow> uint (tally_get o' t') = uint (tally_get o' t) + credit opt o' p"
  by (cases opt; cases o') (auto simp: tally_add_def tally_get_def credit_def outcome_iff uint_add_exact)

lemma tally_sub_get:
  "tally_sub opt p t = Inr t' \<Longrightarrow> uint (tally_get o' t') = uint (tally_get o' t) - credit opt o' p"
  by (cases opt; cases o') (auto simp: tally_sub_def tally_get_def credit_def outcome_iff uint_sub_exact)

lemma vote_tally:
  assumes "vote P b j seal s = Inr s'" and "abi_decode_journal P j = Some journal"
  shows "\<exists>opt. VoteOption_of (vj_direction journal) = Inr opt \<and>
     (\<forall>o'. uint (tally_get o' (prop_tally (proposals s' (vj_proposal_id journal)))) =
        uint (tally_get o' (prop_tally (proposals s (vj_proposal_id journal))))
        - credit (voters (proposals s (vj_proposal_id journal)) (vj_voter journal)) o' (vj_balance journal)
        + credit opt o' (vj_balance journal)) \<and>
     voters (proposals s' (vj_proposal_id journal)) =
       (voters (proposals s (vj_proposal_id journal)))(vj_voter journal := opt) \<and>
     (\<forall>q. q \<noteq> vj_proposal_id journal \<longrightarrow> proposals s' q = proposals s q)"
  using assms(1) by (rule vote_Inr) (use assms(2) in \<open>auto simp: tally_add_get tally_sub_get\<close>)

section \<open>A concrete plugin\<close>

text \<open>A journal of four bytes: proposal, voter, balance, direction; the only valid seal is the byte one.\<close>

definition ex_journal :: "u8 list \<Rightarrow> VotingJournal option" where
  "ex_journal bs =
     (if length bs = 4
      then Some \<lparr>vj_commitment = \<lparr>commitment_id = 10, commitment_digest = 5, commitment_configID = 9\<rparr>,
             vj_config_contract = 48, vj_proposal_id = ucast (bs ! 0), vj_voter = ucast (bs ! 1),
             vj_balance = ucast (bs ! 2), vj_direction = bs ! 3\<rparr>
      else None)"

definition ex_plugin_libs :: "unit plugin_libs" where
  "ex_plugin_libs =
     \<lparr>this_address = 48, hasPermission = (\<lambda>_ _. True), createProposalId = (\<lambda>n. (n, n + 1)), sha256 = (\<lambda>_. 1),
      verify = (\<lambda>_ seal _ _. seal = [1]), abi_decode_journal = ex_journal, executeProposal = (\<lambda>_ _ _ _ s. Some s)\<rparr>"

definition ex_settings :: VotingSettings where
  "ex_settings = \<lparr>vs_votingMode = Standard, vs_supportThreshold = 500000, vs_minParticipation = 0,
     vs_minDuration = 3600, vs_minProposerVotingPower = 0, vs_votingProtocolConfig = ''config'', vs_verifier = 3,
     vs_votingProtocolImageId = 4, vs_executionProtocolImageId = 5\<rparr>"

definition ex_block :: block where
  "ex_block = \<lparr>block_number = 11, block_timestamp = 1000, blockhash = (\<lambda>_. 5), msgSender = 9\<rparr>"

definition ex_late_block :: block where
  "ex_late_block = ex_block\<lparr>block_timestamp := 10000\<rparr>"

definition ex_plugin0 :: "unit plugin" where
  "ex_plugin0 = \<lparr>proposals = (\<lambda>_. empty_Proposal), votingSettings = ex_settings, proposalCounter = 0\<rparr>"

definition ex_proposal :: "unit Proposal" where
  "ex_proposal = empty_Proposal\<lparr>parameters := \<lparr>pp_votingMode = Standard, pp_supportThreshold = 500000,
     pp_startDate = 1000, pp_endDate = 4600, pp_snapshotBlock = 10, pp_snapshotBlockHash = 5,
     pp_votingProtocolConfig = ''config'', pp_verifier = 3, pp_votingProtocolImageId = 4,
     pp_executionProtocolImageId = 5\<rparr>\<rparr>"

definition ex_plugin1 :: "unit plugin" where
  "ex_plugin1 = \<lparr>proposals = (\<lambda>_. empty_Proposal)(0 := ex_proposal), votingSettings = ex_settings, proposalCounter = 1\<rparr>"

abbreviation ex_create :: "unit create_args" where
  "ex_create \<equiv> \<lparr>ca_actions = [], ca_allowFailureMap = 0, ca_startDate = 0, ca_endDate = 0\<rparr>"

abbreviation ex_tally :: "u256 \<Rightarrow> u256 \<Rightarrow> u256 \<Rightarrow> Tally" where
  "ex_tally a y n \<equiv> \<lparr>tally_abstain = a, tally_yes = y, tally_no = n\<rparr>"

lemmas ex_plugin_defs = ex_plugin_libs_def ex_plugin0_def ex_plugin1_def ex_proposal_def ex_settings_def ex_block_def
  ex_late_block_def ex_journal_def

lemma ex_counts_ids: "counts_ids ex_plugin_libs"
  by (simp add: counts_ids_def ex_plugin_libs_def)

lemma ex_initialize: "initialize ex_settings = Inr ex_plugin0"
  by (simp add: initialize_def updateVotingSettings_internal_Inr settings_ok_def ex_settings_def ex_plugin0_def)

lemma ex_createProposal: "createProposal ex_plugin_libs ex_block ex_create ex_plugin0 = Inr (0, ex_plugin1)"
  by (simp add: createProposal_def validateProposalDates_def toUint64_def checked_add_def Let_def ex_plugin_defs
      empty_Proposal_def)

lemma ex_reachable: "plugin_reachable ex_plugin_libs 1 ex_plugin1"
  using run_step [OF run_refl step_create [OF ex_createProposal]] ex_initialize
  by (auto simp: plugin_reachable_def)

lemma ex_vote:
  "vote ex_plugin_libs b [0, 7, 10, 2] [1] ex_plugin1 =
     Inr (ex_plugin1\<lparr>proposals := (\<lambda>_. empty_Proposal)(0 := ex_proposal
        \<lparr>prop_tally := ex_tally 0 10 0, voters := (\<lambda>_. VoteOption_None)(7 := Yes)\<rparr>)\<rparr>)"
  by (simp add: vote_def Let_def check_commitment_def decodeVersionedID_def verify_proof_def VoteOption_of_def
      tally_sub_def tally_add_def checked_add_def ex_plugin_defs empty_Proposal_def mask_eq_exp_minus_1)

lemma ex_execute:
  "execute ex_plugin_libs ex_late_block [0, 0, 0, 0] [1] ex_plugin1 =
     Inr (ex_plugin1\<lparr>proposals := (\<lambda>_. empty_Proposal)(0 := ex_proposal\<lparr>executed := True\<rparr>)\<rparr>)"
  by (simp add: execute_def execute_checks_def execute_internal_def mark_executed_def canExecute_def isProposalOpen_def toUint64_def Let_def check_commitment_def
      decodeVersionedID_def verify_proof_def ex_plugin_defs empty_Proposal_def mask_eq_exp_minus_1)

section \<open>Properties\<close>

text \<open>
  C21: Whatever transactions an initialised plugin has seen (fewer than two to the power of 256 of them),
  its settings are in range, every proposal it has created has a support threshold below one million and
  stays open for at least an hour, and ids that it has not given out have no configuration, no verifier
  and no image ids.
\<close>

theorem plugin_invariant:
  assumes "counts_ids P" and "plugin_reachable P n s" and "n < 2 ^ 256"
  shows "3600 \<le> unat (vs_minDuration (votingSettings s)) \<and> unat (vs_minDuration (votingSettings s)) \<le> 31536000 \<and>
     unat (vs_supportThreshold (votingSettings s)) < 1000000 \<and>
     unat (vs_minParticipation (votingSettings s)) \<le> 1000000 \<and>
     (unat pid < unat (proposalCounter s) \<longrightarrow>
        unat (pp_startDate (parameters (proposals s pid))) + 3600 \<le> unat (pp_endDate (parameters (proposals s pid))) \<and>
        unat (pp_supportThreshold (parameters (proposals s pid))) < 1000000) \<and>
     (unat (proposalCounter s) \<le> unat pid \<longrightarrow>
        plugin_votingProtocolConfig s pid = '''' \<and> pp_verifier (parameters (proposals s pid)) = 0)"
  using plugin_reachable_ok [OF assms]
  by (auto simp: plugin_ok_def settings_ok_def plugin_votingProtocolConfig_def empty_Proposal_def)

theorem plugin_invariant_witness:
  "unat (pp_startDate (parameters (proposals ex_plugin1 0))) + 3600 \<le> unat (pp_endDate (parameters (proposals ex_plugin1 0)))"
  using plugin_invariant [OF ex_counts_ids ex_reachable, of 0] by (simp add: ex_plugin1_def)

text \<open>
  C20: A proposal is frozen when it is created: no later transaction changes its parameters (its dates,
  snapshot block, configuration, verifier and image ids), its actions or its failure map, and an executed
  proposal stays executed.
\<close>

theorem proposals_frozen:
  assumes "counts_ids P" and "plugin_run P n s s'" and "unat (proposalCounter s) + n < 2 ^ 256"
    and "unat pid < unat (proposalCounter s)"
  shows "parameters (proposals s' pid) = parameters (proposals s pid) \<and>
     actions (proposals s' pid) = actions (proposals s pid) \<and>
     allowFailureMap (proposals s' pid) = allowFailureMap (proposals s pid) \<and>
     (executed (proposals s pid) \<longrightarrow> executed (proposals s' pid))"
  using plugin_run_keeps [OF assms] by (simp add: keeps_def)

theorem proposals_frozen_witness:
  "parameters (proposals (ex_plugin1\<lparr>proposals := (\<lambda>_. empty_Proposal)(0 := ex_proposal
     \<lparr>prop_tally := ex_tally 0 10 0, voters := (\<lambda>_. VoteOption_None)(7 := Yes)\<rparr>)\<rparr>) 0) =
   parameters (proposals ex_plugin1 0)"
  using proposals_frozen [OF ex_counts_ids run_step [OF run_refl step_vote [OF ex_vote]], of 0]
  by (simp add: ex_plugin1_def)

lemma execute_run:
  assumes "execute P b j seal s = Inr s'" and "dao_transacts P k"
  obtains pid n where "execute_checks P b j seal s = Inr pid" "n \<le> k" "plugin_run P n (mark_executed pid s) s'"
  using assms unfolding execute_Inr dao_transacts_def by blast

lemma executed_stays:
  assumes "counts_ids P" and "plugin_run P n (mark_executed pid s) s'" and "unat (proposalCounter s) + n < 2 ^ 256"
    and "unat pid < unat (proposalCounter s)"
  shows "executed (proposals s' pid)"
  using plugin_run_keeps [OF assms(1,2)] assms(3,4) by (simp add: keeps_def mark_executed_def)

text \<open>
  C4: A proposal is executed at most once, also when its actions call the plugin again. An execution that
  succeeds has marked the proposal and then run the steps of the DAO's actions; from the marking on, every
  further \<^verbatim>\<open>execute\<close> of the same proposal reverts, during the DAO's call as well as after it,
  whatever happens in between and at whatever time.
\<close>

theorem execute_once:
  assumes "counts_ids P" and "dao_transacts P k" and "execute P b j seal s = Inr s'"
    and "abi_decode_journal P j = Some journal" and "unat (vj_proposal_id journal) < unat (proposalCounter s)"
    and "abi_decode_journal P j' = Some journal'" and "vj_proposal_id journal' = vj_proposal_id journal"
    and "vj_config_contract journal' = this_address P"
  shows "(\<exists>n \<le> k. plugin_run P n (mark_executed (vj_proposal_id journal) s) s') \<and>
    (\<forall>n s2. plugin_run P n (mark_executed (vj_proposal_id journal) s) s2 \<longrightarrow> unat (proposalCounter s) + n < 2 ^ 256 \<longrightarrow>
       execute P b' j' seal' s2 = Inl (ProposalExecutionForbidden (vj_proposal_id journal)))"
proof (intro conjI allI impI)
  show "\<exists>n \<le> k. plugin_run P n (mark_executed (vj_proposal_id journal) s) s'"
    using assms(3,2) by (rule execute_run) (use assms(4) in \<open>auto elim!: execute_checks_Inr\<close>)
next
  fix n s2
  assume "plugin_run P n (mark_executed (vj_proposal_id journal) s) s2" and "unat (proposalCounter s) + n < 2 ^ 256"
  from executed_stays [OF assms(1) this assms(5)] assms(6-8)
  show "execute P b' j' seal' s2 = Inl (ProposalExecutionForbidden (vj_proposal_id journal))"
    by (simp add: execute_def execute_checks_def canExecute_def Let_def)
qed

text \<open>A DAO that votes on the plugin while it executes a proposal.\<close>

definition ex_reentrant_libs :: "unit plugin_libs" where
  "ex_reentrant_libs = ex_plugin_libs\<lparr>executeProposal := (\<lambda>b _ _ _ s.
     case vote ex_plugin_libs b [0, 7, 10, 2] [1] s of Inr s' \<Rightarrow> Some s' | Inl _ \<Rightarrow> None)\<rparr>"

lemma vote_executeProposal [simp]: "vote (P\<lparr>executeProposal := e\<rparr>) = vote P"
proof -
  have "verify_proof (P\<lparr>executeProposal := e\<rparr>) = verify_proof P" by (intro ext) (simp add: verify_proof_def)
  then show ?thesis by (intro ext) (simp add: vote_def cong: option.case_cong)
qed

lemma ex_reentrant: "counts_ids ex_reentrant_libs" "dao_transacts ex_reentrant_libs 1"
proof -
  show "counts_ids ex_reentrant_libs" by (simp add: counts_ids_def ex_reentrant_libs_def ex_plugin_libs_def)
  have "vote ex_plugin_libs b j seal s = vote ex_reentrant_libs b j seal s" for b j seal s
    by (simp add: ex_reentrant_libs_def)
  then have "plugin_run ex_reentrant_libs 1 s s'" if "vote ex_plugin_libs b j seal s = Inr s'" for b j seal s s'
    using run_step [OF run_refl step_vote] that by (metis One_nat_def)
  then show "dao_transacts ex_reentrant_libs 1"
    by (fastforce simp: dao_transacts_def ex_reentrant_libs_def split: sum.splits)
qed

lemma ex_reentrant_execute:
  "\<exists>s'. execute ex_reentrant_libs ex_late_block [0, 0, 0, 0] [1] ex_plugin1 = Inr s' \<and>
     tally_yes (prop_tally (proposals s' 0)) = 10"
  by (simp add: execute_def execute_checks_def execute_internal_def mark_executed_def canExecute_def isProposalOpen_def
      toUint64_def Let_def check_commitment_def decodeVersionedID_def verify_proof_def vote_def VoteOption_of_def
      tally_sub_def tally_add_def checked_add_def ex_reentrant_libs_def ex_plugin_defs empty_Proposal_def
      mask_eq_exp_minus_1)

theorem execute_once_witness:
  "\<exists>s'. execute ex_reentrant_libs ex_late_block [0, 0, 0, 0] [1] ex_plugin1 = Inr s' \<and>
     tally_yes (prop_tally (proposals s' 0)) = 10 \<and>
     execute ex_reentrant_libs ex_late_block [0, 1, 2, 3] [1] s' = Inl (ProposalExecutionForbidden 0)"
proof -
  obtain s' where s': "execute ex_reentrant_libs ex_late_block [0, 0, 0, 0] [1] ex_plugin1 = Inr s'"
      and yes: "tally_yes (prop_tally (proposals s' 0)) = 10"
    using ex_reentrant_execute by blast
  let ?journal = "the (ex_journal [0, 0, 0, 0])"
  have j: "abi_decode_journal ex_reentrant_libs [0, 0, 0, 0] = Some ?journal" "vj_proposal_id ?journal = 0"
    and j': "abi_decode_journal ex_reentrant_libs [0, 1, 2, 3] = Some (the (ex_journal [0, 1, 2, 3]))"
      "vj_proposal_id (the (ex_journal [0, 1, 2, 3])) = 0"
      "vj_config_contract (the (ex_journal [0, 1, 2, 3])) = this_address ex_reentrant_libs"
    by (simp_all add: ex_reentrant_libs_def ex_plugin_libs_def ex_journal_def)
  note once = execute_once [OF ex_reentrant s' j(1) _ j'(1) _ j'(3), unfolded j(2) j'(2)]
  have "unat (0 :: u256) < unat (proposalCounter ex_plugin1)" by (simp add: ex_plugin1_def)
  from once [OF this refl] obtain n where "n \<le> 1" "plugin_run ex_reentrant_libs n (mark_executed 0 ex_plugin1) s'"
    by blast
  with once [OF \<open>unat 0 < unat (proposalCounter ex_plugin1)\<close> refl, of ex_late_block "[1]"] s' yes show ?thesis
    by (auto simp: ex_plugin1_def)
qed

text \<open>
  What \<^verbatim>\<open>vote\<close> accepts is proved: the journal is for this plugin, commits to the hash and the
  number of the proposal's snapshot block, and its hash was verified against the proposal's own voting
  image by the proposal's own verifier.
\<close>

lemma vote_accepts_only_proved:
  assumes "vote P b j seal s = Inr s'"
  shows "\<exists>journal. abi_decode_journal P j = Some journal \<and> vj_config_contract journal = this_address P \<and>
     (let ps = parameters (proposals s (vj_proposal_id journal)) in
      commitment_digest (vj_commitment journal) = pp_snapshotBlockHash ps \<and>
      fst (decodeVersionedID (commitment_id (vj_commitment journal))) = ucast (pp_snapshotBlock ps) \<and>
      verify P (pp_verifier ps) seal (pp_votingProtocolImageId ps) (sha256 P j))"
  using assms
  by (rule vote_Inr) (auto simp: Let_def check_commitment_def verify_proof_def split_beta outcome_iff)

lemma vote_accepts_only_proved_witness:
  "\<exists>journal. abi_decode_journal ex_plugin_libs [0, 7, 10, 2] = Some journal \<and> vj_config_contract journal = this_address ex_plugin_libs \<and>
     (let ps = parameters (proposals ex_plugin1 (vj_proposal_id journal)) in
      commitment_digest (vj_commitment journal) = pp_snapshotBlockHash ps \<and>
      fst (decodeVersionedID (commitment_id (vj_commitment journal))) = ucast (pp_snapshotBlock ps) \<and>
      verify ex_plugin_libs (pp_verifier ps) [1] (pp_votingProtocolImageId ps) (sha256 ex_plugin_libs [0, 7, 10, 2]))"
  by (rule vote_accepts_only_proved [OF ex_vote [of ex_block]])

text \<open>
  C19: What \<^verbatim>\<open>vote\<close> counts. A successful vote adds the journal's balance to the count of the chosen
  option, after taking the same balance out of the count of the voter's previous option, exactly and
  without overflow; it records the option for this voter, and leaves every other proposal alone. So a
  first vote adds exactly the balance, and a repeated vote with an unchanged balance moves it.
\<close>

theorem vote_counts:
  assumes "vote P b j seal s = Inr s'" and "abi_decode_journal P j = Some journal"
  shows "\<exists>opt. VoteOption_of (vj_direction journal) = Inr opt \<and>
     (\<forall>o'. uint (tally_get o' (prop_tally (proposals s' (vj_proposal_id journal)))) =
        uint (tally_get o' (prop_tally (proposals s (vj_proposal_id journal))))
        - credit (voters (proposals s (vj_proposal_id journal)) (vj_voter journal)) o' (vj_balance journal)
        + credit opt o' (vj_balance journal)) \<and>
     voters (proposals s' (vj_proposal_id journal)) =
       (voters (proposals s (vj_proposal_id journal)))(vj_voter journal := opt) \<and>
     (\<forall>q. q \<noteq> vj_proposal_id journal \<longrightarrow> proposals s' q = proposals s q)"
  using assms by (rule vote_tally)

lemma ex_decode_vote:
  "abi_decode_journal ex_plugin_libs [0, 7, 10, 2] =
     Some \<lparr>vj_commitment = \<lparr>commitment_id = 10, commitment_digest = 5, commitment_configID = 9\<rparr>,
       vj_config_contract = 48, vj_proposal_id = 0, vj_voter = 7, vj_balance = 10, vj_direction = 2\<rparr>"
  by (simp add: ex_plugin_libs_def ex_journal_def)

theorem vote_counts_witness:
  "voters (proposals (ex_plugin1\<lparr>proposals := (\<lambda>_. empty_Proposal)(0 := ex_proposal
     \<lparr>prop_tally := ex_tally 0 10 0, voters := (\<lambda>_. VoteOption_None)(7 := Yes)\<rparr>)\<rparr>) 0) =
   (voters (proposals ex_plugin1 0))(7 := Yes)"
  using vote_counts [OF ex_vote [of ex_block] ex_decode_vote] by (auto simp: VoteOption_of_def)

text \<open>
  A repeated vote keeps the first weight. A voter's power is not stored, and the balance of the
  \<^emph>\<open>new\<close> journal is subtracted from the old count: when a voter votes yes twice, the second time with
  another balance, the count stays at the first balance, although only the second vote should be tallied.
\<close>

lemma repeated_vote_keeps_first_weight:
  assumes "vote P b1 j1 seal1 s = Inr s1" and "abi_decode_journal P j1 = Some v1"
    and "vote P b2 j2 seal2 s1 = Inr s2" and "abi_decode_journal P j2 = Some v2"
    and "vj_proposal_id v2 = vj_proposal_id v1" and "vj_voter v2 = vj_voter v1"
    and "vj_direction v1 = 2" and "vj_direction v2 = 2"
    and "voters (proposals s (vj_proposal_id v1)) (vj_voter v1) = VoteOption_None"
  shows "uint (tally_yes (prop_tally (proposals s2 (vj_proposal_id v1)))) =
     uint (tally_yes (prop_tally (proposals s (vj_proposal_id v1)))) + uint (vj_balance v1)"
proof -
  have yes: "VoteOption_of (2 :: u8) = Inr Yes" by (simp add: VoteOption_of_def)
  from vote_tally [OF assms(1,2)] assms(7,9)
  have "uint (tally_get Yes (prop_tally (proposals s1 (vj_proposal_id v1)))) =
      uint (tally_get Yes (prop_tally (proposals s (vj_proposal_id v1)))) + uint (vj_balance v1)"
    and "voters (proposals s1 (vj_proposal_id v1)) (vj_voter v1) = Yes"
    by (auto simp: yes credit_def)
  with vote_tally [OF assms(3,4)] assms(5,6,8)
  have "uint (tally_get Yes (prop_tally (proposals s2 (vj_proposal_id v1)))) =
      uint (tally_get Yes (prop_tally (proposals s (vj_proposal_id v1)))) + uint (vj_balance v1)"
    by (auto simp: yes credit_def)
  then show ?thesis by (simp add: tally_get_def)
qed

definition ex_voted :: "u256 \<Rightarrow> unit plugin" where
  "ex_voted y = ex_plugin1\<lparr>proposals := (\<lambda>_. empty_Proposal)(0 := ex_proposal
     \<lparr>prop_tally := ex_tally 0 y 0, voters := (\<lambda>_. VoteOption_None)(7 := Yes)\<rparr>)\<rparr>"

lemma ex_revote: "\<exists>s2. vote ex_plugin_libs ex_block [0, 7, 4, 2] [1] (ex_voted 10) = Inr s2"
  by (simp add: vote_def Let_def check_commitment_def decodeVersionedID_def verify_proof_def VoteOption_of_def
      tally_sub_def tally_add_def checked_add_def checked_sub_def ex_voted_def ex_plugin_defs empty_Proposal_def
      mask_eq_exp_minus_1)

lemma repeated_vote_keeps_first_weight_witness:
  "\<exists>s2. vote ex_plugin_libs ex_block [0, 7, 4, 2] [1] (ex_voted 10) = Inr s2 \<and>
     uint (tally_yes (prop_tally (proposals s2 0))) = 10"
proof -
  obtain s2 where s2: "vote ex_plugin_libs ex_block [0, 7, 4, 2] [1] (ex_voted 10) = Inr s2" using ex_revote by blast
  have d2: "abi_decode_journal ex_plugin_libs [0, 7, 4, 2] =
      Some \<lparr>vj_commitment = \<lparr>commitment_id = 10, commitment_digest = 5, commitment_configID = 9\<rparr>,
        vj_config_contract = 48, vj_proposal_id = 0, vj_voter = 7, vj_balance = 4, vj_direction = 2\<rparr>"
    by (simp add: ex_plugin_libs_def ex_journal_def)
  have "uint (tally_yes (prop_tally (proposals s2 0))) = uint (tally_yes (prop_tally (proposals ex_plugin1 0))) + 10"
    using repeated_vote_keeps_first_weight [OF ex_vote [of ex_block, folded ex_voted_def] ex_decode_vote s2 d2]
    by (simp add: ex_plugin1_def ex_proposal_def empty_Proposal_def)
  with s2 show ?thesis by (simp add: ex_plugin1_def ex_proposal_def empty_Proposal_def)
qed

text \<open>
  C40: \<^verbatim>\<open>vote\<close> does not consult \<^verbatim>\<open>canVote\<close>: a vote that is accepted at some time is accepted,
  with the same result, after the end date, when \<^verbatim>\<open>canVote\<close> says that the voter may not vote.
\<close>

theorem vote_accepted_after_end:
  assumes "vote P b j seal s = Inr s'" and "abi_decode_journal P j = Some journal"
    and "unat (pp_endDate (parameters (proposals s (vj_proposal_id journal)))) \<le> unat (block_timestamp late)"
    and "unat (block_timestamp late) < 2 ^ 64"
  shows "canVote late s (vj_proposal_id journal) (vj_voter journal) opt = Inr False \<and>
     vote P late j seal s = Inr s'"
proof
  have "unat (ucast (block_timestamp late) :: u64) = unat (block_timestamp late)"
    using assms(4) by (simp add: unsigned_ucast_eq take_bit_nat_eq_self)
  with assms(3,4) show "canVote late s (vj_proposal_id journal) (vj_voter journal) opt = Inr False"
    by (simp add: canVote_def isProposalOpen_def toUint64_def Let_def word_less_nat_alt)
  show "vote P late j seal s = Inr s'" using assms(1) by (simp add: vote_def)
qed

theorem vote_accepted_after_end_witness:
  "canVote ex_late_block ex_plugin1 0 7 Yes = Inr False \<and>
   vote ex_plugin_libs ex_late_block [0, 7, 10, 2] [1] ex_plugin1 = Inr (ex_voted 10)"
  using vote_accepted_after_end [OF ex_vote [of ex_block, folded ex_voted_def] ex_decode_vote, of ex_late_block Yes]
  by (simp add: ex_plugin1_def ex_proposal_def ex_late_block_def ex_block_def)

end
