(* ===== verification/Plugin_Tally.thy ===== *)
theory Plugin_Tally
  imports Plugin
begin

text \<open>
  Counting in the plugin over whole runs: the views of a proposal, the tally as the sum of the votes that stand,
  the order of votes, and what an execution looks at. The transactions are those of \<open>Plugin\<close>.
\<close>

section \<open>Views\<close>

definition getVoteOption :: "'act plugin \<Rightarrow> u256 \<Rightarrow> address \<Rightarrow> VoteOption" where
  "getVoteOption s pid v = voters (proposals s pid) v"

definition getProposal ::
    "block \<Rightarrow> 'act plugin \<Rightarrow> u256 \<Rightarrow> (bool \<times> bool \<times> ProposalParameters \<times> Tally \<times> 'act list \<times> u256) tx" where
  "getProposal b s pid =
     (let p = proposals s pid in
      rbind (isProposalOpen b p) (\<lambda>open.
        Inr (open, executed p, parameters p, prop_tally p, actions p, allowFailureMap p)))"

section \<open>The tally as a sum\<close>

text \<open>
  Every vote that the plugin accepts in a reachable state from a voter on a proposal carries the same power. A guest
  that computed the power at the snapshot block from the voter alone would give this. The voting guest also reads the
  accounts whose power is used from the voter's delegation data, and counts repeated ones repeatedly, so a voter who
  changes this data between two votes leaves the condition.
\<close>

definition steady_power :: "'act plugin_libs \<Rightarrow> (u256 \<Rightarrow> address \<Rightarrow> u256) \<Rightarrow> bool" where
  "steady_power P w \<longleftrightarrow>
     (\<forall>n b j seal s s' journal. plugin_reachable P n s \<longrightarrow> vote P b j seal s = Inr s' \<longrightarrow>
        abi_decode_journal P j = Some journal \<longrightarrow>
        vj_balance journal = w (vj_proposal_id journal) (vj_voter journal))"

lemma plugin_reachable_step: "plugin_reachable P n s \<Longrightarrow> plugin_step P s s' \<Longrightarrow> plugin_reachable P (Suc n) s'"
  by (auto simp: plugin_reachable_def intro: run_step)

definition votes_for :: "(address \<Rightarrow> u256) \<Rightarrow> (address \<Rightarrow> VoteOption) \<Rightarrow> VoteOption \<Rightarrow> nat" where
  "votes_for w vs opt = (\<Sum>v | vs v = opt. unat (w v))"

definition tally_ok :: "(u256 \<Rightarrow> address \<Rightarrow> u256) \<Rightarrow> 'act plugin \<Rightarrow> bool" where
  "tally_ok w s \<longleftrightarrow>
     (\<forall>pid opt. opt \<noteq> VoteOption_None \<longrightarrow>
        unat (tally_get opt (prop_tally (proposals s pid))) = votes_for (w pid) (voters (proposals s pid)) opt)"

lemma votes_for_split:
  "votes_for w vs opt = (\<Sum>x | vs x = opt \<and> x \<noteq> v. unat (w x)) + (if vs v = opt then unat (w v) else 0)"
proof (cases "vs v = opt")
  case True
  then have "{x. vs x = opt} = insert v {x. vs x = opt \<and> x \<noteq> v}" by auto
  with True show ?thesis by (simp add: votes_for_def)
next
  case False
  then have "{x. vs x = opt \<and> x \<noteq> v} = {x. vs x = opt}" by auto
  with False show ?thesis by (simp add: votes_for_def)
qed

lemma votes_for_upd:
  "int (votes_for w (vs(v := new)) opt) = int (votes_for w vs opt)
     - (if vs v = opt then uint (w v) else 0) + (if new = opt then uint (w v) else 0)"
proof -
  have "{x. (vs(v := new)) x = opt \<and> x \<noteq> v} = {x. vs x = opt \<and> x \<noteq> v}" by auto
  then show ?thesis
    using votes_for_split [of w vs opt v] votes_for_split [of w "vs(v := new)" opt v] by simp
qed

lemma createProposal_frame:
  "createProposal P b a s = Inr (pid, s') \<Longrightarrow>
     prop_tally (proposals s' q) = prop_tally (proposals s q) \<and> voters (proposals s' q) = voters (proposals s q)"
  by (cases "createProposalId P (proposalCounter s)") (auto simp: createProposal_def Let_def outcome_iff)

lemma tally_ok_vote:
  assumes "steady_power P w" and "tally_ok w s" and "vote P b j seal s = Inr s'" and "plugin_reachable P n s"
  shows "tally_ok w s'"
proof -
  from assms(3) obtain journal where j: "abi_decode_journal P j = Some journal" by (auto elim: vote_Inr)
  with assms(1,3,4) have power: "vj_balance journal = w (vj_proposal_id journal) (vj_voter journal)"
    unfolding steady_power_def by blast
  from vote_tally [OF assms(3) j] obtain new where
      tally: "\<And>opt. uint (tally_get opt (prop_tally (proposals s' (vj_proposal_id journal)))) =
        uint (tally_get opt (prop_tally (proposals s (vj_proposal_id journal))))
        - credit (voters (proposals s (vj_proposal_id journal)) (vj_voter journal)) opt (vj_balance journal)
        + credit new opt (vj_balance journal)"
      and vs: "voters (proposals s' (vj_proposal_id journal)) =
        (voters (proposals s (vj_proposal_id journal)))(vj_voter journal := new)"
      and other: "\<And>q. q \<noteq> vj_proposal_id journal \<Longrightarrow> proposals s' q = proposals s q" by blast
  show ?thesis
    unfolding tally_ok_def
  proof (intro allI impI)
    fix pid opt
    assume opt: "opt \<noteq> VoteOption_None"
    show "unat (tally_get opt (prop_tally (proposals s' pid))) = votes_for (w pid) (voters (proposals s' pid)) opt"
    proof (cases "pid = vj_proposal_id journal")
      case True
      have "unat (tally_get opt (prop_tally (proposals s pid))) = votes_for (w pid) (voters (proposals s pid)) opt"
        using assms(2) opt by (simp add: tally_ok_def)
      from arg_cong [where f = int, OF this]
      have "uint (tally_get opt (prop_tally (proposals s pid))) = int (votes_for (w pid) (voters (proposals s pid)) opt)"
        by simp
      then have "int (unat (tally_get opt (prop_tally (proposals s' pid)))) =
          int (votes_for (w pid) (voters (proposals s' pid)) opt)"
        using tally [of opt] opt unfolding True vs votes_for_upd power credit_def by auto
      then show ?thesis by (simp only: of_nat_eq_iff)
    next
      case False
      with other [of pid] assms(2) opt show ?thesis by (simp add: tally_ok_def)
    qed
  qed
qed

lemma tally_ok_step:
  assumes "steady_power P w" and "plugin_step P s s'" and "tally_ok w s" and "plugin_reachable P n s"
  shows "tally_ok w s'"
  using assms(2)
proof (cases rule: plugin_step.cases)
  case (step_settings b vs)
  with assms(3) updateVotingSettings_Inr show ?thesis by (fastforce simp: tally_ok_def)
next
  case (step_create b a pid)
  with assms(3) createProposal_frame show ?thesis by (fastforce simp: tally_ok_def)
next
  case (step_vote b j seal)
  from assms(1,3) this assms(4) show ?thesis by (rule tally_ok_vote)
next
  case (step_execute b j seal pid)
  with assms(3) show ?thesis by (simp add: tally_ok_def mark_executed_def)
qed

lemma tally_ok_reachable:
  assumes "steady_power P w" and "plugin_reachable P n s"
  shows "tally_ok w s"
proof -
  from assms(2) obtain vs s0 where init: "initialize vs = Inr s0" and run: "plugin_run P n s0 s"
    by (auto simp: plugin_reachable_def)
  from run init show ?thesis
  proof (induction rule: plugin_run.induct)
    case (run_refl s)
    then have "\<And>pid. proposals s pid = empty_Proposal"
      by (auto simp: initialize_def updateVotingSettings_internal_Inr)
    then show ?case
      by (auto simp: tally_ok_def votes_for_def empty_Proposal_def tally_get_def split: VoteOption.splits)
  next
    case (run_step n s s' s'')
    then have "plugin_reachable P n s'" by (auto simp: plugin_reachable_def)
    with run_step show ?case by (auto intro: tally_ok_step [OF assms(1)])
  qed
qed

section \<open>Votes that the arithmetic allows\<close>

lemma tally_sub_returns:
  "(\<exists>t'. tally_sub opt p t = Inr t') \<longleftrightarrow> opt = VoteOption_None \<or> unat p \<le> unat (tally_get opt t)"
  by (cases opt) (auto simp: tally_sub_def tally_get_def outcome_iff word_le_nat_alt)

lemma tally_add_returns:
  "(\<exists>t'. tally_add opt p t = Inr t') \<longleftrightarrow> opt = VoteOption_None \<or> unat (tally_get opt t) + unat p < 2 ^ 256"
  by (cases opt) (auto simp: tally_add_def tally_get_def outcome_iff)

lemma VoteOption_of_returns: "(\<exists>opt. VoteOption_of d = Inr opt) \<longleftrightarrow> unat d \<le> 3"
proof -
  have "unat d \<le> 3 \<longleftrightarrow> unat d = unat (0 :: u8) \<or> unat d = unat (1 :: u8) \<or> unat d = unat (2 :: u8) \<or> unat d = unat (3 :: u8)"
    by auto
  then show ?thesis unfolding word_unat_eq_iff [symmetric] by (auto simp: VoteOption_of_def)
qed

lemma tally_ok_moves:
  assumes "tally_ok w s" and "(\<Sum>v\<in>UNIV. unat (w pid v)) < 2 ^ 256"
  obtains t1 t2 where "tally_sub (voters (proposals s pid) v) (w pid v) (prop_tally (proposals s pid)) = Inr t1"
    "tally_add opt (w pid v) t1 = Inr t2"
proof -
  let ?vs = "voters (proposals s pid)" and ?t = "prop_tally (proposals s pid)"
  let ?rest = "\<lambda>opt. \<Sum>x | ?vs x = opt \<and> x \<noteq> v. unat (w pid x)"
  have count: "unat (tally_get o' ?t) = ?rest o' + (if ?vs v = o' then unat (w pid v) else 0)"
    if "o' \<noteq> VoteOption_None" for o'
    using assms(1) that votes_for_split [of "w pid" ?vs o' v] by (simp add: tally_ok_def)
  from count [of "?vs v"] have "\<exists>t1. tally_sub (?vs v) (w pid v) ?t = Inr t1"
    unfolding tally_sub_returns by (cases "?vs v = VoteOption_None") simp_all
  then obtain t1 where t1: "tally_sub (?vs v) (w pid v) ?t = Inr t1" by blast
  have "unat (tally_get opt t1) + unat (w pid v) < 2 ^ 256" if opt: "opt \<noteq> VoteOption_None"
  proof -
    have "int (unat (tally_get opt ?t)) = int (?rest opt + (if ?vs v = opt then unat (w pid v) else 0))"
      by (simp only: count [OF opt])
    with tally_sub_get [OF t1, of opt] opt have "uint (tally_get opt t1) = int (?rest opt)"
      by (auto simp: credit_def)
    then have "unat (tally_get opt t1) = ?rest opt" by (simp only: unat_eq_nat_uint nat_int)
    moreover have "?rest opt + unat (w pid v) \<le> (\<Sum>x\<in>UNIV. unat (w pid x))"
      using sum_mono2 [of UNIV "insert v {x. ?vs x = opt \<and> x \<noteq> v}" "\<lambda>x. unat (w pid x)"] by simp
    ultimately show ?thesis using assms(2) by simp
  qed
  then have "\<exists>t2. tally_add opt (w pid v) t1 = Inr t2" unfolding tally_add_returns by blast
  with that t1 show thesis by blast
qed

text \<open>
  When a vote is accepted, whatever the state: the four checks of the contract, and that both arithmetic steps of the
  tally return.
\<close>

lemma vote_accepted_iff:
  assumes "abi_decode_journal P j = Some journal" and "p = proposals s (vj_proposal_id journal)"
  shows "(\<exists>s'. vote P b j seal s = Inr s') \<longleftrightarrow>
    vj_config_contract journal = this_address P \<and> check_commitment p journal = Inr () \<and>
    verify P (pp_verifier (parameters p)) seal (pp_votingProtocolImageId (parameters p)) (sha256 P j) \<and>
    (\<exists>opt t1 t2. VoteOption_of (vj_direction journal) = Inr opt \<and>
       tally_sub (voters p (vj_voter journal)) (vj_balance journal) (prop_tally p) = Inr t1 \<and>
       tally_add opt (vj_balance journal) t1 = Inr t2)"
  by (auto simp: vote_def assms Let_def outcome_iff verify_proof_def)

lemma vote_returns:
  assumes "tally_ok w s" and "(\<Sum>v\<in>UNIV. unat (w (vj_proposal_id journal) v)) < 2 ^ 256"
    and "abi_decode_journal P j = Some journal"
    and "vj_balance journal = w (vj_proposal_id journal) (vj_voter journal)"
  shows "(\<exists>s'. vote P b j seal s = Inr s') \<longleftrightarrow>
    vj_config_contract journal = this_address P \<and>
    check_commitment (proposals s (vj_proposal_id journal)) journal = Inr () \<and>
    verify P (pp_verifier (parameters (proposals s (vj_proposal_id journal)))) seal
      (pp_votingProtocolImageId (parameters (proposals s (vj_proposal_id journal)))) (sha256 P j) \<and>
    unat (vj_direction journal) \<le> 3"
proof -
  have moves: "\<exists>t1 t2. tally_sub (voters (proposals s (vj_proposal_id journal)) (vj_voter journal)) (vj_balance journal)
      (prop_tally (proposals s (vj_proposal_id journal))) = Inr t1 \<and> tally_add opt (vj_balance journal) t1 = Inr t2" for opt
    using tally_ok_moves [OF assms(1,2)] unfolding assms(4) by metis
  show ?thesis
    unfolding vote_accepted_iff [OF assms(3) refl] VoteOption_of_returns [symmetric] using moves by blast
qed

text \<open>A second vote with more power than the count of the first option holds reverts.\<close>

lemma larger_revote_reverts:
  assumes "abi_decode_journal P j = Some journal" and "p = proposals s (vj_proposal_id journal)"
    and "voters p (vj_voter journal) \<noteq> VoteOption_None"
    and "tally_get (voters p (vj_voter journal)) (prop_tally p) < vj_balance journal"
  shows "\<exists>e. vote P b j seal s = Inl e"
proof -
  have "\<not> (\<exists>t. tally_sub (voters p (vj_voter journal)) (vj_balance journal) (prop_tally p) = Inr t)"
    using assms(3,4) by (simp add: tally_sub_returns word_less_nat_alt)
  then have "\<not> (\<exists>s'. vote P b j seal s = Inr s')" unfolding vote_accepted_iff [OF assms(1,2)] by blast
  then show ?thesis by (cases "vote P b j seal s") auto
qed

section \<open>The order of votes\<close>

lemma Tally_eqI:
  fixes t t' :: Tally
  assumes "\<And>opt. tally_get opt t = tally_get opt t'"
  shows "t = t'"
  using assms [of Yes] assms [of No] assms [of Abstain] by (intro Tally.equality) (simp_all add: tally_get_def)

lemma vote_frame:
  assumes "vote P b j seal s = Inr s'"
  shows "votingSettings s' = votingSettings s" "proposalCounter s' = proposalCounter s"
    "executed (proposals s' q) = executed (proposals s q)" "parameters (proposals s' q) = parameters (proposals s q)"
    "actions (proposals s' q) = actions (proposals s q)" "allowFailureMap (proposals s' q) = allowFailureMap (proposals s q)"
  using assms by (rule vote_Inr, simp)+

lemma vote_effect:
  assumes "vote P b j seal s = Inr s'" and "abi_decode_journal P j = Some journal"
    and "VoteOption_of (vj_direction journal) = Inr new"
  shows "uint (tally_get opt (prop_tally (proposals s' q))) = uint (tally_get opt (prop_tally (proposals s q)))
       + (if q = vj_proposal_id journal
          then credit new opt (vj_balance journal) - credit (voters (proposals s q) (vj_voter journal)) opt (vj_balance journal)
          else 0)"
    and "voters (proposals s' q) v =
       (if q = vj_proposal_id journal \<and> v = vj_voter journal then new else voters (proposals s q) v)"
  using vote_tally [OF assms(1,2)] assms(3) by (cases "q = vj_proposal_id journal"; auto)+

lemma plugin_eqI:
  fixes s s' :: "'act plugin"
  assumes "votingSettings s = votingSettings s'" and "proposalCounter s = proposalCounter s'"
    and "\<And>q. executed (proposals s q) = executed (proposals s' q)"
    and "\<And>q. parameters (proposals s q) = parameters (proposals s' q)"
    and "\<And>q. actions (proposals s q) = actions (proposals s' q)"
    and "\<And>q. allowFailureMap (proposals s q) = allowFailureMap (proposals s' q)"
    and "\<And>q opt. uint (tally_get opt (prop_tally (proposals s q))) = uint (tally_get opt (prop_tally (proposals s' q)))"
    and "\<And>q v. voters (proposals s q) v = voters (proposals s' q) v"
  shows "s = s'"
proof -
  have "prop_tally (proposals s q) = prop_tally (proposals s' q)" for q
    using assms(7) by (intro Tally_eqI) (simp add: word_uint_eq_iff)
  moreover have "voters (proposals s q) = voters (proposals s' q)" for q using assms(8) by blast
  ultimately have "proposals s q = proposals s' q" for q using assms(3-6) [of q] by (intro Proposal.equality) simp_all
  with assms(1,2) show ?thesis by (intro plugin.equality) auto
qed

section \<open>Properties\<close>

text \<open>
  C3: The tally is the sum of the votes that stand. When every accepted vote of a voter on a proposal carries the
  same power, then in every reachable state of the plugin each of the three counts of a proposal is exactly the sum
  of the powers of the voters whose last vote was for it, as natural numbers and without wrap-around, whatever
  other transactions, revotes and executions with re-entrant calls there were; and the previous vote of any
  voter can be taken back.
\<close>

theorem tally_is_sum_of_votes:
  assumes "steady_power P w" and "plugin_reachable P n s"
  shows "unat (tally_yes (prop_tally (proposals s pid))) = (\<Sum>v | getVoteOption s pid v = Yes. unat (w pid v)) \<and>
    unat (tally_no (prop_tally (proposals s pid))) = (\<Sum>v | getVoteOption s pid v = No. unat (w pid v)) \<and>
    unat (tally_abstain (prop_tally (proposals s pid))) = (\<Sum>v | getVoteOption s pid v = Abstain. unat (w pid v)) \<and>
    (\<exists>t. tally_sub (getVoteOption s pid v) (w pid v) (prop_tally (proposals s pid)) = Inr t)"
proof -
  have ok: "tally_ok w s" using assms by (rule tally_ok_reachable)
  then have counts: "unat (tally_get opt (prop_tally (proposals s pid))) = (\<Sum>v | getVoteOption s pid v = opt. unat (w pid v))"
    if "opt \<noteq> VoteOption_None" for opt
    using that by (simp add: tally_ok_def votes_for_def getVoteOption_def)
  have "unat (w pid v) \<le> votes_for (w pid) (voters (proposals s pid)) (getVoteOption s pid v)"
    using votes_for_split [of "w pid" "voters (proposals s pid)" "getVoteOption s pid v" v] by (simp add: getVoteOption_def)
  with ok have "\<exists>t. tally_sub (getVoteOption s pid v) (w pid v) (prop_tally (proposals s pid)) = Inr t"
    unfolding tally_sub_returns by (cases "getVoteOption s pid v = VoteOption_None") (simp_all add: tally_ok_def)
  with counts [of Yes] counts [of No] counts [of Abstain] show ?thesis by (simp add: tally_get_def)
qed

text \<open>Proofs exist only for journals whose power is ten.\<close>

definition ex_steady_libs :: "unit plugin_libs" where
  "ex_steady_libs = ex_plugin_libs\<lparr>sha256 := (\<lambda>j. if length j = 4 \<and> j ! 2 = 10 then 1 else 0),
     verify := (\<lambda>_ seal _ d. seal = [1] \<and> d = 1)\<rparr>"

lemma ex_steady: "steady_power ex_steady_libs (\<lambda>_ _. 10)"
  unfolding steady_power_def
proof (intro allI impI)
  fix n b j seal s s' journal
  assume "vote ex_steady_libs b j seal s = Inr s'" and "abi_decode_journal ex_steady_libs j = Some journal"
  then show "vj_balance journal = 10"
    by (auto elim!: vote_Inr simp: verify_proof_def ex_steady_libs_def ex_plugin_libs_def ex_journal_def split: if_splits)
qed

lemma ex_steady_vote: "vote ex_steady_libs b [0, 7, 10, 2] [1] ex_plugin1 = Inr (ex_voted 10)"
  by (simp add: vote_def Let_def check_commitment_def decodeVersionedID_def verify_proof_def VoteOption_of_def
      tally_sub_def tally_add_def checked_add_def ex_steady_libs_def ex_voted_def ex_plugin_defs empty_Proposal_def
      mask_eq_exp_minus_1)

lemma ex_steady_reachable: "plugin_reachable ex_steady_libs 1 ex_plugin1" "plugin_reachable ex_steady_libs 2 (ex_voted 10)"
proof -
  have "createProposal ex_steady_libs ex_block ex_create ex_plugin0 = Inr (0, ex_plugin1)"
    by (simp add: createProposal_def validateProposalDates_def toUint64_def checked_add_def Let_def ex_steady_libs_def
        ex_plugin_defs empty_Proposal_def)
  from run_step [OF run_refl step_create [OF this]] have created: "plugin_run ex_steady_libs 1 ex_plugin0 ex_plugin1" by simp
  with ex_initialize show "plugin_reachable ex_steady_libs 1 ex_plugin1" unfolding plugin_reachable_def by blast
  from run_step [OF created step_vote [OF ex_steady_vote]] have "plugin_run ex_steady_libs 2 ex_plugin0 (ex_voted 10)"
    by (simp add: numeral_2_eq_2)
  with ex_initialize show "plugin_reachable ex_steady_libs 2 (ex_voted 10)" unfolding plugin_reachable_def by blast
qed

theorem tally_is_sum_of_votes_witness:
  "plugin_reachable ex_steady_libs 2 (ex_voted 10) \<and>
   unat (tally_yes (prop_tally (proposals (ex_voted 10) 0))) = (\<Sum>v | getVoteOption (ex_voted 10) 0 v = Yes. 10) \<and>
   (\<exists>t. tally_sub (getVoteOption (ex_voted 10) 0 7) 10 (prop_tally (proposals (ex_voted 10) 0)) = Inr t)"
  using tally_is_sum_of_votes [OF ex_steady ex_steady_reachable(2), of 0 7] ex_steady_reachable(2) by simp

text \<open>
  C14: No vote is blocked by another while powers are steady. When the accepted votes of a voter on a proposal all carry
  the same power (\<open>steady_power\<close>) and all powers on the proposal together fit into 256 bits, then the arithmetic of
  the tally never makes a vote with the voter's power revert: in every reachable state such a journal is accepted
  exactly when it is for this plugin, commits to the snapshot block, is proved, and names one of the four options.
  Without steady powers a second vote with a larger power can revert (\<open>larger_revote_reverts\<close>).
\<close>

theorem valid_vote_accepted:
  assumes "steady_power P w" and "plugin_reachable P n s" and "(\<Sum>v\<in>UNIV. unat (w (vj_proposal_id journal) v)) < 2 ^ 256"
    and "abi_decode_journal P j = Some journal"
    and "vj_balance journal = w (vj_proposal_id journal) (vj_voter journal)"
  shows "(\<exists>s'. vote P b j seal s = Inr s') \<longleftrightarrow>
    vj_config_contract journal = this_address P \<and>
    check_commitment (proposals s (vj_proposal_id journal)) journal = Inr () \<and>
    verify P (pp_verifier (parameters (proposals s (vj_proposal_id journal)))) seal
      (pp_votingProtocolImageId (parameters (proposals s (vj_proposal_id journal)))) (sha256 P j) \<and>
    unat (vj_direction journal) \<le> 3"
  using tally_ok_reachable [OF assms(1,2)] assms(3-5) by (rule vote_returns)

lemma card_address: "card (UNIV :: address set) = 2 ^ 160"
  by (simp add: card_word)

theorem valid_vote_accepted_witness:
  "plugin_reachable ex_steady_libs 2 (ex_voted 10) \<and>
   (\<exists>s'. vote ex_steady_libs ex_block [0, 8, 10, 3] [1] (ex_voted 10) = Inr s') \<and>
   \<not> (\<exists>s'. vote ex_steady_libs ex_block [0, 8, 10, 4] [1] (ex_voted 10) = Inr s')"
proof -
  let ?journal = "\<lambda>d. the (ex_journal [0, 8, 10, d])"
  have fits: "(\<Sum>v\<in>(UNIV :: address set). unat (10 :: u256)) < 2 ^ 256" by (simp add: card_address)
  have j: "abi_decode_journal ex_steady_libs [0, 8, 10, d] = Some (?journal d)" "vj_balance (?journal d) = 10" for d
    by (simp_all add: ex_steady_libs_def ex_plugin_libs_def ex_journal_def)
  note accepted = valid_vote_accepted [OF ex_steady ex_steady_reachable(2) fits j(1), OF j(2), where b = ex_block and seal = "[1]"]
  show ?thesis
    unfolding accepted
    using ex_steady_reachable(2)
    by (simp add: ex_steady_libs_def ex_voted_def ex_plugin_defs check_commitment_def decodeVersionedID_def
        empty_Proposal_def mask_eq_exp_minus_1)
qed

text \<open>
  C15: The order of votes does not matter while powers are steady. Let the accepted votes of a voter on a proposal all
  carry the same power (\<open>steady_power\<close>) and let the powers on each proposal together fit into 256 bits. Then two votes
  of different voters, or on different proposals, that are both accepted in the same reachable state are both accepted
  one after the other in either order, with the same storage in the end.
\<close>

theorem votes_commute:
  assumes "steady_power P w" and "plugin_reachable P n s" and "\<And>pid. (\<Sum>v\<in>UNIV. unat (w pid v)) < 2 ^ 256"
    and "abi_decode_journal P j1 = Some v1" and "abi_decode_journal P j2 = Some v2"
    and "vj_proposal_id v1 \<noteq> vj_proposal_id v2 \<or> vj_voter v1 \<noteq> vj_voter v2"
    and "vote P b1 j1 seal1 s = Inr s1" and "vote P b2 j2 seal2 s = Inr s2"
  shows "\<exists>s'. vote P b2 j2 seal2 s1 = Inr s' \<and> vote P b1 j1 seal1 s2 = Inr s'"
proof -
  have ok: "tally_ok w s" using assms(1,2) by (rule tally_ok_reachable)
  have again: "\<exists>s'. vote P b j seal t = Inr s'"
    if "vote P b j seal s = Inr s0" "abi_decode_journal P j = Some v" "vote P b' j' seal' s = Inr t" for b j seal s0 v b' j' seal' t
    using vote_returns [OF ok assms(3) that(2)] vote_returns [OF tally_ok_vote [OF assms(1) ok that(3) assms(2)] assms(3) that(2)]
      assms(1,2) that(1,2) vote_frame(4) [OF that(3)]
    by (fastforce simp: steady_power_def check_commitment_def)
  obtain s12 where s12: "vote P b2 j2 seal2 s1 = Inr s12" using again [OF assms(8,5,7)] by blast
  obtain s21 where s21: "vote P b1 j1 seal1 s2 = Inr s21" using again [OF assms(7,4,8)] by blast
  note frames = vote_frame [OF assms(7)] vote_frame [OF assms(8)] vote_frame [OF s12] vote_frame [OF s21]
  obtain o1 where o1: "VoteOption_of (vj_direction v1) = Inr o1" using vote_tally [OF assms(7,4)] by blast
  obtain o2 where o2: "VoteOption_of (vj_direction v2) = Inr o2" using vote_tally [OF assms(8,5)] by blast
  note effects = vote_effect [OF assms(7,4) o1] vote_effect [OF assms(8,5) o2] vote_effect [OF s12 assms(5) o2]
    vote_effect [OF s21 assms(4) o1]
  have "s12 = s21"
    by (rule plugin_eqI) (use assms(6) in \<open>auto simp: frames effects\<close>)
  with s12 s21 show ?thesis by blast
qed

theorem votes_commute_witness:
  "\<exists>s1 s2 s'. vote ex_steady_libs ex_block [0, 7, 10, 2] [1] ex_plugin1 = Inr s1 \<and>
     vote ex_steady_libs ex_block [0, 8, 10, 3] [1] ex_plugin1 = Inr s2 \<and>
     vote ex_steady_libs ex_block [0, 8, 10, 3] [1] s1 = Inr s' \<and> vote ex_steady_libs ex_block [0, 7, 10, 2] [1] s2 = Inr s'"
proof -
  obtain s2 where s2: "vote ex_steady_libs ex_block [0, 8, 10, 3] [1] ex_plugin1 = Inr s2"
    by (simp add: vote_def Let_def check_commitment_def decodeVersionedID_def verify_proof_def VoteOption_of_def
        tally_sub_def tally_add_def checked_add_def ex_steady_libs_def ex_plugin_defs empty_Proposal_def
        mask_eq_exp_minus_1)
  have fits: "(\<Sum>v\<in>(UNIV :: address set). unat (10 :: u256)) < 2 ^ 256" by (simp add: card_address)
  have j: "abi_decode_journal ex_steady_libs [0, v, 10, d] = Some (the (ex_journal [0, v, 10, d]))" for v d
    by (simp add: ex_steady_libs_def ex_plugin_libs_def ex_journal_def)
  have "vj_voter (the (ex_journal [0, 7, 10, 2])) \<noteq> vj_voter (the (ex_journal [0, 8, 10, 3]))" by (simp add: ex_journal_def)
  with votes_commute [OF ex_steady ex_steady_reachable(1) fits j j _ ex_steady_vote s2] show ?thesis
    using ex_steady_vote [of ex_block] s2 by blast
qed

text \<open>
  C22: The contract itself never asks whether a proposal has passed. Whether \<^verbatim>\<open>execute\<close> goes ahead does not
  depend on the tally, on the votes, on the support threshold of the proposal or on the settings: a proposal without
  a single vote, or with only votes against it, can be executed as soon as one with a large majority can. Everything
  rests on the proof, whose journal says nothing of the stored tally.
\<close>

theorem execution_ignores_tally:
  "execute_checks P b j seal (s\<lparr>votingSettings := settings, proposals := (\<lambda>q. (proposals s q)
      \<lparr>prop_tally := t q, voters := vs q, parameters := (parameters (proposals s q))\<lparr>pp_supportThreshold := th q\<rparr>\<rparr>)\<rparr>) =
   execute_checks P b j seal s \<and>
   canExecute b (s\<lparr>votingSettings := settings, proposals := (\<lambda>q. (proposals s q)
      \<lparr>prop_tally := t q, voters := vs q, parameters := (parameters (proposals s q))\<lparr>pp_supportThreshold := th q\<rparr>\<rparr>)\<rparr>) pid =
   canExecute b s pid"
  by (simp add: execute_checks_def canExecute_def isProposalOpen_def check_commitment_def verify_proof_def Let_def
      cong: option.case_cong if_cong)

text \<open>What the views show after a vote.\<close>

lemma vote_visible:
  assumes "vote P b j seal s = Inr s'" and "abi_decode_journal P j = Some journal" and "unat (block_timestamp b) < 2 ^ 64"
  shows "Inr (getVoteOption s' (vj_proposal_id journal) (vj_voter journal)) = VoteOption_of (vj_direction journal)"
    and "\<exists>open t. getProposal b s' (vj_proposal_id journal) = Inr (open, executed (proposals s (vj_proposal_id journal)),
      parameters (proposals s (vj_proposal_id journal)), t, actions (proposals s (vj_proposal_id journal)),
      allowFailureMap (proposals s (vj_proposal_id journal))) \<and> t = prop_tally (proposals s' (vj_proposal_id journal))"
  using vote_tally [OF assms(1,2)] vote_frame [OF assms(1)] assms(3)
  by (auto simp: getVoteOption_def getProposal_def isProposalOpen_def toUint64_def Let_def)

end
