(* ===== verification/Abi.thy ===== *)
theory Abi
  imports Zkvm_Io Evm_Tx
begin

text \<open>
  The Solidity ABI of the two journals, as the \<^verbatim>\<open>sol!\<close> declarations of the guests and the structs of
  the plugin fix it: 32-byte words, a static struct in place, a struct with a dynamic member behind an
  offset. The guests' encoder and the plugin's decoder remain parameters of the programs; these functions
  are what the ABI specification requires of them.
\<close>

section \<open>Journals\<close>

definition abi_encode_VotingJournal :: "VotingJournal \<Rightarrow> u8 list" where
  "abi_encode_VotingJournal v = abi_words
     [commitment_id (vj_commitment v), commitment_digest (vj_commitment v), commitment_configID (vj_commitment v),
      ucast (vj_config_contract v), vj_proposal_id v, ucast (vj_voter v), vj_balance v, ucast (vj_direction v)]"

text \<open>
  \<^verbatim>\<open>abi.decode\<close> reverts on missing data and on a value that does not fit its type; data after the
  struct is ignored.
\<close>

definition abi_decode_VotingJournal :: "u8 list \<Rightarrow> VotingJournal option" where
  "abi_decode_VotingJournal bs =
     (case words_of bs of
        i # digest # configID # config # pid # voter # balance # direction # _ \<Rightarrow>
          if unat config < 2 ^ 160 \<and> unat voter < 2 ^ 160 \<and> unat direction < 2 ^ 8
          then Some \<lparr>vj_commitment = \<lparr>commitment_id = i, commitment_digest = digest, commitment_configID = configID\<rparr>,
                 vj_config_contract = ucast config, vj_proposal_id = pid, vj_voter = ucast voter,
                 vj_balance = balance, vj_direction = ucast direction\<rparr>
          else None
      | _ \<Rightarrow> None)"

text \<open>The execution journal has a dynamic array: an offset first, then the head, then the array.\<close>

definition abi_encode_ExecutionJournal :: "ExecutionJournal \<Rightarrow> u8 list" where
  "abi_encode_ExecutionJournal e = abi_words
     ([32, commitment_id (ej_commitment e), commitment_digest (ej_commitment e), commitment_configID (ej_commitment e),
       ucast (ej_config_contract e), ej_proposal_id e, 192, of_nat (length (ej_tally e))] @ ej_tally e)"

lemma ucast_ucast_address: "(ucast (ucast (a :: address) :: u256) :: address) = a"
  by (intro bit_word_eqI) (auto simp: bit_simps)

lemma ucast_ucast_u8: "(ucast (ucast (b :: u8) :: u256) :: u8) = b"
  by (intro bit_word_eqI) (auto simp: bit_simps)

lemma abi_decode_encode_words: "abi_decode_VotingJournal (abi_encode_VotingJournal v @ abi_words ws) = Some v"
proof -
  have "unat (vj_config_contract v) < 2 ^ 160" "unat (vj_voter v) < 2 ^ 160" "unat (vj_direction v) < 2 ^ 8"
    using unsigned_less [of "vj_config_contract v", where ?'a = nat] unsigned_less [of "vj_voter v", where ?'a = nat]
      unsigned_less [of "vj_direction v", where ?'a = nat] by simp_all
  then show ?thesis
    by (simp add: abi_decode_VotingJournal_def abi_encode_VotingJournal_def abi_words_append unat_ucast_widen
        ucast_ucast_address ucast_ucast_u8)
qed

lemma abi_decode_encode: "abi_decode_VotingJournal (abi_encode_VotingJournal v) = Some v"
  using abi_decode_encode_words [of v "[]"] by (simp add: abi_words_def)

lemma abi_decode_execution:
  assumes "abi_decode_VotingJournal (abi_encode_ExecutionJournal e) = Some v"
  shows "vj_config_contract v = ucast (commitment_configID (ej_commitment e)) \<and>
     unat (commitment_configID (ej_commitment e)) < 2 ^ 160 \<and>
     commitment_digest (vj_commitment v) = commitment_id (ej_commitment e) \<and> commitment_id (vj_commitment v) = 32"
  using assms by (auto simp: abi_decode_VotingJournal_def abi_encode_ExecutionJournal_def split: if_splits)

section \<open>Properties\<close>

text \<open>
  A voting journal survives the ABI: decoding what the guest encodes, followed by any other bytes in
  whole words, gives the journal back; so two journals with the same bytes are the same.
\<close>

lemma voting_journal_roundtrip:
  "abi_decode_VotingJournal (abi_encode_VotingJournal v @ abi_words extra) = Some v"
  by (rule abi_decode_encode_words)

end
