(* ===== verification/Voting_System.thy ===== *)
theory Voting_System
  imports Command_Line Plugin_Tally Abi
begin

text \<open>
  From a request to the count on chain: the web server starts the publisher, \<^verbatim>\<open>publisher.rs\<close> submits a
  transaction, and \<^verbatim>\<open>vote\<close> of the plugin counts it.
\<close>

section \<open>From the publisher to the plugin\<close>

lemma credit_self: "opt \<noteq> VoteOption_None \<Longrightarrow> credit opt opt p = uint p" "credit VoteOption_None opt p = 0"
  by (simp_all add: credit_def)

text \<open>The commitment that \<^verbatim>\<open>vote\<close> asks for: the snapshot block of the proposal and its hash.\<close>

definition commits_to_snapshot :: "Commitment \<Rightarrow> ProposalParameters \<Rightarrow> bool" where
  "commits_to_snapshot commitment pp \<longleftrightarrow>
     commitment_digest commitment = pp_snapshotBlockHash pp \<and>
     fst (decodeVersionedID (commitment_id commitment)) = ucast (pp_snapshotBlock pp)"

text \<open>
  A vote that the publisher submits is counted. Take a run of the publisher that submits a transaction to this
  plugin, with a prover that only returns receipts of guest runs, a Steel that keeps the block from host to guest, both
  ends on the ABI, and the proof verified for the proposal's image. If the block that the node opens for the publisher's
  arguments is the proposal's snapshot block, the voter has not voted and the counts have room, then the plugin accepts the transaction, records the direction given on the publisher's
  command line for its voter, and adds exactly its balance to that option. (That a guest finds the configuration of
  the proposal at the snapshot block is the point where the deployed contracts fail.)
\<close>

lemma submitted_vote_counted:
  assumes "codec_ok c" and "proves_guest L c" and "tx \<in> set (fst (publisher_main L c args))"
    and "abi_decode_journal P = abi_decode_VotingJournal" and "abi_encode_voting L = abi_encode_VotingJournal"
    and "tx_to tx = this_address P" and "p = proposals s (pa_proposal_id args)"
    and "\<And>h. open_env L (pa_rpc_url args) (pa_block_number args) = Inr (Inr h) \<Longrightarrow>
      commits_to_snapshot (henv_commitment h) (parameters p)"
    and "verify P (pp_verifier (parameters p)) (tx_seal tx) (pp_votingProtocolImageId (parameters p)) (sha256 P (tx_journal tx))"
    and "voters p (pa_voter args) = VoteOption_None"
    and "\<And>opt. unat (tally_get opt (prop_tally p)) + unat (pa_balance args) < 2 ^ 256"
    and "steel_documented L"
  shows "\<exists>s' opt. vote P b (tx_journal tx) (tx_seal tx) s = Inr s' \<and>
    VoteOption_of (pa_direction args) = Inr opt \<and> opt \<noteq> VoteOption_None \<and>
    getVoteOption s' (pa_proposal_id args) (pa_voter args) = opt \<and>
    uint (tally_get opt (prop_tally (proposals s' (pa_proposal_id args)))) =
      uint (tally_get opt (prop_tally p)) + uint (pa_balance args)"
proof -
  from publisher_submits [OF assms(1-3)] obtain h h' i g where
      h: "open_env L (pa_rpc_url args) (pa_block_number args) = Inr (Inr h)" "publisher_checks L args h = Inr (Inr h')"
      and g: "into_input L h' = Inr i" "into_env L i = Some g"
      and dir: "pa_direction args \<in> {1, 2, 3}" and dest: "tx_to tx = pa_config_contract args"
      and journal: "tx_journal tx = abi_encode_voting L
          \<lparr>vj_commitment = env_commitment g, vj_config_contract = pa_config_contract args,
           vj_proposal_id = pa_proposal_id args, vj_voter = pa_voter args, vj_balance = pa_balance args,
           vj_direction = pa_direction args\<rparr>" by blast
  define v where "v = \<lparr>vj_commitment = env_commitment g, vj_config_contract = pa_config_contract args,
      vj_proposal_id = pa_proposal_id args, vj_voter = pa_voter args, vj_balance = pa_balance args,
      vj_direction = pa_direction args\<rparr>"
  have "agrees g h'" using assms(12) g unfolding steel_documented_def by blast
  then have "env_commitment g = henv_commitment h"
    using extends_commitment [OF publisher_checks_extends [OF h(2)]] by (simp add: agrees_def)
  with assms(8) [OF h(1)] have snapshot: "commits_to_snapshot (env_commitment g) (parameters p)" by simp
  have decode: "abi_decode_journal P (tx_journal tx) = Some v"
    by (simp add: assms(4,5) journal v_def abi_decode_encode)
  from dir obtain opt where opt: "VoteOption_of (pa_direction args) = Inr opt" "opt \<noteq> VoteOption_None"
    by (auto simp: VoteOption_of_def)
  have sub: "tally_sub (voters p (pa_voter args)) (pa_balance args) (prop_tally p) = Inr (prop_tally p)"
    by (simp add: assms(10) tally_sub_def)
  obtain t where add: "tally_add opt (pa_balance args) (prop_tally p) = Inr t"
    using tally_add_returns [of opt "pa_balance args" "prop_tally p"] assms(11) [of opt] by blast
  obtain s' where s': "vote P b (tx_journal tx) (tx_seal tx) s = Inr s'"
    using assms(6) snapshot assms(9) sub add opt(1) dest
    by (simp add: commits_to_snapshot_def vote_def decode v_def Let_def check_commitment_def verify_proof_def split_beta flip: assms(7))
  have "uint (tally_get opt (prop_tally (proposals s' (pa_proposal_id args)))) =
      uint (tally_get opt (prop_tally p)) + uint (pa_balance args)"
    using vote_effect(1) [OF s' decode, of opt opt "pa_proposal_id args"] opt assms(10)
    by (simp add: v_def credit_self flip: assms(7))
  moreover have "getVoteOption s' (pa_proposal_id args) (pa_voter args) = opt"
    using vote_effect(2) [OF s' decode, of opt "pa_proposal_id args" "pa_voter args"] opt
    by (simp add: v_def getVoteOption_def)
  ultimately show ?thesis using s' opt by blast
qed

text \<open>
  An example publisher with the ABI of the journals and a prover that runs the guest on it. Its chain has a block for
  every number, with its own commitment; the input for the guest is the number of the block.
\<close>

definition ex_env_at :: "u64 \<Rightarrow> GuestEvmEnv" where
  "ex_env_at n = ex_env\<lparr>env_header_number := n,
     env_commitment := \<lparr>commitment_id = ucast n, commitment_digest = ucast n - 93, commitment_configID = 9\<rparr>\<rparr>"

definition ex_host_env_at :: "u64 \<Rightarrow> HostEvmEnv" where
  "ex_host_env_at n = ex_host_env\<lparr>henv_header_number := n, henv_parent_number := n - 1,
     henv_commitment := env_commitment (ex_env_at n)\<rparr>"

definition ex_block_codec :: "u64 stdin_codec" where
  "ex_block_codec = ex_codec_for to_be_bytes from_be_bytes"

lemma ex_block_codec_ok: "codec_ok ex_block_codec"
  unfolding ex_block_codec_def by (rule ex_codec_for_ok) (simp add: from_to_be_bytes)

definition ex_abi_publisher_libs0 :: "(unit, unit, u64, bytes32, unit) host_libs" where
  "ex_abi_publisher_libs0 = guest_libs.extend
     \<lparr>Keccak_v256 = Keccak_v256 ex_libs, RecoveryId_from_byte = RecoveryId_from_byte ex_libs,
      Signature_from_slice = Signature_from_slice ex_libs, recover_from_prehash = recover_from_prehash ex_libs,
      to_encoded_point = to_encoded_point ex_libs, into_env = (\<lambda>n. Some (ex_env_at n)),
      sepolia_chain_id = sepolia_chain_id ex_libs, address_to_string = address_to_string ex_host_libs,
      config_from_str = config_from_str ex_host_libs, Vec_from_hex = Vec_from_hex ex_libs,
      Bytes_from_str = Bytes_from_str ex_host_libs, abi_encode_voting = abi_encode_VotingJournal,
      abi_encode_execution = abi_encode_execution ex_libs\<rparr>
     (host_libs.fields (Url_from_str ex_host_libs) (\<lambda>_ n. Inr (ex_host_env_at n)) (call_error ex_host_libs)
        (\<lambda>h. if agrees (ex_env_at (henv_header_number h)) h then Inr (henv_header_number h) else Inl ''unknown block'')
        (\<lambda>_ _. Inl ''no prover'') (VotingJournal_abi_decode ex_host_libs) (claim_digest ex_host_libs)
        (\<lambda>_. Inr 1) (\<lambda>_. Inr True) (\<lambda>_. ''0x01''))"

definition ex_abi_publisher_libs :: "(unit, unit, u64, bytes32, unit) host_libs" where
  "ex_abi_publisher_libs = ex_abi_publisher_libs0\<lparr>spawn_prove := (\<lambda>elf stdin.
     case guest_main ex_abi_publisher_libs0 ex_block_codec elf stdin of
       Inl _ \<Rightarrow> Inr (Inl ''guest panicked'') | Inr j \<Rightarrow> Inr (Inr \<lparr>inner = Fake 7, journal_bytes = j\<rparr>))\<rparr>"

lemma ex_abi_guest_main: "guest_main ex_abi_publisher_libs = guest_main ex_abi_publisher_libs0"
proof -
  have "guest_libs.truncate ex_abi_publisher_libs = guest_libs.truncate ex_abi_publisher_libs0"
    by (simp add: ex_abi_publisher_libs_def guest_libs.truncate_def)
  then show ?thesis by (intro ext) (simp only: guest_main_def)
qed

lemma ex_abi_spawn:
  "spawn_prove ex_abi_publisher_libs elf stdin = (case guest_main ex_abi_publisher_libs ex_block_codec elf stdin of
     Inl _ \<Rightarrow> Inr (Inl ''guest panicked'') | Inr j \<Rightarrow> Inr (Inr \<lparr>inner = Fake 7, journal_bytes = j\<rparr>))"
  unfolding ex_abi_guest_main by (simp add: ex_abi_publisher_libs_def)

lemma ex_abi_prover: "proves_guest ex_abi_publisher_libs ex_block_codec" "prover_complete ex_abi_publisher_libs ex_block_codec"
  by (auto simp: proves_guest_def prover_complete_def ex_abi_spawn split: sum.splits)

lemma ex_abi_publisher_simps:
  "Url_from_str ex_abi_publisher_libs = Url_from_str ex_host_libs"
  "build_env ex_abi_publisher_libs u n = Inr (ex_host_env_at n)" "into_env ex_abi_publisher_libs n = Some (ex_env_at n)"
  "into_input ex_abi_publisher_libs h =
     (if agrees (ex_env_at (henv_header_number h)) h then Inr (henv_header_number h) else Inl ''unknown block'')"
  "address_to_string ex_abi_publisher_libs = address_to_string ex_host_libs"
  "config_from_str ex_abi_publisher_libs = config_from_str ex_host_libs" "call_error ex_abi_publisher_libs = call_error ex_host_libs"
  "Bytes_from_str ex_abi_publisher_libs = Bytes_from_str ex_host_libs"
  "abi_encode_voting ex_abi_publisher_libs = abi_encode_VotingJournal"
  "VotingJournal_abi_decode ex_abi_publisher_libs = VotingJournal_abi_decode ex_host_libs"
  "claim_digest ex_abi_publisher_libs = claim_digest ex_host_libs"
  by (simp_all add: ex_abi_publisher_libs_def ex_abi_publisher_libs0_def guest_libs.extend_def host_libs.fields_def)

lemma ex_abi_steel: "steel_documented ex_abi_publisher_libs"
  by (auto simp: steel_documented_def ex_abi_publisher_simps split: if_splits)

lemma ex_at_100: "ex_env_at 100 = ex_env" "ex_host_env_at 100 = ex_host_env"
  by (simp_all add: ex_env_at_def ex_host_env_at_def ex_host_env_def ex_env_def)

lemma ex_abi_input: "into_input ex_abi_publisher_libs ex_checked_env = Inr 100"
proof -
  have "henv_header_number ex_checked_env = 100" by (simp add: ex_host_env_def)
  then show ?thesis unfolding ex_abi_publisher_simps by (simp only: ex_at_100 ex_agrees if_True)
qed

lemma ex_abi_host:
  "host_read_config ex_abi_publisher_libs = host_read_config ex_host_libs"
  "publisher_checks ex_abi_publisher_libs = publisher_checks ex_host_libs"
proof -
  show config: "host_read_config ex_abi_publisher_libs = host_read_config ex_host_libs"
    by (intro ext) (simp only: host_read_config_def ex_abi_publisher_simps)
  have asset: "host_asset_voting_power ex_abi_publisher_libs = host_asset_voting_power ex_host_libs"
    by (intro ext) (simp only: host_asset_voting_power_def ex_abi_publisher_simps)
  have "host_total_voting_power ex_abi_publisher_libs = host_total_voting_power ex_host_libs"
    by (intro ext) (simp only: host_total_voting_power_def asset)
  then show "publisher_checks ex_abi_publisher_libs = publisher_checks ex_host_libs"
    by (intro ext) (simp only: publisher_checks_def config ex_abi_publisher_simps)
qed

lemma ex_abi_recover:
  "recover_vote_signer (guest_libs.truncate ex_abi_publisher_libs) (publisher_input ex_args 100) =
     Inr (drop 12 (to_be_bytes (5 :: bytes32)))"
  by (simp add: ex_abi_publisher_libs_def ex_abi_publisher_libs0_def guest_libs.truncate_def guest_libs.extend_def
      host_libs.fields_def recover_vote_signer_def ex_libs_def ex_args_def ecrecover_def
      into_recovery_id_def keccak256_def Let_def index_def slice_def nth_append)

abbreviation ex_counted :: VotingJournal where
  "ex_counted \<equiv> \<lparr>vj_commitment = henv_commitment ex_host_env, vj_config_contract = 48, vj_proposal_id = 0, vj_voter = 1,
     vj_balance = 150, vj_direction = 2\<rparr>"

lemma ex_abi_run:
  "open_env ex_abi_publisher_libs (pa_rpc_url ex_args) (pa_block_number ex_args) = Inr (Inr ex_host_env)"
  "host_read_config ex_abi_publisher_libs (pa_config_contract ex_args) (pa_proposal_id ex_args) ex_host_env =
     Inr (Inr (ex_config, ex_host_env\<lparr>henv_preflighted := [votingProtocolConfigCall 48 0]\<rparr>))"
  "publisher_checks ex_abi_publisher_libs ex_args ex_host_env = Inr (Inr ex_checked_env)"
  "into_env ex_abi_publisher_libs 100 = Some ex_env"
proof -
  show "open_env ex_abi_publisher_libs (pa_rpc_url ex_args) (pa_block_number ex_args) = Inr (Inr ex_host_env)"
    by (simp add: open_env_def ex_abi_publisher_simps ex_host_libs_simps ex_args_simps ex_at_100)
  show "host_read_config ex_abi_publisher_libs (pa_config_contract ex_args) (pa_proposal_id ex_args) ex_host_env =
      Inr (Inr (ex_config, ex_host_env\<lparr>henv_preflighted := [votingProtocolConfigCall 48 0]\<rparr>))"
    by (simp only: ex_abi_host ex_args_config)
  show "publisher_checks ex_abi_publisher_libs ex_args ex_host_env = Inr (Inr ex_checked_env)"
    by (simp only: ex_abi_host ex_checks)
  show "into_env ex_abi_publisher_libs 100 = Some ex_env"
    by (simp only: ex_abi_publisher_simps ex_at_100)
qed

lemma ex_abi_committed:
  "guest_main ex_abi_publisher_libs ex_block_codec VOTING_PROTOCOL_ELF (publisher_stdin ex_block_codec ex_args 100) =
     Inr (abi_encode_VotingJournal ex_counted)"
  using publisher_vote_provable [OF ex_block_codec_ok ex_abi_run(2) ex_no_past_votes ex_abi_run(3) ex_abi_input ex_abi_run(4)
      ex_agrees ex_abi_recover]
  by (simp add: ex_abi_publisher_simps) (simp add: ex_args_def)

text \<open>A plugin whose proposal has the example chain's block as its snapshot.\<close>

definition ex_abi_plugin :: "unit plugin" where
  "ex_abi_plugin = ex_plugin1\<lparr>proposals := (\<lambda>_. empty_Proposal)(0 := ex_proposal\<lparr>parameters :=
     (parameters ex_proposal)\<lparr>pp_snapshotBlock := 100, pp_snapshotBlockHash := 7\<rparr>\<rparr>)\<rparr>"

definition ex_counting_libs :: "unit plugin_libs" where
  "ex_counting_libs = ex_plugin_libs\<lparr>verify := (\<lambda>_ seal _ _. take 4 seal = [0, 0, 0, 0]),
     abi_decode_journal := abi_decode_VotingJournal\<rparr>"

lemma ex_abi_submits:
  "fst (publisher_main ex_abi_publisher_libs ex_block_codec ex_args) =
     [\<lparr>tx_key = (), tx_rpc_url = ''http'', tx_to = 48, tx_function = Vote,
       tx_journal = abi_encode_VotingJournal ex_counted, tx_seal = [0, 0, 0, 0] @ to_be_bytes (7 :: bytes32)\<rparr>]"
proof -
  have "spawn_prove ex_abi_publisher_libs VOTING_PROTOCOL_ELF (publisher_stdin ex_block_codec ex_args 100) =
      Inr (Inr \<lparr>inner = Fake 7, journal_bytes = abi_encode_VotingJournal ex_counted\<rparr>)"
    by (simp add: ex_abi_spawn ex_abi_committed)
  then have "publisher_transaction ex_abi_publisher_libs ex_block_codec ex_args =
      Inr (Inr (Some \<lparr>tx_key = (), tx_rpc_url = ''http'', tx_to = 48, tx_function = Vote,
        tx_journal = abi_encode_VotingJournal ex_counted, tx_seal = [0, 0, 0, 0] @ to_be_bytes (7 :: bytes32)\<rparr>))"
    by (simp add: publisher_transaction_def ex_abi_run(1) [unfolded ex_args_simps] ex_abi_run(3) ex_abi_input prove_call_def ex_abi_publisher_simps(10,11)
        ex_decode encode_seal_def ex_args_simps)
  then show ?thesis by (simp add: publisher_main_def submit_def)
qed

lemma ex_abi_snapshot:
  "open_env ex_abi_publisher_libs url (Some 100) = Inr (Inr h) \<Longrightarrow>
   commits_to_snapshot (henv_commitment h) (parameters (proposals ex_abi_plugin 0))"
  by (simp add: open_env_def ex_abi_publisher_simps ex_host_libs_simps ex_at_100 ex_host_env_def ex_env_def
      commits_to_snapshot_def ex_abi_plugin_def ex_proposal_def decodeVersionedID_def mask_eq_exp_minus_1)
    (auto simp: mask_eq_exp_minus_1)

lemma ex_abi_tally: "prop_tally (proposals ex_abi_plugin 0) = \<lparr>tally_abstain = 0, tally_yes = 0, tally_no = 0\<rparr>"
  by (simp add: ex_abi_plugin_def ex_proposal_def empty_Proposal_def)

section \<open>From a request to the plugin\<close>

text \<open>What is sent while a request is handled is what the publisher sends for the arguments of the request.\<close>

lemma serve_proof_vote_sends:
  assumes "clap_documented clap" and "tx \<in> set (fst (serve_proof_vote clap V L c startable vars r))"
  obtains args where "request_args V vars r args"
    "fst (serve_proof_vote clap V L c startable vars r) = fst (publisher_main L c args)"
    "snd (serve_proof_vote clap V L c startable vars r) = Inr (Inr ())"
proof -
  from assms(2) obtain cmd where cmd: "publisher_command vars r = Inr cmd" and started: "startable cmd"
      and sent: "fst (serve_proof_vote clap V L c startable vars r) = fst (launch clap V L c vars cmd)"
      and tx: "tx \<in> set (fst (launch clap V L c vars cmd))"
    by (cases "publisher_command vars r") (auto simp: serve_proof_vote_def Let_def split: if_splits)
  from tx obtain args where args: "Args_parse clap V (vars ++ map_of (cmd_env cmd)) (cmd_args cmd) = Some args"
    by (auto simp: launch_def publisher_process_def split: option.splits)
  show thesis
  proof (rule that)
    show "request_args V vars r args" using args by (simp add: Args_parse_request [OF assms(1) cmd])
    show "fst (serve_proof_vote clap V L c startable vars r) = fst (publisher_main L c args)"
      by (simp add: sent launch_def publisher_process_def args split: prod.split)
    show "snd (serve_proof_vote clap V L c startable vars r) = Inr (Inr ())"
      by (simp add: serve_proof_vote_def Let_def proof_vote_def cmd started)
  qed
qed

text \<open>
  C6: A valid request is submitted. Let the server be able to start the publisher for a request whose texts can be
  read, let the node open the block, the configuration have no \<^verbatim>\<open>GetPastVotes\<close> asset and the publisher's checks pass
  (the balance of the request is the voter's power), the signature be recoverable, the direction an option and the
  balance positive. With values read back as written, Steel answering the preflighted calls and a prover that proves
  what the guest returns, the guest then returns on exactly the words the publisher writes, and while the request is
  handled exactly one transaction is sent: a vote to the plugin of the request, whose journal carries the voter,
  proposal, balance and direction of the request and the commitment of the block.
\<close>

theorem valid_request_submitted:
  assumes "clap_documented clap" and "publisher_command vars r = Inr cmd" and "startable cmd"
    and "request_args V vars r args" and "codec_ok c" and "prover_complete L c"
    and "open_env L (pa_rpc_url args) (pa_block_number args) = Inr (Inr h)"
    and "host_read_config L (pa_config_contract args) (pa_proposal_id args) h = Inr (Inr (config, h1))"
    and "list_all (\<lambda>a. voting_power_strategy a \<noteq> ''GetPastVotes'') (assets config)"
    and "publisher_checks L args h = Inr (Inr h')"
    and "into_input L h' = Inr i" and "into_env L i = Some g" and "agrees g h'"
    and "recover_vote_signer (guest_libs.truncate L) (publisher_input args i) = Inr signer"
    and "vp_direction r \<in> {1, 2, 3}" and "0 < pa_balance args"
    and "j = abi_encode_voting L
       \<lparr>vj_commitment = henv_commitment h', vj_config_contract = pa_config_contract args,
        vj_proposal_id = pa_proposal_id args, vj_voter = pa_voter args, vj_balance = pa_balance args,
        vj_direction = vp_direction r\<rparr>"
    and "VotingJournal_abi_decode L j = Inr journal"
  shows "\<exists>tx. serve_proof_vote clap V L c startable vars r = ([tx], Inr (Inr ())) \<and>
    tx_key tx = pa_eth_wallet_private_key args \<and> tx_to tx = pa_config_contract args \<and> tx_function tx = Vote \<and>
    tx_journal tx = j"
proof -
  from assms(4) have fields: "pa_direction args = vp_direction r" "pa_testing args \<noteq> 1"
    by (simp_all add: request_args_def)
  obtain tx where tx: "fst (publisher_main L c args) = [tx]" and
      "tx_key tx = pa_eth_wallet_private_key args" "tx_to tx = pa_config_contract args" "tx_function tx = Vote"
      "tx_journal tx = j"
    using publisher_submits_valid [OF assms(5-14)] assms(15-18) fields by metis
  moreover have "Args_parse clap V (vars ++ map_of (cmd_env cmd)) (cmd_args cmd) = Some args"
    using assms(4) by (simp add: Args_parse_request [OF assms(1,2)])
  then have "serve_proof_vote clap V L c startable vars r = ([tx], Inr (Inr ()))"
    using tx by (cases "publisher_main L c args")
      (simp add: serve_proof_vote_def Let_def assms(2,3) launch_def publisher_process_def proof_vote_def)
  ultimately show ?thesis by blast
qed

theorem valid_request_submitted_witness:
  "\<exists>tx. serve_proof_vote ex_clap ex_parsers ex_abi_publisher_libs ex_block_codec (\<lambda>_. True) ex_request_vars ex_request =
       ([tx], Inr (Inr ())) \<and> tx_to tx = 48 \<and> tx_journal tx = abi_encode_VotingJournal ex_counted"
proof -
  obtain cmd where cmd: "publisher_command ex_request_vars ex_request = Inr cmd" using ex_request_command by blast
  have req: "vp_direction ex_request \<in> {1, 2, 3}" "0 < pa_balance ex_args"
    by (simp_all add: ex_request_def ex_params_def ex_args_def)
  show ?thesis
    using valid_request_submitted [OF ex_clap_documented cmd _ ex_request_args ex_block_codec_ok ex_abi_prover(2)
        ex_abi_run(1,2) ex_no_past_votes ex_abi_run(3) ex_abi_input ex_abi_run(4) ex_agrees ex_abi_recover req refl,
        of "\<lambda>_. True"]
    by (simp add: ex_abi_publisher_simps ex_decode) (auto simp: ex_args_def ex_request_def ex_params_def)
qed

text \<open>
  C13: A vote that is requested from the web server is counted as requested. Let a request make the server's publisher
  submit a transaction, with a prover that only returns receipts of guest runs, a Steel that keeps the block from host
  to guest, and both ends on the ABI. If the request names this plugin, the block that the node opens for the block
  number of the request is the proposal's snapshot block, the proof is verified for the proposal's image, the voter has
  not voted on the proposal and the counts have room for the balance, then it was the only transaction, the client is
  told of success, and the plugin accepts it, records the direction of the request for the voter of the request and
  adds exactly the balance of the request to that option. (That a guest finds the configuration of the proposal at the
  snapshot block is the point where the deployed contracts fail.)
\<close>

theorem requested_vote_counted:
  assumes "clap_documented clap" and "codec_ok c" and "proves_guest L c" and "steel_documented L"
    and "tx \<in> set (fst (serve_proof_vote clap V L c startable vars r))"
    and "abi_decode_journal P = abi_decode_VotingJournal" and "abi_encode_voting L = abi_encode_VotingJournal"
    and "Address_from_str V (vp_voter r) = Some voter" and "U256_from_str V (vp_balance r) = Some balance"
    and "U256_from_str V (vp_proposal_id r) = Some pid" and "p = proposals s pid"
    and "Address_from_str V (vp_config_contract r) = Some (this_address P)"
    and "vars ''RPC_URL'' = Some rpc_url" and "uint_from_str (vp_block_number r) = Some n"
    and "\<And>h. open_env L rpc_url (Some n) = Inr (Inr h) \<Longrightarrow> commits_to_snapshot (henv_commitment h) (parameters p)"
    and "verify P (pp_verifier (parameters p)) (tx_seal tx) (pp_votingProtocolImageId (parameters p)) (sha256 P (tx_journal tx))"
    and "voters p voter = VoteOption_None"
    and "\<And>opt. unat (tally_get opt (prop_tally p)) + unat balance < 2 ^ 256"
  shows "serve_proof_vote clap V L c startable vars r = ([tx], Inr (Inr ())) \<and>
    (\<exists>s' opt. vote P b (tx_journal tx) (tx_seal tx) s = Inr s' \<and>
       VoteOption_of (vp_direction r) = Inr opt \<and> opt \<noteq> VoteOption_None \<and> getVoteOption s' pid voter = opt \<and>
       uint (tally_get opt (prop_tally (proposals s' pid))) = uint (tally_get opt (prop_tally p)) + uint balance)"
proof -
  obtain args where req: "request_args V vars r args"
      and sent: "fst (serve_proof_vote clap V L c startable vars r) = fst (publisher_main L c args)"
      and answer: "snd (serve_proof_vote clap V L c startable vars r) = Inr (Inr ())"
    using assms(1,5) by (rule serve_proof_vote_sends)
  from req assms(8-14) have fields: "pa_voter args = voter" "pa_balance args = balance" "pa_proposal_id args = pid"
      "pa_config_contract args = this_address P" "pa_direction args = vp_direction r" "pa_rpc_url args = rpc_url"
      "pa_block_number args = Some n"
    by (simp_all add: request_args_def)
  have tx: "tx \<in> set (fst (publisher_main L c args))" using assms(5) sent by simp
  note submits = publisher_submits [OF assms(2,3) tx]
  have "serve_proof_vote clap V L c startable vars r = ([tx], Inr (Inr ()))"
    using submits sent answer by (metis prod.collapse)
  moreover have "\<exists>s' opt. vote P b (tx_journal tx) (tx_seal tx) s = Inr s' \<and>
      VoteOption_of (pa_direction args) = Inr opt \<and> opt \<noteq> VoteOption_None \<and>
      getVoteOption s' (pa_proposal_id args) (pa_voter args) = opt \<and>
      uint (tally_get opt (prop_tally (proposals s' (pa_proposal_id args)))) =
        uint (tally_get opt (prop_tally p)) + uint (pa_balance args)"
    using submits assms(4,11,15-18) by (intro submitted_vote_counted [OF assms(2,3) tx assms(6,7)]) (simp_all add: fields)
  ultimately show ?thesis by (simp add: fields)
qed

theorem requested_vote_counted_witness:
  "\<exists>tx s'. serve_proof_vote ex_clap ex_parsers ex_abi_publisher_libs ex_block_codec (\<lambda>_. True) ex_request_vars ex_request =
       ([tx], Inr (Inr ())) \<and>
     vote ex_counting_libs ex_block (tx_journal tx) (tx_seal tx) ex_abi_plugin = Inr s' \<and>
     getVoteOption s' 0 1 = Yes \<and> uint (tally_yes (prop_tally (proposals s' 0))) = 150"
proof -
  let ?tx = "\<lparr>tx_key = (), tx_rpc_url = ''http'', tx_to = 48, tx_function = Vote,
      tx_journal = abi_encode_VotingJournal ex_counted, tx_seal = [0, 0, 0, 0] @ to_be_bytes (7 :: bytes32)\<rparr>"
  let ?serve = "serve_proof_vote ex_clap ex_parsers ex_abi_publisher_libs ex_block_codec (\<lambda>_. True) ex_request_vars ex_request"
  obtain cmd where cmd: "publisher_command ex_request_vars ex_request = Inr cmd" using ex_request_command by blast
  have "Args_parse ex_clap ex_parsers (ex_request_vars ++ map_of (cmd_env cmd)) (cmd_args cmd) = Some ex_args"
    using ex_request_args by (simp add: Args_parse_request [OF ex_clap_documented cmd])
  then have "fst ?serve = fst (publisher_main ex_abi_publisher_libs ex_block_codec ex_args)"
    by (simp add: serve_proof_vote_def Let_def cmd launch_def publisher_process_def split: prod.split)
  then have tx: "?tx \<in> set (fst ?serve)" by (simp add: ex_abi_submits)
  have abi: "abi_decode_journal ex_counting_libs = abi_decode_VotingJournal"
      "abi_encode_voting ex_abi_publisher_libs = abi_encode_VotingJournal"
    by (simp_all add: ex_counting_libs_def ex_abi_publisher_simps)
  have texts: "Address_from_str ex_parsers (vp_voter ex_request) = Some 1"
      "U256_from_str ex_parsers (vp_balance ex_request) = Some 150" "U256_from_str ex_parsers (vp_proposal_id ex_request) = Some 0"
      "Address_from_str ex_parsers (vp_config_contract ex_request) = Some (this_address ex_counting_libs)"
      "ex_request_vars ''RPC_URL'' = Some ''http''" "uint_from_str (vp_block_number ex_request) = Some (100 :: u64)"
    by (simp_all add: ex_parsers_def ex_request_def ex_params_def ex_numerals ex_counting_libs_def ex_plugin_libs_def
        ex_request_vars_def)
  have room: "unat (tally_get opt (prop_tally (proposals ex_abi_plugin 0))) + unat (150 :: u256) < 2 ^ 256" for opt
    by (cases opt) (simp_all add: tally_get_def ex_abi_tally)
  have "?serve = ([?tx], Inr (Inr ())) \<and>
    (\<exists>s' opt. vote ex_counting_libs ex_block (tx_journal ?tx) (tx_seal ?tx) ex_abi_plugin = Inr s' \<and>
       VoteOption_of (vp_direction ex_request) = Inr opt \<and> opt \<noteq> VoteOption_None \<and> getVoteOption s' 0 1 = opt \<and>
       uint (tally_get opt (prop_tally (proposals s' 0))) =
         uint (tally_get opt (prop_tally (proposals ex_abi_plugin 0))) + uint (150 :: u256))"
    by (rule requested_vote_counted [OF ex_clap_documented ex_block_codec_ok ex_abi_prover(1) ex_abi_steel tx abi
          texts(1,2,3) refl texts(4,5,6) ex_abi_snapshot _ _ room])
      (simp_all add: ex_counting_libs_def ex_abi_plugin_def ex_proposal_def empty_Proposal_def)
  then show ?thesis
    by (auto simp: ex_request_def ex_params_def VoteOption_of_def tally_get_def ex_abi_tally)
qed

end
