(* ===== verification/Plugin_Setup.thy ===== *)
theory Plugin_Setup
  imports Plugin
begin

text \<open>
  Installing the plugin: \<^verbatim>\<open>contracts/RiscVotingProtocolPluginSetup.sol\<close> prepares installation, update and
  removal. The ABI decoder, the address of a new proxy and the DAO's permission manager are parameters;
  what the manager documents of granting and revoking is the hypothesis \<open>manager_ok\<close>. Permissions are named
  by the strings that the sources hash.
\<close>

section \<open>Data\<close>

text \<open>
  The structures that the setup builds for the OSx framework, with the operations it uses of them. A permission
  without a condition names the zero address.
\<close>

datatype PermissionOperation = Grant | Revoke

record MultiTargetPermission =
  perm_operation :: PermissionOperation
  perm_where :: address
  perm_who :: address
  perm_condition :: address
  perm_id :: string

record PreparedSetupData =
  psd_helpers :: "address list"
  psd_permissions :: "MultiTargetPermission list"

record SetupPayload =
  payload_plugin :: address
  currentHelpers :: "address list"

definition NO_CONDITION :: address where
  "NO_CONDITION = 0"

abbreviation UPDATE_VOTING_SETTINGS_PERMISSION_ID :: string where
  "UPDATE_VOTING_SETTINGS_PERMISSION_ID \<equiv> ''UPDATE_VOTING_SETTINGS_PERMISSION''"

abbreviation CREATE_PROPOSAL_PERMISSION_ID :: string where
  "CREATE_PROPOSAL_PERMISSION_ID \<equiv> ''CREATE_PROPOSAL_PERMISSION''"

abbreviation EXECUTE_PERMISSION_ID :: string where
  "EXECUTE_PERMISSION_ID \<equiv> ''EXECUTE_PERMISSION''"

abbreviation UPGRADE_PLUGIN_PERMISSION_ID :: string where
  "UPGRADE_PLUGIN_PERMISSION_ID \<equiv> ''UPGRADE_PLUGIN_PERMISSION''"

text \<open>The account that the setup writes into the permission for creating proposals.\<close>

definition proposal_creator :: address where
  "proposal_creator = 0x8bF1e340055c7dE62F11229A149d3A1918de3d74"

section \<open>The setup contract\<close>

definition permission :: "PermissionOperation \<Rightarrow> address \<Rightarrow> address \<Rightarrow> string \<Rightarrow> MultiTargetPermission" where
  "permission oper target who i =
     \<lparr>perm_operation = oper, perm_where = target, perm_who = who, perm_condition = NO_CONDITION, perm_id = i\<rparr>"

text \<open>
  \<^verbatim>\<open>prepareInstallation\<close>: the new proxy runs \<^verbatim>\<open>initialize\<close>, and its creation reverts when that does.
\<close>

definition prepareInstallation ::
    "(u8 list \<Rightarrow> VotingSettings option) \<Rightarrow> address \<Rightarrow> address \<Rightarrow> u8 list \<Rightarrow>
     (address \<times> 'act plugin \<times> PreparedSetupData) tx" where
  "prepareInstallation abi_decode_settings proxy dao data =
     (case abi_decode_settings data of
        None \<Rightarrow> Inl Decode_failed
      | Some vs \<Rightarrow>
          let helpers = [] in
          rbind (initialize vs) (\<lambda>storage.
          let plugin = proxy;
              permissions =
                [permission Grant plugin dao UPDATE_VOTING_SETTINGS_PERMISSION_ID,
                 permission Grant dao plugin EXECUTE_PERMISSION_ID,
                 permission Grant plugin proposal_creator CREATE_PROPOSAL_PERMISSION_ID] in
            Inr (plugin, storage, \<lparr>psd_helpers = helpers, psd_permissions = permissions\<rparr>)))"

definition prepareUpdate :: "address \<Rightarrow> u16 \<Rightarrow> SetupPayload \<Rightarrow> (u8 list \<times> PreparedSetupData) tx" where
  "prepareUpdate dao fromBuild payload =
     (let prepared = \<lparr>psd_helpers = [], psd_permissions = []\<rparr> in
      if fromBuild < 3
      then Inr ([], prepared\<lparr>psd_permissions :=
             [permission Revoke (payload_plugin payload) dao UPGRADE_PLUGIN_PERMISSION_ID]\<rparr>)
      else Inr ([], prepared))"

definition prepareUninstallation :: "address \<Rightarrow> SetupPayload \<Rightarrow> MultiTargetPermission list tx" where
  "prepareUninstallation dao payload =
     (let helperLength = of_nat (length (currentHelpers payload)) in
      rbind (require (\<not> helperLength \<noteq> 1) (WrongHelpersArrayLength helperLength)) (\<lambda>_.
        Inr [permission Revoke (payload_plugin payload) dao UPDATE_VOTING_SETTINGS_PERMISSION_ID,
             permission Revoke dao (payload_plugin payload) EXECUTE_PERMISSION_ID]))"

section \<open>The permission manager\<close>

record 'd permission_manager =
  isGranted :: "'d \<Rightarrow> address \<Rightarrow> address \<Rightarrow> string \<Rightarrow> bool"
  applyPermission :: "MultiTargetPermission \<Rightarrow> 'd \<Rightarrow> 'd"

text \<open>Granting and revoking without a condition change exactly the permission that is named.\<close>

definition manager_ok :: "'d permission_manager \<Rightarrow> bool" where
  "manager_ok M \<longleftrightarrow>
     (\<forall>p d w a i. perm_condition p = NO_CONDITION \<longrightarrow>
        isGranted M (applyPermission M p d) w a i =
          (if perm_where p = w \<and> perm_who p = a \<and> perm_id p = i then perm_operation p = Grant
           else isGranted M d w a i))"

definition applyMultiTargetPermissions :: "'d permission_manager \<Rightarrow> MultiTargetPermission list \<Rightarrow> 'd \<Rightarrow> 'd" where
  "applyMultiTargetPermissions M ps d = foldl (\<lambda>d p. applyPermission M p d) d ps"

lemma applyMultiTargetPermissions_simps [simp]:
  "applyMultiTargetPermissions M [] d = d"
  "applyMultiTargetPermissions M (p # ps) d = applyMultiTargetPermissions M ps (applyPermission M p d)"
  by (simp_all add: applyMultiTargetPermissions_def)

lemma applyPermission_iff:
  "manager_ok M \<Longrightarrow> isGranted M (applyPermission M (permission oper w a i) d) w' a' i' =
     (if w = w' \<and> a = a' \<and> i = i' then oper = Grant else isGranted M d w' a' i')"
  by (simp add: manager_ok_def permission_def)

lemma applyGrants_iff:
  assumes "manager_ok M"
  shows "isGranted M (applyMultiTargetPermissions M (map (\<lambda>(w, a, i). permission Grant w a i) ts) d) w a i \<longleftrightarrow>
     isGranted M d w a i \<or> (w, a, i) \<in> set ts"
proof (induction ts arbitrary: d)
  case Nil
  show ?case by simp
next
  case (Cons t ts)
  obtain w' a' i' where t: "t = (w', a', i')" by (cases t)
  have "isGranted M (applyPermission M (permission Grant w' a' i') d) w a i \<longleftrightarrow> isGranted M d w a i \<or> (w, a, i) = t"
    unfolding applyPermission_iff [OF assms] t by (simp; blast)
  then show ?case by (simp add: t Cons.IH disj_ac)
qed

lemma prepareInstallation_Inr:
  "prepareInstallation dec proxy dao data = Inr (plugin, st, prepared) \<longleftrightarrow>
   (\<exists>vs. dec data = Some vs \<and> initialize vs = Inr st \<and> plugin = proxy \<and>
     prepared = \<lparr>psd_helpers = [],
       psd_permissions = [permission Grant proxy dao UPDATE_VOTING_SETTINGS_PERMISSION_ID,
         permission Grant dao proxy EXECUTE_PERMISSION_ID,
         permission Grant proxy proposal_creator CREATE_PROPOSAL_PERMISSION_ID]\<rparr>)"
  by (auto simp: prepareInstallation_def Let_def outcome_iff split: option.splits)

section \<open>Properties\<close>

text \<open>
  C32: What an installation allows. After the prepared permissions are applied, exactly three permissions
  are new: the DAO may change the plugin's settings, the plugin may execute on the DAO, and one fixed account
  may create proposals. So in a plugin that starts without permissions on it, \<^verbatim>\<open>updateVotingSettings\<close>
  reverts for every sender but the DAO, and \<^verbatim>\<open>createProposal\<close> for every sender but that account.
\<close>

theorem installation_permissions:
  assumes "manager_ok M"
    and "prepareInstallation dec proxy dao data = Inr (plugin, st, prepared)"
    and "d' = applyMultiTargetPermissions M (psd_permissions prepared) d"
    and "\<forall>a i. \<not> isGranted M d plugin a i" and "plugin \<noteq> dao"
    and "hasPermission P = isGranted M d' plugin"
  shows "(isGranted M d' w a i \<longleftrightarrow> isGranted M d w a i \<or>
      (w, a, i) \<in> {(plugin, dao, UPDATE_VOTING_SETTINGS_PERMISSION_ID), (dao, plugin, EXECUTE_PERMISSION_ID),
                  (plugin, proposal_creator, CREATE_PROPOSAL_PERMISSION_ID)}) \<and>
    (msgSender b \<noteq> dao \<longrightarrow> updateVotingSettings P b vs s = Inl DaoUnauthorized) \<and>
    (msgSender b \<noteq> proposal_creator \<longrightarrow> createProposal P b c s = Inl DaoUnauthorized)"
proof -
  have granted: "isGranted M d' w a i \<longleftrightarrow> isGranted M d w a i \<or>
      (w, a, i) \<in> {(plugin, dao, UPDATE_VOTING_SETTINGS_PERMISSION_ID), (dao, plugin, EXECUTE_PERMISSION_ID),
                  (plugin, proposal_creator, CREATE_PROPOSAL_PERMISSION_ID)}" for w a i
  proof -
    have "psd_permissions prepared = map (\<lambda>(w, a, i). permission Grant w a i)
        [(plugin, dao, UPDATE_VOTING_SETTINGS_PERMISSION_ID), (dao, plugin, EXECUTE_PERMISSION_ID),
         (plugin, proposal_creator, CREATE_PROPOSAL_PERMISSION_ID)]"
      using assms(2) by (auto simp: prepareInstallation_Inr)
    then show ?thesis unfolding assms(3) by (simp only: applyGrants_iff [OF assms(1)] list.set)
  qed
  have "hasPermission P a UPDATE_VOTING_SETTINGS_PERMISSION_ID \<longleftrightarrow> a = dao"
      and "hasPermission P a CREATE_PROPOSAL_PERMISSION_ID \<longleftrightarrow> a = proposal_creator" for a
    using assms(4,5) by (simp_all add: assms(6) granted)
  then have "msgSender b \<noteq> dao \<longrightarrow> updateVotingSettings P b vs s = Inl DaoUnauthorized"
      and "msgSender b \<noteq> proposal_creator \<longrightarrow> createProposal P b c s = Inl DaoUnauthorized"
    by (simp_all add: updateVotingSettings_def createProposal_def)
  with granted show ?thesis by blast
qed

text \<open>A permission manager that keeps the set of granted permissions.\<close>

definition ex_manager :: "(address \<times> address \<times> string) set permission_manager" where
  "ex_manager =
     \<lparr>isGranted = (\<lambda>d w a i. (w, a, i) \<in> d),
      applyPermission = (\<lambda>p d. if perm_operation p = Grant then insert (perm_where p, perm_who p, perm_id p) d
        else d - {(perm_where p, perm_who p, perm_id p)})\<rparr>"

lemma ex_manager_ok: "manager_ok ex_manager"
  by (auto simp: manager_ok_def ex_manager_def)

theorem installation_permissions_witness:
  "\<exists>st prepared. prepareInstallation (\<lambda>_. Some ex_settings) 48 77 [] = Inr (48, st :: unit plugin, prepared) \<and>
     isGranted ex_manager (applyMultiTargetPermissions ex_manager (psd_permissions prepared) {}) 77 48 EXECUTE_PERMISSION_ID \<and>
     \<not> isGranted ex_manager (applyMultiTargetPermissions ex_manager (psd_permissions prepared) {}) 48 9 CREATE_PROPOSAL_PERMISSION_ID"
proof -
  obtain prepared where inst: "prepareInstallation (\<lambda>_. Some ex_settings) 48 77 [] = Inr (48, ex_plugin0, prepared)"
    using ex_initialize by (auto simp: prepareInstallation_Inr)
  let ?d = "applyMultiTargetPermissions ex_manager (psd_permissions prepared) {}"
  have "\<forall>a i. \<not> isGranted ex_manager {} 48 a i" by (simp add: ex_manager_def)
  have libs: "hasPermission (ex_plugin_libs\<lparr>hasPermission := isGranted ex_manager ?d 48\<rparr>) = isGranted ex_manager ?d 48"
    by simp
  have "(48 :: address) \<noteq> 77" by simp
  note perms = installation_permissions [OF ex_manager_ok inst refl \<open>\<forall>a i. _\<close> this libs, THEN conjunct1]
  have none: "\<not> isGranted ex_manager {} w a i" for w a i by (simp add: ex_manager_def)
  have "proposal_creator \<noteq> 9" by (simp add: proposal_creator_def)
  then have "isGranted ex_manager ?d 77 48 EXECUTE_PERMISSION_ID"
      and "\<not> isGranted ex_manager ?d 48 9 CREATE_PROPOSAL_PERMISSION_ID"
    by (simp_all add: perms none)
  with inst show ?thesis by blast
qed

text \<open>
  An installed plugin cannot be uninstalled. Installation and every update hand out an empty list of
  helpers, and \<^verbatim>\<open>prepareUninstallation\<close> insists on exactly one: it reverts for every plugin with the
  helpers it was given. With one helper it revokes two of the three permissions that the installation granted;
  the fixed account could still create proposals afterwards.
\<close>

lemma installed_plugin_stays:
  assumes "manager_ok M"
    and "prepareInstallation dec proxy dao data = Inr (plugin, st, prepared)"
    and "prepareUpdate dao fromBuild payload = Inr (initData, updated)"
    and "currentHelpers payload1 \<in> {psd_helpers prepared, psd_helpers updated}"
    and "payload_plugin payload2 = plugin" and "currentHelpers payload2 = [h]"
    and "proposal_creator \<noteq> dao" and "plugin \<noteq> dao"
  shows "prepareUninstallation dao payload1 = Inl (WrongHelpersArrayLength 0) \<and>
    (\<exists>ps. prepareUninstallation dao payload2 = Inr ps \<and>
       isGranted M (applyMultiTargetPermissions M ps
         (applyMultiTargetPermissions M (psd_permissions prepared) d)) plugin proposal_creator CREATE_PROPOSAL_PERMISSION_ID)"
proof
  have "psd_helpers prepared = []" and "psd_helpers updated = []"
    using assms(2,3) by (auto simp: prepareInstallation_Inr prepareUpdate_def Let_def split: if_splits)
  with assms(4) show "prepareUninstallation dao payload1 = Inl (WrongHelpersArrayLength 0)"
    by (simp add: prepareUninstallation_def require_def)
  show "\<exists>ps. prepareUninstallation dao payload2 = Inr ps \<and>
       isGranted M (applyMultiTargetPermissions M ps
         (applyMultiTargetPermissions M (psd_permissions prepared) d)) plugin proposal_creator CREATE_PROPOSAL_PERMISSION_ID"
  proof (intro exI conjI)
    show "prepareUninstallation dao payload2 = Inr [permission Revoke plugin dao UPDATE_VOTING_SETTINGS_PERMISSION_ID,
        permission Revoke dao plugin EXECUTE_PERMISSION_ID]"
      using assms(5,6) by (simp add: prepareUninstallation_def)
    have "psd_permissions prepared = [permission Grant plugin dao UPDATE_VOTING_SETTINGS_PERMISSION_ID,
        permission Grant dao plugin EXECUTE_PERMISSION_ID,
        permission Grant plugin proposal_creator CREATE_PROPOSAL_PERMISSION_ID]"
      using assms(2) by (auto simp: prepareInstallation_Inr)
    then show "isGranted M (applyMultiTargetPermissions M
        [permission Revoke plugin dao UPDATE_VOTING_SETTINGS_PERMISSION_ID, permission Revoke dao plugin EXECUTE_PERMISSION_ID]
        (applyMultiTargetPermissions M (psd_permissions prepared) d)) plugin proposal_creator CREATE_PROPOSAL_PERMISSION_ID"
      using applyPermission_iff [OF assms(1)] assms(7,8) by simp
  qed
qed

lemma installed_plugin_stays_witness:
  "prepareUninstallation 77 \<lparr>payload_plugin = 48, currentHelpers = []\<rparr> = Inl (WrongHelpersArrayLength 0) \<and>
   (\<exists>ps. prepareUninstallation 77 \<lparr>payload_plugin = 48, currentHelpers = [5]\<rparr> = Inr ps)"
proof -
  obtain prepared where inst: "prepareInstallation (\<lambda>_. Some ex_settings) 48 77 [] = Inr (48, ex_plugin0, prepared)"
    using ex_initialize by (auto simp: prepareInstallation_Inr)
  have upd: "prepareUpdate 77 1 \<lparr>payload_plugin = 48, currentHelpers = []\<rparr> =
      Inr ([], \<lparr>psd_helpers = [], psd_permissions = [permission Revoke 48 77 UPGRADE_PLUGIN_PERMISSION_ID]\<rparr>)"
    by (simp add: prepareUpdate_def)
  have helpers: "currentHelpers \<lparr>payload_plugin = 48, currentHelpers = []\<rparr> \<in> {psd_helpers prepared,
      psd_helpers \<lparr>psd_helpers = [], psd_permissions = [permission Revoke 48 77 UPGRADE_PLUGIN_PERMISSION_ID]\<rparr>}"
    by simp
  have payload: "payload_plugin \<lparr>payload_plugin = 48, currentHelpers = [5]\<rparr> = 48"
      "currentHelpers \<lparr>payload_plugin = 48, currentHelpers = [5]\<rparr> = [5]" by simp_all
  have other: "proposal_creator \<noteq> 77" "(48 :: address) \<noteq> 77" by (simp_all add: proposal_creator_def)
  from installed_plugin_stays [OF ex_manager_ok inst upd helpers payload other, of "{}"] show ?thesis by blast
qed

end
