(* ===== verification/Deployment.thy ===== *)
theory Deployment
  imports Plugin_Setup
begin

text \<open>
  From the guests to an installed plugin: the build script \<^verbatim>\<open>methods/build.rs\<close>, which embeds the guests and
  writes their image ids for the contracts, and \<^verbatim>\<open>script/DeployCounter.s.sol\<close>, which publishes the plugin
  setup, creates a DAO with the plugin and reads the installed addresses from the logs. The build libraries, the
  scripting environment and the OSx factories are parameters over an abstract state of the chain.
\<close>

section \<open>Building the guests\<close>

record DockerOptions =
  root_dir :: "string option"

record GuestOptions =
  features :: "string list"
  use_docker :: "DockerOptions option"

definition SOLIDITY_IMAGE_ID_PATH :: string where
  "SOLIDITY_IMAGE_ID_PATH = ''../contracts/ImageID.sol''"

definition SOLIDITY_ELF_PATH :: string where
  "SOLIDITY_ELF_PATH = ''../contracts/Elf.sol''"

text \<open>
  \<open>var\<close> is \<^verbatim>\<open>env::var\<close>; embedding gives the list of guests, and writing the two files may fail, which
  panics.
\<close>

definition build_main ::
    "(string \<Rightarrow> string Result) \<Rightarrow> ((string \<rightharpoonup> GuestOptions) \<Rightarrow> 'g list) \<Rightarrow>
     ('g list \<Rightarrow> string \<Rightarrow> string \<Rightarrow> 'fs Result) \<Rightarrow> 'fs exec" where
  "build_main var embed_methods_with_options generate_solidity_files =
     (let docker = (case var ''RISC0_USE_DOCKER'' of Inr _ \<Rightarrow> Some \<lparr>root_dir = Some ''../''\<rparr> | Inl _ \<Rightarrow> None);
          guests = embed_methods_with_options
            [''aragon-zk-voting-protocol-guests'' \<mapsto> \<lparr>features = [], use_docker = docker\<rparr>]
      in case generate_solidity_files guests SOLIDITY_IMAGE_ID_PATH SOLIDITY_ELF_PATH of
           Inl _ \<Rightarrow> Inl Unwrap_failed
         | Inr fs \<Rightarrow> Inr fs)"

section \<open>The deployment script\<close>

record DAOSettings =
  trustedForwarder :: address
  daoURI :: string
  subdomain :: string
  dao_metadata :: "u8 list"

record PluginSettings =
  ps_tag :: "u8 \<times> u16"
  ps_pluginRepo :: address
  ps_data :: "u8 list"

type_synonym log = "bytes32 list"

record 'w script_env =
  envAddress :: "string \<Rightarrow> address option"
  envUint :: "string \<Rightarrow> u256 option"
  readFile :: "string \<Rightarrow> string option"
  uint_to_string :: "u256 \<Rightarrow> string"
  VOTING_PROTOCOL_ID :: bytes32
  EXECUTION_PROTOCOL_ID :: bytes32
  InstallationApplied :: bytes32
  abi_encode_settings :: "VotingSettings \<Rightarrow> u8 list"
  new_PluginSetup :: "'w \<Rightarrow> (address \<times> 'w) option"
  createPluginRepoWithFirstVersion ::
    "address \<Rightarrow> string \<Rightarrow> address \<Rightarrow> address \<Rightarrow> u8 list \<Rightarrow> u8 list \<Rightarrow> 'w \<Rightarrow> (address \<times> 'w) option"
  createDao :: "address \<Rightarrow> DAOSettings \<Rightarrow> PluginSettings list \<Rightarrow> 'w \<Rightarrow> (address \<times> log list \<times> 'w) option"

record script =
  pluginRepoFactory :: address
  daoFactory :: address
  nameWithEntropy :: string
  pluginAddress :: "address list"
  script_votingProtocolConfig :: string
  script_token :: address

text \<open>A cheat code that fails and a call that reverts end the script.\<close>

definition or_revert :: "'a option \<Rightarrow> 'a tx" where
  "or_revert r = (case r of None \<Rightarrow> Inl Deployment_reverted | Some x \<Rightarrow> Inr x)"

lemma or_revert_Inr_iff [outcome_iff, simp]: "or_revert r = Inr x \<longleftrightarrow> r = Some x"
  by (simp add: or_revert_def split: option.splits)

definition setUp :: "'w script_env \<Rightarrow> u256 \<Rightarrow> script tx" where
  "setUp E now =
     rbind (or_revert (envAddress E ''PLUGIN_REPO_FACTORY'')) (\<lambda>repoFactory.
     rbind (or_revert (envAddress E ''DAO_FACTORY'')) (\<lambda>factory.
     let name = ''risc-voting-protocol-'' @ uint_to_string E now in
     rbind (or_revert (readFile E ''script/RiscVotingProtocolConfig.txt'')) (\<lambda>config.
     rbind (or_revert (envAddress E ''TOKEN'')) (\<lambda>token.
       Inr \<lparr>pluginRepoFactory = repoFactory, daoFactory = factory, nameWithEntropy = name, pluginAddress = [],
            script_votingProtocolConfig = config, script_token = token\<rparr>))))"

definition deployPluginRepo :: "'w script_env \<Rightarrow> script \<Rightarrow> address \<Rightarrow> address \<Rightarrow> 'w \<Rightarrow> (address \<times> 'w) tx" where
  "deployPluginRepo E sc sender pluginSetup w =
     or_revert (createPluginRepoWithFirstVersion E (pluginRepoFactory sc) (nameWithEntropy sc) pluginSetup sender
       (string_bytes ''0x00'') (string_bytes ''0x00'') w)"

definition getDAOSettings :: "script \<Rightarrow> DAOSettings" where
  "getDAOSettings sc =
     \<lparr>trustedForwarder = 0, daoURI = '''', subdomain = nameWithEntropy sc, dao_metadata = []\<rparr>"

definition deploy_verifier :: address where
  "deploy_verifier = 0x925d8331ddc0a1F0d96E68CF073DFE1d92b69187"

definition deploy_settings :: "string \<Rightarrow> bytes32 \<Rightarrow> bytes32 \<Rightarrow> VotingSettings" where
  "deploy_settings config voting_id execution_id =
     \<lparr>vs_votingMode = Standard, vs_supportThreshold = 20, vs_minParticipation = 10, vs_minDuration = 8640,
      vs_minProposerVotingPower = 1, vs_votingProtocolConfig = config, vs_verifier = deploy_verifier,
      vs_votingProtocolImageId = voting_id, vs_executionProtocolImageId = execution_id\<rparr>"

definition getPluginSettings :: "'w script_env \<Rightarrow> script \<Rightarrow> address \<Rightarrow> PluginSettings list" where
  "getPluginSettings E sc pluginRepo =
     (let settings = deploy_settings (script_votingProtocolConfig sc) (VOTING_PROTOCOL_ID E) (EXECUTION_PROTOCOL_ID E);
          pluginSettingsData = abi_encode_settings E settings
      in [\<lparr>ps_tag = (1, 1), ps_pluginRepo = pluginRepo, ps_data = pluginSettingsData\<rparr>])"

text \<open>The loop over the recorded logs: topics are words, reading a missing topic panics.\<close>

definition log_topic :: "log \<Rightarrow> nat \<Rightarrow> bytes32 tx" where
  "log_topic topics i = (if i < length topics then Inr (topics ! i) else Inl Array_panic)"

definition collect_plugins :: "bytes32 \<Rightarrow> log list \<Rightarrow> address list \<Rightarrow> address list tx" where
  "collect_plugins event logs installed =
     foldM (\<lambda>acc topics.
       rbind (log_topic topics 0) (\<lambda>t0.
         if t0 = event
         then rbind (log_topic topics 2) (\<lambda>t2. Inr (acc @ [ucast t2]))
         else Inr acc)) installed logs"

text \<open>\<^verbatim>\<open>run\<close>: the addresses that the script prints, and the chain afterwards.\<close>

definition script_run ::
    "'w script_env \<Rightarrow> address \<Rightarrow> script \<Rightarrow> 'w \<Rightarrow> (address \<times> address \<times> address \<times> script \<times> 'w) tx" where
  "script_run E sender sc w =
     rbind (or_revert (envUint E ''DEPLOYMENT_WALLET_PRIVATE_KEY'')) (\<lambda>key.
     rbind (or_revert (new_PluginSetup E w)) (\<lambda>(pluginSetup, w1).
     rbind (deployPluginRepo E sc sender pluginSetup w1) (\<lambda>(pluginRepo, w2).
     let daoSettings = getDAOSettings sc; pluginSettings = getPluginSettings E sc pluginRepo in
     rbind (or_revert (createDao E (daoFactory sc) daoSettings pluginSettings w2)) (\<lambda>(createdDAO, logEntries, w3).
     rbind (collect_plugins (InstallationApplied E) logEntries (pluginAddress sc)) (\<lambda>plugins.
       Inr (pluginSetup, pluginRepo, createdDAO, sc\<lparr>pluginAddress := plugins\<rparr>, w3))))))"

section \<open>Properties\<close>

text \<open>The build asks for Docker exactly when the variable is set, and fails only when the files cannot be written.\<close>

lemma build_main_cases:
  "build_main var emb gen =
     (case gen (emb [''aragon-zk-voting-protocol-guests'' \<mapsto>
          \<lparr>features = [], use_docker = (if isl (var ''RISC0_USE_DOCKER'') then None else Some \<lparr>root_dir = Some ''../''\<rparr>)\<rparr>])
        ''../contracts/ImageID.sol'' ''../contracts/Elf.sol'' of
        Inl e \<Rightarrow> Inl Unwrap_failed | Inr fs \<Rightarrow> Inr fs)"
  by (cases "var ''RISC0_USE_DOCKER''")
    (simp_all add: build_main_def SOLIDITY_IMAGE_ID_PATH_def SOLIDITY_ELF_PATH_def)

lemma deploy_settings_ok: "settings_ok (deploy_settings config vid eid)"
  by (simp add: settings_ok_def deploy_settings_def)

lemma collect_plugins_Inr:
  assumes "\<forall>topics \<in> set logs. topics \<noteq> [] \<and> (hd topics = ev \<longrightarrow> 2 < length topics)"
  shows "collect_plugins ev logs acc = Inr (acc @ map (\<lambda>topics. ucast (topics ! 2)) (filter (\<lambda>topics. hd topics = ev) logs))"
  using assms by (induction logs arbitrary: acc) (auto simp: collect_plugins_def log_topic_def hd_conv_nth)

text \<open>
  What is observed of the chain: the setup contract that a plugin repository has published under a tag of release and
  build, which addresses hold the setup contract of this repository, and the storage of a plugin.
\<close>

record ('w, 'act) osx_view =
  published :: "'w \<Rightarrow> address \<Rightarrow> u8 \<times> u16 \<Rightarrow> address option"
  is_setup :: "'w \<Rightarrow> address \<Rightarrow> bool"
  plugin_storage :: "'w \<Rightarrow> address \<Rightarrow> 'act plugin"

text \<open>
  \<^verbatim>\<open>new\<close> creates the named contract. Of the repository factory OSx documents that it publishes the given setup as
  release 1, build 1 of a new repository; no contract changes its code.
\<close>

definition new_creates_setup :: "'w script_env \<Rightarrow> ('w, 'act) osx_view \<Rightarrow> bool" where
  "new_creates_setup E V \<longleftrightarrow> (\<forall>w setup w'. new_PluginSetup E w = Some (setup, w') \<longrightarrow> is_setup V w' setup)"

definition repo_publishes :: "'w script_env \<Rightarrow> ('w, 'act) osx_view \<Rightarrow> address \<Rightarrow> bool" where
  "repo_publishes E V factory \<longleftrightarrow>
     (\<forall>name setup maintainer release_data build_data w repo w'.
        createPluginRepoWithFirstVersion E factory name setup maintainer release_data build_data w = Some (repo, w') \<longrightarrow>
        published V w' repo (1, 1) = Some setup \<and> (\<forall>a. is_setup V w a \<longrightarrow> is_setup V w' a))"

text \<open>
  Of \<^verbatim>\<open>createDao\<close> of the DAO factory OSx documents: for each plugin it takes the setup published under the given tag
  of the given repository, and reverts if there is none; it prepares the installation with that setup, applies the
  permissions that this returns, and emits \<^verbatim>\<open>InstallationApplied(dao, plugin, ...)\<close>. What the setup does is known when
  it is the one of this repository; what another one does is left open.
\<close>

definition dao_installs ::
    "'w script_env \<Rightarrow> ('w, 'act) osx_view \<Rightarrow> (u8 list \<Rightarrow> VotingSettings option) \<Rightarrow> 'w permission_manager \<Rightarrow> address \<Rightarrow> bool" where
  "dao_installs E V dec M factory \<longleftrightarrow>
     (\<forall>ds ps w dao logs w'. createDao E factory ds ps w = Some (dao, logs, w') \<longrightarrow>
        (\<forall>topics \<in> set logs. topics \<noteq> [] \<and> (hd topics = InstallationApplied E \<longrightarrow> 2 < length topics)) \<and>
        list_all2 (\<lambda>p topics. \<exists>setup. published V w (ps_pluginRepo p) (ps_tag p) = Some setup \<and>
          (is_setup V w setup \<longrightarrow> (let plugin = ucast (topics ! 2) in
             \<exists>prepared. prepareInstallation dec plugin dao (ps_data p) = Inr (plugin, plugin_storage V w' plugin, prepared) \<and>
               (\<forall>perm \<in> set (psd_permissions prepared). perm_operation perm = Grant \<longrightarrow>
                  isGranted M w' (perm_where perm) (perm_who perm) (perm_id perm)))))
          ps (filter (\<lambda>topics. hd topics = InstallationApplied E) logs))"

text \<open>The DAO is created with the setup that the script has just published.\<close>

lemma script_run_publishes:
  assumes "new_creates_setup E V" and "repo_publishes E V (pluginRepoFactory sc)"
    and "script_run E sender sc w = Inr (setup, repo, dao, sc', w')"
  obtains w2 logs plugins where
    "published V w2 repo (1, 1) = Some setup" "is_setup V w2 setup"
    "createDao E (daoFactory sc) (getDAOSettings sc) (getPluginSettings E sc repo) w2 = Some (dao, logs, w')"
    "collect_plugins (InstallationApplied E) logs (pluginAddress sc) = Inr plugins" "sc' = sc\<lparr>pluginAddress := plugins\<rparr>"
proof -
  from assms(3) obtain w1 w2 logs plugins where new: "new_PluginSetup E w = Some (setup, w1)"
      and repo: "createPluginRepoWithFirstVersion E (pluginRepoFactory sc) (nameWithEntropy sc) setup sender
        (string_bytes ''0x00'') (string_bytes ''0x00'') w1 = Some (repo, w2)"
      and rest: "createDao E (daoFactory sc) (getDAOSettings sc) (getPluginSettings E sc repo) w2 = Some (dao, logs, w')"
      "collect_plugins (InstallationApplied E) logs (pluginAddress sc) = Inr plugins" "sc' = sc\<lparr>pluginAddress := plugins\<rparr>"
    by (auto simp: script_run_def deployPluginRepo_def Let_def outcome_iff split: prod.splits)
  have "is_setup V w1 setup" using assms(1) new unfolding new_creates_setup_def by blast
  with assms(2) repo have "published V w2 repo (1, 1) = Some setup" "is_setup V w2 setup"
    unfolding repo_publishes_def by blast+
  from this rest show thesis by (rule that)
qed

text \<open>
  C33: A deployment ends with one running plugin. Let the two factories that the environment names behave as OSx
  documents. When the script returns, the DAO was created with the setup of this repository, which the script has
  published and refers to by the tag and the repository of that publication; exactly one plugin is installed, whose
  address the script prints; the plugin's storage is the initialised one with the script's settings (the fixed
  verifier, the image ids of the build and the configuration file) and without proposals, so everything shown of
  reachable states holds of it; and the DAO may change its settings, the plugin may execute on the DAO, and the fixed
  account may create proposals. The contracts are assumed to decode the settings as the script encodes them.
\<close>

theorem deployment_installs:
  assumes "envAddress E ''PLUGIN_REPO_FACTORY'' = Some repo_factory" and "envAddress E ''DAO_FACTORY'' = Some dao_factory"
    and "new_creates_setup E V" and "repo_publishes E V repo_factory" and "dao_installs E V dec M dao_factory"
    and "setUp E now = Inr sc"
    and "vs = deploy_settings (script_votingProtocolConfig sc) (VOTING_PROTOCOL_ID E) (EXECUTION_PROTOCOL_ID E)"
    and "dec (abi_encode_settings E vs) = Some vs" and "script_run E sender sc w = Inr (setup, repo, dao, sc', w')"
  shows "\<exists>plugin. pluginAddress sc' = [plugin] \<and> plugin_reachable P 0 (plugin_storage V w' plugin) \<and>
    votingSettings (plugin_storage V w' plugin) = vs \<and> proposalCounter (plugin_storage V w' plugin) = 0 \<and>
    isGranted M w' plugin dao UPDATE_VOTING_SETTINGS_PERMISSION_ID \<and> isGranted M w' dao plugin EXECUTE_PERMISSION_ID \<and>
    isGranted M w' plugin proposal_creator CREATE_PROPOSAL_PERMISSION_ID"
proof -
  have sc: "pluginRepoFactory sc = repo_factory" "daoFactory sc = dao_factory" "pluginAddress sc = []"
    using assms(1,2,6) by (auto simp: setUp_def Let_def outcome_iff)
  have publishes: "repo_publishes E V (pluginRepoFactory sc)" using assms(4) by (simp add: sc)
  obtain w2 logs plugins where pub: "published V w2 repo (1, 1) = Some setup" "is_setup V w2 setup"
      and dao: "createDao E dao_factory (getDAOSettings sc) (getPluginSettings E sc repo) w2 = Some (dao, logs, w')"
      and plugins: "collect_plugins (InstallationApplied E) logs [] = Inr plugins" "sc' = sc\<lparr>pluginAddress := plugins\<rparr>"
    using script_run_publishes [OF assms(3) publishes assms(9)] unfolding sc(2,3) by blast
  let ?installed = "filter (\<lambda>topics. hd topics = InstallationApplied E) logs"
  from assms(5) dao have wf: "\<forall>topics \<in> set logs. topics \<noteq> [] \<and> (hd topics = InstallationApplied E \<longrightarrow> 2 < length topics)"
      and inst: "list_all2 (\<lambda>p topics. \<exists>setup. published V w2 (ps_pluginRepo p) (ps_tag p) = Some setup \<and>
          (is_setup V w2 setup \<longrightarrow> (let plugin = ucast (topics ! 2) in
             \<exists>prepared. prepareInstallation dec plugin dao (ps_data p) = Inr (plugin, plugin_storage V w' plugin, prepared) \<and>
               (\<forall>perm \<in> set (psd_permissions prepared). perm_operation perm = Grant \<longrightarrow>
                  isGranted M w' (perm_where perm) (perm_who perm) (perm_id perm)))))
          (getPluginSettings E sc repo) ?installed"
    unfolding dao_installs_def by blast+
  from inst obtain topics prepared where one: "?installed = [topics]"
      and prep: "prepareInstallation dec (ucast (topics ! 2)) dao (abi_encode_settings E vs) =
        Inr (ucast (topics ! 2), plugin_storage V w' (ucast (topics ! 2)), prepared)"
      and granted: "\<forall>perm \<in> set (psd_permissions prepared). perm_operation perm = Grant \<longrightarrow>
        isGranted M w' (perm_where perm) (perm_who perm) (perm_id perm)"
    using pub by (auto simp: getPluginSettings_def assms(7) Let_def list_all2_Cons1)
  let ?plugin = "ucast (topics ! 2) :: address"
  have "pluginAddress sc' = [?plugin]" using plugins collect_plugins_Inr [OF wf] one by simp
  moreover from prep assms(8) have "initialize vs = Inr (plugin_storage V w' ?plugin)"
    by (auto simp: prepareInstallation_Inr)
  then have "plugin_reachable P 0 (plugin_storage V w' ?plugin)" "votingSettings (plugin_storage V w' ?plugin) = vs"
      "proposalCounter (plugin_storage V w' ?plugin) = 0"
    by (auto simp: plugin_reachable_def initialize_def updateVotingSettings_internal_Inr intro: run_refl)
  moreover from prep granted have "isGranted M w' ?plugin dao UPDATE_VOTING_SETTINGS_PERMISSION_ID"
      "isGranted M w' dao ?plugin EXECUTE_PERMISSION_ID" "isGranted M w' ?plugin proposal_creator CREATE_PROPOSAL_PERMISSION_ID"
    by (auto simp: prepareInstallation_Inr permission_def)
  ultimately show ?thesis by blast
qed

text \<open>
  A chain with the published setups, the setup contracts, the storage of the one plugin at address 48 and the
  permissions granted.
\<close>

record ex_world =
  ew_published :: "address \<Rightarrow> u8 \<times> u16 \<Rightarrow> address option"
  ew_setups :: "address list"
  ew_storage :: "unit plugin"
  ew_granted :: "(address \<times> address \<times> string) set"

definition ex_view :: "(ex_world, unit) osx_view" where
  "ex_view = \<lparr>published = ew_published, is_setup = (\<lambda>w a. a \<in> set (ew_setups w)), plugin_storage = (\<lambda>w _. ew_storage w)\<rparr>"

definition ex_dec :: "u8 list \<Rightarrow> VotingSettings option" where
  "ex_dec data = Some (deploy_settings ''config'' 4 5)"

definition ex_createDao :: "PluginSettings \<Rightarrow> ex_world \<Rightarrow> (address \<times> log list \<times> ex_world) option" where
  "ex_createDao p w =
     (case ew_published w (ps_pluginRepo p) (ps_tag p) of
        None \<Rightarrow> None
      | Some setup \<Rightarrow>
          if setup \<notin> set (ew_setups w) then None
          else (case prepareInstallation ex_dec 48 77 (ps_data p) of
              Inr (plugin, st, prepared) \<Rightarrow> Some (77, [[1], [6, 77, 48, 3]], w\<lparr>ew_storage := st,
                ew_granted := applyMultiTargetPermissions ex_manager (psd_permissions prepared) {}\<rparr>)
            | Inl _ \<Rightarrow> None))"

definition ex_script_env :: "ex_world script_env" where
  "ex_script_env =
     \<lparr>envAddress = (\<lambda>_. Some 1), envUint = (\<lambda>_. Some 2), readFile = (\<lambda>_. Some ''config''), uint_to_string = (\<lambda>_. ''0''),
      VOTING_PROTOCOL_ID = 4, EXECUTION_PROTOCOL_ID = 5, InstallationApplied = 6, abi_encode_settings = (\<lambda>_. []),
      new_PluginSetup = (\<lambda>w. Some (10, w\<lparr>ew_setups := 10 # ew_setups w\<rparr>)),
      createPluginRepoWithFirstVersion = (\<lambda>_ _ setup _ _ _ w.
        Some (11, w\<lparr>ew_published := (ew_published w)(11 := [(1, 1) \<mapsto> setup])\<rparr>)),
      createDao = (\<lambda>_ _ ps w. case ps of [p] \<Rightarrow> ex_createDao p w | _ \<Rightarrow> None)\<rparr>"

definition ex_world_manager :: "ex_world permission_manager" where
  "ex_world_manager = \<lparr>isGranted = (\<lambda>w. isGranted ex_manager (ew_granted w)),
     applyPermission = (\<lambda>p w. w\<lparr>ew_granted := applyPermission ex_manager p (ew_granted w)\<rparr>)\<rparr>"

definition ex_world0 :: ex_world where
  "ex_world0 = \<lparr>ew_published = (\<lambda>_ _. None), ew_setups = [], ew_storage = ex_plugin0, ew_granted = {}\<rparr>"

lemma ex_factories: "new_creates_setup ex_script_env ex_view" "repo_publishes ex_script_env ex_view 1"
  by (auto simp: new_creates_setup_def repo_publishes_def ex_script_env_def ex_view_def)

lemma ex_createDao_Some:
  assumes "ex_createDao p w = Some (dao, logs, w')"
  obtains pluginSetup prepared where "ew_published w (ps_pluginRepo p) (ps_tag p) = Some pluginSetup"
    "prepareInstallation ex_dec 48 77 (ps_data p) = Inr (48, ew_storage w', prepared)"
    "dao = 77" "logs = [[1], [6, 77, 48, 3]]"
    "ew_granted w' = applyMultiTargetPermissions ex_manager (psd_permissions prepared) {}"
proof -
  from assms obtain pluginSetup plugin st prepared where "ew_published w (ps_pluginRepo p) (ps_tag p) = Some pluginSetup"
      and prep: "prepareInstallation ex_dec 48 77 (ps_data p) = Inr (plugin, st, prepared)"
      and "dao = 77" "logs = [[1], [6, 77, 48, 3]]"
      "w' = w\<lparr>ew_storage := st, ew_granted := applyMultiTargetPermissions ex_manager (psd_permissions prepared) {}\<rparr>"
    by (auto simp: ex_createDao_def split: option.splits sum.splits if_splits)
  moreover from prep have "plugin = 48" by (auto simp: prepareInstallation_Inr)
  ultimately show thesis using that by simp
qed

lemma ex_dao_installs: "dao_installs ex_script_env ex_view ex_dec ex_world_manager factory"
  unfolding dao_installs_def
proof (intro allI impI)
  fix ds ps w dao logs w'
  assume "createDao ex_script_env factory ds ps w = Some (dao, logs, w')"
  then obtain p where ps: "ps = [p]" and created: "ex_createDao p w = Some (dao, logs, w')"
    by (auto simp: ex_script_env_def split: list.splits)
  from created obtain pluginSetup prepared where pub: "ew_published w (ps_pluginRepo p) (ps_tag p) = Some pluginSetup"
      and prep: "prepareInstallation ex_dec 48 77 (ps_data p) = Inr (48, ew_storage w', prepared)"
      and dao: "dao = 77" and logs: "logs = [[1], [6, 77, 48, 3]]"
      and granted: "ew_granted w' = applyMultiTargetPermissions ex_manager (psd_permissions prepared) {}"
    by (rule ex_createDao_Some)
  from prep have perms: "psd_permissions prepared = map (\<lambda>(w, a, i). permission Grant w a i)
      [(48, 77, UPDATE_VOTING_SETTINGS_PERMISSION_ID), (77, 48, EXECUTE_PERMISSION_ID),
       (48, proposal_creator, CREATE_PROPOSAL_PERMISSION_ID)]"
    by (auto simp: prepareInstallation_Inr)
  have observed: "isGranted ex_world_manager w' =
      isGranted ex_manager (applyMultiTargetPermissions ex_manager (psd_permissions prepared) {})"
    by (simp add: ex_world_manager_def granted)
  have "isGranted ex_world_manager w' (perm_where perm) (perm_who perm) (perm_id perm)"
    if "perm \<in> set (psd_permissions prepared)" for perm
    using that unfolding observed perms by (auto simp: ex_manager_def permission_def)
  with pub prep show "(\<forall>topics \<in> set logs. topics \<noteq> [] \<and> (hd topics = InstallationApplied ex_script_env \<longrightarrow> 2 < length topics)) \<and>
      list_all2 (\<lambda>p topics. \<exists>setup. published ex_view w (ps_pluginRepo p) (ps_tag p) = Some setup \<and>
          (is_setup ex_view w setup \<longrightarrow> (let plugin = ucast (topics ! 2) in
             \<exists>prepared. prepareInstallation ex_dec plugin dao (ps_data p) = Inr (plugin, plugin_storage ex_view w' plugin, prepared) \<and>
               (\<forall>perm \<in> set (psd_permissions prepared). perm_operation perm = Grant \<longrightarrow>
                  isGranted ex_world_manager w' (perm_where perm) (perm_who perm) (perm_id perm)))))
          ps (filter (\<lambda>topics. hd topics = InstallationApplied ex_script_env) logs)"
    by (simp add: ps dao logs ex_script_env_def ex_view_def Let_def)
qed

theorem deployment_installs_witness:
  "\<exists>sc sc' w'. setUp ex_script_env 0 = Inr sc \<and> script_run ex_script_env 9 sc ex_world0 = Inr (10, 11, 77, sc', w') \<and>
     (\<exists>plugin. pluginAddress sc' = [plugin] \<and> votingSettings (ew_storage w') = deploy_settings ''config'' 4 5 \<and>
        isGranted ex_world_manager w' 77 plugin EXECUTE_PERMISSION_ID)"
proof -
  obtain sc where sc: "setUp ex_script_env 0 = Inr sc" "script_votingProtocolConfig sc = ''config''" "pluginAddress sc = []"
    by (simp add: setUp_def ex_script_env_def or_revert_def)
  obtain st prepared where "prepareInstallation ex_dec 48 77 [] = Inr (48, st :: unit plugin, prepared)"
    using deploy_settings_ok [of "''config''" 4 5]
    by (auto simp: prepareInstallation_Inr ex_dec_def initialize_def updateVotingSettings_internal_Inr)
  then obtain sc' w' where run: "script_run ex_script_env 9 sc ex_world0 = Inr (10, 11, 77, sc', w')"
    by (simp add: script_run_def ex_script_env_def deployPluginRepo_def getPluginSettings_def or_revert_def Let_def
        collect_plugins_def log_topic_def ex_createDao_def ex_world0_def)
  have env: "envAddress ex_script_env name = Some 1" for name by (simp add: ex_script_env_def)
  have dec: "ex_dec (abi_encode_settings ex_script_env (deploy_settings ''config'' 4 5)) = Some (deploy_settings ''config'' 4 5)"
    by (simp add: ex_dec_def)
  have vs: "deploy_settings ''config'' 4 5 = deploy_settings (script_votingProtocolConfig sc)
      (VOTING_PROTOCOL_ID ex_script_env) (EXECUTION_PROTOCOL_ID ex_script_env)"
    by (simp add: sc(2) ex_script_env_def)
  obtain plugin where "pluginAddress sc' = [plugin]" "votingSettings (plugin_storage ex_view w' plugin) = deploy_settings ''config'' 4 5"
      "isGranted ex_world_manager w' 77 plugin EXECUTE_PERMISSION_ID"
    using deployment_installs [OF env env ex_factories ex_dao_installs sc(1) vs dec run, of ex_plugin_libs] by blast
  moreover have "plugin_storage ex_view w' plugin = ew_storage w'" by (simp add: ex_view_def)
  ultimately show ?thesis using sc(1) run by metis
qed

end
