(* ===== verification/Integration_Test.thy ===== *)
theory Integration_Test
  imports Command_Line Deployment
begin

text \<open>
  The integration test \<^verbatim>\<open>tests/tests/integration_tests.rs\<close>: it forks a chain, deploys the mock verifier, publishes
  the plugin setup, creates a DAO and a proposal, signs a vote and runs the publisher on it. The forked node and the
  contracts on it are parameters over an abstract state of the chain, as in the deployment script.
\<close>

section \<open>Parameters and data\<close>

text \<open>The settings as the test declares them for the ABI: the last fields of the contract's struct are not there.\<close>

record TestVotingSettings =
  ts_votingMode :: VotingMode
  ts_supportThreshold :: u32
  ts_minParticipation :: u32
  ts_minDuration :: u64
  ts_minProposerVotingPower :: u256
  ts_votingProtocolConfig :: string

record PluginSettingsData =
  psd_votingSettings :: TestVotingSettings
  psd_token :: address
  psd_verifier :: address

text \<open>
  A call that is only simulated gives its result and leaves the chain as it is; a call that is sent changes it.
\<close>

record ('w, 'k) test_libs = "'w script_env" +
  spawn_anvil :: "string \<Rightarrow> (string \<times> 'k list \<times> 'w) Result"
  parse_url :: "string \<Rightarrow> unit Result"
  deploy_MockVerifier :: "bytes4 \<Rightarrow> 'w \<Rightarrow> (address \<times> 'w) Result"
  get_accounts :: "'w \<Rightarrow> address list Result"
  get_block_number :: "'w \<Rightarrow> u64 Result"
  send_createProposal :: "address \<Rightarrow> u8 list \<Rightarrow> unit create_args \<Rightarrow> 'w \<Rightarrow> 'w Result"
  abi_encode_params :: "PluginSettingsData \<Rightarrow> u8 list"
  test_call_error :: string
  signer_address :: "'k \<Rightarrow> address"
  sign_hash_with :: "'k \<Rightarrow> u64 \<Rightarrow> bytes32 \<Rightarrow> u8 list Result"
  hex_encode :: "u8 list \<Rightarrow> string"
  show_address :: "address \<Rightarrow> string"

definition or_error :: "string \<Rightarrow> 'a option \<Rightarrow> 'a Result" where
  "or_error e r = (case r of None \<Rightarrow> Inl e | Some x \<Rightarrow> Inr x)"

section \<open>The test\<close>

definition setup_test_environment ::
    "('w, 'k) test_libs \<Rightarrow> (string \<rightharpoonup> string) \<Rightarrow> (string \<times> 'k list \<times> 'w \<times> address) Result exec" where
  "setup_test_environment T vars =
     rbind (expect (vars ''RPC_URL'') ''RPC_URL env not set'') (\<lambda>sepolia_rpc_url.
     try_bind (Inr (spawn_anvil T sepolia_rpc_url)) (\<lambda>(endpoint, keys, w).
     rbind (index keys 0) (\<lambda>_.
     try_bind (Inr (parse_url T endpoint)) (\<lambda>_.
     try_bind (Inr (deploy_MockVerifier T 0 w)) (\<lambda>(verifier, w'). Inr (Inr (endpoint, keys, w', verifier)))))))"

definition test_config :: string where
  "test_config =
     ''{\"votingProtocolVersion\":\"1\",\"assets\":[{\"contract\":\"0x185Bb1cca668C474214e934028A3e4BB7A5E6525\",'' @
     ''\"chainId\":11155111,\"votingPowerStrategy\":\"BalanceOf\",\"delegation\":{\"contract\":'' @
     ''\"0x32Bb2dB7826cf342743fe80832Fe4DF725879C2D\",\"strategy\":\"SplitDelegation\"}}],'' @
     ''\"executionStrategy\":\"MajorityVoting\"}''"

text \<open>The loop over the logs keeps the last installed plugin; without one the address is zero.\<close>

definition installed_plugin :: "bytes32 \<Rightarrow> log list \<Rightarrow> address exec" where
  "installed_plugin event logs =
     foldM (\<lambda>plugin_address topics.
       rbind (index topics 0) (\<lambda>first_log.
         if event = first_log
         then rbind (index topics 2) (\<lambda>topic. Inr (ucast topic))
         else Inr plugin_address)) 0 logs"

definition dao_setup ::
    "('w, 'k) test_libs \<Rightarrow> u16 \<Rightarrow> address \<Rightarrow> 'w \<Rightarrow> (address \<times> address \<times> address \<times> address \<times> 'w) Result exec" where
  "dao_setup T n2 verifier w =
     try_bind (Inr (get_accounts T w)) (\<lambda>accounts.
     rbind (index accounts 0) (\<lambda>account.
     let name_with_entropy = ''risc-zero-plugin-'' @ show_nat (unat n2) in
     try_bind (Inr (or_error (test_call_error T) (new_PluginSetup T w))) (\<lambda>(plugin_setup, w1).
     let create_repo = createPluginRepoWithFirstVersion T 0x07f49c49Ce2A99CF7C28F66673d406386BDD8Ff4
           name_with_entropy plugin_setup account [0] [0] in
     try_bind (Inr (or_error (test_call_error T) (create_repo w1))) (\<lambda>(plugin_repo, _).
     try_bind (Inr (or_error (test_call_error T) (create_repo w1))) (\<lambda>(_, w2).
     let dao_settings = \<lparr>trustedForwarder = 0, daoURI = '''', subdomain = name_with_entropy, dao_metadata = [0]\<rparr>;
         voting_settings = \<lparr>ts_votingMode = Standard, ts_supportThreshold = 20, ts_minParticipation = 10,
           ts_minDuration = 3600, ts_minProposerVotingPower = 0, ts_votingProtocolConfig = test_config\<rparr>;
         encoded_plugin_settings_data = abi_encode_params T
           \<lparr>psd_votingSettings = voting_settings, psd_token = 0x185Bb1cca668C474214e934028A3e4BB7A5E6525,
            psd_verifier = verifier\<rparr>;
         plugin_settings = [\<lparr>ps_tag = (1, 1), ps_pluginRepo = plugin_repo, ps_data = encoded_plugin_settings_data\<rparr>];
         create_dao = createDao T 0x7a62da7B56fB3bfCdF70E900787010Bc4c9Ca42e dao_settings plugin_settings in
     try_bind (Inr (or_error (test_call_error T) (create_dao w2))) (\<lambda>(dao, _, _).
     try_bind (Inr (or_error (test_call_error T) (create_dao w2))) (\<lambda>(_, logs, w3).
     rbind (installed_plugin (InstallationApplied T) logs) (\<lambda>plugin_address.
       Inr (Inr (plugin_setup, plugin_repo, plugin_address, dao, w3))))))))))"

text \<open>
  The command is \<^verbatim>\<open>cargo run --bin publisher --\<close> with variables of the test and the options of \<open>test_options\<close>. The
  variables are looked up before the node is asked for the block number. The test sets \<^verbatim>\<open>RISC0_DEV_MODE\<close> for
  itself and so for the publisher, whose outcome is the parameter \<open>run\<close>.
\<close>

definition test_command_env :: "(string \<rightharpoonup> string) \<Rightarrow> (string \<times> string) list exec" where
  "test_command_env vars =
     mapM (\<lambda>name. rbind (unwrap (vars name)) (\<lambda>v. Inr (name, v)))
       [''BONSAI_API_KEY'', ''BONSAI_API_URL'', ''RPC_URL'', ''ETH_WALLET_PRIVATE_KEY'']"

definition test_config_is_setup ::
    "('w, 'k) test_libs \<Rightarrow> ('sig, 'pk, 'z) crypto_scheme \<Rightarrow> (command \<Rightarrow> bool option) \<Rightarrow> (string \<rightharpoonup> string) \<Rightarrow> u16 \<Rightarrow>
     unit Result exec" where
  "test_config_is_setup T C run vars n2 =
     try_bind (setup_test_environment T vars) (\<lambda>(endpoint, keys, w, verifier).
     try_bind (dao_setup T n2 verifier w) (\<lambda>(plugin_setup, plugin_repo, plugin, dao, w1).
     try_bind (Inr (send_createProposal T plugin [0]
         \<lparr>ca_actions = [], ca_allowFailureMap = 0, ca_startDate = 0, ca_endDate = 0\<rparr> w1)) (\<lambda>w2.
     rbind (index keys 0) (\<lambda>signer.
     try_bind (Inr (test_signed_vote C (sign_hash_with T signer 11155111) (hex_encode T) dao 0)) (\<lambda>signed_vote.
     let voter = signer_address T signer in
     rbind (test_command_env vars) (\<lambda>env.
     try_bind (Inr (get_block_number T w2)) (\<lambda>block_number.
     let options = test_options vars (show_address T) endpoint block_number signed_vote voter dao plugin;
         cmd = \<lparr>cmd_program = ''cargo'', cmd_current_dir = ''../'', cmd_env = env,
                cmd_args = [''run'', ''--bin'', ''publisher'', ''--''] @ map long_option options\<rparr> in
     rbind (expect (run cmd) ''failed to execute process'') (\<lambda>_. Inr (Inr ())))))))))"

section \<open>What the test shows\<close>

text \<open>
  The test passes or fails before the publisher is started: any two publishers that can be started give the same
  result, whether they succeed or not.
\<close>

lemma integration_test_ignores_publisher:
  assumes "\<And>cmd. run cmd \<noteq> None" and "\<And>cmd. run' cmd \<noteq> None"
  shows "test_config_is_setup T C run vars n2 = test_config_is_setup T C run' vars n2"
proof -
  have "rbind (expect (run cmd) ''failed to execute process'') (\<lambda>_. Inr (Inr ()) :: unit Result exec) =
      rbind (expect (run' cmd) ''failed to execute process'') (\<lambda>_. Inr (Inr ()))" for cmd
    using assms [of cmd] by auto
  then show ?thesis by (simp only: test_config_is_setup_def)
qed

text \<open>
  The signature is over another vote than the one that the publisher is given: proposal 2 and direction 0 are signed,
  proposal 0 and direction 2 are published, and the signed messages differ.
\<close>

lemma integration_test_signs_another_vote:
  "test_signed_vote C sign_hash hex dao balance =
     rbind (sign_hash (from_be_bytes (hash_vote C 11155111 dao 2 0 balance))) (\<lambda>signature. Inr (hex signature))"
  "vote_preimage 11155111 dao 2 0 balance \<noteq> vote_preimage 11155111 dao 0 2 balance"
  by (simp_all add: test_signed_vote_def signing_side_agrees vote_preimage_inject)

end
