(* ===== verification/Receipt_Claim.thy ===== *)
theory Receipt_Claim
  imports Evm_Tx
begin

unbundle bit_operations_syntax

text \<open>
  The digests behind a RISC Zero receipt: the byte-order routines of \<^verbatim>\<open>lib/risc0/Util.sol\<close>, the
  tagged struct and list hashes of \<^verbatim>\<open>lib/risc0/StructHash.sol\<close>, and the receipt claim of
  \<^verbatim>\<open>lib/risc0/IRiscZeroVerifier.sol\<close> with its digest. SHA-256 is a parameter. The loop of
  \<^verbatim>\<open>taggedList\<close> counts with a 256-bit index and is a partial function, shown to return.
\<close>

section \<open>Byte order\<close>

definition reverseByteOrderUint256 :: "u256 \<Rightarrow> u256" where
  "reverseByteOrderUint256 input =
     (let v = input;
          v = drop_bit 8 (v AND 0xFF00FF00FF00FF00FF00FF00FF00FF00FF00FF00FF00FF00FF00FF00FF00FF00)
            OR push_bit 8 (v AND 0x00FF00FF00FF00FF00FF00FF00FF00FF00FF00FF00FF00FF00FF00FF00FF00FF);
          v = drop_bit 16 (v AND 0xFFFF0000FFFF0000FFFF0000FFFF0000FFFF0000FFFF0000FFFF0000FFFF0000)
            OR push_bit 16 (v AND 0x0000FFFF0000FFFF0000FFFF0000FFFF0000FFFF0000FFFF0000FFFF0000FFFF);
          v = drop_bit 32 (v AND 0xFFFFFFFF00000000FFFFFFFF00000000FFFFFFFF00000000FFFFFFFF00000000)
            OR push_bit 32 (v AND 0x00000000FFFFFFFF00000000FFFFFFFF00000000FFFFFFFF00000000FFFFFFFF);
          v = drop_bit 64 (v AND 0xFFFFFFFFFFFFFFFF0000000000000000FFFFFFFFFFFFFFFF0000000000000000)
            OR push_bit 64 (v AND 0x0000000000000000FFFFFFFFFFFFFFFF0000000000000000FFFFFFFFFFFFFFFF)
      in drop_bit 128 v OR push_bit 128 v)"

definition reverseByteOrderUint32 :: "u32 \<Rightarrow> u32" where
  "reverseByteOrderUint32 input =
     (let v = input;
          v = drop_bit 8 (v AND 0xFF00FF00) OR push_bit 8 (v AND 0x00FF00FF)
      in drop_bit 16 v OR push_bit 16 v)"

definition reverseByteOrderUint16 :: "u16 \<Rightarrow> u16" where
  "reverseByteOrderUint16 input = (let v = input in drop_bit 8 v OR push_bit 8 (v AND 0x00FF))"


text \<open>
  Each line of these routines swaps the neighbouring blocks of \<open>s\<close> bits: bit \<open>k\<close> comes from the other
  block of its pair. The masks are the even blocks and, one block further, the odd ones.
\<close>

definition partner :: "nat \<Rightarrow> nat \<Rightarrow> nat" where
  "partner s k = (if even (k div s) then k + s else k - s)"

primrec even_blocks :: "nat \<Rightarrow> nat \<Rightarrow> 'a::len word" where
  "even_blocks s 0 = 0"
| "even_blocks s (Suc n) = push_bit (2 * s) (even_blocks s n) OR mask s"

lemma bit_even_blocks:
  "0 < s \<Longrightarrow> k < LENGTH('a) \<Longrightarrow> bit (even_blocks s n :: 'a::len word) k \<longleftrightarrow> k < 2 * s * n \<and> even (k div s)"
proof (induction n arbitrary: k)
  case 0
  show ?case by simp
next
  case (Suc n)
  consider "k < s" | "s \<le> k" "k < 2 * s" | "2 * s \<le> k" by linarith
  then show ?case
  proof cases
    case 1
    then show ?thesis using Suc.prems by (simp add: bit_simps)
  next
    case 2
    then have "k div s = 1" by (simp add: div_nat_eqI)
    with 2 show ?thesis by (simp add: bit_simps)
  next
    case 3
    then have "k div s = Suc (Suc ((k - 2 * s) div s))"
      using Suc.prems by (simp add: le_div_geq numeral_2_eq_2 mult_2 flip: diff_diff_left)
    with 3 Suc show ?thesis by (auto simp: bit_simps)
  qed
qed

definition swap_blocks :: "nat \<Rightarrow> nat \<Rightarrow> 'a::len word \<Rightarrow> 'a word" where
  "swap_blocks s n v = drop_bit s (v AND push_bit s (even_blocks s n)) OR push_bit s (v AND even_blocks s n)"

definition swap_halves :: "nat \<Rightarrow> 'a::len word \<Rightarrow> 'a word" where
  "swap_halves s v = drop_bit s v OR push_bit s v"

lemma odd_block: "odd (k div s) \<Longrightarrow> s \<le> k" for k s :: nat
  by (metis div_less even_zero not_le)

lemma bit_swap_blocks:
  fixes v :: "'a::len word"
  assumes "0 < s" and "2 * s * n = LENGTH('a)" and "k < LENGTH('a)"
  shows "bit (swap_blocks s n v) k = bit v (partner s k)"
proof -
  have "k div s = Suc ((k - s) div s)" if "s \<le> k"
    using that assms(1) by (simp add: le_div_geq)
  then show ?thesis
    using assms bit_imp_le_length [of v "k + s"] odd_block [of k s]
    by (auto simp: swap_blocks_def partner_def bit_simps bit_even_blocks add.commute)
qed

lemma bit_swap_halves:
  fixes v :: "'a::len word"
  assumes "LENGTH('a) = 2 * s" and "k < LENGTH('a)"
  shows "bit (swap_halves s v) k = bit v (partner s k)"
proof (cases "k < s")
  case True
  then show ?thesis by (simp add: swap_halves_def partner_def bit_simps add.commute)
next
  case False
  then have "k div s = 1" using assms by (simp add: div_nat_eqI)
  with False show ?thesis
    using assms bit_imp_le_length [of v "k + s"]
    by (auto simp: swap_halves_def partner_def bit_simps add.commute)
qed

lemma even_blocks_numeral:
  "even_blocks s (numeral n) = push_bit (2 * s) (even_blocks s (pred_numeral n)) OR mask s"
  by (simp add: numeral_eq_Suc)

lemma even_blocks_literals:
  "(0x00FF00FF00FF00FF00FF00FF00FF00FF00FF00FF00FF00FF00FF00FF00FF00FF :: u256) = even_blocks 8 16"
  "(0xFF00FF00FF00FF00FF00FF00FF00FF00FF00FF00FF00FF00FF00FF00FF00FF00 :: u256) = push_bit 8 (even_blocks 8 16)"
  "(0x0000FFFF0000FFFF0000FFFF0000FFFF0000FFFF0000FFFF0000FFFF0000FFFF :: u256) = even_blocks 16 8"
  "(0xFFFF0000FFFF0000FFFF0000FFFF0000FFFF0000FFFF0000FFFF0000FFFF0000 :: u256) = push_bit 16 (even_blocks 16 8)"
  "(0x00000000FFFFFFFF00000000FFFFFFFF00000000FFFFFFFF00000000FFFFFFFF :: u256) = even_blocks 32 4"
  "(0xFFFFFFFF00000000FFFFFFFF00000000FFFFFFFF00000000FFFFFFFF00000000 :: u256) = push_bit 32 (even_blocks 32 4)"
  "(0x0000000000000000FFFFFFFFFFFFFFFF0000000000000000FFFFFFFFFFFFFFFF :: u256) = even_blocks 64 2"
  "(0xFFFFFFFFFFFFFFFF0000000000000000FFFFFFFFFFFFFFFF0000000000000000 :: u256) = push_bit 64 (even_blocks 64 2)"
  "(0x00FF00FF :: u32) = even_blocks 8 2" "(0xFF00FF00 :: u32) = push_bit 8 (even_blocks 8 2)"
  by (simp_all add: even_blocks_numeral mask_eq_exp_minus_1)

lemma partner_less:
  assumes "0 < s" and "2 * s dvd n" and "k < n"
  shows "partner s k < n"
proof (cases "even (k div s)")
  case True
  obtain m where "n = 2 * s * m" using assms(2) by blast
  then have m: "n = s * (2 * m)" by simp
  obtain q where q: "k div s = 2 * q" using True by blast
  have "k div s < 2 * m" using assms m by (simp add: div_less_iff_less_mult mult.commute)
  then have "k div s + 1 < 2 * m" using q by simp
  moreover have "(k + s) div s = k div s + 1" using assms(1) by (simp add: div_add_self2)
  ultimately have "(k + s) div s < 2 * m" by simp
  then have "k + s < n" using m assms(1) by (simp add: div_less_iff_less_mult mult.commute)
  with True show ?thesis by (simp add: partner_def)
qed (use assms in \<open>simp add: partner_def\<close>)

lemma partner_high:
  assumes "0 < t" and "2 * t dvd m"
  shows "partner t (m + q) = m + partner t q"
proof -
  obtain j where j: "m = 2 * t * j" using assms(2) by blast
  have "(m + q) div t = 2 * j + q div t"
    using assms(1) div_mult_self1 [of t q "2 * j"] by (simp add: j mult.commute mult.left_commute add.commute)
  then show ?thesis using odd_block [of q t] by (auto simp: partner_def)
qed

primrec flips :: "nat \<Rightarrow> nat \<Rightarrow> nat" where
  "flips 0 q = q"
| "flips (Suc n) q = flips n (partner (2 ^ n) q)"

lemma flips_high: "2 ^ n dvd m \<Longrightarrow> flips n (m + q) = m + flips n q"
proof (induction n arbitrary: q)
  case (Suc n)
  then have "2 ^ n dvd m" by (metis dvd_mult_right power_Suc)
  with Suc show ?case by (simp add: partner_high)
qed simp

lemma flips_reverse: "q < 2 ^ n \<Longrightarrow> flips n q = 2 ^ n - 1 - q"
proof (induction n arbitrary: q)
  case (Suc n)
  show ?case
  proof (cases "q < 2 ^ n")
    case True
    then have "flips (Suc n) q = flips n (2 ^ n + q)" by (simp add: partner_def add.commute)
    with True Suc.IH show ?thesis by (simp add: flips_high)
  next
    case False
    then have "q div 2 ^ n = 1" using Suc.prems by (simp add: div_nat_eqI)
    then have "flips (Suc n) q = flips n (q - 2 ^ n)" by (simp add: partner_def)
    with False Suc show ?thesis by simp
  qed
qed simp

lemma partner_scale:
  assumes "r < 8"
  shows "partner (8 * t) (8 * q + r) = 8 * partner t q + r"
proof -
  have "(8 * q + r) div (8 * t) = q div t" using assms by (simp add: div_mult2_eq)
  moreover have "t \<le> q" if "odd (q div t)" using that by (metis div_less even_zero not_le)
  ultimately show ?thesis by (auto simp: partner_def algebra_simps)
qed

text \<open>Where the bits of a word with reversed bytes come from.\<close>

definition mirror :: "nat \<Rightarrow> nat \<Rightarrow> nat" where
  "mirror n k = 8 * (n - 1 - k div 8) + k mod 8"

lemma to_be_bytes_reversed:
  fixes v w :: "'a::len word"
  assumes "LENGTH('a) = 8 * n" and bits: "\<And>k. k < 8 * n \<Longrightarrow> bit v k = bit w (mirror n k)"
  shows "to_be_bytes v = rev (to_be_bytes w)"
proof (rule nth_equalityI)
  show "length (to_be_bytes v) = length (rev (to_be_bytes w))" by simp
next
  fix i
  assume "i < length (to_be_bytes v)"
  then have i: "i < n" using assms(1) by simp
  have "bit v (8 * (n - Suc i) + b) = bit w (8 * i + b)" if "b < 8" for b
  proof -
    have "8 * (n - Suc i) + b < 8 * n" using i that by linarith
    moreover have "mirror n (8 * (n - Suc i) + b) = 8 * i + b" using i that by (simp add: mirror_def)
    ultimately show ?thesis using bits by metis
  qed
  then have "(ucast (drop_bit (8 * (n - Suc i)) v) :: u8) = ucast (drop_bit (8 * i) w)"
    by (intro bit_word_eqI) (simp add: bit_simps)
  then show "to_be_bytes v ! i = rev (to_be_bytes w) ! i"
    using i assms(1) by (simp add: to_be_bytes_def rev_map rev_nth)
qed

lemma partners_reverse:
  "q < 32 \<Longrightarrow> partner 1 (partner 2 (partner 4 (partner 8 (partner 16 q)))) = 31 - q"
  "q < 4 \<Longrightarrow> partner 1 (partner 2 q) = 3 - q"
  using flips_reverse [of q 5] flips_reverse [of q 2] by (simp_all add: numeral_eq_Suc)

lemma mirror_32:
  assumes "k < 256"
  shows "partner 8 (partner 16 (partner 32 (partner 64 (partner 128 k)))) = mirror 32 k"
proof -
  define q r where "q = k div 8" and "r = k mod 8"
  then have k: "k = 8 * q + r" and "r < 8" and "q < 32" using assms by auto
  note scale = partner_scale [OF \<open>r < 8\<close>]
  have "partner 8 (partner 16 (partner 32 (partner 64 (partner 128 k)))) =
      8 * partner 1 (partner 2 (partner 4 (partner 8 (partner 16 q)))) + r"
    unfolding k using scale [of 1] scale [of 2] scale [of 4] scale [of 8] scale [of 16] by simp
  also have "\<dots> = mirror 32 k" using partners_reverse(1) \<open>q < _\<close> by (simp add: mirror_def q_def r_def)
  finally show ?thesis .
qed

lemma mirror_4:
  assumes "k < 32"
  shows "partner 8 (partner 16 k) = mirror 4 k"
proof -
  define q r where "q = k div 8" and "r = k mod 8"
  then have k: "k = 8 * q + r" and "r < 8" and "q < 4" using assms by auto
  note scale = partner_scale [OF \<open>r < 8\<close>]
  have "partner 8 (partner 16 k) = 8 * partner 1 (partner 2 q) + r"
    unfolding k using scale [of 1] scale [of 2] by simp
  also have "\<dots> = mirror 4 k" using partners_reverse(2) \<open>q < _\<close> by (simp add: mirror_def q_def r_def)
  finally show ?thesis .
qed

lemma reverseByteOrder_swaps:
  "reverseByteOrderUint256 w = swap_halves 128 (swap_blocks 64 2 (swap_blocks 32 4 (swap_blocks 16 8 (swap_blocks 8 16 w))))"
  "reverseByteOrderUint32 x = swap_halves 16 (swap_blocks 8 2 x)"
  "reverseByteOrderUint16 y = swap_halves 8 y"
proof -
  show "reverseByteOrderUint256 w = swap_halves 128 (swap_blocks 64 2 (swap_blocks 32 4 (swap_blocks 16 8 (swap_blocks 8 16 w))))"
    unfolding reverseByteOrderUint256_def Let_def even_blocks_literals swap_blocks_def swap_halves_def ..
  show "reverseByteOrderUint32 x = swap_halves 16 (swap_blocks 8 2 x)"
    unfolding reverseByteOrderUint32_def Let_def even_blocks_literals swap_blocks_def swap_halves_def ..
  have "y AND 0x00FF = take_bit 8 y" by (simp add: take_bit_eq_mask mask_eq_exp_minus_1)
  moreover have "push_bit 8 (take_bit 8 y) = push_bit 8 y" by (intro bit_word_eqI) (auto simp: bit_simps)
  ultimately show "reverseByteOrderUint16 y = swap_halves 8 y"
    unfolding reverseByteOrderUint16_def Let_def swap_halves_def by simp
qed

lemma reverseByteOrderUint256_bytes: "to_be_bytes (reverseByteOrderUint256 w) = rev (to_be_bytes w)"
proof (rule to_be_bytes_reversed [where n = 32])
  fix k :: nat
  assume k: "k < 8 * 32"
  then have "partner 128 k < 256" "partner 64 (partner 128 k) < 256"
      "partner 32 (partner 64 (partner 128 k)) < 256" "partner 16 (partner 32 (partner 64 (partner 128 k))) < 256"
    by (simp_all add: partner_less)
  with k show "bit (reverseByteOrderUint256 w) k = bit w (mirror 32 k)"
    by (simp add: reverseByteOrder_swaps bit_swap_halves bit_swap_blocks mirror_32)
qed simp

lemma reverseByteOrderUint32_bytes: "to_be_bytes (reverseByteOrderUint32 w) = rev (to_be_bytes w)"
proof (rule to_be_bytes_reversed [where n = 4])
  fix k :: nat
  assume k: "k < 8 * 4"
  then have "partner 16 k < 32" by (simp add: partner_less)
  with k show "bit (reverseByteOrderUint32 w) k = bit w (mirror 4 k)"
    by (simp add: reverseByteOrder_swaps bit_swap_halves bit_swap_blocks mirror_4)
qed simp

lemma reverseByteOrderUint16_bytes: "to_be_bytes (reverseByteOrderUint16 w) = rev (to_be_bytes w)"
proof (rule to_be_bytes_reversed [where n = 2])
  fix k :: nat
  assume k: "k < 8 * 2"
  then consider "k < 8" | "8 \<le> k" "k div 8 = 1" by (cases "k < 8") (auto intro: div_nat_eqI)
  then have "partner 8 k = mirror 2 k"
    using k by cases (auto simp: partner_def mirror_def mod_if)
  with k show "bit (reverseByteOrderUint16 w) k = bit w (mirror 2 k)"
    by (simp add: reverseByteOrder_swaps bit_swap_halves)
qed simp

section \<open>Tagged struct hashes\<close>

definition taggedStruct :: "(u8 list \<Rightarrow> bytes32) \<Rightarrow> bytes32 \<Rightarrow> bytes32 list \<Rightarrow> u8 list \<Rightarrow> bytes32 tx" where
  "taggedStruct sha256 tagDigest down data =
     rbind (toUint16 (of_nat (length down))) (\<lambda>downLen.
     let downLenLE = push_bit 8 downLen OR drop_bit 8 downLen in
       Inr (sha256 (to_be_bytes tagDigest @ concat (map to_be_bytes down) @ data @ to_be_bytes downLenLE)))"

definition taggedListCons :: "(u8 list \<Rightarrow> bytes32) \<Rightarrow> bytes32 \<Rightarrow> bytes32 \<Rightarrow> bytes32 \<Rightarrow> bytes32 tx" where
  "taggedListCons sha256 tagDigest head tail = taggedStruct sha256 tagDigest [head, tail] []"

text \<open>\<^verbatim>\<open>list[i]\<close> on a memory array, which panics out of bounds.\<close>

definition array_get :: "'a list \<Rightarrow> u256 \<Rightarrow> 'a tx" where
  "array_get xs i = (if unat i < length xs then Inr (xs ! unat i) else Inl Array_panic)"

text \<open>The body of the loop and its increment, then the loop itself.\<close>

definition taggedList_body ::
    "(u8 list \<Rightarrow> bytes32) \<Rightarrow> bytes32 \<Rightarrow> bytes32 list \<Rightarrow> u256 \<Rightarrow> bytes32 \<Rightarrow> (u256 \<times> bytes32) tx" where
  "taggedList_body sha256 tagDigest xs i cur =
     rbind (checked_sub (of_nat (length xs)) 1) (\<lambda>l.
     rbind (checked_sub l i) (\<lambda>j.
     rbind (array_get xs j) (\<lambda>x.
     rbind (taggedListCons sha256 tagDigest x cur) (\<lambda>cur'.
     rbind (checked_add i 1) (\<lambda>i'. Inr (i', cur'))))))"

partial_function (option) taggedList_loop ::
    "(u8 list \<Rightarrow> bytes32) \<Rightarrow> bytes32 \<Rightarrow> bytes32 list \<Rightarrow> u256 \<Rightarrow> bytes32 \<Rightarrow> bytes32 tx option" where
  "taggedList_loop sha256 tagDigest xs i cur =
     (if i < of_nat (length xs)
      then (case taggedList_body sha256 tagDigest xs i cur of
              Inl e \<Rightarrow> Some (Inl e)
            | Inr (i', cur') \<Rightarrow> taggedList_loop sha256 tagDigest xs i' cur')
      else Some (Inr cur))"

definition taggedList :: "(u8 list \<Rightarrow> bytes32) \<Rightarrow> bytes32 \<Rightarrow> bytes32 list \<Rightarrow> bytes32 tx option" where
  "taggedList sha256 tagDigest xs = taggedList_loop sha256 tagDigest xs 0 0"

text \<open>The hash of a list as a recursion over the list.\<close>

definition cons_hash :: "(u8 list \<Rightarrow> bytes32) \<Rightarrow> bytes32 \<Rightarrow> bytes32 \<Rightarrow> bytes32 \<Rightarrow> bytes32" where
  "cons_hash sha256 tagDigest x rest =
     sha256 (to_be_bytes tagDigest @ to_be_bytes x @ to_be_bytes rest @ [2, 0])"

lemma taggedListCons_Inr: "taggedListCons sha256 tag x rest = Inr (cons_hash sha256 tag x rest)"
proof -
  have "to_be_bytes (0x200 :: u16) = [2, 0]" by (simp add: to_be_bytes_def upt_rec)
  then show ?thesis
    by (simp add: taggedListCons_def taggedStruct_def toUint16_def cons_hash_def)
qed

lemma taggedList_body_Inr:
  assumes "length xs < 2 ^ 256" and "unat i < length xs"
  shows "taggedList_body sha256 tag xs i cur =
    Inr (i + 1, cons_hash sha256 tag (xs ! (length xs - Suc (unat i))) cur)"
proof -
  let ?n = "of_nat (length xs) :: u256"
  have n: "unat ?n = length xs" using assms(1) by (simp add: unat_of_nat take_bit_nat_eq_self)
  have le: "1 \<le> ?n" using assms(2) n by (simp add: word_le_nat_alt)
  have n1: "unat (?n - 1) = length xs - 1" using unat_sub_exact [OF le] n by simp
  have le': "i \<le> ?n - 1" using assms(2) n1 by (simp add: word_le_nat_alt)
  have j: "unat (?n - 1 - i) = length xs - Suc (unat i)" using unat_sub_exact [OF le'] n1 by simp
  have "unat i + unat (1 :: u256) < 2 ^ LENGTH(256)" using assms by simp
  then show ?thesis
    using le le' j assms(2)
    by (simp add: taggedList_body_def checked_sub_def checked_add_def array_get_def taggedListCons_Inr)
qed

lemma taggedList_loop_returns:
  assumes "length xs < 2 ^ 256" and "unat i \<le> length xs"
  shows "taggedList_loop sha256 tag xs i cur =
    Some (Inr (foldr (cons_hash sha256 tag) (take (length xs - unat i) xs) cur))"
  using assms(2)
proof (induction "length xs - unat i" arbitrary: i cur)
  case 0
  then have "\<not> i < of_nat (length xs)"
    using assms(1) by (simp add: word_less_nat_alt unat_of_nat take_bit_nat_eq_self)
  with 0 show ?case by (subst taggedList_loop.simps) simp
next
  case (Suc m)
  then have i: "unat i < length xs" by simp
  then have go: "i < of_nat (length xs)"
    using assms(1) by (simp add: word_less_nat_alt unat_of_nat take_bit_nat_eq_self)
  have i': "unat (i + 1) = Suc (unat i)"
    using i assms(1) unat_add_exact [of i 1] by simp
  have "take (length xs - unat i) xs = take (length xs - Suc (unat i)) xs @ [xs ! (length xs - Suc (unat i))]"
    using i by (simp add: Suc_diff_Suc flip: take_Suc_conv_app_nth)
  then show ?case
    using Suc.hyps(1) [of "i + 1"] Suc.hyps(2) i i' go
    by (subst taggedList_loop.simps) (simp add: taggedList_body_Inr [OF assms(1)])
qed

section \<open>Receipt claims\<close>

datatype SystemExitCode = Halted | Paused | SystemSplit

record ExitCode =
  exit_system :: SystemExitCode
  exit_user :: u8

record ReceiptClaim =
  preStateDigest :: bytes32
  postStateDigest :: bytes32
  exitCode :: ExitCode
  claim_input :: bytes32
  claim_output :: bytes32

record SystemState =
  pc :: u32
  merkle_root :: bytes32

record Output =
  journalDigest :: bytes32
  assumptionsDigest :: bytes32

definition Output_digest :: "(u8 list \<Rightarrow> bytes32) \<Rightarrow> Output \<Rightarrow> bytes32" where
  "Output_digest sha256 out =
     sha256 (to_be_bytes (sha256 (string_bytes ''risc0.Output'')) @
       to_be_bytes (journalDigest out) @ to_be_bytes (assumptionsDigest out) @
       to_be_bytes (push_bit 8 2 :: u16))"

definition SystemState_digest :: "(u8 list \<Rightarrow> bytes32) \<Rightarrow> SystemState \<Rightarrow> bytes32" where
  "SystemState_digest sha256 st =
     sha256 (to_be_bytes (sha256 (string_bytes ''risc0.SystemState'')) @
       to_be_bytes (merkle_root st) @ to_be_bytes (reverseByteOrderUint32 (pc st)) @
       to_be_bytes (push_bit 8 1 :: u16))"

definition SYSTEM_STATE_ZERO_DIGEST :: bytes32 where
  "SYSTEM_STATE_ZERO_DIGEST = 0xa3acc27117418996340b84e5a90f3ef4c49d22c79e44aad822ec9c313e1eb8e2"

definition ReceiptClaim_ok :: "(u8 list \<Rightarrow> bytes32) \<Rightarrow> bytes32 \<Rightarrow> bytes32 \<Rightarrow> ReceiptClaim" where
  "ReceiptClaim_ok sha256 imageId journal_digest =
     \<lparr>preStateDigest = imageId, postStateDigest = SYSTEM_STATE_ZERO_DIGEST,
      exitCode = \<lparr>exit_system = Halted, exit_user = 0\<rparr>, claim_input = 0,
      claim_output = Output_digest sha256 \<lparr>journalDigest = journal_digest, assumptionsDigest = 0\<rparr>\<rparr>"

definition uint32_of_SystemExitCode :: "SystemExitCode \<Rightarrow> u32" where
  "uint32_of_SystemExitCode e = (case e of Halted \<Rightarrow> 0 | Paused \<Rightarrow> 1 | SystemSplit \<Rightarrow> 2)"

definition ReceiptClaim_digest :: "(u8 list \<Rightarrow> bytes32) \<Rightarrow> ReceiptClaim \<Rightarrow> bytes32" where
  "ReceiptClaim_digest sha256 claim =
     sha256 (to_be_bytes (sha256 (string_bytes ''risc0.ReceiptClaim'')) @
       to_be_bytes (claim_input claim) @ to_be_bytes (preStateDigest claim) @
       to_be_bytes (postStateDigest claim) @ to_be_bytes (claim_output claim) @
       to_be_bytes (push_bit 24 (uint32_of_SystemExitCode (exit_system (exitCode claim)))) @
       to_be_bytes (push_bit 24 (ucast (exit_user (exitCode claim)) :: u32)) @
       to_be_bytes (push_bit 8 4 :: u16))"

section \<open>Properties\<close>

lemma u16_shifted: "to_be_bytes (push_bit 8 n OR drop_bit 8 n :: u16) = rev (to_be_bytes n)"
  using reverseByteOrderUint16_bytes [of n]
  by (simp add: reverseByteOrder_swaps(3) swap_halves_def or.commute)

lemma u32_byte_shifted:
  fixes b :: u8
  shows "to_be_bytes (push_bit 24 (ucast b) :: u32) = rev (to_be_bytes (ucast b :: u32))"
proof (rule to_be_bytes_reversed [where n = 4])
  fix k :: nat
  assume "k < 8 * 4"
  moreover have "mirror 4 k < 8 \<longleftrightarrow> 24 \<le> k"
  proof -
    have "mirror 4 k < 8 \<longleftrightarrow> 3 \<le> k div 8" by (auto simp: mirror_def)
    then show ?thesis by (simp add: less_eq_div_iff_mult_less_eq)
  qed
  moreover have "mirror 4 k = k - 24" if "24 \<le> k" "k < 32"
  proof -
    have "k div 8 = 3" using that by (simp add: div_nat_eqI)
    then show ?thesis by (simp add: mirror_def minus_div_mult_eq_mod [symmetric])
  qed
  ultimately show "bit (push_bit 24 (ucast b) :: u32) k = bit (ucast b :: u32) (mirror 4 k)"
    by (auto simp: bit_simps dest: bit_imp_le_length)
qed simp

text \<open>
  C31: The byte-order routines reverse the bytes of their argument: the unrolled mask-and-shift code for
  256, 32 and 16 bits is the list reversal of the big-endian bytes.
\<close>

theorem byte_order_reversed:
  "to_be_bytes (reverseByteOrderUint256 w) = rev (to_be_bytes w) \<and>
   to_be_bytes (reverseByteOrderUint32 x) = rev (to_be_bytes x) \<and>
   to_be_bytes (reverseByteOrderUint16 y) = rev (to_be_bytes y)"
  by (simp add: reverseByteOrderUint256_bytes reverseByteOrderUint32_bytes reverseByteOrderUint16_bytes)

lemma exit_system_shifted:
  "to_be_bytes (push_bit 24 (uint32_of_SystemExitCode e)) = rev (to_be_bytes (uint32_of_SystemExitCode e))"
  using u32_byte_shifted [of 0] u32_byte_shifted [of 1] u32_byte_shifted [of 2]
  by (cases e) (simp_all add: uint32_of_SystemExitCode_def)

lemma taggedStruct_length:
  assumes "length down < 2 ^ 16"
  shows "taggedStruct sha256 tag down data = Inr (sha256 (to_be_bytes tag @ concat (map to_be_bytes down) @ data @
    rev (to_be_bytes (of_nat (length down) :: u16))))"
proof -
  have "unat (of_nat (length down) :: u256) = length down"
    using assms by (simp add: unat_of_nat take_bit_nat_eq_self)
  moreover have "(ucast (of_nat (length down) :: u256) :: u16) = of_nat (length down)"
    using assms by (simp add: unsigned_of_nat take_bit_nat_eq_self)
  ultimately show ?thesis
    using assms by (simp add: taggedStruct_def toUint16_def Let_def u16_shifted)
qed

text \<open>
  The digests of claims, outputs and system states, written out by hand in the library, are the struct
  hashes of \<^verbatim>\<open>StructHash\<close>: tag, digest fields, then the numbers in little-endian byte order, then the
  number of digest fields in little-endian byte order.
\<close>

lemma digests_are_tagged_structs:
  "taggedStruct sha256 (sha256 (string_bytes ''risc0.ReceiptClaim''))
     [claim_input c, preStateDigest c, postStateDigest c, claim_output c]
     (rev (to_be_bytes (uint32_of_SystemExitCode (exit_system (exitCode c)))) @
      rev (to_be_bytes (ucast (exit_user (exitCode c)) :: u32))) = Inr (ReceiptClaim_digest sha256 c) \<and>
   taggedStruct sha256 (sha256 (string_bytes ''risc0.Output''))
     [journalDigest out, assumptionsDigest out] [] = Inr (Output_digest sha256 out) \<and>
   taggedStruct sha256 (sha256 (string_bytes ''risc0.SystemState'')) [merkle_root st] (rev (to_be_bytes (pc st))) =
     Inr (SystemState_digest sha256 st)"
proof -
  have "rev (to_be_bytes n) = to_be_bytes (push_bit 8 n :: u16)" if "drop_bit 8 n = 0" for n :: u16
    using u16_shifted [of n] that by simp
  from this [of 4] this [of 2] this [of 1] show ?thesis
    by (simp add: taggedStruct_length ReceiptClaim_digest_def Output_digest_def SystemState_digest_def
        exit_system_shifted u32_byte_shifted reverseByteOrderUint32_bytes)
qed

text \<open>
  C29: \<^verbatim>\<open>taggedList\<close> returns. Its loop counts a 256-bit index up to the length of the list and reads
  from the end; on every list that fits into memory it ends without a panic and gives the hash of the list
  built up from the zero digest, one cons per element, first element outermost.
\<close>

theorem taggedList_returns:
  assumes "length xs < 2 ^ 256"
  shows "taggedList sha256 tag xs = Some (Inr (foldr (cons_hash sha256 tag) xs 0))"
  using taggedList_loop_returns [OF assms, of 0] by (simp add: taggedList_def)

theorem taggedList_returns_witness:
  "taggedList (\<lambda>bs. of_nat (length bs)) 5 [7, 8, 9] = Some (Inr 98)"
  using taggedList_returns [of "[7, 8, 9]" "\<lambda>bs. of_nat (length bs)" 5] by (simp add: cons_hash_def)

section \<open>What a claim digest says\<close>

definition output_preimage :: "(u8 list \<Rightarrow> bytes32) \<Rightarrow> Output \<Rightarrow> u8 list" where
  "output_preimage sha256 out =
     to_be_bytes (sha256 (string_bytes ''risc0.Output'')) @
       to_be_bytes (journalDigest out) @ to_be_bytes (assumptionsDigest out) @ to_be_bytes (push_bit 8 2 :: u16)"

definition claim_preimage :: "(u8 list \<Rightarrow> bytes32) \<Rightarrow> ReceiptClaim \<Rightarrow> u8 list" where
  "claim_preimage sha256 claim =
     to_be_bytes (sha256 (string_bytes ''risc0.ReceiptClaim'')) @
       to_be_bytes (claim_input claim) @ to_be_bytes (preStateDigest claim) @
       to_be_bytes (postStateDigest claim) @ to_be_bytes (claim_output claim) @
       to_be_bytes (push_bit 24 (uint32_of_SystemExitCode (exit_system (exitCode claim)))) @
       to_be_bytes (push_bit 24 (ucast (exit_user (exitCode claim)) :: u32)) @ to_be_bytes (push_bit 8 4 :: u16)"

lemma digest_preimages:
  "Output_digest sha256 out = sha256 (output_preimage sha256 out)"
  "ReceiptClaim_digest sha256 claim = sha256 (claim_preimage sha256 claim)"
  by (simp_all add: Output_digest_def output_preimage_def ReceiptClaim_digest_def claim_preimage_def)

lemma output_preimage_inject: "output_preimage sha256 o1 = output_preimage sha256 o2 \<longleftrightarrow> o1 = o2"
  by (cases o1; cases o2) (auto simp: output_preimage_def u256_be.field_eq_iff u256_be.enc_eq_iff)

lemma exit_code_bytes_inject:
  "(push_bit 24 (uint32_of_SystemExitCode s1) = push_bit 24 (uint32_of_SystemExitCode s2)) = (s1 = s2)"
  "(push_bit 24 (ucast u1 :: u32) = push_bit 24 (ucast u2)) = (u1 = u2)" for u1 u2 :: u8
proof -
  show "(push_bit 24 (uint32_of_SystemExitCode s1) = push_bit 24 (uint32_of_SystemExitCode s2)) = (s1 = s2)"
    by (cases s1; cases s2) (simp_all add: uint32_of_SystemExitCode_def)
  have low: "ucast (drop_bit 24 (push_bit 24 (ucast u :: u32))) = u" for u :: u8
    by (intro bit_word_eqI) (auto simp: bit_simps)
  have "u1 = u2" if "push_bit 24 (ucast u1 :: u32) = push_bit 24 (ucast u2)"
  proof -
    have "(ucast (drop_bit 24 (push_bit 24 (ucast u1 :: u32))) :: u8) = ucast (drop_bit 24 (push_bit 24 (ucast u2 :: u32)))"
      by (simp only: that)
    then show ?thesis by (simp only: low)
  qed
  then show "(push_bit 24 (ucast u1 :: u32) = push_bit 24 (ucast u2)) = (u1 = u2)" by blast
qed

lemma ExitCode_eq_iff: "e1 = e2 \<longleftrightarrow> exit_system e1 = exit_system e2 \<and> exit_user e1 = exit_user e2" for e1 e2 :: ExitCode
  by (cases e1; cases e2) simp

lemma claim_preimage_inject: "claim_preimage sha256 c1 = claim_preimage sha256 c2 \<longleftrightarrow> c1 = c2"
proof -
  have "claim_preimage sha256 c1 = claim_preimage sha256 c2 \<longleftrightarrow>
      claim_input c1 = claim_input c2 \<and> preStateDigest c1 = preStateDigest c2 \<and>
      postStateDigest c1 = postStateDigest c2 \<and> claim_output c1 = claim_output c2 \<and> exitCode c1 = exitCode c2"
    by (simp only: claim_preimage_def u256_be.field_eq_iff bytes4_be.field_eq_iff exit_code_bytes_inject
        ExitCode_eq_iff refl simp_thms conj_ac)
  then show ?thesis by (cases c1; cases c2) auto
qed


text \<open>A small hash that tells the strings of two claims apart.\<close>

definition ex_sha :: "u8 list \<Rightarrow> bytes32" where
  "ex_sha bs = of_nat (length bs) + from_be_bytes (take 32 (drop 32 bs)) + from_be_bytes (take 32 (drop 128 bs))"

lemma ex_sha_values:
  "ex_sha (output_preimage ex_sha \<lparr>journalDigest = jd, assumptionsDigest = a\<rparr>) = 98 + jd"
  "ex_sha (claim_preimage ex_sha (ReceiptClaim_ok ex_sha img jd)) = 268 + jd"
proof -
  have nil: "from_be_bytes [] = (0 :: bytes32)" by (simp add: from_be_bytes_def)
  show out: "ex_sha (output_preimage ex_sha \<lparr>journalDigest = jd, assumptionsDigest = a\<rparr>) = 98 + jd" for jd a
    by (subst ex_sha_def) (simp add: output_preimage_def from_to_be_bytes nil)
  show "ex_sha (claim_preimage ex_sha (ReceiptClaim_ok ex_sha img jd)) = 268 + jd"
    by (subst ex_sha_def) (simp add: claim_preimage_def ReceiptClaim_ok_def digest_preimages out from_to_be_bytes)
qed


end
