(* ===== verification/Groth16_Verifier.thy ===== *)
theory Groth16_Verifier
  imports Receipt_Claim
begin

unbundle bit_operations_syntax

text \<open>
  The proof check on chain: the assembly of \<^verbatim>\<open>lib/risc0/groth16/Groth16Verifier.sol\<close> over an explicit
  memory, and \<^verbatim>\<open>lib/risc0/groth16/RiscZeroGroth16Verifier.sol\<close>, which turns a seal and a claim digest into
  its arguments. The three curve precompiles of the EVM (addition, multiplication, pairing) are parameters;
  \<open>None\<close> is a call that fails. Gas is not modelled.

  Every address that the assembly uses is a multiple of 32, because an external call starts with the free
  memory pointer at 0x80; so memory is a function from addresses to 32-byte words. Calldata is the list of
  words after the function selector; reading beyond its end gives zero.
\<close>

section \<open>Assembly\<close>

record precompiles =
  ecAdd :: "u256 \<Rightarrow> u256 \<Rightarrow> u256 \<Rightarrow> u256 \<Rightarrow> (u256 \<times> u256) option"
  ecMul :: "u256 \<Rightarrow> u256 \<Rightarrow> u256 \<Rightarrow> (u256 \<times> u256) option"
  ecPairing :: "u256 list \<Rightarrow> u256 option"

type_synonym memory = "u256 \<Rightarrow> u256"

text \<open>An assembly block either returns a word from the whole call or goes on with a new memory.\<close>

type_synonym 'a yul = "memory \<Rightarrow> u256 + 'a \<times> memory"

definition yret :: "'a \<Rightarrow> 'a yul" where
  "yret x = (\<lambda>m. Inr (x, m))"

definition ybind :: "'a yul \<Rightarrow> ('a \<Rightarrow> 'b yul) \<Rightarrow> 'b yul" where
  "ybind f g = (\<lambda>m. rbind (f m) (\<lambda>(x, m'). g x m'))"

definition mload :: "u256 \<Rightarrow> u256 yul" where
  "mload a = (\<lambda>m. Inr (m a, m))"

definition mstore :: "u256 \<Rightarrow> u256 \<Rightarrow> unit yul" where
  "mstore a v = (\<lambda>m. Inr ((), m(a := v)))"

text \<open>\<^verbatim>\<open>return(0, 0x20)\<close>.\<close>

definition yreturn :: "'a yul" where
  "yreturn = (\<lambda>m. Inl (m 0))"

definition calldataload :: "u256 list \<Rightarrow> u256 \<Rightarrow> u256" where
  "calldataload cd off = (if unat off div 32 < length cd then cd ! (unat off div 32) else 0)"

text \<open>
  The static calls to the precompiles 6, 7 and 8: they read their input from memory, and on success write
  their output to memory and give one.
\<close>

definition staticcall_6 :: "precompiles \<Rightarrow> u256 \<Rightarrow> u256 \<Rightarrow> u256 yul" where
  "staticcall_6 P inp out = (\<lambda>m.
     case ecAdd P (m inp) (m (inp + 32)) (m (inp + 64)) (m (inp + 96)) of
       None \<Rightarrow> Inr (0, m)
     | Some (x, y) \<Rightarrow> Inr (1, m(out := x, out + 32 := y)))"

definition staticcall_7 :: "precompiles \<Rightarrow> u256 \<Rightarrow> u256 \<Rightarrow> u256 yul" where
  "staticcall_7 P inp out = (\<lambda>m.
     case ecMul P (m inp) (m (inp + 32)) (m (inp + 64)) of
       None \<Rightarrow> Inr (0, m)
     | Some (x, y) \<Rightarrow> Inr (1, m(out := x, out + 32 := y)))"

definition staticcall_8 :: "precompiles \<Rightarrow> u256 \<Rightarrow> nat \<Rightarrow> u256 \<Rightarrow> u256 yul" where
  "staticcall_8 P inp words out = (\<lambda>m.
     case ecPairing P (map (\<lambda>i. m (inp + 32 * of_nat i)) [0..<words]) of
       None \<Rightarrow> Inr (0, m)
     | Some v \<Rightarrow> Inr (1, m(out := v)))"

section \<open>Verification key\<close>

definition scalar_field :: u256 where
  "scalar_field = 21888242871839275222246405745257275088548364400416034343698204186575808495617"

definition base_field :: u256 where
  "base_field = 21888242871839275222246405745257275088696311157297823662689037894645226208583"

definition alpha1 :: "u256 list" where
  "alpha1 =
    [20491192805390485299153009773594534940189261866228447918068658471970481763042,
     9383485363053290200918347156157836566562967994039712273449902621266178545958]"

definition beta2 :: "u256 list" where
  "beta2 =
    [4252822878758300859123897981450591353533073413197771768651442665752259397132,
     6375614351688725206403948262868962793625744043794305715222011528459656738731,
     21847035105528745403288232691147584728191162732299865338377159692350059136679,
     10505242626370262277552901082094356697409835680220590971873171140371331206856]"

definition gamma2 :: "u256 list" where
  "gamma2 =
    [11559732032986387107991004021392285783925812861821192530917403151452391805634,
     10857046999023057135944570762232829481370756359578518086990519993285655852781,
     4082367875863433681332203403145435568316851327593401208105741076214120093531,
     8495653923123431417604973247489272438418190587263600148770280649306958101930]"

definition delta2 :: "u256 list" where
  "delta2 =
    [1668323501672964604911431804142266013250380587483576094566949227275849579036,
     12043754404802191763554326994664886008979042643626290185762540825416902247219,
     7710631539206257456743780535472368339139328733484942210876916214502466455394,
     13740680757317479711909903993315946540841369848973133181051452051592786724563]"

text \<open>The points \<^verbatim>\<open>IC0\<close> to \<^verbatim>\<open>IC5\<close>.\<close>

definition IC :: "(u256 \<times> u256) list" where
  "IC =
    [(8446592859352799428420270221449902464741693648963397251242447530457567083492,
      1064796367193003797175961162477173481551615790032213185848276823815288302804),
     (3179835575189816632597428042194253779818690147323192973511715175294048485951,
      20895841676865356752879376687052266198216014795822152491318012491767775979074),
     (5332723250224941161709478398807683311971555792614491788690328996478511465287,
      21199491073419440416471372042641226693637837098357067793586556692319371762571),
     (12457994489566736295787256452575216703923664299075106359829199968023158780583,
      19706766271952591897761291684837117091856807401404423804318744964752784280790),
     (19617808913178163826953378459323299110911217259216006187355745713323154132237,
      21663537384585072695701846972542344484111393047775983928357046779215877070466),
     (6834578911681792552110317589222010969491336870276623105249474534788043166867,
      15060583660288623605191393599883223885678013570733629274538391874953353488393)]"

section \<open>The check\<close>

definition checkField :: "u256 \<Rightarrow> unit yul" where
  "checkField v = (if \<not> v < scalar_field then ybind (mstore 0 0) (\<lambda>_. yreturn) else yret ())"

definition g1_mulAccC :: "precompiles \<Rightarrow> u256 \<Rightarrow> u256 \<times> u256 \<Rightarrow> u256 \<Rightarrow> unit yul" where
  "g1_mulAccC P pR xy s =
     ybind (mload 0x40) (\<lambda>mIn.
     ybind (mstore mIn (fst xy)) (\<lambda>_.
     ybind (mstore (mIn + 32) (snd xy)) (\<lambda>_.
     ybind (mstore (mIn + 64) s) (\<lambda>_.
     ybind (staticcall_7 P mIn mIn) (\<lambda>success.
     ybind (if success = 0 then ybind (mstore 0 0) (\<lambda>_. yreturn) else yret ()) (\<lambda>_.
     ybind (mload pR) (\<lambda>x.
     ybind (mstore (mIn + 64) x) (\<lambda>_.
     ybind (mload (pR + 32)) (\<lambda>y.
     ybind (mstore (mIn + 96) y) (\<lambda>_.
     ybind (staticcall_6 P mIn pR) (\<lambda>success.
       if success = 0 then ybind (mstore 0 0) (\<lambda>_. yreturn) else yret ())))))))))))"

text \<open>A block of stores to consecutive words.\<close>

primrec mstores :: "u256 \<Rightarrow> u256 list \<Rightarrow> unit yul" where
  "mstores a [] = yret ()"
| "mstores a (v # vs) = ybind (mstore a v) (\<lambda>_. mstores (a + 32) vs)"

definition pVk :: u256 where
  "pVk = 0"

definition pPairing :: u256 where
  "pPairing = 128"

definition pLastMem :: u256 where
  "pLastMem = 896"

definition checkPairing ::
    "precompiles \<Rightarrow> u256 list \<Rightarrow> u256 \<Rightarrow> u256 \<Rightarrow> u256 \<Rightarrow> u256 \<Rightarrow> u256 \<Rightarrow> u256 yul" where
  "checkPairing P cd pA pB pC pubSignals pMem =
     (let pairing = pMem + pPairing; vk = pMem + pVk in
     ybind (mstore vk (fst (IC ! 0))) (\<lambda>_.
     ybind (mstore (vk + 32) (snd (IC ! 0))) (\<lambda>_.
     ybind (g1_mulAccC P vk (IC ! 1) (calldataload cd (pubSignals + 0))) (\<lambda>_.
     ybind (g1_mulAccC P vk (IC ! 2) (calldataload cd (pubSignals + 32))) (\<lambda>_.
     ybind (g1_mulAccC P vk (IC ! 3) (calldataload cd (pubSignals + 64))) (\<lambda>_.
     ybind (g1_mulAccC P vk (IC ! 4) (calldataload cd (pubSignals + 96))) (\<lambda>_.
     ybind (g1_mulAccC P vk (IC ! 5) (calldataload cd (pubSignals + 128))) (\<lambda>_.
     ybind (mstores pairing
       [calldataload cd pA, (base_field - calldataload cd (pA + 32)) mod base_field,
        calldataload cd pB, calldataload cd (pB + 32), calldataload cd (pB + 64), calldataload cd (pB + 96)]) (\<lambda>_.
     ybind (mstores (pairing + 192) alpha1) (\<lambda>_.
     ybind (mstores (pairing + 256) beta2) (\<lambda>_.
     ybind (mload (pMem + pVk)) (\<lambda>x.
     ybind (mstore (pairing + 384) x) (\<lambda>_.
     ybind (mload (pMem + (pVk + 32))) (\<lambda>y.
     ybind (mstore (pairing + 416) y) (\<lambda>_.
     ybind (mstores (pairing + 448) gamma2) (\<lambda>_.
     ybind (mstores (pairing + 576) [calldataload cd pC, calldataload cd (pC + 32)]) (\<lambda>_.
     ybind (mstores (pairing + 640) delta2) (\<lambda>_.
     ybind (staticcall_8 P pairing 24 pairing) (\<lambda>success.
     ybind (mload pairing) (\<lambda>v.
       yret (success AND v)))))))))))))))))))))"

definition verifyProof_body :: "precompiles \<Rightarrow> u256 list \<Rightarrow> u256 \<Rightarrow> u256 \<Rightarrow> u256 \<Rightarrow> u256 \<Rightarrow> unit yul" where
  "verifyProof_body P cd pA pB pC pubSignals =
     ybind (mload 0x40) (\<lambda>pMem.
     ybind (mstore 0x40 (pMem + pLastMem)) (\<lambda>_.
     ybind (checkField (calldataload cd (pubSignals + 0))) (\<lambda>_.
     ybind (checkField (calldataload cd (pubSignals + 32))) (\<lambda>_.
     ybind (checkField (calldataload cd (pubSignals + 64))) (\<lambda>_.
     ybind (checkField (calldataload cd (pubSignals + 96))) (\<lambda>_.
     ybind (checkField (calldataload cd (pubSignals + 128))) (\<lambda>_.
     ybind (checkField (calldataload cd (pubSignals + 160))) (\<lambda>_.
     ybind (checkPairing P cd pA pB pC pubSignals pMem) (\<lambda>isValid.
     ybind (mstore 0 isValid) (\<lambda>_. yreturn))))))))))"

text \<open>
  The external call: fresh memory with the free memory pointer, the arguments at their offsets in calldata,
  the returned word decoded as a boolean by the caller.
\<close>

definition entry_memory :: memory where
  "entry_memory = (\<lambda>_. 0)(0x40 := 0x80)"

definition abi_decode_bool :: "u256 \<Rightarrow> bool tx" where
  "abi_decode_bool v = (if v = 0 then Inr False else if v = 1 then Inr True else Inl Decode_failed)"

definition verifyProof :: "precompiles \<Rightarrow> u256 list \<Rightarrow> bool tx" where
  "verifyProof P cd =
     (if length cd < 13 then Inl Decode_failed
      else case verifyProof_body P cd 0 64 192 256 entry_memory of
             Inl v \<Rightarrow> abi_decode_bool v
           | Inr _ \<Rightarrow> Inl Decode_failed)"

section \<open>What the assembly computes\<close>

definition mulAcc :: "precompiles \<Rightarrow> u256 \<times> u256 \<Rightarrow> u256 \<times> u256 \<Rightarrow> u256 \<Rightarrow> (u256 \<times> u256) option" where
  "mulAcc P acc xy s =
     (case ecMul P (fst xy) (snd xy) s of None \<Rightarrow> None | Some (x, y) \<Rightarrow> ecAdd P x y (fst acc) (snd acc))"

fun linear_combination ::
    "precompiles \<Rightarrow> u256 \<times> u256 \<Rightarrow> (u256 \<times> u256) list \<Rightarrow> u256 list \<Rightarrow> (u256 \<times> u256) option" where
  "linear_combination P acc (xy # xys) (s # ss) =
     (case mulAcc P acc xy s of None \<Rightarrow> None | Some acc' \<Rightarrow> linear_combination P acc' xys ss)"
| "linear_combination P acc _ _ = Some acc"

definition pairing_input :: "u256 list \<Rightarrow> u256 list \<Rightarrow> u256 list \<Rightarrow> u256 \<times> u256 \<Rightarrow> u256 list" where
  "pairing_input a b c vk =
     [a ! 0, (base_field - a ! 1) mod base_field] @ b @ alpha1 @ beta2 @ [fst vk, snd vk] @ gamma2 @ c @ delta2"

definition groth16_valid :: "precompiles \<Rightarrow> u256 list \<Rightarrow> u256 list \<Rightarrow> u256 list \<Rightarrow> u256 list \<Rightarrow> bool" where
  "groth16_valid P a b c signals \<longleftrightarrow>
     list_all (\<lambda>s. s < scalar_field) signals \<and>
     (case linear_combination P (IC ! 0) (tl IC) signals of
        None \<Rightarrow> False
      | Some vk \<Rightarrow> (case ecPairing P (pairing_input a b c vk) of None \<Rightarrow> False | Some v \<Rightarrow> odd v))"

named_theorems yul_simps \<open>computation rules of the assembly operations\<close>

lemma yul_computation [yul_simps]:
  "yret x m = Inr (x, m)" "mload a m = Inr (m a, m)" "mstore a v m = Inr ((), m(a := v))"
  "yreturn m = Inl (m 0)"
  "ybind f g m = (case f m of Inl v \<Rightarrow> Inl v | Inr (x, m') \<Rightarrow> g x m')"
  by (auto simp: yret_def mload_def mstore_def yreturn_def ybind_def split: sum.splits)

lemma ybind_assoc: "ybind (ybind f g) h = ybind f (\<lambda>x. ybind (g x) h)"
  by (rule ext) (simp add: ybind_def rbind_assoc case_prod_unfold)

lemma ybind_yret [simp]: "ybind (yret x) f = f x"
  by (rule ext) (simp add: ybind_def yret_def)

text \<open>The accumulator lies at the start of the block, the scratch area behind it.\<close>

definition acc_at :: "u256 \<times> u256 \<Rightarrow> memory \<Rightarrow> bool" where
  "acc_at v m \<longleftrightarrow> m 0x40 = 0x400 \<and> m 0x80 = fst v \<and> m 0xa0 = snd v"

lemma g1_mulAccC_spec:
  assumes "acc_at acc m"
  shows "mulAcc P acc xy s = None \<Longrightarrow> g1_mulAccC P 0x80 xy s m = Inl 0"
    and "mulAcc P acc xy s = Some acc' \<Longrightarrow> \<exists>m'. g1_mulAccC P 0x80 xy s m = Inr ((), m') \<and> acc_at acc' m'"
  using assms
  by (auto simp: g1_mulAccC_def mulAcc_def acc_at_def staticcall_6_def staticcall_7_def yul_simps
      split: option.splits prod.splits)

primrec mulAccs :: "precompiles \<Rightarrow> u256 \<Rightarrow> ((u256 \<times> u256) \<times> u256) list \<Rightarrow> unit yul" where
  "mulAccs P pR [] = yret ()"
| "mulAccs P pR (t # ts) = ybind (g1_mulAccC P pR (fst t) (snd t)) (\<lambda>_. mulAccs P pR ts)"

lemma mulAccs_spec:
  assumes "acc_at acc m" and "length xys = length ss"
  shows "linear_combination P acc xys ss = None \<Longrightarrow> mulAccs P 0x80 (zip xys ss) m = Inl 0"
    and "linear_combination P acc xys ss = Some acc' \<Longrightarrow>
      \<exists>m'. mulAccs P 0x80 (zip xys ss) m = Inr ((), m') \<and> acc_at acc' m'"
  using assms(2,1)
proof (induction xys ss arbitrary: acc m rule: list_induct2)
  case Nil
  { case 1 then show ?case by simp }
  { case 2 then show ?case by (simp add: yul_simps) }
next
  case (Cons xy xys s ss)
  { case 1
    then show ?case
      using g1_mulAccC_spec [OF 1(2), of P xy s] Cons.IH(1)
      by (fastforce simp: yul_simps split: option.splits) }
  { case 2
    then show ?case
      using g1_mulAccC_spec [OF 2(2), of P xy s] Cons.IH(2)
      by (fastforce simp: yul_simps split: option.splits) }
qed

text \<open>The part of \<^verbatim>\<open>checkPairing\<close> after the linear combination.\<close>

definition evaluate_pairing :: "precompiles \<Rightarrow> u256 list \<Rightarrow> u256 list \<Rightarrow> u256 list \<Rightarrow> u256 yul" where
  "evaluate_pairing P a b c =
     ybind (mstores 0x100 ([a ! 0, (base_field - a ! 1) mod base_field] @ b)) (\<lambda>_.
     ybind (mstores 0x1c0 alpha1) (\<lambda>_.
     ybind (mstores 0x200 beta2) (\<lambda>_.
     ybind (mload 0x80) (\<lambda>x.
     ybind (mstore 0x280 x) (\<lambda>_.
     ybind (mload 0xa0) (\<lambda>y.
     ybind (mstore 0x2a0 y) (\<lambda>_.
     ybind (mstores 0x2c0 gamma2) (\<lambda>_.
     ybind (mstores 0x340 c) (\<lambda>_.
     ybind (mstores 0x380 delta2) (\<lambda>_.
     ybind (staticcall_8 P 0x100 24 0x100) (\<lambda>success.
     ybind (mload 0x100) (\<lambda>v.
       yret (success AND v)))))))))))))"

lemma evaluate_pairing_spec:
  assumes "acc_at vk m" and "b = [b0, b1, b2, b3]" and "c = [c0, c1]"
  shows "\<exists>m'. evaluate_pairing P a b c m =
    Inr (case ecPairing P (pairing_input a b c vk) of None \<Rightarrow> 0 | Some v \<Rightarrow> 1 AND v, m')"
proof -
  have offsets: "[0..<24] = [0,1,2,3,4,5,6,7,8,9,10,11,12,13,14,15,16,17,18,19,20,21,22,23 :: nat]"
    by (simp add: upt_rec)
  show ?thesis
    using assms(1) unfolding assms(2,3)
    by (simp add: evaluate_pairing_def yul_simps alpha1_def beta2_def gamma2_def delta2_def acc_at_def
        staticcall_8_def offsets pairing_input_def split: option.splits)
qed

lemma checkPairing_stages:
  assumes "cd = a @ b @ c @ signals @ extra" and "length a = 2" and "length b = 4" and "length c = 2"
    and "length signals = 5"
  shows "checkPairing P cd 0 64 192 256 0x80 =
    ybind (mstore 0x80 (fst (IC ! 0))) (\<lambda>_. ybind (mstore 0xa0 (snd (IC ! 0))) (\<lambda>_.
    ybind (mulAccs P 0x80 (zip (tl IC) signals)) (\<lambda>_. evaluate_pairing P a b c)))"
proof -
  obtain a0 a1 b0 b1 b2 b3 c0 c1 s0 s1 s2 s3 s4 where parts: "a = [a0, a1]" "b = [b0, b1, b2, b3]"
      "c = [c0, c1]" "signals = [s0, s1, s2, s3, s4]"
    using assms(2-5) by (auto simp: length_Suc_conv numeral_eq_Suc)
  have load: "calldataload cd 0 = a0" "calldataload cd 32 = a1" "calldataload cd 64 = b0" "calldataload cd 96 = b1"
      "calldataload cd 128 = b2" "calldataload cd 160 = b3" "calldataload cd 192 = c0" "calldataload cd 224 = c1"
      "calldataload cd 256 = s0" "calldataload cd 288 = s1" "calldataload cd 320 = s2" "calldataload cd 352 = s3"
      "calldataload cd 384 = s4"
    by (simp_all add: calldataload_def assms(1) parts)
  have tl: "zip (tl IC) signals = [(IC ! 1, s0), (IC ! 2, s1), (IC ! 3, s2), (IC ! 4, s3), (IC ! 5, s4)]"
    by (simp add: IC_def parts)
  show ?thesis
    unfolding tl unfolding parts
    by (simp add: checkPairing_def evaluate_pairing_def pVk_def pPairing_def load ybind_assoc)
qed

lemma checkPairing_spec:
  assumes "cd = a @ b @ c @ signals @ extra" and "length a = 2" and "length b = 4" and "length c = 2"
    and "length signals = 5" and "m 0x40 = 0x400"
  shows "linear_combination P (IC ! 0) (tl IC) signals = None \<Longrightarrow> checkPairing P cd 0 64 192 256 0x80 m = Inl 0"
    and "linear_combination P (IC ! 0) (tl IC) signals = Some vk \<Longrightarrow>
      \<exists>m'. checkPairing P cd 0 64 192 256 0x80 m =
        Inr (case ecPairing P (pairing_input a b c vk) of None \<Rightarrow> 0 | Some v \<Rightarrow> 1 AND v, m')"
proof -
  let ?m = "m(0x80 := fst (IC ! 0), 0xa0 := snd (IC ! 0))"
  have acc: "acc_at (IC ! 0) ?m" using assms(6) by (simp add: acc_at_def)
  have len: "length (tl IC) = length signals" using assms(5) by (simp add: IC_def)
  note stages = checkPairing_stages [OF assms(1-5)] yul_simps
  show "checkPairing P cd 0 64 192 256 0x80 m = Inl 0" if "linear_combination P (IC ! 0) (tl IC) signals = None"
    using mulAccs_spec(1) [OF acc len that] by (simp add: stages)
  obtain b0 b1 b2 b3 c0 c1 where bc: "b = [b0, b1, b2, b3]" "c = [c0, c1]"
    using assms(3,4) by (auto simp: length_Suc_conv numeral_eq_Suc)
  show "\<exists>m'. checkPairing P cd 0 64 192 256 0x80 m =
        Inr (case ecPairing P (pairing_input a b c vk) of None \<Rightarrow> 0 | Some v \<Rightarrow> 1 AND v, m')"
    if "linear_combination P (IC ! 0) (tl IC) signals = Some vk"
    using mulAccs_spec(2) [OF acc len that] evaluate_pairing_spec [OF _ bc, of vk _ P a] by (auto simp: stages)
qed

lemma checkField_spec: "ybind (checkField s) f m = (if s < scalar_field then f () m else Inl 0)"
  by (simp add: checkField_def yul_simps)

lemma verifyProof_body_fields:
  "verifyProof_body P cd 0 64 192 256 entry_memory =
    (if list_all (\<lambda>off. calldataload cd off < scalar_field) [256, 288, 320, 352, 384, 416]
     then ybind (checkPairing P cd 0 64 192 256 0x80) (\<lambda>v. ybind (mstore 0 v) (\<lambda>_. yreturn)) (entry_memory(0x40 := 0x400))
     else Inl 0)"
proof -
  have "entry_memory 0x40 = 0x80" by (simp add: entry_memory_def)
  then have "verifyProof_body P cd 0 64 192 256 entry_memory =
      ybind (checkField (calldataload cd 256)) (\<lambda>_. ybind (checkField (calldataload cd 288)) (\<lambda>_.
      ybind (checkField (calldataload cd 320)) (\<lambda>_. ybind (checkField (calldataload cd 352)) (\<lambda>_.
      ybind (checkField (calldataload cd 384)) (\<lambda>_. ybind (checkField (calldataload cd 416)) (\<lambda>_.
      ybind (checkPairing P cd 0 64 192 256 0x80) (\<lambda>v. ybind (mstore 0 v) (\<lambda>_. yreturn)))))))) (entry_memory(0x40 := 0x400))"
    by (simp add: verifyProof_body_def yul_simps(1-4) pLastMem_def yul_simps(5) [of "mload _"] yul_simps(5) [of "mstore _ _"])
  then show ?thesis by (simp add: checkField_spec)
qed

lemma and_one_word: "1 AND v = (if odd v then 1 else 0)" for v :: u256
  by (simp add: and.commute [of 1] and_one_eq odd_iff_mod_2_eq_one)

lemma abi_decode_bool_bit [simp]: "abi_decode_bool (1 AND v) = Inr (odd v)"
  by (simp add: abi_decode_bool_def and_one_word)

lemma verifyProof_spec:
  assumes "length a = 2" and "length b = 4" and "length c = 2" and "length signals = 5"
  shows "verifyProof P (a @ b @ c @ signals @ extra) =
    Inr (groth16_valid P a b c signals \<and> (case extra of [] \<Rightarrow> True | s # _ \<Rightarrow> s < scalar_field))"
proof -
  let ?cd = "a @ b @ c @ signals @ extra"
  obtain s0 s1 s2 s3 s4 where signals: "signals = [s0, s1, s2, s3, s4]"
    using assms(4) by (auto simp: length_Suc_conv numeral_eq_Suc)
  have load: "calldataload ?cd 256 = s0" "calldataload ?cd 288 = s1" "calldataload ?cd 320 = s2"
      "calldataload ?cd 352 = s3" "calldataload ?cd 384 = s4"
      "calldataload ?cd 416 = (case extra of [] \<Rightarrow> 0 | s # _ \<Rightarrow> s)"
    using assms(1-3) by (auto simp: calldataload_def signals nth_append split: list.splits)
  have zero: "0 < scalar_field" by (simp add: scalar_field_def)
  let ?m = "entry_memory(0x40 := 0x400)"
  have m: "?m 0x40 = 0x400" by simp
  note spec = checkPairing_spec [where m = ?m and cd = ?cd and extra = extra, OF refl assms m]
  define field where "field \<longleftrightarrow> list_all (\<lambda>s. s < scalar_field) signals \<and> (case extra of [] \<Rightarrow> True | s # _ \<Rightarrow> s < scalar_field)"
  have "list_all (\<lambda>off. calldataload ?cd off < scalar_field) [256, 288, 320, 352, 384, 416] \<longleftrightarrow> field"
    using zero by (simp only: load list.pred_inject) (auto simp: field_def signals split: list.splits)
  note body = verifyProof_body_fields [of P ?cd, unfolded this]
  show ?thesis
  proof (cases "linear_combination P (IC ! 0) (tl IC) signals")
    case None
    then show ?thesis
      using spec(1) assms by (auto simp: verifyProof_def body yul_simps abi_decode_bool_def groth16_valid_def)
  next
    case (Some vk)
    obtain m' where "checkPairing P ?cd 0 64 192 256 0x80 ?m =
        Inr (case ecPairing P (pairing_input a b c vk) of None \<Rightarrow> 0 | Some v \<Rightarrow> 1 AND v, m')"
      using spec(2) [OF Some] by blast
    with Some show ?thesis
      using assms
      by (auto simp: verifyProof_def body yul_simps groth16_valid_def field_def abi_decode_bool_def and_one_word
          split: option.splits)
  qed
qed

text \<open>
  C8: The assembly of the proof check is correct with respect to the Groth16 equation. Its memory layout
  keeps accumulator, scratch area and pairing input apart, so the call returns true exactly if every public
  signal is in the scalar field, the multiplications and additions of the verification key with the signals
  succeed, and the pairing precompile accepts the 24 words that it is given: the negated first proof point,
  the second, the key's constants, the linear combination, and the third. A word after the signals, when
  there is one, must be in the field as well. In every other case, failing precompiles included, the call
  returns false; it never returns anything else.
\<close>

theorem verifyProof_refines_equation:
  assumes "length a = 2" and "length b = 4" and "length c = 2" and "length signals = 5"
  shows "verifyProof P (a @ b @ c @ signals @ extra) =
    Inr (groth16_valid P a b c signals \<and> (case extra of [] \<Rightarrow> True | s # _ \<Rightarrow> s < scalar_field))"
  using assms by (rule verifyProof_spec)

definition ex_precompiles :: precompiles where
  "ex_precompiles =
     \<lparr>ecAdd = (\<lambda>x1 y1 x2 y2. Some (x1 + x2, y1 + y2)), ecMul = (\<lambda>x y s. if s = 3 then None else Some (s, 0)),
      ecPairing = (\<lambda>ws. if ws ! 0 = 7 then Some (if ws ! 12 = fst (IC ! 0) + 6 then 1 else 0) else None)\<rparr>"

theorem verifyProof_refines_equation_witness:
  "verifyProof ex_precompiles ([7, 1] @ [0, 0, 0, 0] @ [0, 0] @ [2, 1, 1, 1, 1] @ []) = Inr True \<and>
   verifyProof ex_precompiles ([8, 1] @ [0, 0, 0, 0] @ [0, 0] @ [2, 1, 1, 1, 1] @ []) = Inr False \<and>
   verifyProof ex_precompiles ([7, 1] @ [0, 0, 0, 0] @ [0, 0] @ [3, 1, 1, 1, 1] @ []) = Inr False"
proof -
  note run = verifyProof_refines_equation [of "[_, 1]" "[0, 0, 0, 0]" "[0, 0]" "[_, 1, 1, 1, 1]" ex_precompiles "[]"]
  have "groth16_valid ex_precompiles [7, 1] [0, 0, 0, 0] [0, 0] [2, 1, 1, 1, 1]"
      "\<not> groth16_valid ex_precompiles [8, 1] [0, 0, 0, 0] [0, 0] [2, 1, 1, 1, 1]"
      "\<not> groth16_valid ex_precompiles [7, 1] [0, 0, 0, 0] [0, 0] [3, 1, 1, 1, 1]"
    by (simp_all add: groth16_valid_def ex_precompiles_def mulAcc_def pairing_input_def IC_def alpha1_def beta2_def
        scalar_field_def)
  then show ?thesis
    using run by simp
qed

section \<open>The verifier contract\<close>

record Seal =
  seal_a :: "u256 list"
  seal_b :: "u256 list"
  seal_c :: "u256 list"

text \<open>\<^verbatim>\<open>abi.decode(seal[4:], (Seal))\<close>: eight words in place; bytes after them are ignored.\<close>

definition abi_decode_Seal :: "u8 list \<Rightarrow> Seal option" where
  "abi_decode_Seal bs =
     (case words_of bs of
        a0 # a1 # b00 # b01 # b10 # b11 # c0 # c1 # _ \<Rightarrow>
          Some \<lparr>seal_a = [a0, a1], seal_b = [b00, b01, b10, b11], seal_c = [c0, c1]\<rparr>
      | _ \<Rightarrow> None)"

record groth16_verifier =
  CONTROL_ROOT_0 :: "128 word"
  CONTROL_ROOT_1 :: "128 word"
  BN254_CONTROL_ID :: bytes32
  SELECTOR :: bytes4

definition splitDigest :: "bytes32 \<Rightarrow> 128 word \<times> 128 word" where
  "splitDigest digest =
     (let reversed = reverseByteOrderUint256 digest in (ucast reversed, ucast (drop_bit 128 reversed)))"

definition point_digest :: "(u8 list \<Rightarrow> bytes32) \<Rightarrow> u256 list \<Rightarrow> bytes32" where
  "point_digest sha256 ws = sha256 (abi_words ws)"

definition verifier_key_digest :: "(u8 list \<Rightarrow> bytes32) \<Rightarrow> bytes32 tx option" where
  "verifier_key_digest sha256 =
     (let ic_digests = map (\<lambda>(x, y). point_digest sha256 [x, y]) IC in
      case taggedList sha256 (sha256 (string_bytes ''risc0_groth16.VerifyingKey.IC'')) ic_digests of
        None \<Rightarrow> None
      | Some r \<Rightarrow> Some (rbind r (\<lambda>ic.
          Inr (sha256 (to_be_bytes (sha256 (string_bytes ''risc0_groth16.VerifyingKey'')) @
            to_be_bytes (point_digest sha256 alpha1) @ to_be_bytes (point_digest sha256 beta2) @
            to_be_bytes (point_digest sha256 gamma2) @ to_be_bytes (point_digest sha256 delta2) @
            to_be_bytes ic @ to_be_bytes (push_bit 8 5 :: u16))))))"

definition groth16_constructor :: "(u8 list \<Rightarrow> bytes32) \<Rightarrow> bytes32 \<Rightarrow> bytes32 \<Rightarrow> groth16_verifier tx option" where
  "groth16_constructor sha256 control_root bn254_control_id =
     (let (r0, r1) = splitDigest control_root in
      case verifier_key_digest sha256 of
        None \<Rightarrow> None
      | Some r \<Rightarrow> Some (rbind r (\<lambda>key.
          Inr \<lparr>CONTROL_ROOT_0 = r0, CONTROL_ROOT_1 = r1, BN254_CONTROL_ID = bn254_control_id,
               SELECTOR = ucast (drop_bit 224 (sha256
                 (to_be_bytes (sha256 (string_bytes ''risc0.Groth16ReceiptVerifierParameters'')) @
                  to_be_bytes control_root @ to_be_bytes (reverseByteOrderUint256 bn254_control_id) @
                  to_be_bytes key @ to_be_bytes (push_bit 8 3 :: u16))))\<rparr>)))"

definition CONTROL_ROOT :: bytes32 where
  "CONTROL_ROOT = 0x8b6dcf11d463ac455361b41fb3ed053febb817491bdea00fdb340e45013b852e"

definition ControlID_BN254 :: bytes32 where
  "ControlID_BN254 = 0x05a022e1db38457fb510bc347b30eb8f8cf3eda95587653d0eac19e1f10d164e"

definition groth16_signals :: "groth16_verifier \<Rightarrow> bytes32 \<Rightarrow> u256 list" where
  "groth16_signals G claimDigest =
     (let (claim0, claim1) = splitDigest claimDigest in
      [ucast (CONTROL_ROOT_0 G), ucast (CONTROL_ROOT_1 G), ucast claim0, ucast claim1, BN254_CONTROL_ID G])"

definition groth16_verifyIntegrity :: "precompiles \<Rightarrow> groth16_verifier \<Rightarrow> u8 list \<Rightarrow> bytes32 \<Rightarrow> unit tx" where
  "groth16_verifyIntegrity P G seal claimDigest =
     rbind (calldata_selector seal) (\<lambda>received.
     rbind (require (SELECTOR G = received) (SelectorMismatch received (SELECTOR G))) (\<lambda>_.
     case abi_decode_Seal (drop 4 seal) of
       None \<Rightarrow> Inl Decode_failed
     | Some s \<Rightarrow>
         rbind (verifyProof P (seal_a s @ seal_b s @ seal_c s @ groth16_signals G claimDigest)) (\<lambda>verified.
           require verified VerificationFailed)))"

definition groth16_verify ::
    "precompiles \<Rightarrow> (u8 list \<Rightarrow> bytes32) \<Rightarrow> groth16_verifier \<Rightarrow> u8 list \<Rightarrow> bytes32 \<Rightarrow> bytes32 \<Rightarrow> unit tx" where
  "groth16_verify P sha256 G seal imageId journal_digest =
     groth16_verifyIntegrity P G seal (ReceiptClaim_digest sha256 (ReceiptClaim_ok sha256 imageId journal_digest))"

section \<open>Properties of the contract\<close>

lemma abi_decode_Seal_None: "abi_decode_Seal bs = None \<longleftrightarrow> length bs < 256"
proof -
  have "length (words_of bs) < 8 \<longleftrightarrow> length bs < 256" by (simp add: length_words_of div_less_iff_less_mult)
  moreover have "abi_decode_Seal bs = None \<longleftrightarrow> length (words_of bs) < 8"
    by (auto simp: abi_decode_Seal_def numeral_eq_Suc split: list.splits)
  ultimately show ?thesis by simp
qed

lemma abi_decode_Seal_lengths:
  "abi_decode_Seal bs = Some s \<Longrightarrow> length (seal_a s) = 2 \<and> length (seal_b s) = 4 \<and> length (seal_c s) = 2"
  by (auto simp: abi_decode_Seal_def split: list.splits)

lemma half_in_field: "(ucast (h :: 128 word) :: u256) < scalar_field"
proof -
  have "unat (ucast h :: u256) = unat h" by (rule unat_ucast_widen) simp
  moreover have "unat h < 2 ^ 128" using unsigned_less [of h, where ?'a = nat] by simp
  ultimately show ?thesis by (simp add: word_less_nat_alt scalar_field_def)
qed

lemma splitDigest_bytes:
  "to_be_bytes (fst (splitDigest d)) = rev (take 16 (to_be_bytes d))"
  "to_be_bytes (snd (splitDigest d)) = rev (drop 16 (to_be_bytes d))"
  by (simp add: splitDigest_def Let_def to_be_bytes_halves(1) reverseByteOrderUint256_bytes drop_rev)
    (simp add: splitDigest_def Let_def to_be_bytes_halves(2) reverseByteOrderUint256_bytes take_rev)

lemma splitDigest_inject: "splitDigest d = splitDigest e \<longleftrightarrow> d = e"
proof
  assume eq: "splitDigest d = splitDigest e"
  then have "take 16 (to_be_bytes d) = take 16 (to_be_bytes e)" and "drop 16 (to_be_bytes d) = drop 16 (to_be_bytes e)"
    using splitDigest_bytes [of d] splitDigest_bytes [of e] by simp_all
  then have "to_be_bytes d = to_be_bytes e" by (metis append_take_drop_id)
  then show "d = e" by (simp add: u256_be.enc_eq_iff)
qed simp

lemma groth16_constructor_returns:
  obtains G where "groth16_constructor sha256 control_root bn254 = Some (Inr G)"
    "BN254_CONTROL_ID G = bn254" "(CONTROL_ROOT_0 G, CONTROL_ROOT_1 G) = splitDigest control_root"
proof -
  have "\<exists>key. verifier_key_digest sha256 = Some (Inr key)"
    by (simp add: verifier_key_digest_def taggedList_def taggedList_loop_returns IC_def)
  then show thesis
    using that by (auto simp: groth16_constructor_def case_prod_unfold Let_def)
qed

text \<open>The Groth16 equation alone, without the range checks on the signals.\<close>

definition groth16_equation :: "precompiles \<Rightarrow> u256 list \<Rightarrow> u256 list \<Rightarrow> u256 list \<Rightarrow> u256 list \<Rightarrow> bool" where
  "groth16_equation P a b c signals \<longleftrightarrow>
     (case linear_combination P (IC ! 0) (tl IC) signals of
        None \<Rightarrow> False
      | Some vk \<Rightarrow> (case ecPairing P (pairing_input a b c vk) of None \<Rightarrow> False | Some v \<Rightarrow> odd v))"

lemma groth16_valid_equation:
  "groth16_valid P a b c signals \<longleftrightarrow> list_all (\<lambda>s. s < scalar_field) signals \<and> groth16_equation P a b c signals"
  by (simp add: groth16_valid_def groth16_equation_def)

lemma groth16_signals_in_field:
  "list_all (\<lambda>s. s < scalar_field) (groth16_signals G d) \<longleftrightarrow> BN254_CONTROL_ID G < scalar_field"
  by (simp add: groth16_signals_def case_prod_unfold Let_def half_in_field)

lemma length_groth16_signals: "length (groth16_signals G d) = 5"
  by (simp add: groth16_signals_def case_prod_unfold Let_def)

lemma verifyProof_exact:
  assumes "length a = 2" and "length b = 4" and "length c = 2" and "length signals = 5"
  shows "verifyProof P (a @ b @ c @ signals) = Inr (groth16_valid P a b c signals)"
  using verifyProof_spec [OF assms, of P "[]"] by simp

lemma groth16_verifyIntegrity_cases:
  assumes "BN254_CONTROL_ID G < scalar_field"
  shows "groth16_verifyIntegrity P G seal d =
    (if length seal < 4 then Inl Calldata_out_of_range
     else if SELECTOR G \<noteq> from_be_bytes (take 4 seal)
     then Inl (SelectorMismatch (from_be_bytes (take 4 seal)) (SELECTOR G))
     else case abi_decode_Seal (drop 4 seal) of
            None \<Rightarrow> Inl Decode_failed
          | Some s \<Rightarrow>
              if groth16_equation P (seal_a s) (seal_b s) (seal_c s) (groth16_signals G d) then Inr ()
              else Inl VerificationFailed)"
proof (cases "abi_decode_Seal (drop 4 seal)")
  case None
  then show ?thesis by (simp add: groth16_verifyIntegrity_def calldata_selector_def require_def)
next
  case (Some s)
  from abi_decode_Seal_lengths [OF Some] assms
  have "verifyProof P (seal_a s @ seal_b s @ seal_c s @ groth16_signals G d) =
      Inr (groth16_equation P (seal_a s) (seal_b s) (seal_c s) (groth16_signals G d))"
    by (simp add: verifyProof_exact length_groth16_signals groth16_valid_equation groth16_signals_in_field)
  with Some show ?thesis by (simp add: groth16_verifyIntegrity_def calldata_selector_def require_def)
qed

lemma control_id_in_field:
  assumes "groth16_constructor sha CONTROL_ROOT ControlID_BN254 = Some (Inr G)"
  shows "BN254_CONTROL_ID G < scalar_field"
proof -
  obtain G' where "groth16_constructor sha CONTROL_ROOT ControlID_BN254 = Some (Inr G')"
      and "BN254_CONTROL_ID G' = ControlID_BN254"
    by (rule groth16_constructor_returns)
  with assms show ?thesis by (simp add: ControlID_BN254_def scalar_field_def)
qed

text \<open>
  C12: What the deployed verifier decides. Constructed with the repository's control ids, it accepts a seal
  for an image and a journal digest exactly if the seal has at least 260 bytes, starts with its selector,
  and its eight words satisfy the Groth16 equation for the control root, the two halves of the claim digest
  and the control id; the range checks never reject. Every other seal is refused, with the reason that the
  first failing check gives.
\<close>

theorem groth16_verifier_decides:
  assumes "groth16_constructor sha256 CONTROL_ROOT ControlID_BN254 = Some (Inr G)"
  shows "groth16_verify P sha256 G seal imageId jd =
    (if length seal < 4 then Inl Calldata_out_of_range
     else if SELECTOR G \<noteq> from_be_bytes (take 4 seal)
     then Inl (SelectorMismatch (from_be_bytes (take 4 seal)) (SELECTOR G))
     else if length seal < 260 then Inl Decode_failed
     else if \<exists>s. abi_decode_Seal (drop 4 seal) = Some s \<and>
            groth16_equation P (seal_a s) (seal_b s) (seal_c s)
              (groth16_signals G (ReceiptClaim_digest sha256 (ReceiptClaim_ok sha256 imageId jd)))
     then Inr () else Inl VerificationFailed)"
  using abi_decode_Seal_None [of "drop 4 seal"]
  by (auto simp: groth16_verify_def groth16_verifyIntegrity_cases [OF control_id_in_field [OF assms]] split: option.splits)

text \<open>Precompiles that accept every signal and exactly the proofs whose first word is seven.\<close>

definition ex_lenient :: precompiles where
  "ex_lenient = \<lparr>ecAdd = (\<lambda>_ _ _ _. Some (0, 0)), ecMul = (\<lambda>_ _ _. Some (0, 0)),
     ecPairing = (\<lambda>ws. Some (if ws ! 0 = 7 then 1 else 0))\<rparr>"

lemma ex_lenient_equation: "length signals = 5 \<Longrightarrow> groth16_equation ex_lenient a b c signals \<longleftrightarrow> a ! 0 = 7"
  by (auto simp: groth16_equation_def ex_lenient_def IC_def mulAcc_def pairing_input_def length_Suc_conv numeral_eq_Suc
      split: if_splits)

lemma seal_words:
  "abi_decode_Seal (abi_words [a0, a1, b0, b1, b2, b3, c0, c1] @ extra) =
     Some \<lparr>seal_a = [a0, a1], seal_b = [b0, b1, b2, b3], seal_c = [c0, c1]\<rparr>"
  by (simp add: abi_decode_Seal_def words_of_append)

theorem groth16_verifier_decides_witness:
  "\<exists>G. groth16_constructor ex_sha CONTROL_ROOT ControlID_BN254 = Some (Inr G) \<and>
     groth16_verify ex_lenient ex_sha G (to_be_bytes (SELECTOR G) @ abi_words [7, 1, 0, 0, 0, 0, 0, 0]) 4 5 = Inr () \<and>
     groth16_verify ex_lenient ex_sha G (to_be_bytes (SELECTOR G) @ abi_words [8, 1, 0, 0, 0, 0, 0, 0]) 4 5 = Inl VerificationFailed \<and>
     groth16_verify ex_lenient ex_sha G (to_be_bytes (SELECTOR G) @ abi_words [7, 1]) 4 5 = Inl Decode_failed"
proof -
  obtain G where G: "groth16_constructor ex_sha CONTROL_ROOT ControlID_BN254 = Some (Inr G)"
    by (rule groth16_constructor_returns)
  have "abi_decode_Seal (abi_words [a0, 1, 0, 0, 0, 0, 0, 0]) =
      Some \<lparr>seal_a = [a0, 1], seal_b = [0, 0, 0, 0], seal_c = [0, 0]\<rparr>" for a0
    using seal_words [of a0 1 0 0 0 0 0 0 "[]"] by simp
  then show ?thesis
    using G groth16_verifier_decides [OF G, of ex_lenient _ 4 5]
    by (intro exI [of _ G]) (simp add: from_to_be_bytes ex_lenient_equation length_groth16_signals)
qed

text \<open>
  C30: The public signals determine the claim. \<^verbatim>\<open>splitDigest\<close> gives the two halves of the digest with
  their bytes reversed; both are below the scalar field's order, so the range check accepts them for every
  digest, and two digests with the same signals are equal: no proof can be moved to another claim by
  reducing a signal.
\<close>

theorem claim_signals_bind:
  "to_be_bytes (fst (splitDigest d)) = rev (take 16 (to_be_bytes d)) \<and>
   to_be_bytes (snd (splitDigest d)) = rev (drop 16 (to_be_bytes d)) \<and>
   ucast (fst (splitDigest d)) < scalar_field \<and> ucast (snd (splitDigest d)) < scalar_field \<and>
   (groth16_signals G d = groth16_signals G e \<longleftrightarrow> d = e)"
proof -
  have "x = y" if "(ucast x :: u256) = ucast y" for x y :: "128 word"
  proof -
    have "unat (ucast x :: u256) = unat (ucast y :: u256)" by (simp only: that)
    then show ?thesis by (simp add: unat_ucast_widen word_unat_eq_iff)
  qed
  then have "groth16_signals G d = groth16_signals G e \<longleftrightarrow> splitDigest d = splitDigest e"
    by (auto simp: groth16_signals_def case_prod_unfold Let_def prod_eq_iff)
  then show ?thesis by (simp add: splitDigest_bytes half_in_field splitDigest_inject)
qed

text \<open>The negated coordinate does not change when the base field's order is subtracted with wrap-around.\<close>

lemma negated_alias:
  assumes "a1 < base_field"
  shows "(base_field - (a1 - base_field)) mod base_field = (base_field - a1) mod base_field"
proof -
  let ?x = "base_field - a1"
  have x: "unat ?x = unat base_field - unat a1" "unat a1 \<le> unat base_field"
    using unat_sub_exact [of a1 base_field] assms by simp_all
  have "unat base_field + unat base_field < 2 ^ 256" by (simp add: base_field_def)
  then have "unat (?x + base_field) = unat ?x + unat base_field"
    using x by (intro unat_add_exact) simp
  then have "(?x + base_field) mod base_field = ?x mod base_field"
    by (simp add: word_unat_eq_iff unat_mod_distrib)
  moreover have "base_field - (a1 - base_field) = ?x + base_field" by simp
  ultimately show ?thesis by simp
qed

text \<open>
  An accepted seal is not the only one. The verifier ignores bytes behind the eight words, and it
  negates the second coordinate of the first point modulo the base field without checking its range, so the
  coordinate minus the field's order, taken modulo two to the 256, gives another accepted seal for the same
  claim. Seals therefore identify claims but not proofs.
\<close>

lemma groth16_seal_malleable:
  assumes "groth16_verifyIntegrity P G (to_be_bytes (SELECTOR G) @ abi_words [a0, a1, b0, b1, b2, b3, c0, c1]) d = Inr ()"
    and "a1 < base_field" and "BN254_CONTROL_ID G < scalar_field"
  shows "groth16_verifyIntegrity P G (to_be_bytes (SELECTOR G) @
      abi_words [a0, a1 - base_field, b0, b1, b2, b3, c0, c1] @ extra) d = Inr () \<and> a1 - base_field \<noteq> a1"
proof -
  have "pairing_input [a0, a1 - base_field] b c vk = pairing_input [a0, a1] b c vk" for b c vk
    using negated_alias [OF assms(2)] by (simp add: pairing_input_def)
  then have "groth16_equation P [a0, a1 - base_field] b c signals = groth16_equation P [a0, a1] b c signals" for b c signals
    by (cases "linear_combination P (IC ! 0) (tl IC) signals") (simp_all add: groth16_equation_def)
  moreover have "base_field \<noteq> 0" by (simp add: base_field_def)
  ultimately show ?thesis
    using assms(1) seal_words [of a0 a1 b0 b1 b2 b3 c0 c1 "[]"]
    by (auto simp: groth16_verifyIntegrity_cases [OF assms(3)] seal_words from_to_be_bytes split: if_splits)
qed

lemma groth16_seal_malleable_witness:
  "\<exists>G. groth16_verifyIntegrity ex_lenient G (to_be_bytes (SELECTOR G) @ abi_words [7, 1, 0, 0, 0, 0, 0, 0]) 9 = Inr () \<and>
     groth16_verifyIntegrity ex_lenient G (to_be_bytes (SELECTOR G) @
       abi_words [7, 1 - base_field, 0, 0, 0, 0, 0, 0] @ [1, 2, 3]) 9 = Inr ()"
proof -
  obtain G where G: "groth16_constructor ex_sha CONTROL_ROOT ControlID_BN254 = Some (Inr G)"
      "BN254_CONTROL_ID G = ControlID_BN254"
    by (rule groth16_constructor_returns)
  then have small: "BN254_CONTROL_ID G < scalar_field" by (simp add: ControlID_BN254_def scalar_field_def)
  have accepted: "groth16_verifyIntegrity ex_lenient G (to_be_bytes (SELECTOR G) @ abi_words [7, 1, 0, 0, 0, 0, 0, 0]) 9 = Inr ()"
    using seal_words [of 7 1 0 0 0 0 0 0 "[]"]
    by (simp add: groth16_verifyIntegrity_cases [OF small] from_to_be_bytes ex_lenient_equation length_groth16_signals)
  have "(1 :: u256) < base_field" by (simp add: base_field_def)
  from groth16_seal_malleable [OF accepted this small, of "[1, 2, 3]"] accepted show ?thesis by blast
qed

end
