(* ===== verification/Risc0_Verifiers.thy ===== *)
theory Risc0_Verifiers
  imports Groth16_Verifier Seal
begin

text \<open>
  The verifier contracts behind the plugin: the interface \<^verbatim>\<open>IRiscZeroVerifier\<close>, the mock verifier
  (\<^verbatim>\<open>contracts/mocks/RiscZeroMockVerifier.sol\<close>), the emergency stop
  (\<^verbatim>\<open>lib/risc0/RiscZeroVerifierEmergencyStop.sol\<close>) and the router
  (\<^verbatim>\<open>lib/risc0/RiscZeroVerifierRouter.sol\<close>). A deployed verifier is a record of its two view functions,
  and the contracts on chain are a function from addresses to such records. The owner that OpenZeppelin's
  \<^verbatim>\<open>Ownable2Step\<close> keeps is an argument of each transaction; \<^verbatim>\<open>Pausable\<close> is a parameter with
  its documented behaviour as a hypothesis.
\<close>

section \<open>The interface\<close>

record VerifierReceipt =
  receipt_seal :: "u8 list"
  receipt_claimDigest :: bytes32

record verifier =
  v_verify :: "u8 list \<Rightarrow> bytes32 \<Rightarrow> bytes32 \<Rightarrow> unit tx"
  v_verifyIntegrity :: "VerifierReceipt \<Rightarrow> unit tx"

text \<open>The digest of \<^verbatim>\<open>ReceiptClaimLib.ok(imageId, journalDigest)\<close>.\<close>

definition ok_digest :: "(u8 list \<Rightarrow> bytes32) \<Rightarrow> bytes32 \<Rightarrow> bytes32 \<Rightarrow> bytes32" where
  "ok_digest sha256 imageId jd = ReceiptClaim_digest sha256 (ReceiptClaim_ok sha256 imageId jd)"

text \<open>
  What a client of the interface relies on: verifying an image and a journal digest is verifying the receipt
  for the digest of their claim. A verifier with a selector accepts only seals that start with it.
\<close>

locale risc_zero_verifier =
  fixes v :: verifier and claim_digest :: "bytes32 \<Rightarrow> bytes32 \<Rightarrow> bytes32"
  assumes verify_is_integrity:
    "v_verify v seal imageId jd = v_verifyIntegrity v \<lparr>receipt_seal = seal, receipt_claimDigest = claim_digest imageId jd\<rparr>"
begin

lemma verify_depends_on_claim:
  "claim_digest imageId jd = claim_digest imageId' jd' \<Longrightarrow> v_verify v seal imageId jd = v_verify v seal imageId' jd'"
  by (simp add: verify_is_integrity)

end

locale selector_verifier = risc_zero_verifier +
  fixes selector :: bytes4
  assumes integrity_selects: "v_verifyIntegrity v receipt = Inr () \<Longrightarrow> calldata_selector (receipt_seal receipt) = Inr selector"
begin

lemma verify_selects: "v_verify v seal imageId jd = Inr () \<Longrightarrow> calldata_selector seal = Inr selector"
  using integrity_selects by (fastforce simp: verify_is_integrity)

lemma verify_rejects_other: "calldata_selector seal \<noteq> Inr selector \<Longrightarrow> \<exists>e. v_verify v seal imageId jd = Inl e"
  using verify_selects by (cases "v_verify v seal imageId jd") auto

end

section \<open>The Groth16 verifier\<close>

definition groth16_contract :: "precompiles \<Rightarrow> (u8 list \<Rightarrow> bytes32) \<Rightarrow> groth16_verifier \<Rightarrow> verifier" where
  "groth16_contract P sha256 G =
     \<lparr>v_verify = groth16_verify P sha256 G,
      v_verifyIntegrity = (\<lambda>r. groth16_verifyIntegrity P G (receipt_seal r) (receipt_claimDigest r))\<rparr>"

interpretation groth16: selector_verifier "groth16_contract P sha256 G" "ok_digest sha256" "SELECTOR G" for P sha256 G
  by unfold_locales (simp add: groth16_contract_def groth16_verify_def ok_digest_def,
      auto simp: groth16_contract_def groth16_verifyIntegrity_def outcome_iff)

section \<open>The mock verifier\<close>

definition mock_verifyIntegrity ::
    "(u8 list \<Rightarrow> bytes32) \<Rightarrow> bytes4 \<Rightarrow> u8 list \<Rightarrow> bytes32 \<Rightarrow> unit tx" where
  "mock_verifyIntegrity keccak SEL seal claimDigest =
     rbind (calldata_selector seal) (\<lambda>received.
     rbind (require (SEL = received) (SelectorMismatch received SEL)) (\<lambda>_.
       require (keccak (drop 4 seal) = keccak (to_be_bytes claimDigest)) VerificationFailed))"

definition mock_verify ::
    "(u8 list \<Rightarrow> bytes32) \<Rightarrow> (u8 list \<Rightarrow> bytes32) \<Rightarrow> bytes4 \<Rightarrow> u8 list \<Rightarrow> bytes32 \<Rightarrow> bytes32 \<Rightarrow> unit tx" where
  "mock_verify keccak sha256 SEL seal imageId jd =
     mock_verifyIntegrity keccak SEL seal (ReceiptClaim_digest sha256 (ReceiptClaim_ok sha256 imageId jd))"

definition mockProve_digest :: "bytes4 \<Rightarrow> bytes32 \<Rightarrow> VerifierReceipt" where
  "mockProve_digest SEL claimDigest =
     \<lparr>receipt_seal = to_be_bytes SEL @ to_be_bytes claimDigest, receipt_claimDigest = claimDigest\<rparr>"

definition mockProve :: "(u8 list \<Rightarrow> bytes32) \<Rightarrow> bytes4 \<Rightarrow> bytes32 \<Rightarrow> bytes32 \<Rightarrow> VerifierReceipt" where
  "mockProve sha256 SEL imageId jd =
     mockProve_digest SEL (ReceiptClaim_digest sha256 (ReceiptClaim_ok sha256 imageId jd))"

definition mock_contract :: "(u8 list \<Rightarrow> bytes32) \<Rightarrow> (u8 list \<Rightarrow> bytes32) \<Rightarrow> bytes4 \<Rightarrow> verifier" where
  "mock_contract keccak sha256 SEL =
     \<lparr>v_verify = mock_verify keccak sha256 SEL,
      v_verifyIntegrity = (\<lambda>r. mock_verifyIntegrity keccak SEL (receipt_seal r) (receipt_claimDigest r))\<rparr>"

interpretation mock: selector_verifier "mock_contract keccak sha256 SEL" "ok_digest sha256" SEL for keccak sha256 SEL
  by unfold_locales (simp add: mock_contract_def mock_verify_def ok_digest_def,
      auto simp: mock_contract_def mock_verifyIntegrity_def outcome_iff)

text \<open>
  The mock verifier accepts exactly the seals of fake receipts. With selector zero it accepts what
  \<^verbatim>\<open>encode_seal\<close> makes of a fake receipt for exactly the digest of that receipt's claim, provided that its
  hash tells the two 32-byte digests apart; with another selector it never does; and it accepts every
  receipt of its own \<^verbatim>\<open>mockProve\<close>, for the image and journal digest that the receipt was made for.
\<close>

lemma mock_verifier_accepts_fake_seal:
  assumes "encode_seal digest \<lparr>inner = Fake claim, journal_bytes = j\<rparr> = Inr s"
    and "keccak (to_be_bytes (digest claim)) = keccak (to_be_bytes d) \<Longrightarrow>
         to_be_bytes (digest claim) = to_be_bytes d"
  shows "(v_verifyIntegrity (mock_contract keccak sha256 SEL) \<lparr>receipt_seal = s, receipt_claimDigest = d\<rparr> = Inr () \<longleftrightarrow>
      SEL = 0 \<and> d = digest claim) \<and>
    v_verify (mock_contract keccak sha256 SEL) (receipt_seal (mockProve sha256 SEL imageId jd)) imageId jd = Inr ()"
proof -
  have "to_be_bytes (0 :: bytes4) = [0, 0, 0, 0]" by (simp add: to_be_bytes_def upt_rec)
  then have s: "s = to_be_bytes (0 :: bytes4) @ to_be_bytes (digest claim)"
    using assms(1) by (simp add: encode_seal_def)
  have "to_be_bytes (digest claim) = to_be_bytes d \<longleftrightarrow> d = digest claim"
    by (auto simp: to_be_bytes_inject)
  with assms(2) show ?thesis
    by (auto simp: s mock_contract_def mock_verifyIntegrity_def mock_verify_def mockProve_def mockProve_digest_def
        outcome_iff)
qed

lemma mock_verifier_accepts_fake_seal_witness:
  "v_verifyIntegrity (mock_contract (\<lambda>bs. from_be_bytes bs) ex_sha 0)
     \<lparr>receipt_seal = [0, 0, 0, 0] @ to_be_bytes (7 :: bytes32), receipt_claimDigest = 7\<rparr> = Inr () \<and>
   v_verifyIntegrity (mock_contract (\<lambda>bs. from_be_bytes bs) ex_sha 0)
     \<lparr>receipt_seal = [0, 0, 0, 0] @ to_be_bytes (7 :: bytes32), receipt_claimDigest = 8\<rparr> \<noteq> Inr () \<and>
   v_verify (mock_contract (\<lambda>bs. from_be_bytes bs) ex_sha 3) (receipt_seal (mockProve ex_sha 3 4 5)) 4 5 = Inr ()"
proof -
  have s: "encode_seal (\<lambda>c :: bytes32. c) \<lparr>inner = Fake 7, journal_bytes = []\<rparr> =
      Inr ([0, 0, 0, 0] @ to_be_bytes (7 :: bytes32))"
    by (simp add: encode_seal_def)
  show ?thesis
    using mock_verifier_accepts_fake_seal [OF s, of "\<lambda>bs. from_be_bytes bs" 7 ex_sha 0 4 5]
      mock_verifier_accepts_fake_seal [OF s, of "\<lambda>bs. from_be_bytes bs" 8 ex_sha 0 4 5]
      mock_verifier_accepts_fake_seal [OF s, of "\<lambda>bs. from_be_bytes bs" 7 ex_sha 3 4 5]
    by (simp add: from_to_be_bytes)
qed

section \<open>The emergency stop\<close>

text \<open>
  OpenZeppelin's \<^verbatim>\<open>Pausable\<close>: \<^verbatim>\<open>paused()\<close> and \<^verbatim>\<open>_pause()\<close> on its own state. It documents that
  \<^verbatim>\<open>_pause\<close> requires an unpaused contract and leaves a paused one.
\<close>

record 'p Pausable =
  paused :: "'p \<Rightarrow> bool"
  pause_internal :: "'p \<Rightarrow> 'p tx"

definition pausable_ok :: "'p Pausable \<Rightarrow> bool" where
  "pausable_ok L \<longleftrightarrow>
     (\<forall>p. paused L p \<longrightarrow> (\<exists>e. pause_internal L p = Inl e)) \<and>
     (\<forall>p. \<not> paused L p \<longrightarrow> (\<exists>p'. pause_internal L p = Inr p' \<and> paused L p'))"

record 'p estop_state =
  estop_verifier :: verifier
  estop_pausable :: 'p

definition estop_verify :: "'p Pausable \<Rightarrow> 'p estop_state \<Rightarrow> u8 list \<Rightarrow> bytes32 \<Rightarrow> bytes32 \<Rightarrow> unit tx" where
  "estop_verify L s seal imageId jd =
     rbind (require (\<not> paused L (estop_pausable s)) EnforcedPause) (\<lambda>_. v_verify (estop_verifier s) seal imageId jd)"

definition estop_verifyIntegrity :: "'p Pausable \<Rightarrow> 'p estop_state \<Rightarrow> VerifierReceipt \<Rightarrow> unit tx" where
  "estop_verifyIntegrity L s receipt =
     rbind (require (\<not> paused L (estop_pausable s)) EnforcedPause) (\<lambda>_. v_verifyIntegrity (estop_verifier s) receipt)"

definition estop :: "'p Pausable \<Rightarrow> address \<Rightarrow> address \<Rightarrow> 'p estop_state \<Rightarrow> 'p estop_state tx" where
  "estop L owner sender s =
     rbind (require (sender = owner) OwnableUnauthorized) (\<lambda>_.
     rbind (pause_internal L (estop_pausable s)) (\<lambda>p. Inr (s\<lparr>estop_pausable := p\<rparr>)))"

definition estop_with_receipt :: "'p Pausable \<Rightarrow> VerifierReceipt \<Rightarrow> 'p estop_state \<Rightarrow> 'p estop_state tx" where
  "estop_with_receipt L receipt s =
     rbind (require (receipt_claimDigest receipt = 0) InvalidProofOfExploit) (\<lambda>_.
     rbind (estop_verifyIntegrity L s receipt) (\<lambda>_.
     rbind (pause_internal L (estop_pausable s)) (\<lambda>p. Inr (s\<lparr>estop_pausable := p\<rparr>))))"

definition estop_contract :: "'p Pausable \<Rightarrow> 'p estop_state \<Rightarrow> verifier" where
  "estop_contract L s = \<lparr>v_verify = estop_verify L s, v_verifyIntegrity = estop_verifyIntegrity L s\<rparr>"

inductive estop_step :: "'p Pausable \<Rightarrow> 'p estop_state \<Rightarrow> 'p estop_state \<Rightarrow> bool" for L where
  by_owner: "estop L owner sender s = Inr s' \<Longrightarrow> estop_step L s s'"
| by_receipt: "estop_with_receipt L receipt s = Inr s' \<Longrightarrow> estop_step L s s'"

inductive_cases estop_stepE: "estop_step L s s'"

lemma estop_contract_law:
  assumes "risc_zero_verifier (estop_verifier s) cd"
  shows "risc_zero_verifier (estop_contract L s) cd"
  using risc_zero_verifier.verify_is_integrity [OF assms]
  by unfold_locales (simp add: estop_contract_def estop_verify_def estop_verifyIntegrity_def)

interpretation stopped_groth16: risc_zero_verifier
  "estop_contract L \<lparr>estop_verifier = groth16_contract P sha256 G, estop_pausable = p\<rparr>" "ok_digest sha256" for L P sha256 G p
  by (rule estop_contract_law) (simp add: groth16.risc_zero_verifier_axioms)

lemma estop_step_stops:
  "pausable_ok L \<Longrightarrow> estop_step L s s' \<Longrightarrow>
   \<not> paused L (estop_pausable s) \<and> paused L (estop_pausable s') \<and> estop_verifier s' = estop_verifier s"
  by (elim estop_stepE; cases "paused L (estop_pausable s)")
    (fastforce simp: estop_def estop_with_receipt_def outcome_iff pausable_ok_def)+

lemma estop_steps_stopped:
  assumes "pausable_ok L" and "(estop_step L)\<^sup>*\<^sup>* s s'" and "paused L (estop_pausable s)"
  shows "s' = s"
  using assms(2,3) by (induction rule: converse_rtranclp_induct) (auto dest: estop_step_stops [OF assms(1)])

lemma stopped_rejects:
  "paused L (estop_pausable s) \<Longrightarrow> v_verify (estop_contract L s) seal imageId jd = Inl EnforcedPause"
  "paused L (estop_pausable s) \<Longrightarrow> v_verifyIntegrity (estop_contract L s) receipt = Inl EnforcedPause"
  by (simp_all add: estop_contract_def estop_verify_def estop_verifyIntegrity_def)

text \<open>
  C24: The emergency stop stops, for good and for everybody. While the contract runs it answers exactly as
  the verifier it wraps. Its owner can stop it; anybody can who has a receipt for the zero claim digest that
  the wrapped verifier accepts, and nobody else can. Once stopped, no sequence of transactions restarts it:
  every later call of \<^verbatim>\<open>verify\<close> and \<^verbatim>\<open>verifyIntegrity\<close> reverts.
\<close>

theorem emergency_stop_final:
  assumes "pausable_ok L" and "\<not> paused L (estop_pausable s)"
  shows "v_verify (estop_contract L s) seal imageId jd = v_verify (estop_verifier s) seal imageId jd \<and>
    ((\<exists>s'. estop L owner sender s = Inr s') \<longleftrightarrow> sender = owner) \<and>
    ((\<exists>s'. estop_with_receipt L receipt s = Inr s') \<longleftrightarrow>
      receipt_claimDigest receipt = 0 \<and> v_verifyIntegrity (estop_verifier s) receipt = Inr ()) \<and>
    (\<forall>s1 s2. estop_step L s s1 \<longrightarrow> (estop_step L)\<^sup>*\<^sup>* s1 s2 \<longrightarrow>
      v_verify (estop_contract L s2) seal imageId jd = Inl EnforcedPause \<and>
      v_verifyIntegrity (estop_contract L s2) receipt = Inl EnforcedPause)"
proof (intro conjI allI impI)
  show "v_verify (estop_contract L s) seal imageId jd = v_verify (estop_verifier s) seal imageId jd"
    using assms(2) by (simp add: estop_contract_def estop_verify_def)
  from assms obtain p' where p': "pause_internal L (estop_pausable s) = Inr p'" by (auto simp: pausable_ok_def)
  show "(\<exists>s'. estop L owner sender s = Inr s') \<longleftrightarrow> sender = owner"
    using p' by (auto simp: estop_def outcome_iff)
  show "(\<exists>s'. estop_with_receipt L receipt s = Inr s') \<longleftrightarrow>
      receipt_claimDigest receipt = 0 \<and> v_verifyIntegrity (estop_verifier s) receipt = Inr ()"
    using p' assms(2) by (auto simp: estop_with_receipt_def estop_verifyIntegrity_def outcome_iff)
next
  fix s1 s2
  assume "estop_step L s s1" and run: "(estop_step L)\<^sup>*\<^sup>* s1 s2"
  with assms(1) have "paused L (estop_pausable s1)" by (auto dest: estop_step_stops)
  with estop_steps_stopped [OF assms(1) run] have "paused L (estop_pausable s2)" by simp
  then show "v_verify (estop_contract L s2) seal imageId jd = Inl EnforcedPause"
    and "v_verifyIntegrity (estop_contract L s2) receipt = Inl EnforcedPause"
    by (simp_all add: stopped_rejects)
qed

text \<open>A flag is the simplest \<^verbatim>\<open>Pausable\<close>.\<close>

definition ex_pausable :: "bool Pausable" where
  "ex_pausable = \<lparr>paused = (\<lambda>p. p), pause_internal = (\<lambda>p. if p then Inl EnforcedPause else Inr True)\<rparr>"

lemma ex_pausable_ok: "pausable_ok ex_pausable"
  by (auto simp: pausable_ok_def ex_pausable_def)

definition ex_running :: "bool estop_state" where
  "ex_running = \<lparr>estop_verifier = mock_contract (\<lambda>bs. from_be_bytes bs) ex_sha 3, estop_pausable = False\<rparr>"

theorem emergency_stop_final_witness:
  "(\<exists>s'. estop_with_receipt ex_pausable (mockProve_digest 3 0) ex_running = Inr s') \<and>
   (\<forall>s'. estop ex_pausable 8 9 ex_running \<noteq> Inr s') \<and>
   v_verify (estop_contract ex_pausable (ex_running\<lparr>estop_pausable := True\<rparr>)) [] 4 5 = Inl EnforcedPause"
proof -
  have run: "\<not> paused ex_pausable (estop_pausable ex_running)" by (simp add: ex_pausable_def ex_running_def)
  note final = emergency_stop_final [OF ex_pausable_ok run, of "[]" 4 5 8 9 "mockProve_digest 3 0"]
  have "receipt_claimDigest (mockProve_digest 3 0) = 0 \<and>
      v_verifyIntegrity (estop_verifier ex_running) (mockProve_digest 3 0) = Inr ()"
    by (simp add: mockProve_digest_def ex_running_def mock_contract_def mock_verifyIntegrity_def)
  moreover have "estop ex_pausable 9 9 ex_running = Inr (ex_running\<lparr>estop_pausable := True\<rparr>)"
    by (simp add: estop_def ex_pausable_def ex_running_def)
  then have "estop_step ex_pausable ex_running (ex_running\<lparr>estop_pausable := True\<rparr>)" by (rule by_owner)
  ultimately show ?thesis using final by auto
qed

section \<open>The router\<close>

definition UNSET :: address where
  "UNSET = 0"

definition TOMBSTONE :: address where
  "TOMBSTONE = 1"

type_synonym router = "bytes4 \<Rightarrow> address"

definition addVerifier :: "address \<Rightarrow> address \<Rightarrow> bytes4 \<Rightarrow> address \<Rightarrow> router \<Rightarrow> router tx" where
  "addVerifier owner sender selector vaddr verifiers =
     rbind (require (sender = owner) OwnableUnauthorized) (\<lambda>_.
     rbind (require (verifiers selector \<noteq> TOMBSTONE) (SelectorRemoved selector)) (\<lambda>_.
     rbind (require (\<not> verifiers selector \<noteq> UNSET) (SelectorInUse selector)) (\<lambda>_.
       Inr (verifiers(selector := vaddr)))))"

definition removeVerifier :: "address \<Rightarrow> address \<Rightarrow> bytes4 \<Rightarrow> router \<Rightarrow> router tx" where
  "removeVerifier owner sender selector verifiers =
     rbind (require (sender = owner) OwnableUnauthorized) (\<lambda>_.
     rbind (require (verifiers selector \<noteq> UNSET) (SelectorUnknown selector)) (\<lambda>_.
       Inr (verifiers(selector := TOMBSTONE))))"

definition getVerifier :: "router \<Rightarrow> bytes4 \<Rightarrow> address tx" where
  "getVerifier verifiers selector =
     (let vaddr = verifiers selector in
      rbind (require (vaddr \<noteq> UNSET) (SelectorUnknown selector)) (\<lambda>_.
      rbind (require (vaddr \<noteq> TOMBSTONE) (SelectorRemoved selector)) (\<lambda>_.
        Inr vaddr)))"

definition getVerifier_of_seal :: "router \<Rightarrow> u8 list \<Rightarrow> address tx" where
  "getVerifier_of_seal verifiers seal = rbind (calldata_selector seal) (getVerifier verifiers)"

definition router_verify ::
    "(address \<Rightarrow> verifier) \<Rightarrow> router \<Rightarrow> u8 list \<Rightarrow> bytes32 \<Rightarrow> bytes32 \<Rightarrow> unit tx" where
  "router_verify contracts verifiers seal imageId jd =
     rbind (getVerifier_of_seal verifiers seal) (\<lambda>a. v_verify (contracts a) seal imageId jd)"

definition router_verifyIntegrity :: "(address \<Rightarrow> verifier) \<Rightarrow> router \<Rightarrow> VerifierReceipt \<Rightarrow> unit tx" where
  "router_verifyIntegrity contracts verifiers receipt =
     rbind (getVerifier_of_seal verifiers (receipt_seal receipt)) (\<lambda>a. v_verifyIntegrity (contracts a) receipt)"

definition router_contract :: "(address \<Rightarrow> verifier) \<Rightarrow> router \<Rightarrow> verifier" where
  "router_contract contracts verifiers =
     \<lparr>v_verify = router_verify contracts verifiers, v_verifyIntegrity = router_verifyIntegrity contracts verifiers\<rparr>"

text \<open>The transactions that change the table; the owner may be another one each time.\<close>

inductive router_step :: "router \<Rightarrow> router \<Rightarrow> bool" where
  step_add: "addVerifier owner sender selector vaddr r = Inr r' \<Longrightarrow> router_step r r'"
| step_remove: "removeVerifier owner sender selector r = Inr r' \<Longrightarrow> router_step r r'"

inductive_cases router_stepE: "router_step r r'"

lemma getVerifier_Inr_iff [outcome_iff]:
  "getVerifier r sel = Inr a \<longleftrightarrow> a = r sel \<and> a \<noteq> UNSET \<and> a \<noteq> TOMBSTONE"
  by (auto simp: getVerifier_def Let_def outcome_iff)

lemma router_contract_law:
  assumes "\<And>a. risc_zero_verifier (contracts a) cd"
  shows "risc_zero_verifier (router_contract contracts r) cd"
  using risc_zero_verifier.verify_is_integrity [OF assms]
  by unfold_locales (simp add: router_contract_def router_verify_def router_verifyIntegrity_def)

interpretation groth16_router: risc_zero_verifier
  "router_contract (\<lambda>a. groth16_contract P sha256 (G a)) r" "ok_digest sha256" for P sha256 G r
  by (rule router_contract_law) (simp add: groth16.risc_zero_verifier_axioms)

text \<open>What a table may become: an unset entry anything, a set entry only the tombstone, which stays.\<close>

definition only_retires :: "router \<Rightarrow> router \<Rightarrow> bool" where
  "only_retires r r' \<longleftrightarrow> (\<forall>sel. r' sel = r sel \<or> r sel = UNSET \<or> r' sel = TOMBSTONE)"

lemma only_retires_refl: "only_retires r r"
  by (simp add: only_retires_def)

lemma only_retires_trans: "only_retires r1 r2 \<Longrightarrow> only_retires r2 r3 \<Longrightarrow> only_retires r1 r3"
  unfolding only_retires_def UNSET_def TOMBSTONE_def by (metis zero_neq_one)

lemma router_step_retires: "router_step r r' \<Longrightarrow> only_retires r r'"
  by (elim router_stepE) (auto simp: addVerifier_def removeVerifier_def only_retires_def outcome_iff split: if_splits)

lemma router_steps_retire: "router_step\<^sup>*\<^sup>* r r' \<Longrightarrow> only_retires r r'"
  by (induction rule: rtranclp_induct) (auto intro: only_retires_refl only_retires_trans router_step_retires)

text \<open>
  C23: Each selector has at most one implementation across time. If at two points of a history the router
  finds a verifier for the same selector, it is the same one, whatever owners added and removed in between;
  a selector that was removed is refused at every later point, both for lookups and for a new verifier.
\<close>

theorem router_one_implementation:
  assumes "router_step\<^sup>*\<^sup>* r1 r2"
  shows "(\<forall>sel a b. getVerifier r1 sel = Inr a \<longrightarrow> getVerifier r2 sel = Inr b \<longrightarrow> b = a) \<and>
    (\<forall>sel. getVerifier r1 sel = Inl (SelectorRemoved sel) \<longrightarrow>
       getVerifier r2 sel = Inl (SelectorRemoved sel) \<and> (\<exists>e. addVerifier owner sender sel vaddr r2 = Inl e))"
proof -
  note retires = router_steps_retire [OF assms, unfolded only_retires_def, rule_format]
  have removed: "getVerifier r sel = Inl (SelectorRemoved sel) \<longleftrightarrow> r sel = TOMBSTONE" for r sel
    by (simp add: getVerifier_def Let_def require_def UNSET_def TOMBSTONE_def)
  have "r2 sel = TOMBSTONE" if "r1 sel = TOMBSTONE" for sel
    using retires [of sel] that by (auto simp: UNSET_def TOMBSTONE_def)
  moreover have "b = a" if "getVerifier r1 sel = Inr a" "getVerifier r2 sel = Inr b" for sel a b
    using retires [of sel] that by (auto simp: outcome_iff)
  ultimately show ?thesis
    by (auto simp: removed addVerifier_def require_def)
qed

definition ex_router :: router where
  "ex_router = (\<lambda>_. UNSET)(3 := 50, 4 := TOMBSTONE)"

theorem router_one_implementation_witness:
  "router_step\<^sup>*\<^sup>* ex_router (ex_router(3 := TOMBSTONE)) \<and>
   getVerifier (ex_router(3 := TOMBSTONE)) 4 = Inl (SelectorRemoved 4) \<and>
   (\<exists>e. addVerifier 9 9 4 60 (ex_router(3 := TOMBSTONE)) = Inl e)"
proof -
  have "removeVerifier 9 9 3 ex_router = Inr (ex_router(3 := TOMBSTONE))"
    by (simp add: removeVerifier_def ex_router_def UNSET_def)
  then have run: "router_step\<^sup>*\<^sup>* ex_router (ex_router(3 := TOMBSTONE))"
    by (intro r_into_rtranclp step_remove)
  have "getVerifier ex_router 4 = Inl (SelectorRemoved 4)"
    by (simp add: getVerifier_def ex_router_def UNSET_def TOMBSTONE_def)
  with router_one_implementation [OF run, of 9 9 60] run show ?thesis by simp
qed

text \<open>What the router accepts was accepted by the registered verifier.\<close>

lemma router_verify_Inr:
  "v_verify (router_contract contracts r) seal imageId jd = Inr () \<longleftrightarrow>
   (\<exists>sel. calldata_selector seal = Inr sel \<and> r sel \<noteq> UNSET \<and> r sel \<noteq> TOMBSTONE \<and>
      v_verify (contracts (r sel)) seal imageId jd = Inr ())"
  by (auto simp: router_contract_def router_verify_def getVerifier_of_seal_def outcome_iff)

end
