(* ===== verification/Verified_Votes.thy ===== *)
theory Verified_Votes
  imports Plugin Risc0_Verifiers
begin

text \<open>
  The plugin together with the verifier contracts it calls: the verifier parameter of \<open>Plugin\<close> is what the
  contracts on chain answer. The theorems are about a proposal whose verifier is the router, where what the
  router knows are emergency stops around Groth16 verifiers with the repository's control ids; the address
  that the deployment script records is a constant whose contract the repository does not show.
\<close>

section \<open>Deployment\<close>

text \<open>A call of \<^verbatim>\<open>verify\<close> that does not revert.\<close>

definition chain_verifies :: "'act plugin_libs \<Rightarrow> (address \<Rightarrow> verifier) \<Rightarrow> bool" where
  "chain_verifies P contracts \<longleftrightarrow>
     verify P = (\<lambda>v seal imageId d. v_verify (contracts v) seal imageId d = Inr ())"

definition stops_around_groth16 ::
    "(address \<Rightarrow> verifier) \<Rightarrow> 'p Pausable \<Rightarrow> precompiles \<Rightarrow> (u8 list \<Rightarrow> bytes32) \<Rightarrow> router \<Rightarrow> bool" where
  "stops_around_groth16 impls L E sha r \<longleftrightarrow>
     (\<forall>sel. r sel \<noteq> UNSET \<longrightarrow> r sel \<noteq> TOMBSTONE \<longrightarrow>
        (\<exists>G p. groth16_constructor sha CONTROL_ROOT ControlID_BN254 = Some (Inr G) \<and>
           impls (r sel) = estop_contract L \<lparr>estop_verifier = groth16_contract E sha G, estop_pausable = p\<rparr>))"

lemma groth16_contract_accepts:
  assumes "groth16_constructor sha CONTROL_ROOT ControlID_BN254 = Some (Inr G)"
    and "v_verify (groth16_contract E sha G) seal imageId jd = Inr ()"
  shows "\<exists>pf. abi_decode_Seal (drop 4 seal) = Some pf \<and>
    groth16_equation E (seal_a pf) (seal_b pf) (seal_c pf) (groth16_signals G (ok_digest sha imageId jd))"
  using assms(2) groth16_verifyIntegrity_cases [OF control_id_in_field [OF assms(1)], of E seal]
  by (auto simp: groth16_contract_def groth16_verify_def ok_digest_def split: if_splits option.splits)

lemma router_accepts_proof:
  assumes "stops_around_groth16 impls L E sha r"
    and "v_verify (router_contract impls r) seal imageId jd = Inr ()"
  obtains G pf where "groth16_constructor sha CONTROL_ROOT ControlID_BN254 = Some (Inr G)"
    "calldata_selector seal = Inr (SELECTOR G)" "abi_decode_Seal (drop 4 seal) = Some pf"
    "groth16_equation E (seal_a pf) (seal_b pf) (seal_c pf) (groth16_signals G (ok_digest sha imageId jd))"
proof -
  from assms(2) obtain sel where "r sel \<noteq> UNSET" "r sel \<noteq> TOMBSTONE"
      and accepts: "v_verify (impls (r sel)) seal imageId jd = Inr ()"
    unfolding router_verify_Inr by blast
  with assms(1) obtain G p where G: "groth16_constructor sha CONTROL_ROOT ControlID_BN254 = Some (Inr G)"
      and "impls (r sel) = estop_contract L \<lparr>estop_verifier = groth16_contract E sha G, estop_pausable = p\<rparr>"
    unfolding stops_around_groth16_def by blast
  with accepts have leaf: "v_verify (groth16_contract E sha G) seal imageId jd = Inr ()"
    by (auto simp: estop_contract_def estop_verify_def outcome_iff)
  then have "calldata_selector seal = Inr (SELECTOR G)" by (rule groth16.verify_selects)
  with that G groth16_contract_accepts [OF G leaf] show thesis by blast
qed

section \<open>Properties\<close>

text \<open>
  C2: Every accepted vote and every execution carries a proof that the chain has checked. When the verifier
  of the proposal is the router over emergency stops around Groth16 verifiers, a transaction of the plugin
  that does not revert has a seal whose eight words satisfy the Groth16 equation, under the selector of that
  verifier, for the claim that the guest image recorded in the proposal ran to completion and committed
  exactly the journal of the transaction.
\<close>

theorem accepted_transactions_are_proved:
  assumes "chain_verifies P contracts" and "stops_around_groth16 impls L E (sha256 P) r"
    and "abi_decode_journal P j = Some journal"
    and "contracts (pp_verifier (parameters (proposals s (vj_proposal_id journal)))) = router_contract impls r"
    and "vote P b j seal s = Inr s' \<and> imageId = pp_votingProtocolImageId (parameters (proposals s (vj_proposal_id journal))) \<or>
         execute P b j seal s = Inr s' \<and> imageId = pp_executionProtocolImageId (parameters (proposals s (vj_proposal_id journal)))"
  shows "\<exists>G pf. groth16_constructor (sha256 P) CONTROL_ROOT ControlID_BN254 = Some (Inr G) \<and>
    calldata_selector seal = Inr (SELECTOR G) \<and> abi_decode_Seal (drop 4 seal) = Some pf \<and>
    groth16_equation E (seal_a pf) (seal_b pf) (seal_c pf)
      (groth16_signals G (ReceiptClaim_digest (sha256 P) (ReceiptClaim_ok (sha256 P) imageId (sha256 P j))))"
proof -
  have "verify P (pp_verifier (parameters (proposals s (vj_proposal_id journal)))) seal imageId (sha256 P j)"
    using assms(3,5) by (auto simp: verify_proof_def outcome_iff execute_Inr elim!: vote_Inr execute_checks_Inr)
  with assms(1,4) have "v_verify (router_contract impls r) seal imageId (sha256 P j) = Inr ()"
    by (simp add: chain_verifies_def)
  with assms(2) show ?thesis
    by (rule router_accepts_proof) (auto simp: ok_digest_def)
qed

text \<open>A chain with one Groth16 verifier, running, behind the router at address three.\<close>

definition ex_impls :: "groth16_verifier \<Rightarrow> bool \<Rightarrow> address \<Rightarrow> verifier" where
  "ex_impls G stopped =
     (\<lambda>_. estop_contract ex_pausable \<lparr>estop_verifier = groth16_contract ex_lenient ex_sha G, estop_pausable = stopped\<rparr>)"

definition ex_chain_libs :: "groth16_verifier \<Rightarrow> bool \<Rightarrow> unit plugin_libs" where
  "ex_chain_libs G stopped = ex_plugin_libs\<lparr>sha256 := ex_sha,
     verify := (\<lambda>v seal imageId d. v_verify (router_contract (ex_impls G stopped) ((\<lambda>_. UNSET)(SELECTOR G := 50))) seal imageId d = Inr ())\<rparr>"

definition ex_seal :: "groth16_verifier \<Rightarrow> u8 list" where
  "ex_seal G = to_be_bytes (SELECTOR G) @ abi_words [7, 1, 0, 0, 0, 0, 0, 0]"

lemma ex_chain_vote:
  assumes "groth16_constructor ex_sha CONTROL_ROOT ControlID_BN254 = Some (Inr G)"
  shows "\<exists>s'. vote (ex_chain_libs G False) b [0, 7, 10, 2] (ex_seal G) ex_plugin1 = Inr s'"
proof -
  have "v_verify (groth16_contract ex_lenient ex_sha G) (ex_seal G) img jd = Inr ()" for img jd
    using seal_words [of 7 1 0 0 0 0 0 0 "[]"]
    by (simp add: groth16_contract_def groth16_verify_def ex_seal_def from_to_be_bytes ex_lenient_equation
        length_groth16_signals groth16_verifyIntegrity_cases [OF control_id_in_field [OF assms]])
  then have "v_verify (router_contract (ex_impls G False) ((\<lambda>_. UNSET)(SELECTOR G := 50))) (ex_seal G) 4 jd = Inr ()" for jd
    by (simp add: router_verify_Inr ex_impls_def estop_contract_def estop_verify_def ex_pausable_def
        ex_seal_def UNSET_def TOMBSTONE_def)
  then show ?thesis
    by (simp add: vote_def Let_def check_commitment_def decodeVersionedID_def verify_proof_def VoteOption_of_def
        tally_sub_def tally_add_def checked_add_def ex_plugin_defs empty_Proposal_def mask_eq_exp_minus_1
        ex_chain_libs_def)
qed

lemma ex_chain_deployed:
  assumes "groth16_constructor ex_sha CONTROL_ROOT ControlID_BN254 = Some (Inr G)"
  shows "chain_verifies (ex_chain_libs G stopped) (\<lambda>_. router_contract (ex_impls G stopped) ((\<lambda>_. UNSET)(SELECTOR G := 50)))"
    and "stops_around_groth16 (ex_impls G stopped) ex_pausable ex_lenient (sha256 (ex_chain_libs G stopped))
           ((\<lambda>_. UNSET)(SELECTOR G := 50))"
    and "\<exists>journal. abi_decode_journal (ex_chain_libs G stopped) [0, 7, 10, 2] = Some journal \<and> vj_proposal_id journal = 0"
  using assms by (auto simp: chain_verifies_def stops_around_groth16_def ex_chain_libs_def ex_impls_def ex_plugin_libs_def
      ex_journal_def)

theorem accepted_transactions_are_proved_witness:
  "\<exists>G s'. vote (ex_chain_libs G False) ex_block [0, 7, 10, 2] (ex_seal G) ex_plugin1 = Inr s' \<and>
     (\<exists>pf. abi_decode_Seal (drop 4 (ex_seal G)) = Some pf \<and>
        groth16_equation ex_lenient (seal_a pf) (seal_b pf) (seal_c pf) (groth16_signals G
          (ReceiptClaim_digest ex_sha (ReceiptClaim_ok ex_sha 4 (ex_sha [0, 7, 10, 2])))))"
proof -
  obtain G where G: "groth16_constructor ex_sha CONTROL_ROOT ControlID_BN254 = Some (Inr G)"
    by (rule groth16_constructor_returns)
  obtain journal where j: "abi_decode_journal (ex_chain_libs G False) [0, 7, 10, 2] = Some journal" "vj_proposal_id journal = 0"
    using ex_chain_deployed(3) [OF G] by blast
  obtain s' where s': "vote (ex_chain_libs G False) ex_block [0, 7, 10, 2] (ex_seal G) ex_plugin1 = Inr s'"
    using ex_chain_vote [OF G] by blast
  have "4 = pp_votingProtocolImageId (parameters (proposals ex_plugin1 (vj_proposal_id journal)))"
    by (simp add: j(2) ex_plugin_defs)
  then have "\<exists>G' pf. groth16_constructor ex_sha CONTROL_ROOT ControlID_BN254 = Some (Inr G') \<and>
      abi_decode_Seal (drop 4 (ex_seal G)) = Some pf \<and>
      groth16_equation ex_lenient (seal_a pf) (seal_b pf) (seal_c pf) (groth16_signals G'
        (ReceiptClaim_digest ex_sha (ReceiptClaim_ok ex_sha 4 (ex_sha [0, 7, 10, 2]))))"
    using accepted_transactions_are_proved [OF ex_chain_deployed(1,2) [OF G] j(1) refl, of ex_block "ex_seal G" ex_plugin1 s' 4] s'
    by (auto simp: ex_chain_libs_def)
  with G s' show ?thesis by auto
qed

text \<open>
  The emergency stop of the verifier freezes the votes and the executions of every proposal that relies on
  it. Once the stop behind the selector of a seal is paused, both transactions revert for that seal, whatever
  the journal, the block and the state of the plugin.
\<close>

lemma stopped_verifier_freezes:
  assumes "chain_verifies P contracts"
    and "\<And>journal. abi_decode_journal P j = Some journal \<Longrightarrow>
      contracts (pp_verifier (parameters (proposals s (vj_proposal_id journal)))) = router_contract impls r"
    and "calldata_selector seal = Inr sel" and "impls (r sel) = estop_contract L e" and "paused L (estop_pausable e)"
  shows "(\<exists>x. vote P b j seal s = Inl x) \<and> (\<exists>x. execute P b j seal s = Inl x)"
proof -
  have "v_verify (router_contract impls r) seal imageId jd \<noteq> Inr ()" for imageId jd
    using assms(3-5) by (simp add: router_verify_Inr stopped_rejects)
  then have "verify_proof P (proposals s (vj_proposal_id journal)) imageId j seal \<noteq> Inr ()"
    if "abi_decode_journal P j = Some journal" for journal imageId
    using assms(1) assms(2) [OF that] by (simp add: verify_proof_def outcome_iff chain_verifies_def)
  then have "vote P b j seal s \<noteq> Inr s'" "execute P b j seal s \<noteq> Inr s'" for s'
    by (auto simp: execute_Inr elim!: vote_Inr execute_checks_Inr)
  then show ?thesis by (metis obj_sumE)
qed

lemma stopped_verifier_freezes_witness:
  "\<exists>G. (\<exists>s'. vote (ex_chain_libs G False) ex_block [0, 7, 10, 2] (ex_seal G) ex_plugin1 = Inr s') \<and>
     (\<exists>x. vote (ex_chain_libs G True) ex_block [0, 7, 10, 2] (ex_seal G) ex_plugin1 = Inl x)"
proof -
  obtain G where G: "groth16_constructor ex_sha CONTROL_ROOT ControlID_BN254 = Some (Inr G)"
    by (rule groth16_constructor_returns)
  have sel: "calldata_selector (ex_seal G) = Inr (SELECTOR G)" by (simp add: ex_seal_def)
  have stop: "ex_impls G True (((\<lambda>_. UNSET)(SELECTOR G := 50)) (SELECTOR G)) = estop_contract ex_pausable
      \<lparr>estop_verifier = groth16_contract ex_lenient ex_sha G, estop_pausable = True\<rparr>"
    by (simp add: ex_impls_def)
  have "\<exists>x. vote (ex_chain_libs G True) ex_block [0, 7, 10, 2] (ex_seal G) ex_plugin1 = Inl x"
    using stopped_verifier_freezes [OF ex_chain_deployed(1) [OF G] refl sel stop] by (simp add: ex_pausable_def)
  with ex_chain_vote [OF G] show ?thesis by blast
qed

text \<open>
  C27: The Rust encoder and the Solidity decoder of a seal fit together. The contract accepts what
  \<^verbatim>\<open>encode_seal\<close> makes of a Groth16 receipt with an eight-word seal exactly when the first four bytes of the
  receipt's verifier parameters are the contract's selector and its eight words, taken as they are, satisfy the
  equation for the claimed image and journal. Only these four bytes are compared: receipts for other parameters whose
  digest starts with the same bytes reach the equation as well.
\<close>

theorem encoded_receipt_verified:
  assumes "groth16_constructor sha CONTROL_ROOT ControlID_BN254 = Some (Inr G)"
    and "inner receipt = Groth16 g" and "groth16_seal g = abi_words [a0, a1, b0, b1, b2, b3, c0, c1]"
  shows "\<exists>seal. encode_seal digest receipt = Inr seal \<and>
    (groth16_verify E sha G seal imageId jd = Inr () \<longleftrightarrow>
       to_be_bytes (SELECTOR G) = take 4 (to_be_bytes (verifier_parameters g)) \<and>
       groth16_equation E [a0, a1] [b0, b1, b2, b3] [c0, c1]
         (groth16_signals G (ReceiptClaim_digest sha (ReceiptClaim_ok sha imageId jd))))"
proof -
  define selector where "selector = take 4 (to_be_bytes (verifier_parameters g))"
  have len: "length selector = 4" by (simp add: selector_def)
  then have "SELECTOR G = from_be_bytes selector \<longleftrightarrow> to_be_bytes (SELECTOR G) = selector"
    using from_to_be_bytes [of "SELECTOR G"] to_from_be_bytes [of selector, where 'a = 32] by auto
  moreover have "encode_seal digest receipt = Inr (selector @ groth16_seal g)"
    by (simp add: encode_seal_def assms(2) selector_def)
  ultimately show ?thesis
    using len seal_words [of a0 a1 b0 b1 b2 b3 c0 c1 "[]"]
    by (simp add: groth16_verify_def groth16_verifyIntegrity_cases [OF control_id_in_field [OF assms(1)]] assms(3)
        selector_def [symmetric])
qed

theorem encoded_receipt_verified_witness:
  "\<exists>G params seal. encode_seal (\<lambda>c :: bytes32. c) \<lparr>inner = Groth16 \<lparr>groth16_seal = abi_words [7, 1, 0, 0, 0, 0, 0, 0],
       verifier_parameters = params\<rparr>, journal_bytes = []\<rparr> = Inr seal \<and>
     groth16_constructor ex_sha CONTROL_ROOT ControlID_BN254 = Some (Inr G) \<and>
     groth16_verify ex_lenient ex_sha G seal 4 5 = Inr ()"
proof -
  obtain G where G: "groth16_constructor ex_sha CONTROL_ROOT ControlID_BN254 = Some (Inr G)"
    by (rule groth16_constructor_returns)
  define g where "g = \<lparr>groth16_seal = abi_words [7, 1, 0, 0, 0, 0, 0, 0],
    verifier_parameters = from_be_bytes (to_be_bytes (SELECTOR G) @ replicate 28 0)\<rparr>"
  have "take 4 (to_be_bytes (verifier_parameters g)) = to_be_bytes (SELECTOR G)"
    by (simp add: g_def to_from_be_bytes)
  then show ?thesis
    using encoded_receipt_verified [OF G, of "\<lparr>inner = Groth16 g, journal_bytes = []\<rparr>" g 7 1 0 0 0 0 0 0
        "\<lambda>c :: bytes32. c" ex_lenient 4 5] G
    by (auto simp: g_def ex_lenient_equation length_groth16_signals)
qed

end
