(* ===== verification/Governance_Token.thy ===== *)
theory Governance_Token
  imports Evm_Tx Execution_Guest
begin

text \<open>
  The token that the repository deploys for its assets, \<^verbatim>\<open>contracts/ERC20.sol\<close>: its storage, every
  function with Solidity's checked arithmetic, its runs, and what the \<^verbatim>\<open>BalanceOf\<close> strategy sees of it
  through the interface that the guest declares. Events are left out.
\<close>

section \<open>Storage and functions\<close>

record ERC20 =
  totalSupply :: u256
  token_balanceOf :: "address \<Rightarrow> u256"
  token_allowance :: "address \<Rightarrow> address \<Rightarrow> u256"
  token_name :: string
  token_symbol :: string
  token_decimals :: u8

definition ERC20_constructor :: "string \<Rightarrow> string \<Rightarrow> u8 \<Rightarrow> ERC20" where
  "ERC20_constructor nam symb dec =
     \<lparr>totalSupply = 0, token_balanceOf = (\<lambda>_. 0), token_allowance = (\<lambda>_ _. 0),
      token_name = nam, token_symbol = symb, token_decimals = dec\<rparr>"

text \<open>The statements \<^verbatim>\<open>balanceOf[a] -= amount\<close> and \<^verbatim>\<open>balanceOf[a] += amount\<close>.\<close>

definition debit :: "address \<Rightarrow> u256 \<Rightarrow> ERC20 \<Rightarrow> ERC20 tx" where
  "debit a amount t =
     rbind (checked_sub (token_balanceOf t a) amount) (\<lambda>v. Inr (t\<lparr>token_balanceOf := (token_balanceOf t)(a := v)\<rparr>))"

definition deposit :: "address \<Rightarrow> u256 \<Rightarrow> ERC20 \<Rightarrow> ERC20 tx" where
  "deposit a amount t =
     rbind (checked_add (token_balanceOf t a) amount) (\<lambda>v. Inr (t\<lparr>token_balanceOf := (token_balanceOf t)(a := v)\<rparr>))"

definition transfer :: "address \<Rightarrow> address \<Rightarrow> u256 \<Rightarrow> ERC20 \<Rightarrow> (bool \<times> ERC20) tx" where
  "transfer sender recipient amount t =
     rbind (debit sender amount t) (\<lambda>t1.
     rbind (deposit recipient amount t1) (\<lambda>t2. Inr (True, t2)))"

definition approve :: "address \<Rightarrow> address \<Rightarrow> u256 \<Rightarrow> ERC20 \<Rightarrow> (bool \<times> ERC20) tx" where
  "approve sender spender amount t =
     Inr (True, t\<lparr>token_allowance := (token_allowance t)(sender := (token_allowance t sender)(spender := amount))\<rparr>)"

definition transferFrom :: "address \<Rightarrow> address \<Rightarrow> address \<Rightarrow> u256 \<Rightarrow> ERC20 \<Rightarrow> (bool \<times> ERC20) tx" where
  "transferFrom caller sender recipient amount t =
     rbind (checked_sub (token_allowance t sender caller) amount) (\<lambda>left.
     let t0 = t\<lparr>token_allowance := (token_allowance t)(sender := (token_allowance t sender)(caller := left))\<rparr> in
     rbind (debit sender amount t0) (\<lambda>t1.
     rbind (deposit recipient amount t1) (\<lambda>t2. Inr (True, t2))))"

definition mint_internal :: "address \<Rightarrow> u256 \<Rightarrow> ERC20 \<Rightarrow> ERC20 tx" where
  "mint_internal a amount t =
     rbind (deposit a amount t) (\<lambda>t1.
     rbind (checked_add (totalSupply t1) amount) (\<lambda>v. Inr (t1\<lparr>totalSupply := v\<rparr>)))"

definition burn_internal :: "address \<Rightarrow> u256 \<Rightarrow> ERC20 \<Rightarrow> ERC20 tx" where
  "burn_internal a amount t =
     rbind (debit a amount t) (\<lambda>t1.
     rbind (checked_sub (totalSupply t1) amount) (\<lambda>v. Inr (t1\<lparr>totalSupply := v\<rparr>)))"

text \<open>The external functions have no access control: the sender does not matter.\<close>

definition mint :: "address \<Rightarrow> address \<Rightarrow> u256 \<Rightarrow> ERC20 \<Rightarrow> ERC20 tx" where
  "mint sender to amount t = mint_internal to amount t"

definition burn :: "address \<Rightarrow> address \<Rightarrow> u256 \<Rightarrow> ERC20 \<Rightarrow> ERC20 tx" where
  "burn sender from amount t = burn_internal from amount t"

inductive erc20_step :: "ERC20 \<Rightarrow> ERC20 \<Rightarrow> bool" where
  step_transfer: "transfer sender recipient amount t = Inr (ok, t') \<Longrightarrow> erc20_step t t'"
| step_approve: "approve sender spender amount t = Inr (ok, t') \<Longrightarrow> erc20_step t t'"
| step_transferFrom: "transferFrom caller sender recipient amount t = Inr (ok, t') \<Longrightarrow> erc20_step t t'"
| step_mint: "mint sender to amount t = Inr t' \<Longrightarrow> erc20_step t t'"
| step_burn: "burn sender from amount t = Inr t' \<Longrightarrow> erc20_step t t'"

definition erc20_reachable :: "ERC20 \<Rightarrow> bool" where
  "erc20_reachable t \<longleftrightarrow> (\<exists>nam symb dec. erc20_step\<^sup>*\<^sup>* (ERC20_constructor nam symb dec) t)"

section \<open>Conservation\<close>

definition circulating :: "ERC20 \<Rightarrow> nat" where
  "circulating t = (\<Sum>a\<in>UNIV. unat (token_balanceOf t a))"

lemma circulating_split:
  "circulating t = unat (token_balanceOf t a) + (\<Sum>x\<in>UNIV - {a}. unat (token_balanceOf t x))"
  unfolding circulating_def by (rule sum.remove) simp_all

lemma circulating_update:
  assumes "token_balanceOf t' = (token_balanceOf t)(a := v)"
  shows "circulating t' + unat (token_balanceOf t a) = circulating t + unat v"
proof -
  have "(\<Sum>x\<in>UNIV - {a}. unat (token_balanceOf t' x)) = (\<Sum>x\<in>UNIV - {a}. unat (token_balanceOf t x))"
    using assms by (intro sum.cong) auto
  then show ?thesis using circulating_split [of t a] circulating_split [of t' a] assms by simp
qed

lemma balance_le_circulating: "unat (token_balanceOf t a) \<le> circulating t"
  using circulating_split [of t a] by simp

lemma debit_circulating:
  "debit a amount t = Inr t' \<Longrightarrow>
   circulating t' + unat amount = circulating t \<and> totalSupply t' = totalSupply t \<and> token_allowance t' = token_allowance t"
  using circulating_update [of t' t a "token_balanceOf t a - amount"] unat_sub_exact [of amount "token_balanceOf t a"]
  by (auto simp: debit_def outcome_iff)

lemma deposit_circulating:
  "deposit a amount t = Inr t' \<Longrightarrow>
   circulating t' = circulating t + unat amount \<and> totalSupply t' = totalSupply t \<and> token_allowance t' = token_allowance t"
  using circulating_update [of t' t a "token_balanceOf t a + amount"] unat_add_exact [of "token_balanceOf t a" amount]
  by (auto simp: deposit_def outcome_iff)

definition erc20_ok :: "ERC20 \<Rightarrow> bool" where
  "erc20_ok t \<longleftrightarrow> circulating t = unat (totalSupply t)"

lemma circulating_congs [simp]:
  "circulating (t\<lparr>totalSupply := v\<rparr>) = circulating t" "circulating (t\<lparr>token_allowance := al\<rparr>) = circulating t"
  by (simp_all add: circulating_def)

lemma transfer_keeps: "transfer s r amount t = Inr (ok, t') \<Longrightarrow> erc20_ok t \<Longrightarrow> erc20_ok t'"
  by (auto simp: transfer_def outcome_iff erc20_ok_def dest!: debit_circulating deposit_circulating)

lemma transferFrom_keeps: "transferFrom c s r amount t = Inr (ok, t') \<Longrightarrow> erc20_ok t \<Longrightarrow> erc20_ok t'"
  by (auto simp: transferFrom_def outcome_iff erc20_ok_def Let_def dest!: debit_circulating deposit_circulating)

lemma mint_keeps: "mint s a amount t = Inr t' \<Longrightarrow> erc20_ok t \<Longrightarrow> erc20_ok t'"
  by (auto simp: mint_def mint_internal_def outcome_iff erc20_ok_def unat_add_exact dest!: deposit_circulating)

lemma burn_keeps: "burn s a amount t = Inr t' \<Longrightarrow> erc20_ok t \<Longrightarrow> erc20_ok t'"
  by (auto simp: burn_def burn_internal_def outcome_iff erc20_ok_def unat_sub_exact dest!: debit_circulating)

lemma approve_keeps: "approve s a amount t = Inr (ok, t') \<Longrightarrow> erc20_ok t \<Longrightarrow> erc20_ok t'"
  by (auto simp: approve_def erc20_ok_def)

lemmas erc20_keeps = transfer_keeps approve_keeps transferFrom_keeps mint_keeps burn_keeps

lemma erc20_step_keeps: "erc20_step t t' \<Longrightarrow> erc20_ok t \<Longrightarrow> erc20_ok t'"
  by (erule erc20_step.cases) (blast dest: erc20_keeps)+

lemma erc20_reachable_ok:
  assumes "erc20_reachable t"
  shows "erc20_ok t"
proof -
  from assms obtain nam symb dec where "erc20_step\<^sup>*\<^sup>* (ERC20_constructor nam symb dec) t"
    by (auto simp: erc20_reachable_def)
  then show ?thesis
  proof (induction rule: rtranclp_induct)
    case base
    show ?case by (simp add: erc20_ok_def circulating_def ERC20_constructor_def)
  next
    case (step t1 t2)
    then show ?case by (blast intro: erc20_step_keeps)
  qed
qed

lemma transfer_possible:
  assumes "erc20_ok t"
  shows "(\<exists>t'. transfer s r amount t = Inr (True, t')) \<longleftrightarrow> amount \<le> token_balanceOf t s"
proof
  assume "\<exists>t'. transfer s r amount t = Inr (True, t')"
  then show "amount \<le> token_balanceOf t s" by (auto simp: transfer_def debit_def outcome_iff)
next
  assume "amount \<le> token_balanceOf t s"
  then obtain t1 where t1: "debit s amount t = Inr t1" by (auto simp: debit_def checked_sub_def)
  have "unat (token_balanceOf t1 r) + unat amount \<le> circulating t"
    using debit_circulating [OF t1] balance_le_circulating [of t1 r] by simp
  also have "circulating t < 2 ^ 256"
    using assms unsigned_less [of "totalSupply t", where ?'a = nat] by (simp add: erc20_ok_def)
  finally obtain t2 where "deposit r amount t1 = Inr t2" by (auto simp: deposit_def checked_add_def)
  with t1 show "\<exists>t'. transfer s r amount t = Inr (True, t')" by (auto simp: transfer_def)
qed

text \<open>
  C26: The token is well-formed in every state it can reach: the balances of all accounts add up exactly to
  the total supply, so none exceeds it and a transfer fails for no other reason than a balance that is too
  small; in particular crediting the recipient never overflows.
\<close>

theorem token_conservation:
  assumes "erc20_reachable t"
  shows "(\<Sum>a\<in>UNIV. unat (token_balanceOf t a)) = unat (totalSupply t) \<and>
    token_balanceOf t x \<le> totalSupply t \<and>
    ((\<exists>t'. transfer sender recipient amount t = Inr (True, t')) \<longleftrightarrow> amount \<le> token_balanceOf t sender)"
proof -
  have ok: "erc20_ok t" using assms by (rule erc20_reachable_ok)
  then have "unat (token_balanceOf t x) \<le> unat (totalSupply t)"
    using balance_le_circulating [of t x] by (simp add: erc20_ok_def)
  with ok transfer_possible [OF ok] show ?thesis
    by (simp add: erc20_ok_def circulating_def word_le_nat_alt)
qed

definition ex_token :: ERC20 where
  "ex_token = \<lparr>totalSupply = 30, token_balanceOf = (\<lambda>_. 0)(7 := 30), token_allowance = (\<lambda>_ _. 0),
     token_name = ''Token'', token_symbol = ''TKN'', token_decimals = 18\<rparr>"

lemma ex_token_reachable: "erc20_reachable ex_token"
proof -
  have "mint 9 7 30 (ERC20_constructor ''Token'' ''TKN'' 18) = Inr ex_token"
    by (simp add: mint_def mint_internal_def deposit_def checked_add_def ERC20_constructor_def ex_token_def)
  then have "erc20_step\<^sup>*\<^sup>* (ERC20_constructor ''Token'' ''TKN'' 18) ex_token"
    by (intro r_into_rtranclp step_mint)
  then show ?thesis unfolding erc20_reachable_def by blast
qed

theorem token_conservation_witness:
  "(\<Sum>a\<in>UNIV. unat (token_balanceOf ex_token a)) = 30 \<and>
   (\<exists>t'. transfer 7 8 30 ex_token = Inr (True, t')) \<and> \<not> (\<exists>t'. transfer 7 8 31 ex_token = Inr (True, t'))"
  using token_conservation [OF ex_token_reachable, of 7 7 8 30] token_conservation [OF ex_token_reachable, of 7 7 8 31]
  by (simp add: ex_token_def)

section \<open>The token seen by the strategies\<close>

text \<open>
  A call to the contract: its public state variables have getters, its functions their names; a call of
  anything else reverts, since there is no fallback function. The view calls with one word as an answer:
\<close>

definition erc20_call :: "ERC20 \<Rightarrow> string \<Rightarrow> address list \<Rightarrow> u256 option" where
  "erc20_call t signature args =
     (if signature = ''totalSupply()'' then Some (totalSupply t)
      else if signature = ''balanceOf(address)'' \<and> length args = 1 then Some (token_balanceOf t (args ! 0))
      else if signature = ''allowance(address,address)'' \<and> length args = 2
      then Some (token_allowance t (args ! 0) (args ! 1))
      else if signature = ''decimals()'' then Some (ucast (token_decimals t))
      else None)"

text \<open>The interface \<^verbatim>\<open>IERC20\<close> of \<^verbatim>\<open>balance_of.rs\<close>, answered by this contract.\<close>

definition IERC20_of :: "ERC20 \<Rightarrow> IERC20" where
  "IERC20_of t =
     \<lparr>balanceOf = (\<lambda>a. erc20_call t ''balanceOf(address)'' [a]), getTotalSupply = erc20_call t ''getTotalSupply()'' []\<rparr>"

lemma BalanceOf_of_token:
  assumes "erc20_at (env_chain env) (asset_contract asset) = IERC20_of t"
  shows "BalanceOf_process env account asset = Inr (token_balanceOf t account)"
    and "BalanceOf_get_supply env asset = Inl Contract_call_failed"
  using assms by (simp_all add: BalanceOf_process_def BalanceOf_get_supply_def IERC20_of_def erc20_call_def)

text \<open>
  C37: With the repository's own token no execution can be proved. The \<^verbatim>\<open>BalanceOf\<close> strategy reads an
  account's power correctly, but asks for the supply with \<^verbatim>\<open>getTotalSupply()\<close>, which the token (like
  every ERC-20 token) does not have. So if an asset of the configuration is measured with \<^verbatim>\<open>BalanceOf\<close>
  and its contract is this token, the execution guest panics on every tally.
\<close>

theorem execution_needs_missing_getter:
  assumes "into_env L (xi_input inp) = Some env"
    and "read_config L env (xi_config_contract inp) (xi_proposal_id inp) = Inr config"
    and "asset \<in> set (assets config)" and "voting_power_strategy asset = ''BalanceOf''"
    and "erc20_at (env_chain env) (asset_contract asset) = IERC20_of t"
  shows "BalanceOf_process env account asset = Inr (token_balanceOf t account) \<and> (\<exists>e. execution_body L inp = Inl e)"
proof -
  let ?ctx = "Context_default (address_to_string L) env"
  have "process_total_supply ?ctx asset = Inl Contract_call_failed"
    using assms(4,5) by (simp add: Context_default_supply BalanceOf_of_token)
  then have "\<nexists>ss. mapM (process_total_supply ?ctx) (assets config) = Inr ss"
    using assms(3) by (auto simp: mapM_Inr_iff list_all2_conv_all_nth in_set_conv_nth)
  then obtain e where "mapM (process_total_supply ?ctx) (assets config) = Inl e"
    by (cases "mapM (process_total_supply ?ctx) (assets config)") auto
  then have "execution_body L inp = Inl e"
    using assms(1,2) by (simp add: execution_body_def total_supply_power_def)
  then show ?thesis using BalanceOf_of_token [OF assms(5)] by simp
qed

definition ex_token_env :: GuestEvmEnv where
  "ex_token_env = ex_env\<lparr>env_chain := ex_chain\<lparr>erc20_at := (\<lambda>_. IERC20_of ex_token)\<rparr>\<rparr>"

theorem execution_needs_missing_getter_witness:
  "BalanceOf_process ex_token_env 7 ex_asset = Inr 30 \<and>
   (\<exists>e. execution_body (ex_libs\<lparr>into_env := \<lambda>_. Some ex_token_env\<rparr>) ex_execution_input = Inl e)"
proof -
  have cfg: "read_config (ex_libs\<lparr>into_env := \<lambda>_. Some ex_token_env\<rparr>) ex_token_env
      (xi_config_contract ex_execution_input) (xi_proposal_id ex_execution_input) = Inr ex_config"
    using ex_read_config by (simp add: read_config_def ex_token_env_def ex_execution_input_def ex_env_def ex_chain_def)
  have env: "into_env (ex_libs\<lparr>into_env := \<lambda>_. Some ex_token_env\<rparr>) (xi_input ex_execution_input) = Some ex_token_env"
    by simp
  have "ex_asset \<in> set (assets ex_config)" and "voting_power_strategy ex_asset = ''BalanceOf''"
      and "erc20_at (env_chain ex_token_env) (asset_contract ex_asset) = IERC20_of ex_token"
    by (simp_all add: ex_config_def ex_asset_def ex_token_env_def)
  from execution_needs_missing_getter [OF env cfg this, of 7] show ?thesis by (simp add: ex_token_def)
qed

end
