(* ===== verification/Control_Ids.thy ===== *)
theory Control_Ids
  imports Risc0_Verifiers Text_Forms
begin

text \<open>
  The constants that prover and contract must share: \<^verbatim>\<open>groth16/ControlID.sol\<close>, from which the Groth16 contract
  is deployed, and the unit tests of \<^verbatim>\<open>lib/risc0/groth16.rs\<close>, which search the text of that file for the
  parameters of the prover. The parameters themselves, their digest and the printing of a digest belong to the
  zkVM and are arguments.
\<close>

section \<open>Searching a file\<close>

definition is_space :: "char \<Rightarrow> bool" where
  "is_space ch \<longleftrightarrow> ch \<in> {CHR '' '', CHR 0x09, CHR 0x0A, CHR 0x0B, CHR 0x0C, CHR 0x0D}"

definition is_hex_digit :: "char \<Rightarrow> bool" where
  "is_hex_digit ch \<longleftrightarrow> ch \<in> set ''0123456789abcdefABCDEF''"

fun after_prefix :: "string \<Rightarrow> string \<Rightarrow> string option" where
  "after_prefix [] s = Some s"
| "after_prefix (p # ps) [] = None"
| "after_prefix (p # ps) (ch # s) = (if p = ch then after_prefix ps s else None)"

text \<open>
  The expression \<^verbatim>\<open>NAME\s*=\s*hex"([0-9a-fA-F]+)"\<close> at the start of a text (of ASCII characters), and its
  capture. No repetition can give back what it took, since what follows it starts with another kind of character.
\<close>

definition match_quoted :: "string \<Rightarrow> string option" where
  "match_quoted s =
     (let digits = takeWhile is_hex_digit s in
      if digits = [] \<or> after_prefix [CHR 0x22] (drop (length digits) s) = None then None else Some digits)"

definition match_hex :: "string \<Rightarrow> string option" where
  "match_hex s = Option.bind (after_prefix (''hex'' @ [CHR 0x22]) (dropWhile is_space s)) match_quoted"

definition match_assign :: "string \<Rightarrow> string option" where
  "match_assign s = Option.bind (after_prefix ''='' (dropWhile is_space s)) match_hex"

definition match_digest :: "string \<Rightarrow> string \<Rightarrow> string option" where
  "match_digest name s = Option.bind (after_prefix name s) match_assign"

text \<open>\<^verbatim>\<open>captures\<close>: the leftmost match.\<close>

fun captures :: "string \<Rightarrow> string \<Rightarrow> string option" where
  "captures name [] = match_digest name []"
| "captures name (ch # s) =
     (case match_digest name (ch # s) of None \<Rightarrow> captures name s | Some digits \<Rightarrow> Some digits)"

definition parse_digest :: "(string \<Rightarrow> string Result) \<Rightarrow> string \<Rightarrow> string \<Rightarrow> string Result" where
  "parse_digest read_to_string file_path name =
     rbind (read_to_string file_path) (\<lambda>content.
       case captures name content of None \<Rightarrow> Inl (name @ '' not found'') | Some digits \<Rightarrow> Inr digits)"

section \<open>The tests\<close>

text \<open>The parameters of the prover; the type of its verification key is left open.\<close>

record 'vk Groth16ReceiptVerifierParameters =
  control_root :: bytes32
  bn254_control_id :: bytes32
  verifying_key :: 'vk

definition CONTROL_ID_PATH :: string where
  "CONTROL_ID_PATH = ''./src/groth16/ControlID.sol''"

definition control_root_is_consistent ::
    "(string \<Rightarrow> string Result) \<Rightarrow> (bytes32 \<Rightarrow> string) \<Rightarrow> 'vk Groth16ReceiptVerifierParameters \<Rightarrow> unit exec" where
  "control_root_is_consistent read_to_string Digest_to_string params =
     (let expected_control_root = Digest_to_string (control_root params) in
      rbind (unwrap_result (parse_digest read_to_string CONTROL_ID_PATH ''CONTROL_ROOT'')) (\<lambda>root.
        rassert (root = expected_control_root)))"

definition bn254_control_id_is_consistent ::
    "(string \<Rightarrow> string Result) \<Rightarrow> (u8 list \<Rightarrow> string) \<Rightarrow> 'vk Groth16ReceiptVerifierParameters \<Rightarrow> unit exec" where
  "bn254_control_id_is_consistent read_to_string hex_encode params =
     (let expected_bn254_control_id = hex_encode (rev (to_be_bytes (bn254_control_id params))) in
      rbind (unwrap_result (parse_digest read_to_string CONTROL_ID_PATH ''BN254_CONTROL_ID'')) (\<lambda>i.
        rassert (i = expected_bn254_control_id)))"

text \<open>The text of \<^verbatim>\<open>ControlID.sol\<close>.\<close>

definition ControlID_lines :: "string list" where
  "ControlID_lines = map (\<lambda>line. line @ [CHR 0x0A])
     [''// Copyright 2024 RISC Zero, Inc.'',
      ''//'',
      ''// Licensed under the Apache License, Version 2.0 (the \"License\");'',
      ''// you may not use this file except in compliance with the License.'',
      ''// You may obtain a copy of the License at'',
      ''//'',
      ''//     http://www.apache.org/licenses/LICENSE-2.0'',
      ''//'',
      ''// Unless required by applicable law or agreed to in writing, software'',
      ''// distributed under the License is distributed on an \"AS IS\" BASIS,'',
      ''// WITHOUT WARRANTIES OR CONDITIONS OF ANY KIND, either express or implied.'',
      ''// See the License for the specific language governing permissions and'',
      ''// limitations under the License.'',
      ''//'',
      ''// SPDX-License-Identifier: Apache-2.0'',
      '''',
      ''// This file is automatically generated by:'',
      ''// cargo xtask bootstrap-groth16'',
      '''',
      ''pragma solidity ^0.8.9;'',
      '''',
      ''library ControlID {'',
      ''    bytes32 public constant CONTROL_ROOT = hex\"8b6dcf11d463ac455361b41fb3ed053febb817491bdea00fdb340e45013b852e\";'',
      ''    // NOTE: This has the opposite byte order to the value in the risc0 repository.'',
      ''    bytes32 public constant BN254_CONTROL_ID = hex\"05a022e1db38457fb510bc347b30eb8f8cf3eda95587653d0eac19e1f10d164e\";'',
      ''}'']"

definition ControlID_sol :: string where
  "ControlID_sol = concat ControlID_lines"

section \<open>What the tests find\<close>

text \<open>A line is skipped when the name differs from the line at every position, within the line.\<close>

fun clash :: "string \<Rightarrow> string \<Rightarrow> bool" where
  "clash (p # ps) (ch # s) \<longleftrightarrow> p \<noteq> ch \<or> clash ps s"
| "clash _ _ \<longleftrightarrow> False"

fun skips :: "string \<Rightarrow> string \<Rightarrow> bool" where
  "skips name [] \<longleftrightarrow> True"
| "skips name (ch # s) \<longleftrightarrow> clash name (ch # s) \<and> skips name s"

lemma after_prefix_clash: "clash name t \<Longrightarrow> after_prefix name (t @ s) = None"
  by (induction name t rule: clash.induct) auto

lemma captures_skip: "skips name line \<Longrightarrow> captures name (line @ s) = captures name s"
proof (induction line)
  case (Cons ch line)
  then show ?case
    using after_prefix_clash [of name "ch # line" s] by (simp add: match_digest_def)
qed simp

lemma captures_lines: "captures name (concat lines) = captures name (concat (dropWhile (skips name) lines))"
  by (induction lines) (auto simp: captures_skip)

lemma captures_ControlID:
  "captures ''CONTROL_ROOT'' ControlID_sol = Some ''8b6dcf11d463ac455361b41fb3ed053febb817491bdea00fdb340e45013b852e''"
  "captures ''BN254_CONTROL_ID'' ControlID_sol = Some ''05a022e1db38457fb510bc347b30eb8f8cf3eda95587653d0eac19e1f10d164e''"
  unfolding ControlID_sol_def captures_lines [of _ ControlID_lines] by code_simp+

lemma hex_ControlID:
  "to_hex_string (to_be_bytes CONTROL_ROOT) = ''8b6dcf11d463ac455361b41fb3ed053febb817491bdea00fdb340e45013b852e''"
  "to_hex_string (to_be_bytes ControlID_BN254) = ''05a022e1db38457fb510bc347b30eb8f8cf3eda95587653d0eac19e1f10d164e''"
  by code_simp+

lemmas ControlID_texts = captures_ControlID [folded hex_ControlID]

lemma to_hex_string_eq_iff: "to_hex_string bs = to_hex_string bs' \<longleftrightarrow> bs = bs'"
  using to_hex_string_injective by blast

text \<open>On the file of the repository the tests pass exactly for the parameters that the contract is deployed with.\<close>

lemma consistent_iff:
  assumes "read_to_string CONTROL_ID_PATH = Inr ControlID_sol"
    and "Digest_to_string = (\<lambda>d. to_hex_string (to_be_bytes d))" and "hex_encode = to_hex_string"
  shows "control_root_is_consistent read_to_string Digest_to_string params = Inr () \<longleftrightarrow> control_root params = CONTROL_ROOT"
    and "bn254_control_id_is_consistent read_to_string hex_encode params = Inr () \<longleftrightarrow>
      bn254_control_id params = reverseByteOrderUint256 ControlID_BN254"
proof -
  show "control_root_is_consistent read_to_string Digest_to_string params = Inr () \<longleftrightarrow> control_root params = CONTROL_ROOT"
    by (auto simp: control_root_is_consistent_def parse_digest_def assms ControlID_texts to_hex_string_eq_iff u256_be.enc_eq_iff)
  have "to_be_bytes ControlID_BN254 = rev (to_be_bytes (bn254_control_id params)) \<longleftrightarrow>
      bn254_control_id params = reverseByteOrderUint256 ControlID_BN254"
    by (metis reverseByteOrderUint256_bytes rev_rev_ident u256_be.enc_eq_iff)
  then show "bn254_control_id_is_consistent read_to_string hex_encode params = Inr () \<longleftrightarrow>
      bn254_control_id params = reverseByteOrderUint256 ControlID_BN254"
    by (simp add: bn254_control_id_is_consistent_def parse_digest_def assms ControlID_texts to_hex_string_eq_iff)
qed

text \<open>
  The tests look at two of the three parameters: they pass or fail whatever the verification key of the prover is.
\<close>

lemma tests_ignore_key:
  "control_root_is_consistent read_to_string Digest_to_string (params\<lparr>verifying_key := k\<rparr>) =
     control_root_is_consistent read_to_string Digest_to_string params"
  "bn254_control_id_is_consistent read_to_string hex_encode (params\<lparr>verifying_key := k\<rparr>) =
     bn254_control_id_is_consistent read_to_string hex_encode params"
  by (simp_all add: control_root_is_consistent_def bn254_control_id_is_consistent_def)

text \<open>
  What the zkVM documents of the digest of its parameters: the tagged hash of the control root, the control id and
  the digest of the verification key.
\<close>

definition digest_documented ::
    "(u8 list \<Rightarrow> bytes32) \<Rightarrow> ('vk \<Rightarrow> bytes32) \<Rightarrow> ('vk Groth16ReceiptVerifierParameters \<Rightarrow> bytes32) \<Rightarrow> bool" where
  "digest_documented sha256 key_digest parameters_digest \<longleftrightarrow>
     (\<forall>params. parameters_digest params =
        sha256 (to_be_bytes (sha256 (string_bytes ''risc0.Groth16ReceiptVerifierParameters'')) @
          to_be_bytes (control_root params) @ to_be_bytes (bn254_control_id params) @
          to_be_bytes (key_digest (verifying_key params)) @ to_be_bytes (push_bit 8 3 :: u16)))"

lemma selector_bytes: "to_be_bytes (ucast (drop_bit 224 (d :: bytes32)) :: bytes4) = take 4 (to_be_bytes d)"
proof -
  have "(ucast (drop_bit (8 * (4 - Suc i)) (ucast (drop_bit 224 d) :: bytes4)) :: u8) = ucast (drop_bit (8 * (32 - Suc i)) d)"
    if "i < 4" for i
  proof -
    have "8 * (4 - Suc i) + 224 = 8 * (32 - Suc i)" using that by simp
    then show ?thesis using that by (intro bit_word_eqI) (auto simp: bit_simps add.commute add.left_commute)
  qed
  then show ?thesis by (intro nth_equalityI) (simp_all add: nth_to_be_bytes)
qed

lemma groth16_constructor_selector:
  assumes "verifier_key_digest sha256 = Some (Inr (key_digest (verifying_key params)))"
    and "digest_documented sha256 key_digest parameters_digest"
    and "groth16_constructor sha256 root bn254 = Some (Inr G)"
    and "control_root params = root" and "bn254_control_id params = reverseByteOrderUint256 bn254"
  shows "to_be_bytes (SELECTOR G) = take 4 (to_be_bytes (parameters_digest params))"
  using assms by (auto simp: groth16_constructor_def digest_documented_def selector_bytes split: prod.splits)

section \<open>Properties\<close>

text \<open>
  C28: What the unit tests of the seal encoder give for the prover's seals. Let the tests pass on the repository's
  \<^verbatim>\<open>ControlID.sol\<close> for the parameters of the prover, and let the prover's verification key have the digest that the
  contract computes for its own key, which the tests do not compare. Then the seal that \<^verbatim>\<open>groth16::encode\<close> makes of
  eight words starts with the selector of the contract that is deployed with the constants of the file, it is the seal
  that \<^verbatim>\<open>encode_seal\<close> makes of the receipt, and the contract accepts it exactly when the words satisfy the Groth16
  equation for the claim. So the byte orders fit: the file has the control id in the opposite order to the prover, the
  test reverses it, and so does the contract.
\<close>

theorem consistent_seal_selected:
  assumes "read_to_string CONTROL_ID_PATH = Inr ControlID_sol"
    and "Digest_to_string = (\<lambda>d. to_hex_string (to_be_bytes d))" and "hex_encode = to_hex_string"
    and "control_root_is_consistent read_to_string Digest_to_string params = Inr ()"
    and "bn254_control_id_is_consistent read_to_string hex_encode params = Inr ()"
    and "verifier_key_digest sha256 = Some (Inr (key_digest (verifying_key params)))"
    and "digest_documented sha256 key_digest parameters_digest"
    and "groth16_constructor sha256 CONTROL_ROOT ControlID_BN254 = Some (Inr G)"
    and "inner receipt = Groth16 \<lparr>groth16_seal = abi_words [a0, a1, b0, b1, b2, b3, c0, c1],
           verifier_parameters = parameters_digest params\<rparr>"
  shows "\<exists>seal. groth16_encode (parameters_digest params) (abi_words [a0, a1, b0, b1, b2, b3, c0, c1]) = Inr seal \<and>
    encode_seal digest receipt = Inr seal \<and> calldata_selector seal = Inr (SELECTOR G) \<and>
    (groth16_verify E sha256 G seal imageId jd = Inr () \<longleftrightarrow>
       groth16_equation E [a0, a1] [b0, b1, b2, b3] [c0, c1]
         (groth16_signals G (ReceiptClaim_digest sha256 (ReceiptClaim_ok sha256 imageId jd))))"
proof -
  have "control_root params = CONTROL_ROOT" "bn254_control_id params = reverseByteOrderUint256 ControlID_BN254"
    using assms(4,5) consistent_iff [of read_to_string Digest_to_string hex_encode params, OF assms(1-3)] by simp_all
  then have selector: "take 4 (to_be_bytes (parameters_digest params)) = to_be_bytes (SELECTOR G)"
    using groth16_constructor_selector [OF assms(6,7,8)] by simp
  show ?thesis
    using seal_words [of a0 a1 b0 b1 b2 b3 c0 c1 "[]"]
    by (simp add: groth16_encode_def encode_seal_def assms(9) selector groth16_verify_def from_to_be_bytes
        groth16_verifyIntegrity_cases [OF control_id_in_field [OF assms(8)]])
qed

text \<open>A prover whose verification key is given by its digest.\<close>

definition ex_parameters_digest :: "bytes32 Groth16ReceiptVerifierParameters \<Rightarrow> bytes32" where
  "ex_parameters_digest params =
     ex_sha (to_be_bytes (ex_sha (string_bytes ''risc0.Groth16ReceiptVerifierParameters'')) @
       to_be_bytes (control_root params) @ to_be_bytes (bn254_control_id params) @ to_be_bytes (verifying_key params) @
       to_be_bytes (push_bit 8 3 :: u16))"

theorem consistent_seal_selected_witness:
  "\<exists>G d seal. groth16_constructor ex_sha CONTROL_ROOT ControlID_BN254 = Some (Inr G) \<and>
     groth16_encode d (abi_words [7, 1, 0, 0, 0, 0, 0, 0]) = Inr seal \<and> groth16_verify ex_lenient ex_sha G seal 4 5 = Inr ()"
proof -
  obtain G where G: "groth16_constructor ex_sha CONTROL_ROOT ControlID_BN254 = Some (Inr G)"
    by (rule groth16_constructor_returns)
  then obtain key where key: "verifier_key_digest ex_sha = Some (Inr key)"
    by (auto simp: groth16_constructor_def outcome_iff split: prod.splits option.splits)
  let ?params = "\<lparr>control_root = CONTROL_ROOT, bn254_control_id = reverseByteOrderUint256 ControlID_BN254, verifying_key = key\<rparr>"
  have key': "verifier_key_digest ex_sha = Some (Inr ((\<lambda>k. k) (verifying_key ?params)))" by (simp add: key)
  have dg: "digest_documented ex_sha (\<lambda>k. k) ex_parameters_digest"
    by (simp add: digest_documented_def ex_parameters_digest_def)
  have "\<exists>seal. groth16_encode (ex_parameters_digest ?params) (abi_words [7, 1, 0, 0, 0, 0, 0, 0]) = Inr seal \<and>
      encode_seal (\<lambda>c :: bytes32. c) \<lparr>inner = Groth16 \<lparr>groth16_seal = abi_words [7, 1, 0, 0, 0, 0, 0, 0],
        verifier_parameters = ex_parameters_digest ?params\<rparr>, journal_bytes = []\<rparr> = Inr seal \<and>
      calldata_selector seal = Inr (SELECTOR G) \<and>
      (groth16_verify ex_lenient ex_sha G seal 4 5 = Inr () \<longleftrightarrow>
         groth16_equation ex_lenient [7, 1] [0, 0, 0, 0] [0, 0]
           (groth16_signals G (ReceiptClaim_digest ex_sha (ReceiptClaim_ok ex_sha 4 5))))"
    by (rule consistent_seal_selected [of "\<lambda>_. Inr ControlID_sol" "\<lambda>d. to_hex_string (to_be_bytes d)" to_hex_string ?params
          ex_sha "\<lambda>k. k", OF refl refl refl _ _ key' dg G]) (simp_all add: consistent_iff)
  then show ?thesis
    using G by (auto simp: ex_lenient_equation length_groth16_signals)
qed

end
