(* ===== verification/Risc0_Cheats.thy ===== *)
theory Risc0_Cheats
  imports Risc0_Verifiers Text_Forms
begin

text \<open>
  Test support of the vendored contracts: \<^verbatim>\<open>lib/risc0/test/utils/Strings2.sol\<close>, which prints bytes into a
  buffer, and \<^verbatim>\<open>lib/risc0/test/RiscZeroCheats.sol\<close>, which proves a guest through a foreign command and deploys
  the verifier that fits the mode. The mock verifier beside them has the code of the one in
  \<^verbatim>\<open>contracts/mocks\<close>. The cheat codes of the test framework are arguments.
\<close>

section \<open>Printing bytes\<close>

definition symbols :: "u8 list" where
  "symbols = string_bytes ''0123456789abcdef''"

definition bytes_at :: "u8 list \<Rightarrow> u256 \<Rightarrow> u8 tx" where
  "bytes_at bs i = (if unat i < length bs then Inr (bs ! unat i) else Inl Array_panic)"

definition bytes_set :: "u8 list \<Rightarrow> u256 \<Rightarrow> u8 \<Rightarrow> u8 list tx" where
  "bytes_set bs i b = (if unat i < length bs then Inr (bs[unat i := b]) else Inl Array_panic)"

text \<open>The body of the loop for each byte, with the position after it.\<close>

fun toHexString_loop :: "u8 list \<Rightarrow> u256 \<Rightarrow> u8 list \<Rightarrow> u8 list tx" where
  "toHexString_loop [] pos hex_buffer = Inr hex_buffer"
| "toHexString_loop (b # input) pos hex_buffer =
     (let byte = ucast b :: u256 in
      rbind (bytes_at symbols (drop_bit 4 byte)) (\<lambda>high.
      rbind (checked_add pos 1) (\<lambda>pos1.
      rbind (bytes_set hex_buffer pos high) (\<lambda>hex_buffer1.
      rbind (bytes_at symbols (byte AND 0xf)) (\<lambda>low.
      rbind (checked_add pos1 1) (\<lambda>pos2.
      rbind (bytes_set hex_buffer1 pos1 low) (\<lambda>hex_buffer2.
        toHexString_loop input pos2 hex_buffer2)))))))"

definition toHexString :: "u8 list \<Rightarrow> u8 list tx" where
  "toHexString input =
     rbind (require (of_nat (length input) < (- 1 :: u256) div 2 - 1) (Require_failed '''')) (\<lambda>_.
     let hex_buffer = replicate (2 * length input + 2) 0 in
     rbind (bytes_set hex_buffer 0 (of_nat (of_char CHR ''0''))) (\<lambda>hex_buffer.
     rbind (bytes_set hex_buffer 1 (of_nat (of_char CHR ''x''))) (\<lambda>hex_buffer.
       toHexString_loop input 2 hex_buffer)))"

lemma symbols_nibble: "n < 16 \<Longrightarrow> symbols ! n = of_nat (of_char (hex_digit n))"
  unfolding symbols_def string_bytes_def hex_digit_def by (rule nth_map) simp

lemma length_symbols [simp]: "length symbols = 16"
  by (simp add: symbols_def string_bytes_def)

lemma byte_nibbles:
  fixes b :: u8
  shows "unat (drop_bit 4 (ucast b :: u256)) = unat b div 16" and "unat ((ucast b :: u256) AND 0xf) = unat b mod 16"
    and "unat b div 16 < 16"
proof -
  have b: "unat b < 256" using unsigned_less [of b, where ?'a = nat] by simp
  have widen: "unat (ucast b :: u256) = unat b" by (rule unat_ucast_widen) simp
  show "unat (drop_bit 4 (ucast b :: u256)) = unat b div 16"
    by (simp add: drop_bit_eq_div unat_div widen)
  have "(ucast b :: u256) AND 0xf = take_bit 4 (ucast b)"
    by (simp add: take_bit_eq_mask mask_eq_exp_minus_1)
  then show "unat ((ucast b :: u256) AND 0xf) = unat b mod 16"
    by (simp add: take_bit_eq_mod unat_mod widen)
  show "unat b div 16 < 16" using b by simp
qed

lemma bytes_at_symbols: "unat i < 16 \<Longrightarrow> bytes_at symbols i = Inr (of_nat (of_char (hex_digit (unat i))))"
  by (simp add: bytes_at_def symbols_nibble)

text \<open>The loop fills the rest of the buffer from where it stands.\<close>

lemma toHexString_loop_fills:
  assumes "unat pos = length done" and "length rest = 2 * length input" and "length done + length rest < 2 ^ 256"
  shows "toHexString_loop input pos (done @ rest) = Inr (done @ string_bytes (to_hex_string input))"
  using assms
proof (induction input arbitrary: pos "done" rest)
  case Nil
  then show ?case by (simp add: to_hex_string_def string_bytes_def)
next
  case (Cons b input)
  from Cons.prems(2) obtain x y rest' where rest: "rest = x # y # rest'" and len: "length rest' = 2 * length input"
    by (cases rest; cases "tl rest") auto
  have pos: "unat (pos + 1) = Suc (length done)" "unat (pos + 1 + 1) = Suc (Suc (length done))"
    using Cons.prems rest by (simp_all add: unat_word_ariths)
  let ?high = "of_nat (of_char (hex_digit (unat b div 16))) :: u8"
    and ?low = "of_nat (of_char (hex_digit (unat b mod 16))) :: u8"
  have "toHexString_loop (b # input) pos (done @ rest) =
      toHexString_loop input (pos + 1 + 1) ((done @ [?high, ?low]) @ rest')"
    using Cons.prems pos
    by (simp add: Let_def bytes_at_symbols byte_nibbles checked_add_def bytes_set_def rest list_update_append)
  also have "\<dots> = Inr ((done @ [?high, ?low]) @ string_bytes (to_hex_string input))"
    using Cons.prems pos rest len by (intro Cons.IH) simp_all
  finally show ?case
    by (simp add: to_hex_string_def string_bytes_def format_02x_def)
qed

text \<open>
  \<^verbatim>\<open>Strings2.toHexString\<close> prints what the guest's \<^verbatim>\<open>to_hex_string\<close> prints, behind \<^verbatim>\<open>0x\<close>: every write stays
  inside the buffer, no arithmetic overflows, and no byte of the buffer is left unwritten. The only inputs it
  refuses are those whose text would not fit into the address space.
\<close>

lemma toHexString_prints:
  assumes "length input < 2 ^ 256"
  shows "toHexString input =
    (if length input < 2 ^ 255 - 2 then Inr (string_bytes (''0x'' @ to_hex_string input)) else Inl (Require_failed ''''))"
proof -
  have "unat ((- 1 :: u256) div 2 - 1) = 2 ^ 255 - 2"
    by (simp add: unat_sub_if_size unat_div word_le_nat_alt)
  then have bound: "of_nat (length input) < (- 1 :: u256) div 2 - 1 \<longleftrightarrow> length input < 2 ^ 255 - 2"
    using assms by (simp add: word_less_nat_alt unat_of_nat take_bit_nat_eq_self)
  show ?thesis
  proof (cases "length input < 2 ^ 255 - 2")
    case True
    have "toHexString_loop input 2 ([48, 120] @ replicate (2 * length input) 0) =
        Inr ([48, 120] @ string_bytes (to_hex_string input))"
      using True by (intro toHexString_loop_fills) simp_all
    with True show ?thesis
      unfolding toHexString_def bound by (simp add: bytes_set_def Let_def string_bytes_def)
  next
    case False
    then show ?thesis unfolding toHexString_def bound by simp
  qed
qed

section \<open>Proving and deploying\<close>

definition devMode :: "(string \<Rightarrow> bool \<Rightarrow> bool) \<Rightarrow> bool" where
  "devMode envOr = envOr ''RISC0_DEV_MODE'' False"

record JournalSeal =
  js_journal :: "u8 list"
  js_seal :: "u8 list"

definition prove ::
    "(u8 list list \<Rightarrow> u8 list option) \<Rightarrow> (u8 list \<Rightarrow> JournalSeal option) \<Rightarrow> string \<Rightarrow> u8 list \<Rightarrow> (u8 list \<times> u8 list) tx" where
  "prove ffi abi_decode elf_path input =
     rbind (toHexString input) (\<lambda>hex.
     let imageRunnerInput =
           map string_bytes [''cargo'', ''run'', ''--locked'', ''--manifest-path'', ''lib/risc0-ethereum/ffi/Cargo.toml'',
             ''--bin'', ''risc0-forge-ffi'', ''-q'', ''prove'', elf_path] @ [hex]
     in case ffi imageRunnerInput of
          None \<Rightarrow> Inl Execution_reverted
        | Some result \<Rightarrow>
            (case abi_decode result of
               None \<Rightarrow> Inl Decode_failed
             | Some journalSeal \<Rightarrow> Inr (js_journal journalSeal, js_seal journalSeal)))"

text \<open>The verifier for the mode; in dev mode the mock verifier with selector zero.\<close>

definition deployRiscZeroVerifier ::
    "(string \<Rightarrow> bool \<Rightarrow> bool) \<Rightarrow> precompiles \<Rightarrow> (u8 list \<Rightarrow> bytes32) \<Rightarrow> (u8 list \<Rightarrow> bytes32) \<Rightarrow> verifier tx option" where
  "deployRiscZeroVerifier envOr E keccak sha256 =
     (if devMode envOr then Some (Inr (mock_contract keccak sha256 0))
      else case groth16_constructor sha256 CONTROL_ROOT ControlID_BN254 of
             None \<Rightarrow> None
           | Some r \<Rightarrow> Some (rbind r (\<lambda>G. Inr (groth16_contract E sha256 G))))"

text \<open>
  A deployment always succeeds, with a contract that keeps the law of the verifier interface. In dev mode it accepts
  the mock receipts; and in neither mode does it accept an empty seal, although the comment on \<^verbatim>\<open>prove\<close> says that
  the empty seal of dev mode is accepted by the mock verifier.
\<close>

lemma deployRiscZeroVerifier_law:
  "\<exists>v. deployRiscZeroVerifier envOr E keccak sha256 = Some (Inr v) \<and> risc_zero_verifier v (ok_digest sha256) \<and>
     (devMode envOr \<longrightarrow> v_verify v (receipt_seal (mockProve sha256 0 imageId jd)) imageId jd = Inr ()) \<and>
     v_verify v [] imageId jd = Inl Calldata_out_of_range"
proof (cases "devMode envOr")
  case True
  then show ?thesis
    by (simp add: deployRiscZeroVerifier_def mock.risc_zero_verifier_axioms)
      (simp add: mock_contract_def mock_verify_def mock_verifyIntegrity_def mockProve_def mockProve_digest_def
        calldata_selector_def from_to_be_bytes)
next
  case False
  obtain G where "groth16_constructor sha256 CONTROL_ROOT ControlID_BN254 = Some (Inr G)"
    by (rule groth16_constructor_returns)
  with False show ?thesis
    by (simp add: deployRiscZeroVerifier_def groth16.risc_zero_verifier_axioms)
      (simp add: groth16_contract_def groth16_verify_def groth16_verifyIntegrity_def calldata_selector_def)
qed

end
