(* ===== verification/Plugin_Views.thy ===== *)
theory Plugin_Views
  imports Plugin_Tally
begin

unbundle bit_operations_syntax

text \<open>
  The view functions of \<^verbatim>\<open>contracts/MajorityVotingBase.sol\<close> that show the settings, and its ERC-165 query. The
  selectors of the functions and the interfaces of the OSx base contracts are parameters.
\<close>

section \<open>Getters of the settings\<close>

definition supportThreshold :: "'act plugin \<Rightarrow> u32" where
  "supportThreshold s = vs_supportThreshold (votingSettings s)"

definition minParticipation :: "'act plugin \<Rightarrow> u32" where
  "minParticipation s = vs_minParticipation (votingSettings s)"

definition minDuration :: "'act plugin \<Rightarrow> u64" where
  "minDuration s = vs_minDuration (votingSettings s)"

definition minProposerVotingPower :: "'act plugin \<Rightarrow> u256" where
  "minProposerVotingPower s = vs_minProposerVotingPower (votingSettings s)"

definition votingMode :: "'act plugin \<Rightarrow> VotingMode" where
  "votingMode s = vs_votingMode (votingSettings s)"

definition plugin_verifier :: "'act plugin \<Rightarrow> address" where
  "plugin_verifier s = vs_verifier (votingSettings s)"

definition votingProtocolImageId :: "'act plugin \<Rightarrow> bytes32" where
  "votingProtocolImageId s = vs_votingProtocolImageId (votingSettings s)"

definition executionProtocolImageId :: "'act plugin \<Rightarrow> bytes32" where
  "executionProtocolImageId s = vs_executionProtocolImageId (votingSettings s)"

text \<open>The overload without an argument; the one for a proposal is \<open>plugin_votingProtocolConfig\<close>.\<close>

definition settings_votingProtocolConfig :: "'act plugin \<Rightarrow> string" where
  "settings_votingProtocolConfig s = vs_votingProtocolConfig (votingSettings s)"

lemmas settings_getters = supportThreshold_def minParticipation_def minDuration_def minProposerVotingPower_def
  votingMode_def plugin_verifier_def votingProtocolImageId_def executionProtocolImageId_def
  settings_votingProtocolConfig_def

section \<open>Interfaces\<close>

definition MAJORITY_VOTING_BASE_INTERFACE_ID :: "(string \<Rightarrow> bytes4) \<Rightarrow> bytes4" where
  "MAJORITY_VOTING_BASE_INTERFACE_ID selector =
     selector ''minDuration'' XOR selector ''minProposerVotingPower'' XOR selector ''votingMode'' XOR
     selector ''getProposal'' XOR selector ''updateVotingSettings'' XOR selector ''createProposal''"

definition supportsInterface :: "(string \<Rightarrow> bytes4) \<Rightarrow> bytes4 \<Rightarrow> (bytes4 \<Rightarrow> bool) \<Rightarrow> bytes4 \<Rightarrow> bool" where
  "supportsInterface selector IMajorityVoting_interfaceId super_supportsInterface interfaceId \<longleftrightarrow>
     interfaceId = MAJORITY_VOTING_BASE_INTERFACE_ID selector \<or> interfaceId = IMajorityVoting_interfaceId \<or>
     super_supportsInterface interfaceId"

section \<open>What the getters show\<close>

text \<open>
  The getters together show the whole settings: after \<^verbatim>\<open>initialize\<close> or \<^verbatim>\<open>updateVotingSettings\<close> they give back
  what was passed, and no other step changes any of them.
\<close>

lemma settings_round_trip:
  "\<lparr>vs_votingMode = votingMode s, vs_supportThreshold = supportThreshold s, vs_minParticipation = minParticipation s,
    vs_minDuration = minDuration s, vs_minProposerVotingPower = minProposerVotingPower s,
    vs_votingProtocolConfig = settings_votingProtocolConfig s, vs_verifier = plugin_verifier s,
    vs_votingProtocolImageId = votingProtocolImageId s, vs_executionProtocolImageId = executionProtocolImageId s\<rparr> =
   votingSettings s"
  by (simp add: settings_getters)

lemma settings_shown:
  "initialize vs = Inr s \<Longrightarrow> votingSettings s = vs"
  "updateVotingSettings P b vs s0 = Inr s \<Longrightarrow> votingSettings s = vs"
  by (auto simp: initialize_def updateVotingSettings_def updateVotingSettings_internal_Inr outcome_iff)

lemma settings_kept:
  assumes "counts_ids P" and "plugin_step P s s'"
  shows "votingSettings s' = votingSettings s \<or> (\<exists>b vs. updateVotingSettings P b vs s = Inr s')"
  using assms(2)
proof (cases rule: plugin_step.cases)
  case (step_create b a pid)
  then show ?thesis using createProposal_Inr [OF _ assms(1)] by fastforce
next
  case (step_vote b journalData seal)
  then show ?thesis by (auto elim!: vote_Inr)
qed (auto simp: mark_executed_def)

text \<open>A new proposal takes its mode, threshold, verifier, image ids and configuration from what the getters show.\<close>

lemma created_proposal_shows_settings:
  assumes "createProposal P b a s = Inr (pid, s')" and "counts_ids P"
  shows "pp_votingMode (parameters (proposals s' pid)) = votingMode s \<and>
    pp_supportThreshold (parameters (proposals s' pid)) = supportThreshold s \<and>
    pp_verifier (parameters (proposals s' pid)) = plugin_verifier s \<and>
    pp_votingProtocolImageId (parameters (proposals s' pid)) = votingProtocolImageId s \<and>
    pp_executionProtocolImageId (parameters (proposals s' pid)) = executionProtocolImageId s \<and>
    plugin_votingProtocolConfig s' pid = settings_votingProtocolConfig s"
  using createProposal_Inr [OF assms] by (auto simp: settings_getters plugin_votingProtocolConfig_def)

end
