(* ===== verification/Spec2Isabelle.thy ===== *)
theory Spec2Isabelle
  imports Voting_System Integration_Test Verified_Votes Governance_Token Control_Ids Risc0_Cheats Plugin_Views
begin

text \<open>
  Verification of the zero-knowledge governance program: token holders vote on a proposal of a DAO by
  publishing a proof of their voting power, and a proposal is executed with a proof that its tally passes.

  \<^bold>\<open>The program.\<close> A proposal lives in a plugin contract (\<^verbatim>\<open>contracts/\<close>). A configuration string
  names assets and strategies: how an account's power in an asset is measured, whose power a voter may use,
  and when a tally passes. The \<^verbatim>\<open>publisher\<close> (\<^verbatim>\<open>apps/\<close>) runs the strategies against a node,
  recording the calls, and hands its arguments and the recorded state to a guest program
  (\<^verbatim>\<open>methods/guest/\<close>) that runs the same strategies (\<^verbatim>\<open>strategies/\<close>) again inside the zkVM
  and commits a journal. The publisher sends journal and seal (\<^verbatim>\<open>lib/risc0/\<close>) to the plugin, which
  verifies the proof and counts the vote. A web server (\<^verbatim>\<open>server/\<close>) stores votes and starts the
  publisher on request.

  \<^bold>\<open>The theories.\<close>
  \<^item> \<open>Prelude\<close>: machine words, panics and errors as values, monadic maps and folds, wrapping sums,
    big-endian bytes, the interface of fixed-width encodings. \<open>Text_Forms\<close>: numbers and bytes as text, and
    reading them back.
  \<^item> \<open>Steel_Env\<close>: configuration types, contract interfaces and environments; a view call that fails
    is \<open>None\<close>. \<open>Split_Delegation\<close>, \<open>Strategies\<close>: the \<^verbatim>\<open>strategies\<close> crate, one definition per
    function, with the exact specification of delegation shares and of majority voting over the natural
    numbers.
  \<^item> \<open>Vote_Signature\<close>: hashing and signature recovery of \<^verbatim>\<open>voting_protocol.rs\<close> and the signing side
    in \<^verbatim>\<open>tests/src/lib.rs\<close>. \<open>Zkvm_Io\<close>: journals, library parameters, and the stream of words
    between host and guest. \<open>Voting_Guest\<close>, \<open>Execution_Guest\<close>: the two \<^verbatim>\<open>main\<close> functions from
    the input stream to the committed bytes.
  \<^item> \<open>Host_Env\<close>, \<open>Host_Strategies\<close>: the \<^verbatim>\<open>apps\<close> crate over a mutable host environment with a log of
    preflighted calls, and the simulation \<open>simulates\<close> between host and guest computations.
    \<open>Seal\<close>: \<^verbatim>\<open>encode_seal\<close>. \<open>Publisher\<close>: the two publishing programs.
  \<^item> \<open>Server\<close>: the table of votes and the handlers, with the table as an interface. \<open>Command_Line\<close>: the
    arguments of the publisher, and what the server, the script \<^verbatim>\<open>test-sepolia.sh\<close> and the integration test pass.
    \<open>Integration_Test\<close>: \<^verbatim>\<open>tests/tests/integration_tests.rs\<close>.
  \<^item> \<open>Evm_Tx\<close>: what all contracts share, the block, reverts as values, checked arithmetic, ABI words.
    \<open>Steel_Commitment\<close>: versioned identifiers and the validation of \<^verbatim>\<open>Steel.sol\<close>.
  \<^item> \<open>Plugin\<close>: storage, transactions and runs of the plugin (\<^verbatim>\<open>RiscVotingProtocolPlugin.sol\<close>,
    \<^verbatim>\<open>MajorityVotingBase.sol\<close>). \<open>Plugin_Tally\<close>: the tally over whole runs and the order of votes.
    \<open>Plugin_Views\<close>: the getters of the settings and the ERC-165 query.
    \<open>Plugin_Setup\<close>: installation, update and removal (\<^verbatim>\<open>RiscVotingProtocolPluginSetup.sol\<close>).
    \<open>Deployment\<close>: the build script \<^verbatim>\<open>methods/build.rs\<close> and the deployment script
    \<^verbatim>\<open>script/DeployCounter.s.sol\<close>. \<open>Abi\<close>: the ABI of the journals. \<open>Governance_Token\<close>:
    \<^verbatim>\<open>ERC20.sol\<close>, and the token as the strategies see it.
  \<^item> \<open>Receipt_Claim\<close>: byte order, tagged hashes and claim digests (\<^verbatim>\<open>Util.sol\<close>,
    \<^verbatim>\<open>StructHash.sol\<close>, \<^verbatim>\<open>IRiscZeroVerifier.sol\<close>). \<open>Groth16_Verifier\<close>: the assembly of
    \<^verbatim>\<open>Groth16Verifier.sol\<close> over an explicit memory of words, and the contract around it.
    \<open>Risc0_Verifiers\<close>: the verifier interface as a locale, with the Groth16 and the mock contract, the
    emergency stop and the router as its instances. \<open>Verified_Votes\<close>: the plugin on top of these contracts.
    \<open>Control_Ids\<close>: \<^verbatim>\<open>ControlID.sol\<close> and the unit tests that compare it with the prover. \<open>Risc0_Cheats\<close>: the
    test support in \<^verbatim>\<open>lib/risc0/test/\<close>.
  \<^item> \<open>Voting_System\<close>: from a request to the server over the publisher's transaction to the count in the plugin.
  \<^item> This theory: the properties that span guest, ABI and plugin.

  \<^bold>\<open>Modelling.\<close> A panic is a value of the type \<open>panic\<close>, an \<^verbatim>\<open>anyhow\<close> error a string, a revert a
  value of \<open>revert\<close>; every early return is a branch. \<^verbatim>\<open>U256\<close> is a 256-bit word: the guest's
  additions wrap, as in the library it uses, and Solidity's are checked. State is passed explicitly. All
  recursion is structural, over lists or by division, so nothing needs fuel; the loop of \<^verbatim>\<open>taggedList\<close> over a
  256-bit counter is a partial function in the option monad, and that it returns is proved for every list
  shorter than two to the 256. A run of the plugin is a sequence of the steps that change its storage; it carries
  their number, which is bounded by the width of the id counter. The DAO's call in \<^verbatim>\<open>execute\<close> may enter the
  plugin again: it is a parameter from the storage at the call to the storage at its return, and what it does to
  the plugin are further steps of the run after the marking of the proposal. Memory of the assembly is a map from
  byte offsets to words: the code accesses it only at multiples of 32, so accesses do not overlap in part. A process
  that another starts is a function from its variables and arguments to the transactions it sends and its status.

  \<^bold>\<open>Parameters.\<close> Keccak, SHA-256 and secp256k1, hex, JSON and ABI libraries, the stream encoding of the
  zkVM, Steel, the prover, the node and the wallet, the OSx contracts, the ownership and pausing libraries, the
  precompiled contracts of the curve, the option parser and the operating system are not in the repository. They are
  fields of
  \<open>crypto\<close>, \<open>guest_libs\<close>, \<open>stdin_codec\<close>, \<open>host_libs\<close>, \<open>plugin_libs\<close>, \<open>precompiles\<close>,
  \<open>Pausable\<close>, \<open>permission_manager\<close>, \<open>script_env\<close>, \<open>value_parsers\<close> and \<open>test_libs\<close> or
  arguments. What is relied on is stated where it is used:
  \<open>codec_ok\<close> (values are read back as written), \<open>agrees\<close> and \<open>steel_documented\<close> (Steel keeps the block and answers
  the preflighted calls), \<open>proves_guest\<close> and \<open>receipts_sound\<close> (receipts are of guest runs), \<open>prover_complete\<close> (what
  a guest returns is proved), \<open>clap_documented\<close> (options are found as written), \<open>digest_documented\<close> (what the
  prover's parameters hash to), \<open>answers_from\<close> (an environment shows the block it commits to), \<open>counts_ids\<close> (ids count upwards), \<open>journals_abi\<close>, \<open>pausable_ok\<close>
  (pausing pauses), \<open>manager_ok\<close> (granting and revoking change the named permission), \<open>dao_transacts\<close> (only
  the plugin's functions write its storage), \<open>new_creates_setup\<close>, \<open>repo_publishes\<close> and \<open>dao_installs\<close> (a repository
  publishes its first version, and creating a DAO installs the published setups). Not a promise of a library but a
  condition on the votes is \<open>steady_power\<close>: all accepted votes of a voter on a proposal carry one power, which a voter
  can leave by changing the delegation data between two votes. That hashes do not collide is assumed only of the strings
  that are hashed in a theorem. The verifier of
  \<open>Plugin\<close> is a parameter there and the model of the contracts in \<open>Verified_Votes\<close>. The small chain,
  codec and libraries named \<open>ex_...\<close> satisfy them.

  \<^bold>\<open>What is shown.\<close> The delegation strategy and both guests compute exactly their specifications on the
  inputs where these are defined, and commit nothing else; for assets without \<^verbatim>\<open>GetPastVotes\<close> what the
  publisher checks suffices for the guest to return, on the very words the publisher writes, and a valid request to the
  server is submitted; the publisher submits only proved journals; a request reaches the publisher unchanged, and what
  is submitted for it at the snapshot block is counted as requested, for a voter who has not voted; what the plugin accepts is the power computed by the guest; proposals are frozen, and executed at most once
  also when the DAO re-enters; while powers are steady and fit together into 256 bits the tally is the sum of the votes
  that stand, the order of votes does not matter and the arithmetic blocks none; the signed hash binds every field of a
  vote; the server's table behaves as a table. The assembly of the proof check computes the Groth16
  equation, the claim digest binds image and journal up to collisions, the router gives a selector at most
  one implementation and the emergency stop is final, so every accepted transaction carries a checked proof
  for the image of its proposal; and when the unit tests of the seal encoder pass and the prover has the contract's
  verification key, which they do not compare, the prover's seals carry the selector of the contract. The token's
  balances add up to its supply, an installation grants exactly three permissions, and a deployment ends with one plugin, installed with the setup it has published, in its
  initial state. Further properties pin down where the parts do
  not fit together: a vote on a proposal needs a configuration that does not exist yet at the block the
  plugin demands, the execution publisher and the guest disagree on the order of their values, the plugin
  and the execution guest on the layout of the journal, host and guest on the block at which past votes are
  read and on accounts without delegations; the signer is not compared with the voter, truncated ratios
  and repeated accounts give more power than there is, votes are not refused after the end; the supply is
  asked for with a getter that the token does not have, an installed plugin cannot be removed, a seal can be changed
  into another one for the same claim, the contract executes whatever its stored tally says, and of the three callers
  of the publisher in the repository only the server can publish a vote, not the script and not the test.

  \<^bold>\<open>Not modelled.\<close> Logging and events, the decoding of HTTP requests and JSON, gas; the option parsing of the
  execution publisher, whose list-valued option has no caller in the repository; the private token checks and the
  getter of the implementation in the plugin setup, which nothing calls; the constants that the build generates; the
  build steps and messages of the shell script. The vendored \<^verbatim>\<open>forge-std\<close> is a test framework that the program
  does not run. What remains of the Rust sources outside these are imports, module declarations and trait bounds,
  which have no behaviour of their own.
\<close>

section \<open>From the guest to the plugin\<close>

text \<open>
  What a proof system promises of a verifier, an image and a journal: if the verifier accepts a seal for the image and
  the hash of the journal, then a run of the guest with that image committed the journal. Here the image is the voting
  guest's. (The verifier sees only the hash, so this includes that no other committed journal has the same one.)
\<close>

definition receipts_sound ::
    "'act plugin_libs \<Rightarrow> ('sig, 'pk, 'i) guest_libs \<Rightarrow> 'i stdin_codec \<Rightarrow> address \<Rightarrow> bytes32 \<Rightarrow> u8 list \<Rightarrow> bool" where
  "receipts_sound P L c v img j \<longleftrightarrow>
     (\<forall>seal. verify P v seal img (sha256 P j) \<longrightarrow> (\<exists>stdin. voting_protocol_main L c stdin = Inr j))"

text \<open>Both ends of the journal use the ABI.\<close>

definition journals_abi :: "'act plugin_libs \<Rightarrow> ('sig, 'pk, 'i) guest_libs \<Rightarrow> bool" where
  "journals_abi P L \<longleftrightarrow>
     abi_decode_journal P = abi_decode_VotingJournal \<and> abi_encode_voting L = abi_encode_VotingJournal"

text \<open>
  What Steel promises of an environment that commits to a block: its answers are those of the contracts
  at the end of that block. Here: the plugin's storage was \<open>s0\<close> at the end of the block with hash \<open>d\<close>.
\<close>

definition answers_from ::
    "'act plugin_libs \<Rightarrow> ('sig, 'pk, 'i) guest_libs \<Rightarrow> bytes32 \<Rightarrow> 'act plugin \<Rightarrow> bool" where
  "answers_from P L d s0 \<longleftrightarrow>
     (\<forall>i env. into_env L i = Some env \<longrightarrow> commitment_digest (env_commitment env) = d \<longrightarrow>
        votingProtocolConfig (config_at (env_chain env) (this_address P)) =
          (\<lambda>pid. Some (plugin_votingProtocolConfig s0 pid)))"

lemma vote_Inr_guest:
  assumes "vote P b j seal s = Inr s'" and "abi_decode_journal P j = Some journal"
    and "receipts_sound P L c (pp_verifier (parameters (proposals s (vj_proposal_id journal))))
      (pp_votingProtocolImageId (parameters (proposals s (vj_proposal_id journal)))) j"
    and "journals_abi P L"
  obtains inp env config where "into_env L (vi_input inp) = Some env"
    "read_config L env (vi_config_contract inp) (vi_proposal_id inp) = Inr config"
    "total_voting_power L (Context_default (address_to_string L) env) (vi_voter inp)
       (vi_additional_delegation_data inp) (assets config) = Inr (vi_balance inp)"
    "vote_admissible inp (vi_balance inp)" "journal = voting_journal env inp"
    "vj_config_contract journal = this_address P"
    "commitment_digest (env_commitment env) =
       pp_snapshotBlockHash (parameters (proposals s (vj_proposal_id journal)))"
proof -
  from assms(1,2) have this_plugin: "vj_config_contract journal = this_address P"
      and digest: "commitment_digest (vj_commitment journal) =
        pp_snapshotBlockHash (parameters (proposals s (vj_proposal_id journal)))"
      and "verify P (pp_verifier (parameters (proposals s (vj_proposal_id journal)))) seal
        (pp_votingProtocolImageId (parameters (proposals s (vj_proposal_id journal)))) (sha256 P j)"
    by (auto elim!: vote_Inr simp: check_commitment_def verify_proof_def outcome_iff)
  with assms(3) obtain stdin where "voting_protocol_main L c stdin = Inr j"
    unfolding receipts_sound_def by blast
  then obtain inp where "voting_body L inp = Inr j"
    by (auto simp: voting_protocol_main_def outcome_iff)
  then obtain env config where guest: "into_env L (vi_input inp) = Some env"
      "read_config L env (vi_config_contract inp) (vi_proposal_id inp) = Inr config"
      "total_voting_power L (Context_default (address_to_string L) env) (vi_voter inp)
         (vi_additional_delegation_data inp) (assets config) = Inr (vi_balance inp)"
      "vote_admissible inp (vi_balance inp)" and out: "j = abi_encode_voting L (voting_journal env inp)"
    by (elim voting_body_InrE) (auto simp: vote_admissible_def)
  from out assms(2,4) have journal: "journal = voting_journal env inp"
    by (simp add: journals_abi_def abi_decode_encode)
  with digest have "commitment_digest (env_commitment env) =
      pp_snapshotBlockHash (parameters (proposals s (vj_proposal_id journal)))"
    by (simp add: voting_journal_def)
  with that guest journal this_plugin show thesis by blast
qed

text \<open>
  An id that is given out later has no configuration in the storage before.
\<close>

lemma config_empty_before:
  assumes "counts_ids P" and "plugin_reachable P n0 s0" and "plugin_run P n s0 s" and "n0 + n < 2 ^ 256"
    and "createProposal P b a s = Inr (pid, s1)"
  shows "plugin_votingProtocolConfig s0 pid = ''''"
proof -
  from plugin_reachable_ok [OF assms(1,2)] assms(4)
  have ok: "plugin_ok s0" and count: "unat (proposalCounter s0) \<le> n0" by auto
  have "unat (proposalCounter s0) \<le> unat (proposalCounter s)"
    using plugin_runs.run_counted [of P n s0 s "\<lambda>s. unat (proposalCounter s)" "2 ^ 256",
        OF assms(3) plugin_step_counter [OF assms(1)]] count assms(4) by simp
  moreover have "pid = proposalCounter s" using createProposal_Inr [OF assms(5,1)] by blast
  ultimately show ?thesis
    using ok by (simp add: plugin_ok_def plugin_votingProtocolConfig_def empty_Proposal_def)
qed

section \<open>A concrete chain of both\<close>

text \<open>
  The guest gets one of two environments: at the block before the proposal exists, with the plugin's
  answers there, or at a later block.
\<close>

definition ex_snapshot_env :: GuestEvmEnv where
  "ex_snapshot_env = ex_env\<lparr>env_chain := ex_chain\<lparr>config_at := \<lambda>_.
       \<lparr>votingProtocolConfig = \<lambda>pid. Some (plugin_votingProtocolConfig ex_plugin0 pid)\<rparr>\<rparr>,
     env_commitment := \<lparr>commitment_id = 10, commitment_digest = 5, commitment_configID = 9\<rparr>\<rparr>"

definition ex_abi_codec :: "bool stdin_codec" where
  "ex_abi_codec = ex_codec_for (\<lambda>b. if b then [1] else []) (\<lambda>bs. bs \<noteq> [])"

definition ex_abi_libs :: "(unit, unit, bool) guest_libs" where
  "ex_abi_libs =
     \<lparr>Keccak_v256 = Keccak_v256 ex_libs, RecoveryId_from_byte = RecoveryId_from_byte ex_libs,
      Signature_from_slice = Signature_from_slice ex_libs, recover_from_prehash = recover_from_prehash ex_libs,
      to_encoded_point = to_encoded_point ex_libs,
      into_env = (\<lambda>snapshot. Some (if snapshot then ex_snapshot_env else ex_env)),
      sepolia_chain_id = sepolia_chain_id ex_libs, address_to_string = address_to_string ex_libs,
      config_from_str = config_from_str ex_libs, Vec_from_hex = Vec_from_hex ex_libs,
      Bytes_from_str = Bytes_from_str ex_libs, abi_encode_voting = abi_encode_VotingJournal,
      abi_encode_execution = abi_encode_ExecutionJournal\<rparr>"

definition ex_abi_input :: "bool voting_input" where
  "ex_abi_input =
     \<lparr>vi_input = False, vi_signature = ''sig'', vi_voter = 1, vi_dao = 77, vi_proposal_id = 0,
      vi_direction = 2, vi_balance = 200, vi_config_contract = 48,
      vi_additional_delegation_data = ''two and four''\<rparr>"

definition ex_abi_journal :: "u8 list" where
  "ex_abi_journal = abi_encode_VotingJournal (voting_journal ex_env ex_abi_input)"

text \<open>The verifier accepts the hash of the journal that the guest commits at the later block.\<close>

definition ex_abi_plugin_libs :: "unit plugin_libs" where
  "ex_abi_plugin_libs = ex_plugin_libs\<lparr>sha256 := (\<lambda>j. if j = ex_abi_journal then 1 else 0),
     verify := (\<lambda>_ _ _ h. h = 1), abi_decode_journal := abi_decode_VotingJournal\<rparr>"

lemma ex_abi_codec_ok: "codec_ok ex_abi_codec"
  unfolding ex_abi_codec_def by (rule ex_codec_for_ok) simp

lemma ex_abi_guest: "\<exists>stdin. voting_protocol_main ex_abi_libs ex_abi_codec stdin = Inr ex_abi_journal"
proof -
  have recover: "recover_vote_signer ex_abi_libs ex_abi_input = Inr (drop 12 (to_be_bytes (5 :: bytes32)))"
    by (simp add: ex_abi_libs_def recover_vote_signer_def ex_libs_def ex_abi_input_def ecrecover_def
        into_recovery_id_def keccak256_def Let_def index_def slice_def nth_append)
  have libs: "address_to_string ex_abi_libs = address_to_string ex_libs"
      "into_env ex_abi_libs False = Some ex_env" "Bytes_from_str ex_abi_libs = Bytes_from_str ex_libs"
      "read_config ex_abi_libs ex_env 48 0 = Inr ex_config"
      "abi_encode_voting ex_abi_libs = abi_encode_VotingJournal"
    using ex_read_config by (simp_all add: ex_abi_libs_def read_config_def)
  have "voting_body ex_abi_libs ex_abi_input = Inr ex_abi_journal"
    using voting_body_complete [OF recover, of ex_env ex_config "[2, 4]"] ex_bytes ex_usable ex_exact_power
    by (simp add: libs vote_admissible_def ex_abi_journal_def)
      (simp add: ex_voting_input_def ex_abi_input_def libs)
  moreover obtain stdin where "read_voting_input ex_abi_codec stdin = Inr ex_abi_input"
    using read_voting_input_written [OF ex_abi_codec_ok, of ex_abi_input "[]"] by blast
  ultimately have "voting_protocol_main ex_abi_libs ex_abi_codec stdin = Inr ex_abi_journal"
    by (simp add: voting_protocol_main_def)
  then show ?thesis by blast
qed

lemma ex_receipts_sound: "receipts_sound ex_abi_plugin_libs ex_abi_libs ex_abi_codec v img j"
  using ex_abi_guest by (auto simp: receipts_sound_def ex_abi_plugin_libs_def split: if_splits)

lemma ex_journals_abi: "journals_abi ex_abi_plugin_libs ex_abi_libs"
  by (simp add: journals_abi_def ex_abi_plugin_libs_def ex_abi_libs_def)

section \<open>Properties across components\<close>

text \<open>
  C1: What a vote on chain means. If the verifier accepts only journals of the voting guest and both ends
  use the ABI, then a vote that the plugin accepts was computed by the guest from the configuration of the
  proposal, in an environment that commits to the proposal's snapshot block: the option is a real one, the
  weight is positive and is exactly the voting power the guest computed for the voter over the configured
  assets; and exactly this weight is added to the count of that option.
\<close>

theorem accepted_vote_is_guest_power:
  assumes "vote P b j seal s = Inr s'" and "abi_decode_journal P j = Some journal"
    and "receipts_sound P L c (pp_verifier (parameters (proposals s (vj_proposal_id journal))))
      (pp_votingProtocolImageId (parameters (proposals s (vj_proposal_id journal)))) j"
    and "journals_abi P L"
  shows "\<exists>i env config data opt.
     into_env L i = Some env \<and>
     commitment_digest (env_commitment env) =
       pp_snapshotBlockHash (parameters (proposals s (vj_proposal_id journal))) \<and>
     read_config L env (this_address P) (vj_proposal_id journal) = Inr config \<and>
     total_voting_power L (Context_default (address_to_string L) env) (vj_voter journal)
       data (assets config) = Inr (vj_balance journal) \<and>
     0 < vj_balance journal \<and> opt \<in> {Abstain, Yes, No} \<and> VoteOption_of (vj_direction journal) = Inr opt \<and>
     uint (tally_get opt (prop_tally (proposals s' (vj_proposal_id journal)))) =
       uint (tally_get opt (prop_tally (proposals s (vj_proposal_id journal))))
       - credit (voters (proposals s (vj_proposal_id journal)) (vj_voter journal)) opt (vj_balance journal)
       + uint (vj_balance journal)"
proof -
  obtain inp env config where guest: "into_env L (vi_input inp) = Some env"
      "read_config L env (vi_config_contract inp) (vi_proposal_id inp) = Inr config"
      "total_voting_power L (Context_default (address_to_string L) env) (vi_voter inp)
         (vi_additional_delegation_data inp) (assets config) = Inr (vi_balance inp)"
      "vote_admissible inp (vi_balance inp)" and journal: "journal = voting_journal env inp"
      and here: "vj_config_contract journal = this_address P"
      "commitment_digest (env_commitment env) =
         pp_snapshotBlockHash (parameters (proposals s (vj_proposal_id journal)))"
    using assms by (rule vote_Inr_guest)
  have fields: "vi_config_contract inp = this_address P" "vi_proposal_id inp = vj_proposal_id journal"
      "vi_voter inp = vj_voter journal" "vi_balance inp = vj_balance journal"
      "vi_direction inp = vj_direction journal"
    using here(1) by (simp_all add: journal voting_journal_def)
  from guest(4) have adm: "0 < vj_balance journal" "vj_direction journal \<in> {1, 2, 3}"
    by (simp_all add: vote_admissible_def fields)
  then obtain opt where opt: "VoteOption_of (vj_direction journal) = Inr opt" "opt \<in> {Abstain, Yes, No}"
    by (auto simp: VoteOption_of_def)
  then have "credit opt opt (vj_balance journal) = uint (vj_balance journal)"
    by (auto simp: credit_def)
  with vote_tally [OF assms(1,2)] opt(1)
  have "uint (tally_get opt (prop_tally (proposals s' (vj_proposal_id journal)))) =
       uint (tally_get opt (prop_tally (proposals s (vj_proposal_id journal))))
       - credit (voters (proposals s (vj_proposal_id journal)) (vj_voter journal)) opt (vj_balance journal)
       + uint (vj_balance journal)" by auto
  with guest here(2) adm(1) opt show ?thesis
    by (intro exI [of _ "vi_input inp"] exI [of _ env] exI [of _ config]
        exI [of _ "vi_additional_delegation_data inp"] exI [of _ opt]) (simp add: fields)
qed

lemma ex_abi_vote: "\<exists>s'. vote ex_abi_plugin_libs ex_block ex_abi_journal [] ex_abi_plugin = Inr s'"
proof -
  have "abi_decode_VotingJournal ex_abi_journal = Some (voting_journal ex_env ex_abi_input)"
    by (simp add: ex_abi_journal_def abi_decode_encode)
  then show ?thesis
    by (simp add: vote_def Let_def check_commitment_def decodeVersionedID_def verify_proof_def VoteOption_of_def
        tally_sub_def tally_add_def checked_add_def voting_journal_def ex_abi_input_def ex_env_def
        ex_abi_plugin_libs_def ex_abi_plugin_def ex_plugin_defs empty_Proposal_def mask_eq_exp_minus_1)
qed

theorem accepted_vote_is_guest_power_witness:
  "\<exists>s' i env config data opt.
     vote ex_abi_plugin_libs ex_block ex_abi_journal [] ex_abi_plugin = Inr s' \<and>
     into_env ex_abi_libs i = Some env \<and> commitment_digest (env_commitment env) = 7 \<and>
     read_config ex_abi_libs env 48 0 = Inr config \<and>
     total_voting_power ex_abi_libs (Context_default (address_to_string ex_abi_libs) env) 1
       data (assets config) = Inr 200 \<and>
     uint (tally_get opt (prop_tally (proposals s' 0))) = 200"
proof -
  obtain s' where vote: "vote ex_abi_plugin_libs ex_block ex_abi_journal [] ex_abi_plugin = Inr s'"
    using ex_abi_vote by blast
  have decode: "abi_decode_journal ex_abi_plugin_libs ex_abi_journal = Some (voting_journal ex_env ex_abi_input)"
    by (simp add: ex_abi_plugin_libs_def ex_abi_journal_def abi_decode_encode)
  have fields: "this_address ex_abi_plugin_libs = 48" "vj_proposal_id (voting_journal ex_env ex_abi_input) = 0"
      "vj_voter (voting_journal ex_env ex_abi_input) = 1" "vj_balance (voting_journal ex_env ex_abi_input) = 200"
      "pp_snapshotBlockHash (parameters (proposals ex_abi_plugin 0)) = 7"
      "prop_tally (proposals ex_abi_plugin 0) = \<lparr>tally_abstain = 0, tally_yes = 0, tally_no = 0\<rparr>"
      "voters (proposals ex_abi_plugin 0) 1 = VoteOption_None"
    by (simp_all add: ex_abi_plugin_libs_def ex_plugin_libs_def voting_journal_def ex_abi_input_def
        ex_abi_plugin_def ex_proposal_def empty_Proposal_def)
  have zero: "uint (tally_get opt \<lparr>tally_abstain = 0, tally_yes = 0, tally_no = 0\<rparr>) = 0" for opt
    by (cases opt) (simp_all add: tally_get_def)
  show ?thesis
    using accepted_vote_is_guest_power [OF vote decode ex_receipts_sound ex_journals_abi] vote
    unfolding fields zero by (auto simp: credit_def zero)
qed

text \<open>
  C5: No vote on a new proposal is ever accepted. The plugin insists on a commitment to the block before
  the one in which the proposal is created; the guest reads the proposal's configuration from the plugin
  at that very block, where the proposal does not exist yet and the configuration is the empty string,
  which is no configuration. So with sound receipts and an honest Steel, \<^verbatim>\<open>vote\<close> rejects every
  journal for the proposal, whatever happens after its creation.
\<close>

theorem no_vote_on_new_proposal:
  assumes "counts_ids P" and "plugin_reachable P n0 s0" and "plugin_run P n s0 s"
    and "createProposal P b a s = Inr (pid, s1)" and "plugin_run P m s1 s2" and "n0 + n + m + 1 < 2 ^ 256"
    and "receipts_sound P L c (vs_verifier (votingSettings s)) (vs_votingProtocolImageId (votingSettings s)) j"
    and "journals_abi P L"
    and "answers_from P L (blockhash b (block_number b - 1)) s0"
    and "config_from_str L '''' = None"
    and "abi_decode_journal P j = Some journal" and "vj_proposal_id journal = pid"
  shows "\<exists>e. vote P b' j seal s2 = Inl e"
proof (rule ccontr)
  assume "\<nexists>e. vote P b' j seal s2 = Inl e"
  then obtain s3 where vote: "vote P b' j seal s2 = Inr s3" by (cases "vote P b' j seal s2") auto
  note pid = createProposal_Inr [OF assms(4,1)]
  have bounds: "unat (proposalCounter s0) \<le> n0"
    using plugin_reachable_ok [OF assms(1,2)] assms(6) by simp
  have "unat (proposalCounter s) \<le> n0 + n"
    using plugin_runs.run_counted [of P n s0 s "\<lambda>s. unat (proposalCounter s)" "2 ^ 256",
        OF assms(3) plugin_step_counter [OF assms(1)]] bounds assms(6) by simp
  then have count: "unat (proposalCounter s1) = unat pid + 1" "unat (proposalCounter s1) + m < 2 ^ 256"
    using pid assms(6) by (auto simp: unat_word_ariths)
  have "keeps pid s1 s2"
    using plugin_run_keeps [OF assms(1,5) count(2)] count(1) by simp
  with pid have ps: "pp_snapshotBlockHash (parameters (proposals s2 pid)) = blockhash b (block_number b - 1)"
      "pp_votingProtocolImageId (parameters (proposals s2 pid)) = vs_votingProtocolImageId (votingSettings s)"
      "pp_verifier (parameters (proposals s2 pid)) = vs_verifier (votingSettings s)"
    by (auto simp: keeps_def)
  have sound: "receipts_sound P L c (pp_verifier (parameters (proposals s2 (vj_proposal_id journal))))
      (pp_votingProtocolImageId (parameters (proposals s2 (vj_proposal_id journal)))) j"
    using assms(7,12) ps(2,3) by simp
  obtain inp env config where guest: "into_env L (vi_input inp) = Some env"
      "read_config L env (vi_config_contract inp) (vi_proposal_id inp) = Inr config"
      "journal = voting_journal env inp" "vj_config_contract journal = this_address P"
      "commitment_digest (env_commitment env) = pp_snapshotBlockHash (parameters (proposals s2 (vj_proposal_id journal)))"
    by (rule vote_Inr_guest [OF vote assms(11) sound assms(8)])
  have "plugin_votingProtocolConfig s0 pid = ''''"
    using config_empty_before [OF assms(1,2,3) _ assms(4)] assms(6) by simp
  with guest(1,4,5) assms(9,12) ps(1)
  have "votingProtocolConfig (config_at (env_chain env) (this_address P)) pid = Some ''''"
    by (simp add: answers_from_def)
  with guest(2-4) assms(10,12) show False
    by (auto simp: read_config_def voting_journal_def)
qed

theorem no_vote_on_new_proposal_witness:
  "\<exists>e. vote ex_abi_plugin_libs ex_block ex_abi_journal [1] ex_plugin1 = Inl e"
proof (rule no_vote_on_new_proposal)
  show "counts_ids ex_abi_plugin_libs"
    by (simp add: counts_ids_def ex_abi_plugin_libs_def ex_plugin_libs_def)
  show "plugin_reachable ex_abi_plugin_libs 0 ex_plugin0"
    using ex_initialize run_refl by (auto simp: plugin_reachable_def)
  show "plugin_run ex_abi_plugin_libs 0 ex_plugin0 ex_plugin0" by (rule run_refl)
  show "createProposal ex_abi_plugin_libs ex_block ex_create ex_plugin0 = Inr (0, ex_plugin1)"
    using ex_createProposal by (simp add: createProposal_def ex_abi_plugin_libs_def)
  show "plugin_run ex_abi_plugin_libs 0 ex_plugin1 ex_plugin1" by (rule run_refl)
  show "0 + 0 + 0 + 1 < (2 :: nat) ^ 256" by simp
  show "receipts_sound ex_abi_plugin_libs ex_abi_libs ex_abi_codec (vs_verifier (votingSettings ex_plugin0))
      (vs_votingProtocolImageId (votingSettings ex_plugin0)) ex_abi_journal"
    by (rule ex_receipts_sound)
  show "journals_abi ex_abi_plugin_libs ex_abi_libs" by (rule ex_journals_abi)
  show "answers_from ex_abi_plugin_libs ex_abi_libs (blockhash ex_block (block_number ex_block - 1)) ex_plugin0"
    by (simp add: answers_from_def ex_abi_libs_def ex_snapshot_env_def ex_block_def ex_env_def)
  show "config_from_str ex_abi_libs '''' = None"
    by (simp add: ex_abi_libs_def ex_libs_def)
  show "abi_decode_journal ex_abi_plugin_libs ex_abi_journal = Some (voting_journal ex_env ex_abi_input)"
    by (simp add: ex_abi_plugin_libs_def ex_abi_journal_def abi_decode_encode)
  show "vj_proposal_id (voting_journal ex_env ex_abi_input) = 0"
    by (simp add: voting_journal_def ex_abi_input_def)
qed

text \<open>
  C36: The plugin rejects every execution journal. The guest commits a journal with a dynamic tally, the
  plugin decodes it as if it had the layout of a voting journal: the words are shifted, and where the
  plugin expects its own address it finds the commitment's configuration id. So \<^verbatim>\<open>execute\<close> reverts on
  the encoding of any execution journal whose configuration id is not the plugin's address.
\<close>

theorem execution_journal_rejected:
  assumes "abi_decode_journal P = abi_decode_VotingJournal"
    and "commitment_configID (ej_commitment e) \<noteq> ucast (this_address P)"
  shows "\<exists>r. execute P b (abi_encode_ExecutionJournal e) seal s = Inl r"
proof (cases "abi_decode_VotingJournal (abi_encode_ExecutionJournal e)")
  case None
  with assms(1) show ?thesis by (simp add: execute_def execute_checks_def)
next
  case (Some v)
  have "vj_config_contract v \<noteq> this_address P"
  proof
    assume "vj_config_contract v = this_address P"
    with abi_decode_execution [OF Some] have addr: "this_address P = ucast (commitment_configID (ej_commitment e))"
        and small: "unat (commitment_configID (ej_commitment e)) < 2 ^ 160" by simp_all
    from small have "unat (ucast (commitment_configID (ej_commitment e)) :: address) = unat (commitment_configID (ej_commitment e))"
      by (simp add: unsigned_ucast_eq take_bit_nat_eq_self)
    with addr have "unat (ucast (this_address P) :: bytes32) = unat (commitment_configID (ej_commitment e))"
      using unat_ucast_widen [where 'a = 160 and 'b = 256, of "this_address P"] by simp
    with assms(2) show False by (simp add: word_unat_eq_iff)
  qed
  with assms(1) Some show ?thesis by (simp add: execute_def execute_checks_def)
qed

theorem execution_journal_rejected_witness:
  "\<exists>r. execute ex_abi_plugin_libs ex_late_block
         (abi_encode_ExecutionJournal (execution_journal ex_env ex_execution_input)) [1] ex_plugin1 = Inl r"
  by (rule execution_journal_rejected)
    (simp_all add: ex_abi_plugin_libs_def ex_plugin_libs_def execution_journal_def ex_env_def)

end
